(* ===== verification/Abi_Prelude.thy ===== *)
theory Abi_Prelude
  imports Main "HOL-Library.Word"
begin

text \<open>
  Shared vocabulary of the development: the machine integers of the i386 kernel, C array
  reads that make an out-of-range index visible, the numbers of the Linux i386 ABI that the
  sources use by name (error codes, signals, socket constants: the kernel headers are not part
  of this repository, \<^verbatim>\<open>Documentation/abi/Error.map\<close> lists the error codes), and user memory as
  the kernel sees it through \<^verbatim>\<open>get_user\<close> and \<^verbatim>\<open>put_user\<close>.
\<close>

unbundle bit_operations_syntax

named_theorems abi_consts \<open>unfoldings of the constant tables\<close>
named_theorems uaccess \<open>facts on user memory accesses\<close>

section \<open>Machine integers and arrays\<close>

type_synonym u8 = "8 word"
type_synonym u16 = "16 word"
type_synonym u32 = "32 word"
type_synonym u64 = "64 word"

text \<open>
  A C array is the list of its elements.  An index outside the array is not a value of the
  program, so a read returns an option.
\<close>

definition arr_get :: "'a list \<Rightarrow> int \<Rightarrow> 'a option" where
  "arr_get xs i = (if 0 \<le> i \<and> i < int (length xs) then Some (xs ! nat i) else None)"

lemma arr_get_in [simp]: "0 \<le> i \<Longrightarrow> i < int (length xs) \<Longrightarrow> arr_get xs i = Some (xs ! nat i)"
  by (simp add: arr_get_def)

lemma arr_get_out [simp]: "i < 0 \<or> int (length xs) \<le> i \<Longrightarrow> arr_get xs i = None"
  by (auto simp: arr_get_def)

lemma arr_get_None_iff: "arr_get xs i = None \<longleftrightarrow> i < 0 \<or> int (length xs) \<le> i"
  by (auto simp: arr_get_def)

lemma arr_get_SomeD: "arr_get xs i = Some x \<Longrightarrow> x \<in> set xs"
  by (auto simp: arr_get_def split: if_splits)

section \<open>Numbers of the Linux i386 ABI\<close>

abbreviation (input) "EPERM \<equiv> (1::int)"
abbreviation (input) "ENOENT \<equiv> (2::int)"
abbreviation (input) "EINTR \<equiv> (4::int)"
abbreviation (input) "EIO \<equiv> (5::int)"
abbreviation (input) "E2BIG \<equiv> (7::int)"
abbreviation (input) "ENOEXEC \<equiv> (8::int)"
abbreviation (input) "EBADF \<equiv> (9::int)"
abbreviation (input) "ENOMEM \<equiv> (12::int)"
abbreviation (input) "EFAULT \<equiv> (14::int)"
abbreviation (input) "EBUSY \<equiv> (16::int)"
abbreviation (input) "EISDIR \<equiv> (21::int)"
abbreviation (input) "EINVAL \<equiv> (22::int)"
abbreviation (input) "ESPIPE \<equiv> (29::int)"
abbreviation (input) "ENOSYS \<equiv> (38::int)"
abbreviation (input) "EOVERFLOW \<equiv> (75::int)"
abbreviation (input) "ENOIOCTLCMD \<equiv> (515::int)"

abbreviation (input) "SIGHUP \<equiv> (1::int)"
abbreviation (input) "SIGINT \<equiv> (2::int)"
abbreviation (input) "SIGQUIT \<equiv> (3::int)"
abbreviation (input) "SIGILL \<equiv> (4::int)"
abbreviation (input) "SIGTRAP \<equiv> (5::int)"
abbreviation (input) "SIGABRT \<equiv> (6::int)"
abbreviation (input) "SIGIOT \<equiv> (6::int)"
abbreviation (input) "SIGBUS \<equiv> (7::int)"
abbreviation (input) "SIGFPE \<equiv> (8::int)"
abbreviation (input) "SIGKILL \<equiv> (9::int)"
abbreviation (input) "SIGUSR1 \<equiv> (10::int)"
abbreviation (input) "SIGSEGV \<equiv> (11::int)"
abbreviation (input) "SIGUSR2 \<equiv> (12::int)"
abbreviation (input) "SIGPIPE \<equiv> (13::int)"
abbreviation (input) "SIGALRM \<equiv> (14::int)"
abbreviation (input) "SIGTERM \<equiv> (15::int)"
abbreviation (input) "SIGSTKFLT \<equiv> (16::int)"
abbreviation (input) "SIGCHLD \<equiv> (17::int)"
abbreviation (input) "SIGCONT \<equiv> (18::int)"
abbreviation (input) "SIGSTOP \<equiv> (19::int)"
abbreviation (input) "SIGTSTP \<equiv> (20::int)"
abbreviation (input) "SIGTTIN \<equiv> (21::int)"
abbreviation (input) "SIGTTOU \<equiv> (22::int)"
abbreviation (input) "SIGURG \<equiv> (23::int)"
abbreviation (input) "SIGXCPU \<equiv> (24::int)"
abbreviation (input) "SIGXFSZ \<equiv> (25::int)"
abbreviation (input) "SIGVTALRM \<equiv> (26::int)"
abbreviation (input) "SIGPROF \<equiv> (27::int)"
abbreviation (input) "SIGWINCH \<equiv> (28::int)"
abbreviation (input) "SIGPOLL \<equiv> (29::int)"
abbreviation (input) "SIGPWR \<equiv> (30::int)"
abbreviation (input) "SIGSYS \<equiv> (31::int)"
abbreviation (input) "SIGUNUSED \<equiv> (31::int)"

abbreviation (input) "SOCK_STREAM \<equiv> (1::u8)"
abbreviation (input) "SOCK_DGRAM \<equiv> (2::u8)"
abbreviation (input) "SOCK_RAW \<equiv> (3::u8)"
abbreviation (input) "SOCK_RDM \<equiv> (4::u8)"
abbreviation (input) "SOCK_SEQPACKET \<equiv> (5::u8)"

abbreviation (input) "SO_DEBUG \<equiv> (1::int)"
abbreviation (input) "SO_REUSEADDR \<equiv> (2::int)"
abbreviation (input) "SO_TYPE \<equiv> (3::int)"
abbreviation (input) "SO_ERROR \<equiv> (4::int)"
abbreviation (input) "SO_DONTROUTE \<equiv> (5::int)"
abbreviation (input) "SO_BROADCAST \<equiv> (6::int)"
abbreviation (input) "SO_SNDBUF \<equiv> (7::int)"
abbreviation (input) "SO_RCVBUF \<equiv> (8::int)"
abbreviation (input) "SO_KEEPALIVE \<equiv> (9::int)"
abbreviation (input) "SO_OOBINLINE \<equiv> (10::int)"
abbreviation (input) "SO_LINGER \<equiv> (13::int)"
abbreviation (input) "SO_RCVLOWAT \<equiv> (18::int)"
abbreviation (input) "SO_SNDLOWAT \<equiv> (19::int)"
abbreviation (input) "SO_RCVTIMEO \<equiv> (20::int)"
abbreviation (input) "SO_SNDTIMEO \<equiv> (21::int)"
abbreviation (input) "SO_ACCEPTCON \<equiv> (0x10000::int)"

section \<open>User memory\<close>

text \<open>
  User space is a partial map from addresses to bytes; an address outside its domain faults.
  Words are little-endian.  \<open>get_user\<close> stores zero in its target when the access faults,
  which is what the callers that ignore its result see.
\<close>

type_synonym umem = "u32 \<rightharpoonup> u8"

definition rd32 :: "umem \<Rightarrow> u32 \<Rightarrow> u32 option" where
  "rd32 m a =
     (case (m a, m (a + 1), m (a + 2), m (a + 3)) of
        (Some b0, Some b1, Some b2, Some b3) \<Rightarrow>
          Some (ucast b0 OR push_bit 8 (ucast b1) OR push_bit 16 (ucast b2) OR push_bit 24 (ucast b3))
      | _ \<Rightarrow> None)"

definition wr32 :: "umem \<Rightarrow> u32 \<Rightarrow> u32 \<Rightarrow> umem option" where
  "wr32 m a v =
     (if {a, a + 1, a + 2, a + 3} \<subseteq> dom m
      then Some (m(a \<mapsto> ucast v, a + 1 \<mapsto> ucast (drop_bit 8 v),
                   a + 2 \<mapsto> ucast (drop_bit 16 v), a + 3 \<mapsto> ucast (drop_bit 24 v)))
      else None)"

definition get_user32 :: "umem \<Rightarrow> u32 \<Rightarrow> u32" where
  "get_user32 m a = (case rd32 m a of None \<Rightarrow> 0 | Some v \<Rightarrow> v)"

lemma word_of_bytes:
  "(ucast (ucast v :: u8) :: u32) OR push_bit 8 (ucast (ucast (drop_bit 8 v) :: u8))
     OR push_bit 16 (ucast (ucast (drop_bit 16 v) :: u8))
     OR push_bit 24 (ucast (ucast (drop_bit 24 v) :: u8)) = v"
proof (rule bit_word_eqI)
  fix n assume "n < LENGTH(32)"
  have "n < 8 \<or> 8 \<le> n \<and> n < 16 \<or> 16 \<le> n \<and> n < 24 \<or> 24 \<le> n"
    by linarith
  with \<open>n < LENGTH(32)\<close> show "bit ((ucast (ucast v :: u8) :: u32)
     OR push_bit 8 (ucast (ucast (drop_bit 8 v) :: u8))
     OR push_bit 16 (ucast (ucast (drop_bit 16 v) :: u8))
     OR push_bit 24 (ucast (ucast (drop_bit 24 v) :: u8))) n = bit v n"
    by (elim disjE) (auto simp: bit_simps)
qed

lemma addr_neq [simp]:
  "(a::u32) + 1 \<noteq> a" "a + 2 \<noteq> a" "a + 3 \<noteq> a"
  "a + 2 \<noteq> a + 1" "a + 3 \<noteq> a + 1" "a + 3 \<noteq> a + 2"
  "a \<noteq> a + 1" "a \<noteq> a + 2" "a \<noteq> a + 3"
  "a + 1 \<noteq> a + 2" "a + 1 \<noteq> a + 3" "a + 2 \<noteq> a + 3"
  by simp_all

lemma rd32_wr32 [uaccess]: "wr32 m a v = Some m' \<Longrightarrow> rd32 m' a = Some v"
  by (auto simp: wr32_def rd32_def word_of_bytes split: if_splits)

lemma wr32_dom [uaccess]: "wr32 m a v = Some m' \<Longrightarrow> dom m' = dom m"
  by (auto simp: wr32_def split: if_splits)

lemma wr32_frame [uaccess]:
  "wr32 m a v = Some m' \<Longrightarrow> b \<notin> {a, a + 1, a + 2, a + 3} \<Longrightarrow> m' b = m b"
  by (auto simp: wr32_def split: if_splits)

lemma wr32_defined_iff: "(\<exists>m'. wr32 m a v = Some m') \<longleftrightarrow> (\<exists>w. rd32 m a = Some w)"
  by (auto simp: wr32_def rd32_def dom_def split: option.splits)

end
