(* ===== verification/Abi_Map.thy ===== *)
theory Abi_Map
  imports Abi_Prelude
begin

text \<open>
  \<^verbatim>\<open>include/abi/util/map.h\<close>: the translation of flag words, signal bit vectors and numbers between
  Linux and a foreign ABI.  Every loop of the header is a recursion on the number of iterations
  that remain; the result \<open>None\<close> is a C undefined behaviour (a read outside the table, a shift
  count outside the word).  The lemmas give each loop its meaning bit by bit and the conditions
  under which no undefined behaviour can occur; the locale \<open>value_map\<close> is the contract of the
  segment tables that \<open>map_value\<close> searches.
\<close>

section \<open>Definitions\<close>

fun map_flags_loop :: "nat \<Rightarrow> int \<Rightarrow> u16 \<Rightarrow> u16 \<Rightarrow> u16 \<Rightarrow> u16 list \<Rightarrow> u16 option" where
  "map_flags_loop 0 i m r f tab = Some r"
| "map_flags_loop (Suc n) i m r f tab =
     (if f AND m \<noteq> 0
      then (case arr_get tab i of
              None \<Rightarrow> None
            | Some v \<Rightarrow> map_flags_loop n (i + 1) (push_bit 1 m) (r OR v) f tab)
      else map_flags_loop n (i + 1) (push_bit 1 m) r f tab)"

definition map_flags :: "u16 \<Rightarrow> u16 list \<Rightarrow> u16 option" where
  "map_flags f tab = map_flags_loop 16 0 1 0 f tab"

text \<open>
  \<open>1 << (v - 1)\<close> on a 32-bit word; a shift count outside the word has no meaning in C.
\<close>

definition shl1 :: "int \<Rightarrow> u32 option" where
  "shl1 v = (if 1 \<le> v \<and> v \<le> 32 then Some (push_bit (nat (v - 1)) 1) else None)"

fun map_bitvec_loop :: "nat \<Rightarrow> int \<Rightarrow> u32 \<Rightarrow> u32 \<Rightarrow> u32 \<Rightarrow> int list \<Rightarrow> u32 option" where
  "map_bitvec_loop 0 i m newvec vec tab = Some newvec"
| "map_bitvec_loop (Suc n) i m newvec vec tab =
     (if vec AND m \<noteq> 0
      then (case arr_get tab i of
              None \<Rightarrow> None
            | Some v \<Rightarrow>
                (if v \<noteq> -1 \<and> v \<noteq> 0
                 then (case shl1 v of
                         None \<Rightarrow> None
                       | Some b \<Rightarrow> map_bitvec_loop n (i + 1) (push_bit 1 m) (newvec OR b) vec tab)
                 else map_bitvec_loop n (i + 1) (push_bit 1 m) newvec vec tab))
      else map_bitvec_loop n (i + 1) (push_bit 1 m) newvec vec tab)"

definition map_bitvec :: "u32 \<Rightarrow> int list \<Rightarrow> u32 option" where
  "map_bitvec vec tab = map_bitvec_loop 32 1 1 0 vec tab"

text \<open>
  A Linux \<open>sigset_t\<close> has 64 bits; signal \<open>n\<close> is bit \<open>n - 1\<close>, as POSIX' \<open>sigaddset\<close> and
  \<open>sigismember\<close> have it.
\<close>

type_synonym sigset = u64

definition sigismember :: "sigset \<Rightarrow> int \<Rightarrow> bool" where
  "sigismember s n \<longleftrightarrow> 1 \<le> n \<and> n \<le> 64 \<and> bit s (nat (n - 1))"

definition sigaddset :: "sigset \<Rightarrow> int \<Rightarrow> sigset option" where
  "sigaddset s n = (if 1 \<le> n \<and> n \<le> 64 then Some (s OR push_bit (nat (n - 1)) 1) else None)"

fun map_sigvec_from_kernel_loop :: "nat \<Rightarrow> int \<Rightarrow> u32 \<Rightarrow> sigset \<Rightarrow> int list \<Rightarrow> u32 option" where
  "map_sigvec_from_kernel_loop 0 i newvec vec tab = Some newvec"
| "map_sigvec_from_kernel_loop (Suc n) i newvec vec tab =
     (if sigismember vec i
      then (case arr_get tab i of
              None \<Rightarrow> None
            | Some v \<Rightarrow>
                (if v \<noteq> -1 \<and> v \<noteq> 0
                 then (case shl1 v of
                         None \<Rightarrow> None
                       | Some b \<Rightarrow> map_sigvec_from_kernel_loop n (i + 1) (newvec OR b) vec tab)
                 else map_sigvec_from_kernel_loop n (i + 1) newvec vec tab))
      else map_sigvec_from_kernel_loop n (i + 1) newvec vec tab)"

definition map_sigvec_from_kernel :: "sigset \<Rightarrow> int list \<Rightarrow> u32 option" where
  "map_sigvec_from_kernel vec tab = map_sigvec_from_kernel_loop 32 1 0 vec tab"

fun map_sigvec_to_kernel_loop :: "nat \<Rightarrow> int \<Rightarrow> u32 \<Rightarrow> sigset \<Rightarrow> u32 \<Rightarrow> int list \<Rightarrow> sigset option" where
  "map_sigvec_to_kernel_loop 0 i m newvec vec tab = Some newvec"
| "map_sigvec_to_kernel_loop (Suc n) i m newvec vec tab =
     (if vec AND m \<noteq> 0
      then (case arr_get tab i of
              None \<Rightarrow> None
            | Some v \<Rightarrow>
                (if v \<noteq> -1
                 then (case sigaddset newvec v of
                         None \<Rightarrow> None
                       | Some s \<Rightarrow> map_sigvec_to_kernel_loop n (i + 1) (push_bit 1 m) s vec tab)
                 else map_sigvec_to_kernel_loop n (i + 1) (push_bit 1 m) newvec vec tab))
      else map_sigvec_to_kernel_loop n (i + 1) (push_bit 1 m) newvec vec tab)"

definition map_sigvec_to_kernel :: "u32 \<Rightarrow> int list \<Rightarrow> sigset option" where
  "map_sigvec_to_kernel vec tab = map_sigvec_to_kernel_loop 32 1 1 0 vec tab"

text \<open>
  The field \<open>map\<close> of a segment is a pointer to a vector of bytes, the null pointer, or a number
  stored in a pointer.
\<close>

datatype seg_val = Vec "u8 list" | Null | Imm int

record map_segment =
  seg_start :: int
  seg_end :: int
  seg_map :: seg_val

abbreviation Seg :: "int \<Rightarrow> int \<Rightarrow> seg_val \<Rightarrow> map_segment" where
  "Seg s e v \<equiv> \<lparr>seg_start = s, seg_end = e, seg_map = v\<rparr>"

abbreviation SegEnd :: map_segment where
  "SegEnd \<equiv> \<lparr>seg_start = -1, seg_end = 0, seg_map = Null\<rparr>"

text \<open>
  The value a segment gives to a number inside it.  The address of a vector is not a number the
  model knows, so a one-entry segment with a vector has no value.
\<close>

definition seg_value :: "map_segment \<Rightarrow> int \<Rightarrow> int option" where
  "seg_value seg val =
     (if seg_start seg = seg_end seg
      then (case seg_map seg of Imm n \<Rightarrow> Some n | Null \<Rightarrow> Some 0 | Vec _ \<Rightarrow> None)
      else (case seg_map seg of
              Null \<Rightarrow> Some val
            | Vec xs \<Rightarrow> map_option uint (arr_get xs (val - seg_start seg))
            | Imm _ \<Rightarrow> None))"

fun map_value_loop :: "map_segment list \<Rightarrow> int \<Rightarrow> int \<Rightarrow> int option" where
  "map_value_loop [] val def = None"
| "map_value_loop (seg # segs) val def =
     (if seg_start seg = -1 then Some def
      else if seg_start seg \<le> val \<and> val \<le> seg_end seg then seg_value seg val
      else map_value_loop segs val def)"

definition map_value :: "map_segment list option \<Rightarrow> int \<Rightarrow> int \<Rightarrow> int option" where
  "map_value m val def =
     (case m of None \<Rightarrow> Some val | Some segs \<Rightarrow> map_value_loop segs val def)"

section \<open>Bit vectors: what the loops compute\<close>

lemma and_bit_iff: "w AND push_bit n 1 \<noteq> 0 \<longleftrightarrow> bit w n" for w :: "'a::len word"
  by (simp add: bit_iff_and_push_bit_not_eq_0)

lemma push_bit_Suc1: "push_bit 1 (push_bit n (1 :: 'a::len word)) = push_bit (Suc n) 1"
  by (simp add: push_bit_push_bit)

lemma bit_push_bit_one: "bit (push_bit k (1 :: 'a::len word)) b \<longleftrightarrow> b = k \<and> k < LENGTH('a)"
  by (auto simp: bit_simps)

lemma ex_range_Suc:
  "(\<exists>i. k \<le> i \<and> i < k + Suc n \<and> P i) \<longleftrightarrow> P k \<or> (\<exists>i. Suc k \<le> i \<and> i < Suc k + n \<and> P i)"
  by (metis Suc_leI add_Suc add_Suc_right le_add1 le_neq_implies_less le_refl lessI
      less_imp_le_nat less_le_trans order_less_imp_le less_Suc_eq_le)

lemma map_flags_loop_bits:
  assumes "k + n \<le> length tab"
  shows "\<exists>r'. map_flags_loop n (int k) (push_bit k 1) r f tab = Some r' \<and>
    (\<forall>b. bit r' b \<longleftrightarrow> bit r b \<or> (\<exists>i. k \<le> i \<and> i < k + n \<and> bit f i \<and> bit (tab ! i) b))"
  using assms
proof (induction n arbitrary: k r)
  case 0
  then show ?case by auto
next
  case (Suc n)
  let ?r = "if bit f k then r OR tab ! k else r"
  have step: "map_flags_loop (Suc n) (int k) (push_bit k 1) r f tab =
      map_flags_loop n (int (Suc k)) (push_bit (Suc k) 1) ?r f tab"
    using Suc.prems by (simp only: map_flags_loop.simps and_bit_iff push_bit_Suc1)
      (simp add: add.commute)
  from Suc.prems have "Suc k + n \<le> length tab" by simp
  from Suc.IH [OF this, of ?r] obtain r' where
    r': "map_flags_loop n (int (Suc k)) (push_bit (Suc k) 1) ?r f tab = Some r'" and
    bits: "\<forall>b. bit r' b \<longleftrightarrow> bit ?r b \<or>
      (\<exists>i. Suc k \<le> i \<and> i < Suc k + n \<and> bit f i \<and> bit (tab ! i) b)"
    by blast
  have "bit r' b \<longleftrightarrow> bit r b \<or> (\<exists>i. k \<le> i \<and> i < k + Suc n \<and> bit f i \<and> bit (tab ! i) b)" for b
    unfolding bits [rule_format] ex_range_Suc by (auto simp: bit_or_iff)
  with r' show ?case by (simp only: step) blast
qed

lemma map_flags_bits:
  assumes "16 \<le> length tab"
  shows "\<exists>r. map_flags f tab = Some r \<and> (\<forall>b. bit r b \<longleftrightarrow> (\<exists>i<16. bit f i \<and> bit (tab ! i) b))"
  using map_flags_loop_bits [of 0 16 tab 0 f] assms by (auto simp: map_flags_def)


lemma shl1_bits: "1 \<le> v \<Longrightarrow> v \<le> 32 \<Longrightarrow> shl1 v = Some s \<Longrightarrow> bit s b \<longleftrightarrow> v = int b + 1"
  by (auto simp: shl1_def bit_push_bit_one simp del: push_bit_of_1)

text \<open>
  A table is usable for signals \<open>lo\<close> to \<open>hi - 1\<close> when it has those entries and each is -1,
  0 or a signal number of the target.
\<close>

definition sigtab_ok :: "int list \<Rightarrow> bool" where
  "sigtab_ok tab \<longleftrightarrow> length tab = 33 \<and> list_all (\<lambda>v. v = -1 \<or> 1 \<le> v \<and> v \<le> 32) (tl tab)"

lemma sigtab_ok_nth: "sigtab_ok tab \<Longrightarrow> 1 \<le> i \<Longrightarrow> i < 33 \<Longrightarrow> tab ! i = -1 \<or> 1 \<le> tab ! i \<and> tab ! i \<le> 32"
  by (cases tab; cases i) (auto simp: sigtab_ok_def list_all_length)

lemma sigtab_ok_length: "sigtab_ok tab \<Longrightarrow> length tab = 33"
  by (simp add: sigtab_ok_def)

lemma map_bitvec_loop_bits:
  assumes "sigtab_ok tab" "1 \<le> k" "k + n \<le> 33"
  shows "\<exists>r'. map_bitvec_loop n (int k) (push_bit (k - 1) 1) r vec tab = Some r' \<and>
    (\<forall>b. bit r' b \<longleftrightarrow> bit r b \<or>
      (\<exists>i. k \<le> i \<and> i < k + n \<and> bit vec (i - 1) \<and> tab ! i = int b + 1))"
  using assms
proof (induction n arbitrary: k r)
  case 0
  then show ?case by auto
next
  case (Suc n)
  note ok = sigtab_ok_nth [OF Suc.prems(1,2)] sigtab_ok_length [OF Suc.prems(1)]
  let ?r = "if bit vec (k - 1) \<and> tab ! k \<noteq> -1 then r OR push_bit (nat (tab ! k - 1)) 1 else r"
  have push: "push_bit 1 (push_bit (k - 1) (1 :: u32)) = push_bit (Suc k - 1) 1"
    using Suc.prems(2) by (cases k) (simp_all only: push_bit_Suc1 diff_Suc_1 not_one_le_zero)
  have step: "map_bitvec_loop (Suc n) (int k) (push_bit (k - 1) 1) r vec tab =
      map_bitvec_loop n (int (Suc k)) (push_bit (Suc k - 1) 1) ?r vec tab"
    using Suc.prems ok
    by (simp only: map_bitvec_loop.simps and_bit_iff push) (auto simp: add.commute shl1_def)
  from Suc.prems have "1 \<le> Suc k" "Suc k + n \<le> 33" by simp_all
  from Suc.IH [OF Suc.prems(1) this, of ?r] obtain r' where
    r': "map_bitvec_loop n (int (Suc k)) (push_bit (Suc k - 1) 1) ?r vec tab = Some r'" and
    bits: "\<forall>b. bit r' b \<longleftrightarrow> bit ?r b \<or>
      (\<exists>i. Suc k \<le> i \<and> i < Suc k + n \<and> bit vec (i - 1) \<and> tab ! i = int b + 1)"
    by blast
  have "bit r' b \<longleftrightarrow> bit r b \<or>
      (\<exists>i. k \<le> i \<and> i < k + Suc n \<and> bit vec (i - 1) \<and> tab ! i = int b + 1)" for b
    unfolding bits [rule_format] ex_range_Suc using ok Suc.prems(3)
    by (auto simp: bit_or_iff bit_push_bit_one simp del: push_bit_of_1)
  with r' show ?case by (simp only: step) blast
qed

lemma map_bitvec_bits:
  assumes "sigtab_ok tab"
  shows "\<exists>r. map_bitvec vec tab = Some r \<and>
    (\<forall>b. bit r b \<longleftrightarrow> (\<exists>i. 1 \<le> i \<and> i \<le> 32 \<and> bit vec (i - 1) \<and> tab ! i = int b + 1))"
proof -
  have lt: "i < 1 + 32 \<longleftrightarrow> i \<le> 32" for i :: nat by linarith
  show ?thesis
    using map_bitvec_loop_bits [OF assms, of 1 32 0 vec] unfolding lt map_bitvec_def by simp
qed


text \<open>
  The two \<open>sigset_t\<close> variants compute the same vector as \<open>map_bitvec\<close>: from the kernel, the
  low 32 signals of the set; to the kernel, the result widened to 64 bits.
\<close>

lemma map_sigvec_from_kernel_loop_eq:
  assumes "1 \<le> k" "k + n \<le> 33"
  shows "map_sigvec_from_kernel_loop n (int k) r vec tab =
    map_bitvec_loop n (int k) (push_bit (k - 1) 1) r (ucast vec) tab"
  using assms
proof (induction n arbitrary: k r)
  case 0
  then show ?case by simp
next
  case (Suc n)
  have mem: "sigismember vec (int k) \<longleftrightarrow> bit (ucast vec :: u32) (k - 1)"
    using Suc.prems by (auto simp: sigismember_def bit_simps nat_diff_distrib)
  have push: "push_bit 1 (push_bit (k - 1) (1 :: u32)) = push_bit (Suc k - 1) 1"
    using Suc.prems(1) by (cases k) (simp_all only: push_bit_Suc1 diff_Suc_1 not_one_le_zero)
  from Suc.prems have "1 \<le> Suc k" "Suc k + n \<le> 33" by simp_all
  note IH = Suc.IH [OF this]
  have idx: "int k + 1 = int (Suc k)" by simp
  show ?case
    unfolding map_sigvec_from_kernel_loop.simps map_bitvec_loop.simps and_bit_iff push mem idx IH
    by simp
qed

lemma map_sigvec_from_kernel_eq: "map_sigvec_from_kernel vec tab = map_bitvec (ucast vec) tab"
  using map_sigvec_from_kernel_loop_eq [of 1 32 0 vec tab]
  by (simp add: map_sigvec_from_kernel_def map_bitvec_def)

lemma ucast_or_push: "(ucast (r :: u32) :: u64) OR push_bit k 1 = ucast (r OR push_bit k 1)" if "k < 32"
  using that by (intro bit_word_eqI) (auto simp: bit_simps)

lemma map_sigvec_to_kernel_loop_eq:
  assumes "sigtab_ok tab" "1 \<le> k" "k + n \<le> 33"
  shows "map_sigvec_to_kernel_loop n (int k) (push_bit (k - 1) 1) (ucast r) vec tab =
    map_option ucast (map_bitvec_loop n (int k) (push_bit (k - 1) 1) r vec tab)"
  using assms
proof (induction n arbitrary: k r)
  case 0
  then show ?case by simp
next
  case (Suc n)
  note ok = sigtab_ok_nth [OF Suc.prems(1,2)] sigtab_ok_length [OF Suc.prems(1)]
  have push: "push_bit 1 (push_bit (k - 1) (1 :: u32)) = push_bit (Suc k - 1) 1"
    using Suc.prems(2) by (cases k) (simp_all only: push_bit_Suc1 diff_Suc_1 not_one_le_zero)
  from Suc.prems have "1 \<le> Suc k" "Suc k + n \<le> 33" by simp_all
  note IH = Suc.IH [OF Suc.prems(1) this]
  have idx: "int k + 1 = int (Suc k)" by simp
  have get: "arr_get tab (int k) = Some (tab ! k)" using ok Suc.prems by simp
  show ?case
  proof (cases "tab ! k = -1")
    case True
    then show ?thesis
      unfolding map_sigvec_to_kernel_loop.simps map_bitvec_loop.simps and_bit_iff push idx IH get
      by simp
  next
    case False
    with ok Suc.prems have v: "1 \<le> tab ! k" "tab ! k \<le> 32" by auto
    then have b: "nat (tab ! k - 1) < 32" by simp
    show ?thesis
      unfolding map_sigvec_to_kernel_loop.simps map_bitvec_loop.simps and_bit_iff push idx get
      using v False IH
      by (simp add: sigaddset_def shl1_def ucast_or_push [OF b] del: push_bit_of_1)
  qed
qed

lemma map_sigvec_to_kernel_eq:
  "sigtab_ok tab \<Longrightarrow> map_sigvec_to_kernel vec tab = map_option ucast (map_bitvec vec tab)"
  using map_sigvec_to_kernel_loop_eq [of tab 1 32 0 vec]
  by (simp add: map_sigvec_to_kernel_def map_bitvec_def)

section \<open>Segment tables\<close>

text \<open>
  A well-formed table ends with its terminator; before it every segment has the entries its
  bounds promise: a number for a one-entry segment, and for a longer one a vector of exactly that
  many bytes or the null pointer.
\<close>

definition seg_ok :: "map_segment \<Rightarrow> bool" where
  "seg_ok seg \<longleftrightarrow> 0 \<le> seg_start seg \<and>
     (if seg_start seg = seg_end seg then (case seg_map seg of Imm _ \<Rightarrow> True | _ \<Rightarrow> False)
      else (case seg_map seg of
              Vec xs \<Rightarrow> seg_end seg - seg_start seg + 1 = int (length xs)
            | Null \<Rightarrow> True
            | Imm _ \<Rightarrow> False))"

fun segs_ok :: "map_segment list \<Rightarrow> bool" where
  "segs_ok [] = False"
| "segs_ok (seg # segs) = (if seg_start seg = -1 then True else seg_ok seg \<and> segs_ok segs)"

lemma seg_ok_value:
  "seg_ok seg \<Longrightarrow> seg_start seg \<le> val \<Longrightarrow> val \<le> seg_end seg \<Longrightarrow> \<exists>v. seg_value seg val = Some v"
  by (auto simp: seg_ok_def seg_value_def split: seg_val.splits if_splits)

lemma map_value_loop_total: "segs_ok segs \<Longrightarrow> \<exists>v. map_value_loop segs val d = Some v"
  by (induction segs rule: segs_ok.induct) (auto dest: seg_ok_value split: if_splits)

lemma map_value_loop_negative:
  "segs_ok segs \<Longrightarrow> val < 0 \<Longrightarrow> map_value_loop segs val d = Some d"
  by (induction segs rule: segs_ok.induct) (auto simp: seg_ok_def split: if_splits)

text \<open>Which numbers a table maps.\<close>

fun seg_dom :: "map_segment list \<Rightarrow> int set" where
  "seg_dom [] = {}"
| "seg_dom (seg # segs) =
     (if seg_start seg = -1 then {} else {seg_start seg .. seg_end seg} \<union> seg_dom segs)"

lemma map_value_loop_default:
  "segs_ok segs \<Longrightarrow> val \<notin> seg_dom segs \<Longrightarrow> map_value_loop segs val d = Some d"
  by (induction segs rule: segs_ok.induct) (auto split: if_splits)

lemma map_value_loop_indep:
  "val \<in> seg_dom segs \<Longrightarrow> map_value_loop segs val d = map_value_loop segs val d'"
  by (induction segs) (auto split: if_splits)

locale value_map =
  fixes tab :: "map_segment list"
  assumes tab_ok: "segs_ok tab"
begin

lemma value_total: "\<exists>v. map_value (Some tab) val d = Some v"
  by (simp add: map_value_def map_value_loop_total tab_ok)

lemma value_default: "val \<notin> seg_dom tab \<Longrightarrow> map_value (Some tab) val d = Some d"
  by (simp add: map_value_def map_value_loop_default tab_ok)

lemma value_negative: "val < 0 \<Longrightarrow> map_value (Some tab) val d = Some d"
  by (simp add: map_value_def map_value_loop_negative tab_ok)

lemma value_indep: "val \<in> seg_dom tab \<Longrightarrow> map_value (Some tab) val d = map_value (Some tab) val d'"
  by (simp add: map_value_def map_value_loop_indep)

end

end
