(* ===== verification/Abi_Personality.thy ===== *)
theory Abi_Personality
  imports Abi_Prelude
begin

text \<open>
  \<^verbatim>\<open>include/linux/personality.h\<close>: personality words.  Byte 0 is the base personality id, bytes 1
  to 3 are behaviour flags; the profiles combine the two.  The macros that query the current
  process take its personality word as an argument.
\<close>

section \<open>Ids, flags and profiles\<close>

abbreviation (input) "PERID_LINUX \<equiv> (0x0 :: u32)"
abbreviation (input) "PERID_SVR4 \<equiv> (0x1 :: u32)"
abbreviation (input) "PERID_SVR3 \<equiv> (0x2 :: u32)"
abbreviation (input) "PERID_SCOSVR3 \<equiv> (0x3 :: u32)"
abbreviation (input) "PERID_WYSEV386 \<equiv> (0x4 :: u32)"
abbreviation (input) "PERID_ISCR4 \<equiv> (0x5 :: u32)"
abbreviation (input) "PERID_BSD \<equiv> (0x6 :: u32)"
abbreviation (input) "PERID_XENIX \<equiv> (0x7 :: u32)"
abbreviation (input) "PERID_LINUX32 \<equiv> (0x8 :: u32)"
abbreviation (input) "PERID_IRIX32 \<equiv> (0x9 :: u32)"
abbreviation (input) "PERID_IRIXN32 \<equiv> (0xa :: u32)"
abbreviation (input) "PERID_IRIX64 \<equiv> (0xb :: u32)"
abbreviation (input) "PERID_RISCOS \<equiv> (0xc :: u32)"
abbreviation (input) "PERID_SOLARIS \<equiv> (0xd :: u32)"
abbreviation (input) "PERID_UW7 \<equiv> (0xe :: u32)"
abbreviation (input) "PERID_OSF4 \<equiv> (0xf :: u32)"
abbreviation (input) "PERID_HPUX \<equiv> (0x10 :: u32)"
abbreviation (input) "PERID_MASK \<equiv> (0xff :: u32)"
abbreviation (input) "ADDR_NO_RANDOMIZE \<equiv> (0x40000 :: u32)"
abbreviation (input) "FDPIC_FUNCPTRS \<equiv> (0x80000 :: u32)"
abbreviation (input) "MMAP_PAGE_ZERO \<equiv> (0x100000 :: u32)"
abbreviation (input) "ADDR_COMPAT_LAYOUT \<equiv> (0x200000 :: u32)"
abbreviation (input) "READ_IMPLIES_EXEC \<equiv> (0x400000 :: u32)"
abbreviation (input) "ADDR_LIMIT_32BIT \<equiv> (0x800000 :: u32)"
abbreviation (input) "SHORT_INODE \<equiv> (0x1000000 :: u32)"
abbreviation (input) "WHOLE_SECONDS \<equiv> (0x2000000 :: u32)"
abbreviation (input) "STICKY_TIMEOUTS \<equiv> (0x4000000 :: u32)"
abbreviation (input) "ADDR_LIMIT_3GB \<equiv> (0x8000000 :: u32)"
abbreviation (input) "PERF_MMAP_PAGE_ZERO \<equiv> (0x100000 :: u32)"
abbreviation (input) "PERF_ADDR_COMPAT_LAYOUT \<equiv> (0x200000 :: u32)"
abbreviation (input) "PERF_READ_IMPLIES_EXEC \<equiv> (0x400000 :: u32)"
abbreviation (input) "PERF_ADDR_LIMIT_32BIT \<equiv> (0x800000 :: u32)"
abbreviation (input) "PERF_SHORT_INODE \<equiv> (0x1000000 :: u32)"
abbreviation (input) "PERF_WHOLE_SECONDS \<equiv> (0x2000000 :: u32)"
abbreviation (input) "PERF_STICKY_TIMEOUTS \<equiv> (0x4000000 :: u32)"
abbreviation (input) "PERF_ADDR_LIMIT_3GB \<equiv> (0x8000000 :: u32)"
abbreviation (input) "PERF_MASK \<equiv> (0xFFFFFF00 :: u32)"
abbreviation (input) "PER_LINUX \<equiv> (PERID_LINUX)"
abbreviation (input) "PER_LINUX_32BIT \<equiv> (PERID_LINUX OR PERF_ADDR_LIMIT_32BIT)"
abbreviation (input) "PER_SVR4 \<equiv> (PERID_SVR4 OR PERF_STICKY_TIMEOUTS OR PERF_MMAP_PAGE_ZERO)"
abbreviation (input) "PER_SVR3 \<equiv> (PERID_SVR3 OR PERF_STICKY_TIMEOUTS OR PERF_SHORT_INODE)"
abbreviation (input) "PER_SCOSVR3 \<equiv> (PERID_SCOSVR3 OR PERF_STICKY_TIMEOUTS OR PERF_WHOLE_SECONDS OR PERF_SHORT_INODE)"
abbreviation (input) "PER_LINUX_FDPIC \<equiv> (0x0 OR FDPIC_FUNCPTRS)"
abbreviation (input) "PER_OSR5 \<equiv> (PERID_SCOSVR3 OR PERF_STICKY_TIMEOUTS OR PERF_WHOLE_SECONDS)"
abbreviation (input) "PER_WYSEV386 \<equiv> (PERID_WYSEV386 OR PERF_STICKY_TIMEOUTS OR PERF_SHORT_INODE)"
abbreviation (input) "PER_ISCR4 \<equiv> (PERID_ISCR4 OR PERF_STICKY_TIMEOUTS)"
abbreviation (input) "PER_BSD \<equiv> (PERID_BSD)"
abbreviation (input) "PER_SUNOS \<equiv> (PERID_BSD OR PERF_STICKY_TIMEOUTS)"
abbreviation (input) "PER_XENIX \<equiv> (PERID_XENIX OR PERF_STICKY_TIMEOUTS OR PERF_SHORT_INODE)"
abbreviation (input) "PER_LINUX32 \<equiv> (PERID_LINUX32)"
abbreviation (input) "PER_LINUX32_3GB \<equiv> (PERID_LINUX32 OR PERF_ADDR_LIMIT_3GB)"
abbreviation (input) "PER_IRIX32 \<equiv> (PERID_IRIX32 OR PERF_STICKY_TIMEOUTS)"
abbreviation (input) "PER_IRIXN32 \<equiv> (PERID_IRIXN32 OR PERF_STICKY_TIMEOUTS)"
abbreviation (input) "PER_IRIX64 \<equiv> (PERID_IRIX64 OR PERF_STICKY_TIMEOUTS)"
abbreviation (input) "PER_RISCOS \<equiv> (PERID_RISCOS)"
abbreviation (input) "PER_SOLARIS \<equiv> (PERID_SOLARIS OR PERF_STICKY_TIMEOUTS)"
abbreviation (input) "PER_UW7 \<equiv> (PERID_UW7 OR PERF_STICKY_TIMEOUTS OR PERF_MMAP_PAGE_ZERO)"
abbreviation (input) "PER_OSF4 \<equiv> (PERID_OSF4)"
abbreviation (input) "PER_HPUX \<equiv> (PERID_HPUX)"
abbreviation (input) "PER_MASK \<equiv> (PERID_MASK OR PERF_MASK)"
abbreviation (input) "PER_QUERY \<equiv> (0xffffffff :: u32)"

abbreviation (input) "PER_CLEAR_ON_SETID \<equiv> (READ_IMPLIES_EXEC OR ADDR_NO_RANDOMIZE)"

section \<open>Macros\<close>

definition get_personality_id :: "u32 \<Rightarrow> u32" where
  "get_personality_id p = p AND PERID_MASK"

definition get_personality_flags :: "u32 \<Rightarrow> u32" where
  "get_personality_flags p = p AND PERF_MASK"

text \<open>
  The next four macros read \<^verbatim>\<open>current->personality\<close>, here the argument \<open>cur\<close>; C's truth value of a
  comparison is 1 or 0.
\<close>

definition c_bool :: "bool \<Rightarrow> u32" where
  "c_bool b = (if b then 1 else 0)"

definition is_cur_personality :: "u32 \<Rightarrow> u32 \<Rightarrow> u32" where
  "is_cur_personality cur p = c_bool (cur = p)"

definition is_cur_personality_id :: "u32 \<Rightarrow> u32 \<Rightarrow> u32" where
  "is_cur_personality_id cur per_id = c_bool (get_personality_id cur = per_id)"

definition is_cur_same_personality_id_as :: "u32 \<Rightarrow> u32 \<Rightarrow> u32" where
  "is_cur_same_personality_id_as cur p = c_bool (get_personality_id cur = get_personality_id p)"

definition is_cur_personality_flag :: "u32 \<Rightarrow> u32 \<Rightarrow> u32" where
  "is_cur_personality_flag cur per_flag = get_personality_flags cur AND per_flag"

text \<open>
  In C \<open>==\<close> binds tighter than \<open>&\<close>, so the comparison is the right operand of the conjunction.
\<close>

definition is_cur_personality_all_flags :: "u32 \<Rightarrow> u32 \<Rightarrow> u32" where
  "is_cur_personality_all_flags cur per_flags =
     get_personality_flags cur AND c_bool (per_flags = per_flags)"

section \<open>Facts\<close>

lemma personality_split: "get_personality_id p OR get_personality_flags p = p"
proof -
  have "PERID_MASK OR PERF_MASK = (- 1 :: u32)" by simp
  then show ?thesis
    unfolding get_personality_id_def get_personality_flags_def bit.conj_disj_distrib [symmetric] by (simp only: and.right_neutral)
qed

lemma personality_disjoint: "get_personality_id p AND get_personality_flags q = 0"
proof -
  have "PERID_MASK AND PERF_MASK = (0 :: u32)" by simp
  moreover have "(p AND PERID_MASK) AND (q AND PERF_MASK) = (p AND q) AND (PERID_MASK AND PERF_MASK)"
    by (simp only: and.assoc and.left_commute)
  ultimately show ?thesis
    by (simp add: get_personality_id_def get_personality_flags_def)
qed

lemma get_personality_id_less: "get_personality_id p < 256"
proof -
  have "p AND PERID_MASK \<le> PERID_MASK" by (rule word_and_le1)
  then show ?thesis by (simp add: get_personality_id_def word_le_nat_alt word_less_nat_alt)
qed

end
