(* ===== verification/Abi_Machine.thy ===== *)
theory Abi_Machine
  imports Abi_Map Abi_Personality
begin

text \<open>
  The machine a system call runs on: the saved user registers, user memory, the execution domain
  of the running process, the trace log and the rest of the kernel (\<open>'k\<close>), with the register
  conventions of \<^verbatim>\<open>include/asm-i386/abi_machdep.h\<close>, the descriptors of
  \<^verbatim>\<open>include/linux/personality.h\<close> and \<^verbatim>\<open>include/abi/util/sysent.h\<close>, and the error translation of
  \<^verbatim>\<open>include/abi/util/errno.h\<close>.
\<close>

section \<open>Data\<close>

text \<open>
  \<^verbatim>\<open>struct exec_domain\<close>.  A function pointer is the name of the function, a pointer to another
  domain or to a module is a number, 0 the null pointer.
\<close>

record exec_domain =
  ed_name :: string
  ed_handler :: string
  pers_low :: u8
  pers_high :: u8
  signal_map :: "int list"
  signal_invmap :: "int list"
  err_map :: "map_segment list option"
  socktype_map :: "map_segment list option"
  sockopt_map :: "map_segment list option"
  af_map :: "map_segment list option"
  ed_module :: nat
  ed_next :: nat

record pt_regs =
  eax :: u32
  edx :: u32
  esp :: u32
  eflags :: u32

text \<open>\<^verbatim>\<open>struct sysent\<close>: one entry of a system call table.\<close>

record sysent =
  se_syscall :: "string option"
  se_nargs :: int
  se_name :: string
  se_args :: string

abbreviation Sysent :: "string option \<Rightarrow> int \<Rightarrow> string \<Rightarrow> string \<Rightarrow> sysent" where
  "Sysent f n name args \<equiv> \<lparr>se_syscall = f, se_nargs = n, se_name = name, se_args = args\<rparr>"

definition Spl :: int where [abi_consts]: "Spl = 0x65"
definition Fast :: int where [abi_consts]: "Fast = 0x66"
definition Unimpl :: int where [abi_consts]: "Unimpl = 0x67"
definition Ukn :: int where [abi_consts]: "Ukn = Unimpl"

abbreviation (input) ABI_TRACE_API :: u32 where "ABI_TRACE_API \<equiv> 0x1"
abbreviation (input) ABI_TRACE_IOCTL :: u32 where "ABI_TRACE_IOCTL \<equiv> 0x2"
abbreviation (input) ABI_TRACE_IOCTL_F :: u32 where "ABI_TRACE_IOCTL_F \<equiv> 0x4"
abbreviation (input) ABI_TRACE_SIGNAL :: u32 where "ABI_TRACE_SIGNAL \<equiv> 0x8"
abbreviation (input) ABI_TRACE_SIGNAL_F :: u32 where "ABI_TRACE_SIGNAL_F \<equiv> 0x10"
abbreviation (input) ABI_TRACE_SOCKSYS :: u32 where "ABI_TRACE_SOCKSYS \<equiv> 0x20"
abbreviation (input) ABI_TRACE_STREAMS :: u32 where "ABI_TRACE_STREAMS \<equiv> 0x40"
abbreviation (input) ABI_TRACE_UNIMPL :: u32 where "ABI_TRACE_UNIMPL \<equiv> 0x100"

text \<open>
  What the trace macros print, one constructor per message of the dispatcher; the numbers are the
  values of the conversions.
\<close>

datatype trace_event =
    TrPlist string
  | TrUnsupported u32 string
  | TrError string int u32
  | TrReturns string u32 u32
  | TrSignal "u32 option" u32

record 'k mach =
  regs :: pt_regs
  mem :: umem
  cur_ed :: exec_domain
  cur_pers :: u32
  abi_traceflg :: u32
  klog :: "trace_event list"
  kern :: 'k

section \<open>Register conventions\<close>

definition get_syscall_parameter :: "umem \<Rightarrow> pt_regs \<Rightarrow> int \<Rightarrow> u32" where
  "get_syscall_parameter m r n = get_user32 m (esp r + 4 * word_of_int (n + 1))"

definition set_error :: "pt_regs \<Rightarrow> int \<Rightarrow> pt_regs" where
  "set_error r errno = r\<lparr>eax := word_of_int errno, eflags := eflags r OR 1\<rparr>"

definition clear_error :: "pt_regs \<Rightarrow> pt_regs" where
  "clear_error r = r\<lparr>eflags := eflags r AND NOT 1\<rparr>"

definition set_result :: "pt_regs \<Rightarrow> int \<Rightarrow> pt_regs" where
  "set_result r v = r\<lparr>eax := word_of_int v\<rparr>"

definition get_result :: "pt_regs \<Rightarrow> int" where
  "get_result r = sint (eax r)"

text \<open>\<^verbatim>\<open>iABI_errors\<close>: a Linux error number in the numbering of the current domain.\<close>

definition iABI_errors :: "'k mach \<Rightarrow> int \<Rightarrow> int option" where
  "iABI_errors m errno = map_value (err_map (cur_ed m)) errno 1"

definition abi_traced :: "'k mach \<Rightarrow> u32 \<Rightarrow> bool" where
  "abi_traced m res \<longleftrightarrow> abi_traceflg m AND res \<noteq> 0"

definition abi_trace :: "u32 \<Rightarrow> trace_event \<Rightarrow> 'k mach \<Rightarrow> 'k mach" where
  "abi_trace res ev m = (if abi_traced m res then m\<lparr>klog := klog m @ [ev]\<rparr> else m)"

text \<open>A process reports an error when the carry flag is set.\<close>

definition carry :: "pt_regs \<Rightarrow> bool" where
  "carry r \<longleftrightarrow> bit (eflags r) 0"

section \<open>Facts\<close>

named_theorems regs_simps \<open>effects of the register helpers\<close>

lemma set_error_regs [regs_simps]:
  "eax (set_error r e) = word_of_int e" "carry (set_error r e)"
  "edx (set_error r e) = edx r" "esp (set_error r e) = esp r"
  by (simp_all add: set_error_def carry_def bit_or_iff)

lemma clear_error_regs [regs_simps]:
  "eax (clear_error r) = eax r" "\<not> carry (clear_error r)"
  "edx (clear_error r) = edx r" "esp (clear_error r) = esp r"
  by (simp_all add: clear_error_def carry_def bit_and_iff bit_not_iff)

lemma set_result_regs [regs_simps]:
  "eax (set_result r v) = word_of_int v" "carry (set_result r v) = carry r"
  "edx (set_result r v) = edx r" "esp (set_result r v) = esp r" "eflags (set_result r v) = eflags r"
  by (simp_all add: set_result_def carry_def)

lemma get_set_result [regs_simps]: "- (2 ^ 31) \<le> v \<Longrightarrow> v < 2 ^ 31 \<Longrightarrow> get_result (set_result r v) = v"
  by (simp add: get_result_def set_result_def sint_sbintrunc' signed_take_bit_int_eq_self)

lemma flags_other_bits [regs_simps]:
  "0 < n \<Longrightarrow> bit (eflags (set_error r e)) n = bit (eflags r) n"
  "0 < n \<Longrightarrow> bit (eflags (clear_error r)) n = bit (eflags r) n"
proof -
  assume n: "0 < n"
  show "bit (eflags (set_error r e)) n = bit (eflags r) n"
    using n by (simp add: set_error_def bit_or_iff bit_1_iff)
  show "bit (eflags (clear_error r)) n = bit (eflags r) n"
  proof (cases "n < 32")
    case True
    then show ?thesis
      using n by (simp add: clear_error_def bit_and_iff bit_not_iff bit_1_iff)
  next
    case False
    then show ?thesis by (auto dest: bit_imp_le_length)
  qed
qed

lemma abi_trace_frame [regs_simps]:
  "regs (abi_trace res ev m) = regs m" "mem (abi_trace res ev m) = mem m"
  "cur_ed (abi_trace res ev m) = cur_ed m" "kern (abi_trace res ev m) = kern m"
  "cur_pers (abi_trace res ev m) = cur_pers m" "abi_traceflg (abi_trace res ev m) = abi_traceflg m"
  by (simp_all add: abi_trace_def)

end
