(* ===== verification/Abi_Lcall7.thy ===== *)
theory Abi_Lcall7
  imports Abi_Machine
begin

text \<open>
  \<^verbatim>\<open>arch/i386/kernel/lcall7.c\<close> and \<^verbatim>\<open>abi/util/plist.c\<close>: how a trapped foreign system call is decoded,
  called and answered.  The functions a table names and the parts of the Linux kernel that the
  dispatcher calls are the fields of \<open>sysenv\<close>.  \<open>None\<close> is undefined behaviour (a write past the
  argument array, a trace line that overruns its buffer, a malformed error table).  The local array
  \<^verbatim>\<open>args[8]\<close> is not initialised by the source, so its previous contents \<open>stk\<close> are an argument.
\<close>

section \<open>Definitions\<close>

record 'k sysenv =
  cfg_trace :: bool \<comment> \<open>\<^verbatim>\<open>CONFIG_ABI_TRACE\<close>\<close>
  sys_regs :: "string \<Rightarrow> 'k mach \<Rightarrow> (int \<times> 'k mach) option"
  sys_args :: "string \<Rightarrow> u32 list \<Rightarrow> 'k mach \<Rightarrow> (int \<times> 'k mach) option"
  getname :: "umem \<Rightarrow> u32 \<Rightarrow> string option"
  fmt_p :: "u32 \<Rightarrow> string"
  sig_pending :: "'k \<Rightarrow> bool"
  pending_word :: "'k \<Rightarrow> u32"
  blocked_word :: "'k \<Rightarrow> u32"

subsection \<open>Tracing\<close>

definition digit_char :: "nat \<Rightarrow> char" where
  "digit_char d = (if d < 10 then char_of (48 + d) else char_of (87 + d))"

fun show_base :: "nat \<Rightarrow> nat \<Rightarrow> string" where
  "show_base b n =
     (if b < 2 \<or> n < b then [digit_char n] else show_base b (n div b) @ [digit_char (n mod b)])"

definition fmt_d :: "int \<Rightarrow> string" where
  "fmt_d v = (if v < 0 then CHR ''-'' # show_base 10 (nat (- v)) else show_base 10 (nat v))"

definition print_string :: "'k sysenv \<Rightarrow> umem \<Rightarrow> u32 \<Rightarrow> string" where
  "print_string env m str =
     (case getname env m str of
        None \<Rightarrow> ''''
      | Some tmp \<Rightarrow> CHR 0x22 # take 80 tmp @ [CHR 0x22])"

definition plist_conv :: "'k sysenv \<Rightarrow> umem \<Rightarrow> char \<Rightarrow> u32 \<Rightarrow> string option" where
  "plist_conv env m c v =
     (if c = CHR ''d'' then Some (fmt_d (sint v))
      else if c = CHR ''o'' then Some (CHR ''0'' # show_base 8 (unat v))
      else if c = CHR ''p'' then Some (fmt_p env v)
      else if c = CHR ''?'' \<or> c = CHR ''x'' then Some (''0x'' @ show_base 16 (unat v))
      else if c = CHR ''s'' then Some (print_string env m v)
      else None)"

fun plist_buf :: "'k sysenv \<Rightarrow> umem \<Rightarrow> string \<Rightarrow> u32 list \<Rightarrow> string option" where
  "plist_buf env m [] list = Some ''''"
| "plist_buf env m (c # args) list =
     (let sep = (if args = [] then '''' else '', '') in
      if plist_conv env m c 0 = None
      then map_option (\<lambda>t. ''?%'' @ [c] @ ''?'' @ sep @ t) (plist_buf env m args list)
      else (case list of
              [] \<Rightarrow> None
            | v # vs \<Rightarrow>
                (case plist_conv env m c v of
                   None \<Rightarrow> None
                 | Some s \<Rightarrow> map_option (\<lambda>t. s @ sep @ t) (plist_buf env m args vs))))"

definition plist :: "'k sysenv \<Rightarrow> umem \<Rightarrow> string \<Rightarrow> string \<Rightarrow> u32 list \<Rightarrow> trace_event option" where
  "plist env m name args list =
     (case plist_buf env m args list of
        None \<Rightarrow> None
      | Some buf \<Rightarrow>
          (if length buf < 512 then Some (TrPlist (name @ ''('' @ buf @ '')'')) else None))"

text \<open>\<open>bsf\<close>: the index of the lowest set bit; the instruction leaves its result undefined on 0.\<close>

definition bsf :: "u32 \<Rightarrow> u32 option" where
  "bsf w = (case filter (bit w) [0..<32] of [] \<Rightarrow> None | i # _ \<Rightarrow> Some (of_nat i))"

definition show_signals :: "'k sysenv \<Rightarrow> 'k mach \<Rightarrow> 'k mach" where
  "show_signals env m =
     (if cfg_trace env \<and> sig_pending env (kern m) \<and> abi_traced m ABI_TRACE_SIGNAL
      then (let signr = pending_word env (kern m) AND NOT (blocked_word env (kern m))
            in m\<lparr>klog := klog m @ [TrSignal (map_option (\<lambda>i. i + 1) (bsf signr))
                                       (pending_word env (kern m))]\<rparr>)
      else m)"

subsection \<open>Arguments\<close>

text \<open>
  \<open>get_args_loop n i\<close> fetches the \<open>n\<close> words that remain, the next one into slot \<open>i\<close>.  A slot
  outside the array would be a write past it.
\<close>

fun get_args_loop :: "nat \<Rightarrow> nat \<Rightarrow> u32 list \<Rightarrow> umem \<Rightarrow> u32 \<Rightarrow> int \<Rightarrow> u32 list option" where
  "get_args_loop 0 i args m sp off = Some args"
| "get_args_loop (Suc n) i args m sp off =
     (if i < length args
      then get_args_loop n (Suc i)
             (args[i := get_user32 m (sp + 4 * word_of_int (int i + off))]) m sp off
      else None)"

definition get_args :: "u32 list \<Rightarrow> umem \<Rightarrow> u32 \<Rightarrow> int \<Rightarrow> int \<Rightarrow> u32 list option" where
  "get_args args m sp off n = get_args_loop (nat n) 0 args m sp off"

subsection \<open>The dispatcher\<close>

definition dispatch_nargs :: "sysent \<Rightarrow> int" where
  "dispatch_nargs ap = (if se_syscall ap = None then Unimpl else se_nargs ap)"

text \<open>
  \<^verbatim>\<open>nargs <= ARRAY_SIZE(args)\<close> compares a \<open>short\<close> with an unsigned size: a negative count is
  a huge one.
\<close>

definition nargs_fits :: "int \<Rightarrow> bool" where
  "nargs_fits nargs \<longleftrightarrow> (word_of_int nargs :: u32) \<le> 8"

definition trace_call ::
  "'k sysenv \<Rightarrow> sysent \<Rightarrow> int \<Rightarrow> int \<Rightarrow> u32 list \<Rightarrow> 'k mach \<Rightarrow> (u32 list \<times> 'k mach) option" where
  "trace_call env ap off nargs args m =
     (if cfg_trace env \<and> abi_traced m ABI_TRACE_API
      then Option.bind
             (if nargs = Spl
              then get_args args (mem m) (esp (regs m)) off (int (length (se_args ap)))
              else Some args)
             (\<lambda>args'. map_option (\<lambda>ev. (args', m\<lparr>klog := klog m @ [ev]\<rparr>))
                        (plist env (mem m) (se_name ap) (se_args ap) args'))
      else Some (args, m))"

datatype 'k called = Done "'k mach" | Returned int "'k mach"

definition call_syscall ::
  "'k sysenv \<Rightarrow> sysent \<Rightarrow> int \<Rightarrow> u32 list \<Rightarrow> 'k mach \<Rightarrow> 'k called option" where
  "call_syscall env ap nargs args m =
     (case se_syscall ap of
        Some f \<Rightarrow>
          (if nargs = Fast then map_option (\<lambda>(_, m'). Done m') (sys_regs env f m)
           else if nargs = Spl then map_option (\<lambda>(e, m'). Returned e m') (sys_regs env f m)
           else if 0 \<le> nargs \<and> nargs \<le> 7
           then map_option (\<lambda>(e, m'). Returned e m') (sys_args env f (take (nat nargs) args) m)
           else Some (Returned (- ENOSYS)
                  (if cfg_trace env
                   then abi_trace ABI_TRACE_UNIMPL (TrUnsupported (eax (regs m)) (se_name ap)) m
                   else m)))
      | None \<Rightarrow>
          Some (Returned (- ENOSYS)
            (if cfg_trace env
             then abi_trace ABI_TRACE_UNIMPL (TrUnsupported (eax (regs m)) (se_name ap)) m
             else m)))"

definition set_return :: "'k sysenv \<Rightarrow> sysent \<Rightarrow> int \<Rightarrow> 'k mach \<Rightarrow> 'k mach option" where
  "set_return env ap error m =
     (if - ENOIOCTLCMD < error \<and> error < 0
      then map_option
             (\<lambda>e. let m' = m\<lparr>regs := set_error (regs m) e\<rparr>
                  in (if cfg_trace env
                      then abi_trace ABI_TRACE_API (TrError (se_name ap) error (eax (regs m'))) m'
                      else m'))
             (iABI_errors m (- error))
      else (let m' = m\<lparr>regs := set_result (clear_error (regs m)) error\<rparr>
            in Some (if cfg_trace env
                     then abi_trace ABI_TRACE_API
                            (TrReturns (se_name ap) (eax (regs m')) (edx (regs m'))) m'
                     else m')))"

definition lcall7_dispatch ::
  "'k sysenv \<Rightarrow> u32 list \<Rightarrow> sysent \<Rightarrow> int \<Rightarrow> 'k mach \<Rightarrow> 'k mach option" where
  "lcall7_dispatch env stk ap off m =
     (let nargs = dispatch_nargs ap in
      Option.bind
        (if nargs_fits nargs then get_args stk (mem m) (esp (regs m)) off nargs else Some stk)
        (\<lambda>args. Option.bind (trace_call env ap off nargs args m)
        (\<lambda>(args, m). Option.bind (call_syscall env ap nargs args m)
        (\<lambda>c. case c of
               Done m' \<Rightarrow> Some (show_signals env m')
             | Returned error m' \<Rightarrow> map_option (show_signals env) (set_return env ap error m')))))"

text \<open>
  \<^verbatim>\<open>lcall7_syscall\<close>, the indirect system call.  \<open>handler\<close> is the function that the domain's
  handler name stands for.  \<^verbatim>\<open>regs->esp\<close> is an integer, so \<open>++\<close> moves it by one byte.
\<close>

definition lcall7_syscall ::
  "(string \<Rightarrow> int \<Rightarrow> 'k mach \<Rightarrow> 'k mach option) \<Rightarrow> 'k mach \<Rightarrow> (int \<times> 'k mach) option" where
  "lcall7_syscall handler m =
     (let r = (regs m)\<lparr>eax := get_user32 (mem m) (esp (regs m) + 4)\<rparr>;
          m1 = m\<lparr>regs := r\<lparr>esp := esp r + 1\<rparr>\<rparr>
      in map_option (\<lambda>m2. (0, m2\<lparr>regs := (regs m2)\<lparr>esp := esp (regs m2) - 1\<rparr>\<rparr>))
           (handler (ed_handler (cur_ed m)) (- 1) m1))"

text \<open>
  The common body of the personality handlers: look the number up in a table, answer
  \<^verbatim>\<open>iABI_errors(-EINVAL)\<close> when it is outside, dispatch the entry otherwise.  The comparison
  \<^verbatim>\<open>sysno >= ARRAY_SIZE(table)\<close> is unsigned.
\<close>

definition table_lcall7 ::
  "'k sysenv \<Rightarrow> u32 list \<Rightarrow> sysent list \<Rightarrow> u32 \<Rightarrow> int \<Rightarrow> 'k mach \<Rightarrow> 'k mach option" where
  "table_lcall7 env stk table sysno off m =
     (if length table \<le> unat sysno
      then map_option (\<lambda>e. m\<lparr>regs := set_error (regs m) e\<rparr>) (iABI_errors m (- EINVAL))
      else lcall7_dispatch env stk (table ! unat sysno) off m)"

section \<open>Argument fetch\<close>

definition stack_word :: "'k mach \<Rightarrow> int \<Rightarrow> u32" where
  "stack_word m i = get_user32 (mem m) (esp (regs m) + 4 * word_of_int i)"

definition stack_args :: "'k mach \<Rightarrow> int \<Rightarrow> nat \<Rightarrow> u32 list" where
  "stack_args m off n = map (\<lambda>i. stack_word m (int i + off)) [0..<n]"

lemma get_args_loop_spec:
  "i + n \<le> length args \<Longrightarrow> \<exists>args'. get_args_loop n i args m sp off = Some args' \<and>
     length args' = length args \<and>
     (\<forall>j < length args. args' ! j =
        (if i \<le> j \<and> j < i + n then get_user32 m (sp + 4 * word_of_int (int j + off)) else args ! j))"
proof (induction n arbitrary: i args)
  case 0
  then show ?case by auto
next
  case (Suc n)
  let ?args = "args[i := get_user32 m (sp + 4 * word_of_int (int i + off))]"
  from Suc.prems have i: "i < length args" and "Suc i + n \<le> length ?args" by auto
  from Suc.IH [OF this(2)] obtain args' where
    eq: "get_args_loop n (Suc i) ?args m sp off = Some args'" and len: "length args' = length args"
    and nth: "\<forall>j < length args. args' ! j =
      (if Suc i \<le> j \<and> j < Suc i + n then get_user32 m (sp + 4 * word_of_int (int j + off))
       else ?args ! j)"
    by auto
  have "args' ! j = (if i \<le> j \<and> j < i + Suc n then get_user32 m (sp + 4 * word_of_int (int j + off))
      else args ! j)" if "j < length args" for j
    using nth [rule_format, OF that] that by (cases "j = i") auto
  with eq len i show ?case by auto
qed

lemma get_args_total:
  "n \<le> int (length args) \<Longrightarrow> \<exists>args'. get_args args m sp off n = Some args' \<and> length args' = length args"
  using get_args_loop_spec [of 0 "nat n" args m sp off] by (auto simp: get_args_def nat_le_iff)

lemma get_args_take:
  assumes "0 \<le> n" "n \<le> int (length stk)" "get_args stk (mem m) (esp (regs m)) off n = Some args"
  shows "take (nat n) args = stack_args m off (nat n)"
proof -
  from get_args_loop_spec [of 0 "nat n" stk "mem m" "esp (regs m)" off] assms
  have len: "length args = length stk" and
    nth: "\<forall>j < length stk. args ! j = (if j < nat n
      then get_user32 (mem m) (esp (regs m) + 4 * word_of_int (int j + off)) else stk ! j)"
    by (auto simp: get_args_def)
  show ?thesis
    using len nth assms(1,2) by (intro nth_equalityI) (auto simp: stack_args_def stack_word_def)
qed

section \<open>Trace lines fit their buffer\<close>

declare show_base.simps [simp del]

lemma show_base_length: "2 \<le> b \<Longrightarrow> 0 < k \<Longrightarrow> n < b ^ k \<Longrightarrow> length (show_base b n) \<le> k"
proof (induction k arbitrary: n)
  case 0
  then show ?case by simp
next
  case (Suc k)
  show ?case
  proof (cases "n < b")
    case True
    then show ?thesis by (subst show_base.simps) simp
  next
    case False
    with Suc.prems have "0 < k" by (cases k) auto
    have "n div b < b ^ k"
      using Suc.prems by (simp add: div_less_iff_less_mult mult.commute)
    from Suc.IH [OF Suc.prems(1) \<open>0 < k\<close> this] show ?thesis
      by (subst show_base.simps) simp
  qed
qed

lemma fmt_d_length: "length (fmt_d (sint (v :: u32))) \<le> 12"
proof -
  have r: "- (2 ^ 31) \<le> sint v" "sint v < 2 ^ 31"
    using sint_ge [of v] sint_lt [of v] by simp_all
  then have "nat (- sint v) < 10 ^ 10" "nat (sint v) < 10 ^ 10" by simp_all
  with show_base_length [of 10 10] show ?thesis
    by (fastforce simp: fmt_d_def)
qed

definition conv_len :: "char \<Rightarrow> nat" where
  "conv_len c = (if c = CHR ''s'' then 82 else 12)"

lemma plist_conv_length:
  assumes p: "\<And>v. length (fmt_p env v) \<le> 12" and c: "plist_conv env m c v = Some s"
  shows "length s \<le> conv_len c"
proof -
  have "unat v < 2 ^ 32" using unsigned_less [of v] by simp
  then have "unat v < 8 ^ 11" "unat v < 16 ^ 8" by simp_all
  with show_base_length [of 8 11 "unat v"] show_base_length [of 16 8 "unat v"] c p [of v]
    fmt_d_length [of v]
  show ?thesis
    by (auto simp: plist_conv_def conv_len_def print_string_def split: if_splits option.splits)
qed

definition trace_chars :: string where
  "trace_chars = ''dop?xs''"

lemma plist_conv_known: "c \<in> set trace_chars \<Longrightarrow> \<exists>s. plist_conv env m c v = Some s"
  by (auto simp: trace_chars_def plist_conv_def)

lemma plist_buf_bound:
  assumes p: "\<And>v. length (fmt_p env v) \<le> 12"
    and "set args \<subseteq> set trace_chars" "length args \<le> length list"
  shows "\<exists>buf. plist_buf env m args list = Some buf \<and>
    length buf \<le> sum_list (map conv_len args) + 2 * length args"
  using assms(2,3)
proof (induction args arbitrary: list)
  case Nil
  then show ?case by simp
next
  case (Cons c args)
  from Cons.prems obtain v vs where list: "list = v # vs" by (cases list) auto
  from Cons.prems obtain s s0 where
    s: "plist_conv env m c v = Some s" "plist_conv env m c 0 = Some s0"
    using plist_conv_known [of c env m v] plist_conv_known [of c env m 0] by auto
  from Cons.IH [of vs] Cons.prems list obtain t where
    "plist_buf env m args vs = Some t" "length t \<le> sum_list (map conv_len args) + 2 * length args"
    by auto
  with s list plist_conv_length [OF p s(1)] show ?case by (auto simp: Let_def)
qed

text \<open>
  What an entry of a table must satisfy for its trace line: known conversion letters, no more of
  them than the argument array has slots, at most two strings.
\<close>

definition trace_ok :: "sysent \<Rightarrow> bool" where
  "trace_ok e \<longleftrightarrow> length (se_args e) \<le> 8 \<and> list_all (\<lambda>c. c \<in> set trace_chars) (se_args e) \<and>
     length (filter (\<lambda>c. c = CHR ''s'') (se_args e)) \<le> 2"

lemma conv_len_sum: "sum_list (map conv_len xs) = 12 * length xs + 70 * length (filter (\<lambda>c. c = CHR ''s'') xs)"
  by (induction xs) (auto simp: conv_len_def)

lemma plist_total:
  assumes "trace_ok e" "\<And>v. length (fmt_p env v) \<le> 12" "length args = 8"
  shows "\<exists>ev. plist env m (se_name e) (se_args e) args = Some ev"
proof -
  from assms plist_buf_bound [of env "se_args e" args m] obtain buf where
    "plist_buf env m (se_args e) args = Some buf"
    "length buf \<le> sum_list (map conv_len (se_args e)) + 2 * length (se_args e)"
    by (auto simp: trace_ok_def list_all_iff)
  with assms(1) show ?thesis by (auto simp: plist_def trace_ok_def conv_len_sum)
qed

section \<open>What the dispatcher does\<close>

lemma trace_call_total:
  assumes "trace_ok e" "\<And>v. length (fmt_p env v) \<le> 12" "length args = 8"
  shows "\<exists>args' m'. trace_call env e off nargs args m = Some (args', m') \<and> length args' = 8"
proof -
  have "\<exists>args'. get_args args (mem m) (esp (regs m)) off (int (length (se_args e))) = Some args' \<and>
      length args' = 8"
    using assms get_args_total [of "int (length (se_args e))" args] by (auto simp: trace_ok_def)
  with assms show ?thesis
    using plist_total [OF assms(1,2)] by (auto simp: trace_call_def Option.bind_eq_Some_conv)
qed

lemma trace_call_frame:
  assumes "trace_call env e off nargs args m = Some (args', m')"
  shows "m' = m\<lparr>klog := klog m'\<rparr>" "nargs \<noteq> Spl \<Longrightarrow> args' = args"
  using assms by (auto simp: trace_call_def Option.bind_eq_Some_conv split: if_splits)

text \<open>The state a process sees, without the kernel's trace log.\<close>

definition untraced :: "'k mach \<Rightarrow> 'k mach" where
  "untraced m = m\<lparr>klog := []\<rparr>"

lemma untraced_simps [simp]:
  "regs (untraced m) = regs m" "mem (untraced m) = mem m" "cur_ed (untraced m) = cur_ed m"
  "kern (untraced m) = kern m" "cur_pers (untraced m) = cur_pers m"
  "untraced (m\<lparr>klog := l\<rparr>) = untraced m"
  "untraced (abi_trace res ev m) = untraced m"
  "untraced (show_signals env m) = untraced m"
  by (simp_all add: untraced_def abi_trace_def show_signals_def Let_def)

text \<open>The answer a system call result becomes in the caller's registers.\<close>

definition answer :: "'k mach \<Rightarrow> int \<Rightarrow> pt_regs option" where
  "answer m error =
     (if - ENOIOCTLCMD < error \<and> error < 0
      then map_option (set_error (regs m)) (iABI_errors m (- error))
      else Some (set_result (clear_error (regs m)) error))"

lemma set_return_answer:
  "map_option untraced (set_return env ap error m) =
     map_option (\<lambda>r. untraced m\<lparr>regs := r\<rparr>) (answer m error)"
  by (auto simp: set_return_def answer_def untraced_def abi_trace_def Let_def option.map_comp o_def
      intro!: map_option_cong)

text \<open>
  The specification of a dispatched call: which function runs on which arguments, and what its
  result becomes.  There is no argument array, no tracing and no undefined behaviour of the
  dispatcher's own in it.
\<close>

definition reply :: "int \<times> 'k mach \<Rightarrow> 'k mach option" where
  "reply = (\<lambda>(error, m). map_option (\<lambda>r. m\<lparr>regs := r\<rparr>) (answer m error))"

definition syscall_spec :: "'k sysenv \<Rightarrow> sysent \<Rightarrow> int \<Rightarrow> 'k mach \<Rightarrow> 'k mach option" where
  "syscall_spec env ap off m =
     (case se_syscall ap of
        None \<Rightarrow> reply (- ENOSYS, m)
      | Some f \<Rightarrow>
          if se_nargs ap = Fast then map_option snd (sys_regs env f m)
          else if se_nargs ap = Spl then Option.bind (sys_regs env f m) reply
          else if 0 \<le> se_nargs ap \<and> se_nargs ap \<le> 7
          then Option.bind (sys_args env f (stack_args m off (nat (se_nargs ap))) m) reply
          else reply (- ENOSYS, m))"

text \<open>The functions that are called do not read the trace log.\<close>

definition unlog :: "int \<times> 'k mach \<Rightarrow> int \<times> 'k mach" where
  "unlog = (\<lambda>(e, m). (e, untraced m))"

definition log_blind :: "'k sysenv \<Rightarrow> bool" where
  "log_blind env \<longleftrightarrow>
     (\<forall>f m l. map_option unlog (sys_regs env f (m\<lparr>klog := l\<rparr>)) = map_option unlog (sys_regs env f m)) \<and>
     (\<forall>f a m l. map_option unlog (sys_args env f a (m\<lparr>klog := l\<rparr>)) = map_option unlog (sys_args env f a m))"

definition is_short :: "int \<Rightarrow> bool" where
  "is_short n \<longleftrightarrow> - 32768 \<le> n \<and> n < 32768"

lemma nargs_fits_short: "is_short n \<Longrightarrow> nargs_fits n \<longleftrightarrow> 0 \<le> n \<and> n \<le> 8"
proof (cases "0 \<le> n")
  case True
  assume "is_short n"
  with True have "uint (word_of_int n :: u32) = n" by (simp add: is_short_def take_bit_int_eq_self unsigned_of_int)
  with True show ?thesis by (simp add: nargs_fits_def word_le_def)
next
  case False
  assume "is_short n"
  with False have "(n + 4294967296) mod 4294967296 = n + 4294967296"
    by (intro mod_pos_pos_trivial) (auto simp: is_short_def)
  then have "uint (word_of_int n :: u32) = n + 4294967296"
    by (simp add: unsigned_of_int take_bit_eq_mod)
  with False \<open>is_short n\<close> show ?thesis by (simp add: nargs_fits_def word_le_def is_short_def)
qed

lemma fetch_args:
  assumes "is_short n" "length stk = 8"
  shows "\<exists>args. (if nargs_fits n then get_args stk (mem m) (esp (regs m)) off n else Some stk) = Some args \<and>
    length args = 8 \<and> (0 \<le> n \<and> n \<le> 7 \<longrightarrow> take (nat n) args = stack_args m off (nat n))"
proof (cases "0 \<le> n \<and> n \<le> 8")
  case True
  with assms get_args_total [of n stk "mem m" "esp (regs m)" off] obtain args where
    "get_args stk (mem m) (esp (regs m)) off n = Some args" "length args = 8" by auto
  with True assms get_args_take [of n stk m off args] show ?thesis by (auto simp: nargs_fits_short)
next
  case False
  with assms show ?thesis by (auto simp: nargs_fits_short)
qed

lemma answer_untraced: "answer (untraced m) e = answer m e"
  by (simp add: answer_def iABI_errors_def)

lemma set_return_reply:
  "map_option untraced (set_return env ap e m) = map_option untraced (reply (e, m))"
  unfolding set_return_answer reply_def by (cases "answer m e") (simp_all add: untraced_def)

lemma reply_untraced: "map_option untraced (reply (e, untraced m)) = map_option untraced (reply (e, m))"
  by (simp add: reply_def answer_untraced option.map_comp o_def) (simp add: untraced_def)

lemma reply_unlog:
  assumes "map_option unlog x = map_option unlog y"
  shows "map_option untraced (Option.bind x reply) = map_option untraced (Option.bind y reply)"
proof (cases x)
  case None
  with assms show ?thesis by simp
next
  case (Some a)
  with assms obtain b where y: "y = Some b" and "unlog b = unlog a" by (cases y) auto
  then have "fst b = fst a" "untraced (snd b) = untraced (snd a)" by (auto simp: unlog_def split: prod.splits)
  then have "map_option untraced (reply (fst a, snd a)) = map_option untraced (reply (fst b, snd b))"
    by (metis reply_untraced)
  with Some y show ?thesis by simp
qed

definition finish :: "'k sysenv \<Rightarrow> sysent \<Rightarrow> 'k called \<Rightarrow> 'k mach option" where
  "finish env ap c =
     (case c of
        Done m \<Rightarrow> Some (show_signals env m)
      | Returned error m \<Rightarrow> map_option (show_signals env) (set_return env ap error m))"

lemma finish_Returned: "map_option untraced (finish env ap (Returned e m)) = map_option untraced (reply (e, m))"
proof -
  have "map_option untraced (map_option (show_signals env) z) = map_option untraced z" for z
    by (cases z) simp_all
  then show ?thesis by (simp add: finish_def set_return_reply)
qed

lemma finish_call_reply:
  "map_option unlog x = map_option unlog y \<Longrightarrow>
   map_option untraced (Option.bind (map_option (\<lambda>(e, m'). Returned e m') x) (finish env ap)) =
     map_option untraced (Option.bind y reply)"
  by (drule reply_unlog) (cases x; auto simp: finish_Returned)

lemma finish_call_fast:
  "map_option unlog x = map_option unlog y \<Longrightarrow>
   map_option untraced (Option.bind (map_option (\<lambda>(_, m'). Done m') x) (finish env ap)) =
     map_option untraced (map_option snd y)"
  by (cases x; cases y) (auto simp: finish_def unlog_def)

lemma finish_unimplemented:
  "untraced m' = untraced m \<Longrightarrow>
   map_option untraced (finish env ap (Returned e (if b then abi_trace res ev m' else m'))) =
     map_option untraced (reply (e, m))"
  unfolding finish_Returned by (metis reply_untraced untraced_simps(7))

text \<open>
  What a dispatch is, once its arguments are fetched and traced: the call on the fetched arguments,
  in a state that differs from the first one only in the trace log, and the answer.
\<close>

lemma dispatch_run:
  assumes "length stk = 8" "is_short (se_nargs ap)"
    and "cfg_trace env \<Longrightarrow> trace_ok ap \<and> (\<forall>v. length (fmt_p env v) \<le> 12)"
  obtains args m1 where
    "lcall7_dispatch env stk ap off m =
       Option.bind (call_syscall env ap (dispatch_nargs ap) args m1) (finish env ap)"
    "m1 = m\<lparr>klog := klog m1\<rparr>" "cfg_trace env \<or> m1 = m"
    "0 \<le> dispatch_nargs ap \<and> dispatch_nargs ap \<le> 7 \<longrightarrow>
       take (nat (dispatch_nargs ap)) args = stack_args m off (nat (dispatch_nargs ap))"
proof -
  let ?n = "dispatch_nargs ap"
  have "is_short ?n" using assms(2) by (simp add: dispatch_nargs_def Unimpl_def is_short_def)
  from fetch_args [OF this assms(1)] obtain args where
    fetch: "(if nargs_fits ?n then get_args stk (mem m) (esp (regs m)) off ?n else Some stk) = Some args"
    and len: "length args = 8"
    and take: "0 \<le> ?n \<and> ?n \<le> 7 \<longrightarrow> take (nat ?n) args = stack_args m off (nat ?n)" by blast
  have "\<exists>args' m'. trace_call env ap off ?n args m = Some (args', m') \<and> length args' = 8"
  proof (cases "cfg_trace env")
    case True
    with assms(3) len show ?thesis by (intro trace_call_total) auto
  next
    case False
    with len show ?thesis by (simp add: trace_call_def)
  qed
  then obtain args' m1 where tr: "trace_call env ap off ?n args m = Some (args', m1)" by blast
  note m1 = trace_call_frame [OF tr]
  show ?thesis
  proof (rule that)
    show "lcall7_dispatch env stk ap off m = Option.bind (call_syscall env ap ?n args' m1) (finish env ap)"
      unfolding lcall7_dispatch_def Let_def fetch by (simp add: tr finish_def [abs_def])
    show "m1 = m\<lparr>klog := klog m1\<rparr>" by (rule m1)
    show "cfg_trace env \<or> m1 = m" using tr by (cases "cfg_trace env") (simp_all add: trace_call_def)
    show "0 \<le> ?n \<and> ?n \<le> 7 \<longrightarrow> take (nat ?n) args' = stack_args m off (nat ?n)"
      using take m1(2) by (auto simp: Spl_def)
  qed
qed

text \<open>
  The dispatcher implements its specification: apart from the trace log, a dispatched call does
  exactly what the specification says, for every entry, argument offset and state.
\<close>

lemma dispatch_refines:
  assumes "length stk = 8" "is_short (se_nargs ap)"
    and "cfg_trace env \<Longrightarrow> trace_ok ap \<and> log_blind env \<and> (\<forall>v. length (fmt_p env v) \<le> 12)"
  shows "map_option untraced (lcall7_dispatch env stk ap off m) =
    map_option untraced (syscall_spec env ap off m)"
proof -
  let ?n = "dispatch_nargs ap"
  obtain args m1 where
    disp: "lcall7_dispatch env stk ap off m = Option.bind (call_syscall env ap ?n args m1) (finish env ap)"
    and m1: "m1 = m\<lparr>klog := klog m1\<rparr>" "cfg_trace env \<or> m1 = m"
    and args: "0 \<le> ?n \<and> ?n \<le> 7 \<longrightarrow> take (nat ?n) args = stack_args m off (nat ?n)"
    using assms by (auto intro: dispatch_run [of stk ap env off m])
  have un: "untraced m1 = untraced m" by (subst m1(1)) simp
  have blind: "map_option unlog (sys_regs env f m1) = map_option unlog (sys_regs env f m)"
    "map_option unlog (sys_args env f a m1) = map_option unlog (sys_args env f a m)" for f a
  proof -
    have "log_blind env \<or> m1 = m" using m1(2) assms(3) by blast
    then have "map_option unlog (sys_regs env f (m\<lparr>klog := klog m1\<rparr>)) = map_option unlog (sys_regs env f m)"
      "map_option unlog (sys_args env f a (m\<lparr>klog := klog m1\<rparr>)) = map_option unlog (sys_args env f a m)"
      by (auto simp: log_blind_def)
    then show "map_option unlog (sys_regs env f m1) = map_option unlog (sys_regs env f m)"
      "map_option unlog (sys_args env f a m1) = map_option unlog (sys_args env f a m)"
      by (simp_all only: m1(1) [symmetric])
  qed
  show ?thesis
  proof (cases "se_syscall ap")
    case None
    then show ?thesis
      by (simp add: disp call_syscall_def syscall_spec_def finish_unimplemented [OF un])
  next
    case (Some f)
    then have n: "?n = se_nargs ap" by (simp add: dispatch_nargs_def)
    show ?thesis
      unfolding disp call_syscall_def syscall_spec_def using Some args n
      by (auto simp: finish_call_fast [OF blind(1)] finish_call_reply [OF blind(1)]
          finish_call_reply [OF blind(2)] finish_unimplemented [OF un] Fast_def Spl_def)
  qed
qed

section \<open>No undefined behaviour\<close>

text \<open>The error table of the current domain is well formed.\<close>

definition errs_ok :: "'k mach \<Rightarrow> bool" where
  "errs_ok m \<longleftrightarrow> (case err_map (cur_ed m) of None \<Rightarrow> True | Some t \<Rightarrow> segs_ok t)"

lemma errs_ok_frame [simp]:
  "errs_ok (m\<lparr>klog := l\<rparr>) = errs_ok m" "errs_ok (m\<lparr>regs := r\<rparr>) = errs_ok m"
  "errs_ok (abi_trace res ev m) = errs_ok m" "errs_ok (show_signals env m) = errs_ok m"
  by (simp_all add: errs_ok_def abi_trace_def show_signals_def Let_def)

lemma iABI_errors_total: "errs_ok m \<Longrightarrow> \<exists>e. iABI_errors m n = Some e"
  by (auto simp: errs_ok_def iABI_errors_def map_value_def map_value_loop_total split: option.splits)

lemma set_return_total: "errs_ok m \<Longrightarrow> \<exists>m'. set_return env ap e m = Some m' \<and> errs_ok m'"
  using iABI_errors_total [of m "- e"] by (auto simp: set_return_def Let_def)

definition called_ok :: "'k called \<Rightarrow> bool" where
  "called_ok c \<longleftrightarrow> (case c of Done m \<Rightarrow> errs_ok m | Returned _ m \<Rightarrow> errs_ok m)"

lemma called_ok_simps [simp]: "called_ok (Done m) = errs_ok m" "called_ok (Returned e m) = errs_ok m"
  by (simp_all add: called_ok_def)

lemma finish_total:
  assumes "called_ok c"
  shows "\<exists>m'. finish env ap c = Some m' \<and> errs_ok m'"
proof (cases c)
  case (Done m)
  with assms show ?thesis by (simp add: finish_def)
next
  case (Returned e m)
  with assms set_return_total [of m env ap e] show ?thesis by (auto simp: finish_def)
qed

text \<open>
  A function is total at a state when it returns, with or without what the trace has logged so far,
  and leaves the process in a domain with a well-formed error table.
\<close>

definition returns_ok :: "('k mach \<Rightarrow> (int \<times> 'k mach) option) \<Rightarrow> 'k mach \<Rightarrow> bool" where
  "returns_ok f m \<longleftrightarrow> (\<forall>l. \<exists>e m'. f (m\<lparr>klog := l\<rparr>) = Some (e, m') \<and> errs_ok m')"

lemma dispatch_total:
  assumes "length stk = 8" "is_short (se_nargs ap)"
    and "cfg_trace env \<Longrightarrow> trace_ok ap \<and> (\<forall>v. length (fmt_p env v) \<le> 12)"
    and "errs_ok m"
    and "\<And>f. se_syscall ap = Some f \<Longrightarrow> returns_ok (sys_regs env f) m"
    and "\<And>f a. se_syscall ap = Some f \<Longrightarrow> returns_ok (sys_args env f a) m"
  shows "\<exists>m'. lcall7_dispatch env stk ap off m = Some m' \<and> errs_ok m'"
proof -
  let ?n = "dispatch_nargs ap"
  obtain args m1 where
    disp: "lcall7_dispatch env stk ap off m = Option.bind (call_syscall env ap ?n args m1) (finish env ap)"
    and m1: "m1 = m\<lparr>klog := klog m1\<rparr>" and "cfg_trace env \<or> m1 = m"
    and "0 \<le> ?n \<and> ?n \<le> 7 \<longrightarrow> take (nat ?n) args = stack_args m off (nat ?n)"
    by (rule dispatch_run [OF assms(1-3)])
  have ok: "errs_ok m1" by (subst m1) (simp add: assms(4))
  have "\<exists>c. call_syscall env ap ?n args m1 = Some c \<and> called_ok c"
  proof (cases "se_syscall ap")
    case None
    with ok show ?thesis by (simp add: call_syscall_def)
  next
    case (Some f)
    from assms(5) [OF Some] obtain e2 m2 where
      "sys_regs env f (m\<lparr>klog := klog m1\<rparr>) = Some (e2, m2)" "errs_ok m2"
      unfolding returns_ok_def by blast
    then have r: "sys_regs env f m1 = Some (e2, m2)" "errs_ok m2" by (simp_all only: m1 [symmetric])
    from assms(6) [OF Some, of "take (nat ?n) args"] obtain e3 m3 where
      "sys_args env f (take (nat ?n) args) (m\<lparr>klog := klog m1\<rparr>) = Some (e3, m3)" "errs_ok m3"
      unfolding returns_ok_def by blast
    then have a: "sys_args env f (take (nat ?n) args) m1 = Some (e3, m3)" "errs_ok m3"
      by (simp_all only: m1 [symmetric])
    from Some r a ok show ?thesis by (simp add: call_syscall_def)
  qed
  then show ?thesis using finish_total disp by fastforce
qed

end
