(* ===== verification/Abi_Exec_Domain.thy ===== *)
theory Abi_Exec_Domain
  imports Abi_Machine
begin

text \<open>
  \<^verbatim>\<open>kernel/exec_domain.c\<close>: the registry of execution domains and the personality of the running
  process.  The registry is the linked list of the source: a heap of \<^verbatim>\<open>struct exec_domain\<close> objects,
  their \<open>next\<close> fields and the head pointer.  Walking a list whose links form a cycle would not
  end, so the walks are \<open>partial_function (option)\<close>; the lemmas show that they end on every list
  the registry can build and that the pointer operations implement insertion into and removal
  from a plain list of addresses.  Modules, file system structures and signals belong to the rest
  of the kernel, the fields of \<open>edenv\<close>.
\<close>

section \<open>State\<close>

record 'k edst =
  ed_heap :: "nat \<Rightarrow> exec_domain"
  exec_domains :: nat
  task_ed :: nat
  task_pers :: u32
  task_fs :: nat
  abi_defhandler_lcall7 :: u32
  edk :: 'k

record 'k edenv =
  late_probing :: bool \<comment> \<open>\<^verbatim>\<open>CONFIG_ABI_LATE_PROBING\<close>\<close>
  kmod :: bool \<comment> \<open>\<^verbatim>\<open>CONFIG_KMOD\<close>\<close>
  default_ed :: nat \<comment> \<open>the address of \<^verbatim>\<open>default_exec_domain\<close>\<close>
  try_module_get :: "nat \<Rightarrow> 'k \<Rightarrow> bool \<times> 'k"
  module_put :: "nat \<Rightarrow> 'k \<Rightarrow> 'k"
  request_module :: "u8 \<Rightarrow> 'k edst \<Rightarrow> 'k edst"
  fs_count :: "nat \<Rightarrow> 'k \<Rightarrow> int"
  copy_fs_struct :: "nat \<Rightarrow> 'k \<Rightarrow> nat \<times> 'k"
  put_fs_struct :: "nat \<Rightarrow> 'k \<Rightarrow> 'k"
  set_fs_altroot :: "'k edst \<Rightarrow> 'k edst"
  send_sig :: "int \<Rightarrow> 'k \<Rightarrow> 'k"
  call_handler :: "string \<Rightarrow> int \<Rightarrow> 'k edst \<Rightarrow> 'k edst"

section \<open>Operations\<close>

definition ident_map :: "int list" where
  "ident_map =
    [0, 1, 2, 3, 4, 5, 6, 7,
     8, 9, 10, 11, 12, 13, 14, 15,
     16, 17, 18, 19, 20, 21, 22, 23,
     24, 25, 26, 27, 28, 29, 30, 31]"

definition default_exec_domain :: "bool \<Rightarrow> exec_domain" where
  "default_exec_domain late =
     \<lparr>ed_name = ''Linux'',
      ed_handler = (if late then ''lcall_autodetect_handler'' else ''lcall_default_handler''),
      pers_low = ucast PERID_LINUX, pers_high = ucast PERID_LINUX,
      signal_map = ident_map, signal_invmap = ident_map,
      err_map = None, socktype_map = None, sockopt_map = None, af_map = None,
      ed_module = 0, ed_next = 0\<rparr>"

partial_function (option) lookup_loop ::
  "'k edenv \<Rightarrow> (nat \<Rightarrow> exec_domain) \<Rightarrow> u8 \<Rightarrow> nat \<Rightarrow> 'k \<Rightarrow> (nat \<times> 'k) option" where
  "lookup_loop env h per_id ep k =
     (if ep = 0 then Some (0, k)
      else if pers_low (h ep) \<le> per_id \<and> per_id \<le> pers_high (h ep)
      then (let (ok, k') = try_module_get env (ed_module (h ep)) k
            in if ok then Some (ep, k') else lookup_loop env h per_id (ed_next (h ep)) k')
      else lookup_loop env h per_id (ed_next (h ep)) k)"

definition lookup_pass :: "'k edenv \<Rightarrow> u8 \<Rightarrow> 'k edst \<Rightarrow> (nat \<times> 'k edst) option" where
  "lookup_pass env per_id s =
     map_option (\<lambda>(ep, k). (ep, s\<lparr>edk := k\<rparr>))
       (lookup_loop env (ed_heap s) per_id (exec_domains s) (edk s))"

definition lookup_exec_domain :: "'k edenv \<Rightarrow> u32 \<Rightarrow> 'k edst \<Rightarrow> (nat \<times> 'k edst) option" where
  "lookup_exec_domain env personality s =
     (let per_id = ucast (get_personality_id personality) :: u8;
          fallback = (if late_probing env then default_ed env else 0) in
      Option.bind (lookup_pass env per_id s) (\<lambda>(ep, s).
        if ep \<noteq> 0 then Some (ep, s)
        else if kmod env
        then Option.bind (lookup_pass env per_id (request_module env per_id s))
               (\<lambda>(ep, s). Some (if ep \<noteq> 0 then ep else fallback, s))
        else Some (fallback, s)))"

partial_function (option) on_list :: "(nat \<Rightarrow> exec_domain) \<Rightarrow> nat \<Rightarrow> nat \<Rightarrow> bool option" where
  "on_list h ep tmp =
     (if tmp = 0 then Some False
      else if tmp = ep then Some True
      else on_list h ep (ed_next (h tmp)))"

definition register_exec_domain :: "nat \<Rightarrow> 'k edst \<Rightarrow> (int \<times> 'k edst) option" where
  "register_exec_domain ep s =
     (if ep = 0 then Some (- EINVAL, s)
      else if ed_next (ed_heap s ep) \<noteq> 0 then Some (- EBUSY, s)
      else map_option
        (\<lambda>found. if found then (- EBUSY, s)
           else (0, s\<lparr>ed_heap := (ed_heap s)(ep := (ed_heap s ep)\<lparr>ed_next := exec_domains s\<rparr>),
                      exec_domains := ep\<rparr>))
        (on_list (ed_heap s) ep (exec_domains s)))"

text \<open>
  The pointer \<open>epp\<close> of the source is the place that holds the current link: the head variable
  (\<open>None\<close>) or the \<open>next\<close> field of a node.  The result is the place whose content is \<open>ep\<close>.
\<close>

partial_function (option) find_epp ::
  "(nat \<Rightarrow> exec_domain) \<Rightarrow> nat \<Rightarrow> nat option \<Rightarrow> nat \<Rightarrow> nat option option option" where
  "find_epp h ep epp link =
     (if link = 0 then Some None
      else if ep = link then Some (Some epp)
      else find_epp h ep (Some link) (ed_next (h link)))"

definition unregister_exec_domain :: "nat \<Rightarrow> 'k edst \<Rightarrow> (int \<times> 'k edst) option" where
  "unregister_exec_domain ep s =
     map_option
       (\<lambda>place. case place of
          None \<Rightarrow> (- EINVAL, s)
        | Some epp \<Rightarrow>
            (let nxt = ed_next (ed_heap s ep);
                 s1 = (case epp of
                         None \<Rightarrow> s\<lparr>exec_domains := nxt\<rparr>
                       | Some p \<Rightarrow> s\<lparr>ed_heap := (ed_heap s)(p := (ed_heap s p)\<lparr>ed_next := nxt\<rparr>)\<rparr>)
             in (0, s1\<lparr>ed_heap := (ed_heap s1)(ep := (ed_heap s1 ep)\<lparr>ed_next := 0\<rparr>)\<rparr>)))
       (find_epp (ed_heap s) ep None (exec_domains s))"

definition unshare_fs :: "'k edenv \<Rightarrow> 'k edst \<Rightarrow> 'k edst + 'k edst" where
  "unshare_fs env s =
     (if fs_count env (task_fs s) (edk s) \<noteq> 1
      then (let (fsp, k) = copy_fs_struct env (task_fs s) (edk s) in
            if fsp = 0 then Inl (s\<lparr>edk := k\<rparr>)
            else Inr (s\<lparr>task_fs := fsp, edk := put_fs_struct env (task_fs s) k\<rparr>))
      else Inr s)"

definition set_personality_raw :: "'k edenv \<Rightarrow> u32 \<Rightarrow> 'k edst \<Rightarrow> (int \<times> 'k edst) option" where
  "set_personality_raw env personality s =
     map_option
       (\<lambda>(ep, s).
          if ep = 0 then (- ENOEXEC, s)
          else if ep = task_ed s then (0, s\<lparr>task_pers := personality\<rparr>)
          else (case unshare_fs env s of
                  Inl s' \<Rightarrow> (- ENOMEM, s'\<lparr>edk := module_put env (ed_module (ed_heap s' ep)) (edk s')\<rparr>)
                | Inr s' \<Rightarrow>
                    (let oep = task_ed s';
                         s'' = set_fs_altroot env (s'\<lparr>task_pers := personality, task_ed := ep\<rparr>)
                     in (0, s''\<lparr>edk := module_put env (ed_module (ed_heap s'' oep)) (edk s'')\<rparr>))))
       (lookup_exec_domain env personality s)"

text \<open>The macro \<^verbatim>\<open>set_personality\<close> skips the call when nothing changes.\<close>

definition set_personality :: "'k edenv \<Rightarrow> u32 \<Rightarrow> 'k edst \<Rightarrow> (int \<times> 'k edst) option" where
  "set_personality env p s =
     (if is_cur_personality (task_pers s) p \<noteq> 0 then Some (0, s) else set_personality_raw env p s)"

definition sys_personality :: "'k edenv \<Rightarrow> u32 \<Rightarrow> 'k edst \<Rightarrow> (int \<times> 'k edst) option" where
  "sys_personality env personality s =
     (let old = task_pers s in
      if personality = PER_QUERY then Some (sint old, s)
      else map_option
             (\<lambda>(_, s'). if task_pers s' \<noteq> personality then (- EINVAL, s') else (sint old, s'))
             (set_personality env personality s))"

definition lcall_default_handler :: "'k edenv \<Rightarrow> int \<Rightarrow> 'k edst \<Rightarrow> 'k edst" where
  "lcall_default_handler env segment s = s\<lparr>edk := send_sig env SIGSEGV (edk s)\<rparr>"

definition lcall_autodetect_handler :: "'k edenv \<Rightarrow> int \<Rightarrow> 'k edst \<Rightarrow> 'k edst option" where
  "lcall_autodetect_handler env segment s =
     (let personality = (if segment = 0x07 then abi_defhandler_lcall7 s
                         else if segment = 0x27 then PER_SOLARIS
                         else PER_LINUX)
      in map_option
           (\<lambda>(_, s').
              let h = ed_handler (ed_heap s' (task_ed s')) in
              if h = ''lcall_autodetect_handler'' then s'\<lparr>edk := send_sig env SIGSEGV (edk s')\<rparr>
              else call_handler env h segment s')
           (set_personality env personality s))"

text \<open>
  The text of \<^verbatim>\<open>/proc/execdomains\<close>.  \<open>fmt\<close> renders one line from the bounds, the name and the
  module (the format is \<^verbatim>\<open>%d-%d\t%-16s\t[%s]\n\<close>); the loop stops when fewer than 80 bytes of the
  page are left.
\<close>

abbreviation (input) "PAGE_SIZE \<equiv> (4096::nat)"

partial_function (option) exec_domain_list_loop ::
  "(u8 \<Rightarrow> u8 \<Rightarrow> string \<Rightarrow> nat \<Rightarrow> string) \<Rightarrow> (nat \<Rightarrow> exec_domain) \<Rightarrow> nat \<Rightarrow> string \<Rightarrow> string option" where
  "exec_domain_list_loop fmt h ep page =
     (if ep \<noteq> 0 \<and> length page < PAGE_SIZE - 80
      then exec_domain_list_loop fmt h (ed_next (h ep))
             (page @ fmt (pers_low (h ep)) (pers_high (h ep)) (ed_name (h ep)) (ed_module (h ep)))
      else Some page)"

definition get_exec_domain_list ::
  "(u8 \<Rightarrow> u8 \<Rightarrow> string \<Rightarrow> nat \<Rightarrow> string) \<Rightarrow> 'k edst \<Rightarrow> string option" where
  "get_exec_domain_list fmt s = exec_domain_list_loop fmt (ed_heap s) (exec_domains s) ''''"

section \<open>The linked list implements a list of addresses\<close>

text \<open>\<open>lseg h p xs q\<close>: following \<open>next\<close> from \<open>p\<close> visits the nodes \<open>xs\<close> and arrives at \<open>q\<close>.\<close>

fun lseg :: "(nat \<Rightarrow> exec_domain) \<Rightarrow> nat \<Rightarrow> nat list \<Rightarrow> nat \<Rightarrow> bool" where
  "lseg h p [] q \<longleftrightarrow> p = q"
| "lseg h p (x # xs) q \<longleftrightarrow> p = x \<and> x \<noteq> 0 \<and> lseg h (ed_next (h x)) xs q"

abbreviation chain :: "(nat \<Rightarrow> exec_domain) \<Rightarrow> nat \<Rightarrow> nat list \<Rightarrow> bool" where
  "chain h p xs \<equiv> lseg h p xs 0"

lemma lseg_append: "lseg h p (xs @ ys) q \<longleftrightarrow> (\<exists>r. lseg h p xs r \<and> lseg h r ys q)"
  by (induction xs arbitrary: p) auto

lemma lseg_frame:
  "lseg h p xs q \<Longrightarrow> (\<And>x. x \<in> set xs \<Longrightarrow> ed_next (h' x) = ed_next (h x)) \<Longrightarrow> lseg h' p xs q"
  by (induction xs arbitrary: p) auto

lemma chain_det: "chain h p xs \<Longrightarrow> chain h p ys \<Longrightarrow> xs = ys"
proof (induction xs arbitrary: p ys)
  case Nil
  then show ?case by (cases ys) auto
next
  case (Cons x xs)
  then show ?case by (cases ys) auto
qed

lemma lseg_set_last:
  assumes "lseg h p (ys @ [y]) q" "y \<notin> set ys"
  shows "lseg (h(y := (h y)\<lparr>ed_next := r\<rparr>)) p (ys @ [y]) r"
proof -
  from assms(1) have ys: "lseg h p ys y" and "y \<noteq> 0" by (auto simp: lseg_append)
  from ys have "lseg (h(y := (h y)\<lparr>ed_next := r\<rparr>)) p ys y"
    by (rule lseg_frame) (use assms(2) in auto)
  with \<open>y \<noteq> 0\<close> show ?thesis by (simp add: lseg_append)
qed

text \<open>
  A registry is well formed when its head leads through distinct nodes to the null pointer.
  \<open>doms\<close> is the list of addresses it holds.
\<close>

definition reg_inv :: "'k edst \<Rightarrow> bool" where
  "reg_inv s \<longleftrightarrow> (\<exists>xs. chain (ed_heap s) (exec_domains s) xs \<and> distinct xs)"

definition doms :: "'k edst \<Rightarrow> nat list" where
  "doms s = (THE xs. chain (ed_heap s) (exec_domains s) xs)"

lemma doms_eq: "chain (ed_heap s) (exec_domains s) xs \<Longrightarrow> doms s = xs"
  unfolding doms_def by (rule the_equality) (simp_all add: chain_det)

lemma reg_invI: "chain (ed_heap s) (exec_domains s) xs \<Longrightarrow> distinct xs \<Longrightarrow> reg_inv s \<and> doms s = xs"
  using doms_eq by (auto simp: reg_inv_def)

lemma reg_invD: "reg_inv s \<Longrightarrow> chain (ed_heap s) (exec_domains s) (doms s) \<and> distinct (doms s)"
  using doms_eq by (auto simp: reg_inv_def)

lemma chain_nonnull: "lseg h p xs q \<Longrightarrow> x \<in> set xs \<Longrightarrow> x \<noteq> 0"
  by (induction xs arbitrary: p) auto

lemma on_list_chain: "chain h p xs \<Longrightarrow> on_list h ep p = Some (ep \<in> set xs)"
proof (induction xs arbitrary: p)
  case Nil
  then show ?case by (simp add: on_list.simps)
next
  case (Cons x xs)
  then show ?case by (subst on_list.simps) auto
qed

fun place_in :: "nat \<Rightarrow> nat option \<Rightarrow> nat list \<Rightarrow> nat option option" where
  "place_in ep epp [] = None"
| "place_in ep epp (x # xs) = (if ep = x then Some epp else place_in ep (Some x) xs)"

lemma find_epp_chain: "chain h p xs \<Longrightarrow> find_epp h ep epp p = Some (place_in ep epp xs)"
proof (induction xs arbitrary: p epp)
  case Nil
  then show ?case by (simp add: find_epp.simps)
next
  case (Cons x xs)
  then show ?case by (subst find_epp.simps) auto
qed

lemma place_in_absent: "ep \<notin> set xs \<Longrightarrow> place_in ep epp xs = None"
  by (induction xs arbitrary: epp) auto

lemma place_in_split:
  "ep \<notin> set ys \<Longrightarrow> place_in ep epp (ys @ ep # zs) = Some (if ys = [] then epp else Some (last ys))"
  by (induction ys arbitrary: epp) auto

section \<open>Registration\<close>

lemma on_list_doms: "reg_inv s \<Longrightarrow> on_list (ed_heap s) p (exec_domains s) = Some (p \<in> set (doms s))"
  by (simp add: reg_invD on_list_chain)

lemma find_epp_doms: "reg_inv s \<Longrightarrow> find_epp (ed_heap s) p None (exec_domains s) = Some (place_in p None (doms s))"
  by (simp add: reg_invD find_epp_chain)

lemma doms_nonnull: "reg_inv s \<Longrightarrow> p \<in> set (doms s) \<Longrightarrow> p \<noteq> 0"
  by (auto dest!: reg_invD dest: chain_nonnull)

lemma register_new:
  assumes inv: "reg_inv s" and p: "p \<noteq> 0" "p \<notin> set (doms s)" "ed_next (ed_heap s p) = 0"
  shows "\<exists>s'. register_exec_domain p s = Some (0, s') \<and> reg_inv s' \<and> doms s' = p # doms s \<and>
    (\<forall>q. q \<noteq> p \<longrightarrow> ed_heap s' q = ed_heap s q)"
proof -
  let ?s = "s\<lparr>ed_heap := (ed_heap s)(p := (ed_heap s p)\<lparr>ed_next := exec_domains s\<rparr>), exec_domains := p\<rparr>"
  note ch = reg_invD [OF inv]
  have "chain (ed_heap ?s) (exec_domains s) (doms s)"
    by (rule lseg_frame [of "ed_heap s"]) (use ch p in auto)
  with p ch have "chain (ed_heap ?s) (exec_domains ?s) (p # doms s)" "distinct (p # doms s)"
    by auto
  then have "reg_inv ?s \<and> doms ?s = p # doms s" by (rule reg_invI)
  moreover have "register_exec_domain p s = Some (0, ?s)"
    using p by (simp add: register_exec_domain_def on_list_doms [OF inv])
  ultimately show ?thesis by (intro exI [of _ ?s]) auto
qed

lemma register_present:
  assumes "reg_inv s" "p \<in> set (doms s)"
  shows "register_exec_domain p s = Some (- EBUSY, s)"
  using assms(2) doms_nonnull [OF assms]
  by (simp add: register_exec_domain_def on_list_doms [OF assms(1)])

lemma unregister_absent:
  assumes "reg_inv s" "p \<notin> set (doms s)"
  shows "unregister_exec_domain p s = Some (- EINVAL, s)"
  by (simp add: unregister_exec_domain_def find_epp_doms assms place_in_absent)

lemma unregister_present:
  assumes inv: "reg_inv s" and p: "p \<in> set (doms s)"
  shows "\<exists>s'. unregister_exec_domain p s = Some (0, s') \<and> reg_inv s' \<and>
    doms s' = remove1 p (doms s) \<and> ed_next (ed_heap s' p) = 0 \<and>
    (\<forall>q. q \<notin> set (doms s) \<longrightarrow> ed_heap s' q = ed_heap s q)"
proof -
  note ch = reg_invD [OF inv]
  from p obtain ys zs where split: "doms s = ys @ p # zs" and "p \<notin> set ys"
    by (metis split_list_first)
  with ch have dist: "distinct ys" "distinct zs" "set ys \<inter> set zs = {}" "p \<notin> set zs" "p \<noteq> 0"
    by (auto simp: split lseg_append)
  from ch obtain r where "lseg (ed_heap s) (exec_domains s) ys r" "r = p"
      and zs: "chain (ed_heap s) (ed_next (ed_heap s p)) zs"
    by (auto simp: split lseg_append)
  then have ys: "lseg (ed_heap s) (exec_domains s) ys p" by simp
  have find: "find_epp (ed_heap s) p None (exec_domains s) =
      Some (Some (if ys = [] then None else Some (last ys)))"
    unfolding find_epp_doms [OF inv] split place_in_split [OF \<open>p \<notin> set ys\<close>] ..
  let ?nxt = "ed_next (ed_heap s p)"
  show ?thesis
  proof (cases "ys = []")
    case True
    let ?s = "s\<lparr>exec_domains := ?nxt, ed_heap := (ed_heap s)(p := (ed_heap s p)\<lparr>ed_next := 0\<rparr>)\<rparr>"
    have "chain (ed_heap ?s) (exec_domains ?s) zs"
      by (rule lseg_frame [of "ed_heap s"]) (use zs dist in auto)
    with dist have "reg_inv ?s \<and> doms ?s = zs" by (intro reg_invI) auto
    moreover have "unregister_exec_domain p s = Some (0, ?s)"
      by (simp add: unregister_exec_domain_def find True)
    ultimately show ?thesis using split True by (intro exI [of _ ?s]) auto
  next
    case False
    then obtain ws y where ws: "ys = ws @ [y]" by (cases ys rule: rev_cases) auto
    let ?y = "last ys"
    have y: "?y \<in> set ys" "?y \<noteq> p" "?y = y" "y \<notin> set ws"
      using False \<open>p \<notin> set ys\<close> dist(1) ws by auto
    let ?h = "(ed_heap s)(?y := (ed_heap s ?y)\<lparr>ed_next := ?nxt\<rparr>)"
    let ?s = "s\<lparr>ed_heap := ?h(p := (?h p)\<lparr>ed_next := 0\<rparr>)\<rparr>"
    have "lseg ?h (exec_domains s) ys ?nxt"
      using ys y(3,4) unfolding ws by (simp add: lseg_set_last)
    then have "lseg (ed_heap ?s) (exec_domains s) ys ?nxt"
      by (rule lseg_frame) (use \<open>p \<notin> set ys\<close> in auto)
    moreover have "chain (ed_heap ?s) ?nxt zs"
      by (rule lseg_frame [of "ed_heap s"]) (use zs dist y in auto)
    ultimately have "chain (ed_heap ?s) (exec_domains ?s) (ys @ zs)"
      by (auto simp: lseg_append)
    with dist have "reg_inv ?s \<and> doms ?s = ys @ zs" by (intro reg_invI) auto
    moreover have "unregister_exec_domain p s = Some (0, ?s)"
      by (simp add: unregister_exec_domain_def find False)
    ultimately show ?thesis
      using split \<open>p \<notin> set ys\<close> y by (intro exI [of _ ?s]) (auto simp: remove1_append)
  qed
qed

text \<open>
  The contract of the registry, for the personality modules that use it: what each call does to the
  list of registered addresses, and that an address is \<open>free\<close> (its \<open>next\<close> link is null) whenever
  it may be registered again.
\<close>

locale domain_registry =
  fixes reg unreg :: "nat \<Rightarrow> 's \<Rightarrow> (int \<times> 's) option"
    and inv :: "'s \<Rightarrow> bool" and members :: "'s \<Rightarrow> nat list" and free :: "nat \<Rightarrow> 's \<Rightarrow> bool"
  assumes reg_new: "inv s \<Longrightarrow> p \<noteq> 0 \<Longrightarrow> p \<notin> set (members s) \<Longrightarrow> free p s \<Longrightarrow>
      \<exists>s'. reg p s = Some (0, s') \<and> inv s' \<and> members s' = p # members s \<and>
        (\<forall>q. q \<noteq> p \<longrightarrow> free q s' = free q s)"
    and reg_present: "inv s \<Longrightarrow> p \<in> set (members s) \<Longrightarrow> reg p s = Some (- EBUSY, s)"
    and unreg_absent: "inv s \<Longrightarrow> p \<notin> set (members s) \<Longrightarrow> unreg p s = Some (- EINVAL, s)"
    and unreg_present: "inv s \<Longrightarrow> p \<in> set (members s) \<Longrightarrow>
      \<exists>s'. unreg p s = Some (0, s') \<and> inv s' \<and> members s' = remove1 p (members s) \<and> free p s' \<and>
        (\<forall>q. q \<notin> set (members s) \<longrightarrow> free q s' = free q s)"
    and members_distinct: "inv s \<Longrightarrow> distinct (members s)"
    and members_nonnull: "inv s \<Longrightarrow> p \<in> set (members s) \<Longrightarrow> p \<noteq> 0"
begin

lemma reg_unreg:
  assumes "inv s" "p \<noteq> 0" "p \<notin> set (members s)" "free p s"
  shows "\<exists>s1 s2. reg p s = Some (0, s1) \<and> unreg p s1 = Some (0, s2) \<and> inv s2 \<and>
    members s2 = members s \<and> free p s2"
proof -
  from reg_new [OF assms] obtain s1 where
    s1: "reg p s = Some (0, s1)" "inv s1" "members s1 = p # members s" by blast
  then have "p \<in> set (members s1)" by simp
  from unreg_present [OF s1(2) this] obtain s2 where
    "unreg p s1 = Some (0, s2)" "inv s2" "members s2 = remove1 p (members s1)" "free p s2" by blast
  with s1 show ?thesis by auto
qed

lemma reg_twice:
  assumes "inv s" "p \<noteq> 0" "q \<noteq> 0" "p \<noteq> q" "p \<notin> set (members s)" "q \<notin> set (members s)"
    "free p s" "free q s"
  shows "\<exists>s1 s2. reg p s = Some (0, s1) \<and> reg q s1 = Some (0, s2) \<and> inv s2 \<and>
    members s2 = q # p # members s"
proof -
  from reg_new [of s p] assms obtain s1 where
    s1: "reg p s = Some (0, s1)" "inv s1" "members s1 = p # members s" "free q s1" by metis
  with assms have "q \<notin> set (members s1)" by auto
  from reg_new [OF s1(2) \<open>q \<noteq> 0\<close> this s1(4)] s1 show ?thesis by auto
qed

lemma reg_rollback:
  assumes "inv s" "p \<noteq> 0" "p \<noteq> q" "p \<notin> set (members s)" "q \<in> set (members s)" "free p s"
  shows "\<exists>s1 s2. reg p s = Some (0, s1) \<and> reg q s1 = Some (- EBUSY, s1) \<and>
    unreg p s1 = Some (0, s2) \<and> inv s2 \<and> members s2 = members s"
proof -
  from reg_new [of s p] assms obtain s1 where
    s1: "reg p s = Some (0, s1)" "inv s1" "members s1 = p # members s" by metis
  with assms have "q \<in> set (members s1)" "p \<in> set (members s1)" by auto
  with s1 reg_present [of s1 q] unreg_present [of s1 p] show ?thesis by auto
qed

end

definition ed_free :: "nat \<Rightarrow> 'k edst \<Rightarrow> bool" where
  "ed_free p s \<longleftrightarrow> ed_next (ed_heap s p) = 0"

interpretation reg: domain_registry register_exec_domain unregister_exec_domain reg_inv doms ed_free
proof (unfold_locales, goal_cases)
  case (1 s p)
  then show ?case using register_new [of s p] by (auto simp: ed_free_def)
next
  case (2 s p)
  then show ?case by (rule register_present)
next
  case (3 s p)
  then show ?case by (rule unregister_absent)
next
  case (4 s p)
  then show ?case using unregister_present [of s p] by (auto simp: ed_free_def)
next
  case (5 s)
  then show ?case by (simp add: reg_invD)
next
  case (6 s p)
  then show ?case by (rule doms_nonnull)
qed

section \<open>Lookup\<close>

text \<open>What the walk of \<open>lookup_exec_domain\<close> computes on a list of addresses.\<close>

definition covers :: "exec_domain \<Rightarrow> u8 \<Rightarrow> bool" where
  "covers d per_id \<longleftrightarrow> pers_low d \<le> per_id \<and> per_id \<le> pers_high d"

fun lookup_list :: "'k edenv \<Rightarrow> (nat \<Rightarrow> exec_domain) \<Rightarrow> u8 \<Rightarrow> nat list \<Rightarrow> 'k \<Rightarrow> nat \<times> 'k" where
  "lookup_list env h per_id [] k = (0, k)"
| "lookup_list env h per_id (x # xs) k =
     (if covers (h x) per_id
      then (let (ok, k') = try_module_get env (ed_module (h x)) k
            in if ok then (x, k') else lookup_list env h per_id xs k')
      else lookup_list env h per_id xs k)"

lemma lookup_loop_chain: "chain h p xs \<Longrightarrow> lookup_loop env h per_id p k = Some (lookup_list env h per_id xs k)"
proof (induction xs arbitrary: p k)
  case Nil
  then show ?case by (simp add: lookup_loop.simps)
next
  case (Cons x xs)
  then show ?case
    by (subst lookup_loop.simps) (auto simp: covers_def split: prod.splits)
qed

lemma lookup_list_covers:
  "lookup_list env h per_id xs k = (x, k') \<Longrightarrow> x \<noteq> 0 \<Longrightarrow> x \<in> set xs \<and> covers (h x) per_id"
  by (induction xs arbitrary: k) (auto split: if_splits prod.splits)

lemma lookup_list_none:
  "lookup_list env h per_id xs k = (0, k') \<Longrightarrow> 0 \<notin> set xs \<Longrightarrow>
     x \<in> set xs \<Longrightarrow> covers (h x) per_id \<Longrightarrow> \<exists>k1. \<not> fst (try_module_get env (ed_module (h x)) k1)"
proof (induction xs arbitrary: k)
  case Nil
  then show ?case by simp
next
  case (Cons y ys)
  then show ?case by (auto split: if_splits prod.splits) (metis fst_conv)+
qed

lemma lookup_pass_total:
  assumes "reg_inv s"
  shows "\<exists>ep k. lookup_pass env per_id s = Some (ep, s\<lparr>edk := k\<rparr>) \<and>
    lookup_list env (ed_heap s) per_id (doms s) (edk s) = (ep, k)"
proof -
  obtain ep k where "lookup_list env (ed_heap s) per_id (doms s) (edk s) = (ep, k)" by fastforce
  then show ?thesis
    by (simp add: lookup_pass_def lookup_loop_chain [OF conjunct1 [OF reg_invD [OF assms]]])
qed

end
