(* ===== verification/Abi_Contract.thy ===== *)
theory Abi_Contract
  imports Abi_Lcall7 Abi_Exec_Domain
begin

text \<open>
  What a personality module promises to the dispatcher: the locale \<open>sys_table\<close> for a system call
  table, \<open>value_map\<close> (from \<open>Abi_Map\<close>) for a segment table, \<open>sig_maps\<close> for the two signal arrays
  of a domain, and \<open>personality\<close>, which puts them together for one execution domain.  The lemmas
  proved here hold for every personality; each of the personality theories interprets the locales on
  its own tables.
\<close>

section \<open>Laws\<close>

definition entry_ok :: "sysent \<Rightarrow> bool" where
  "entry_ok e \<longleftrightarrow> is_short (se_nargs e) \<and> trace_ok e"

lemma list_all_entry_ok_append:
  "list_all entry_ok (xs @ ys) \<longleftrightarrow> list_all entry_ok xs \<and> list_all entry_ok ys"
  by simp

lemmas entry_ok_simps = entry_ok_def is_short_def trace_ok_def trace_chars_def Spl_def Fast_def
  Unimpl_def Ukn_def

text \<open>
  What the dispatcher needs of its environment when tracing is compiled in: \<^verbatim>\<open>%p\<close> prints at most
  twelve characters.  To show that tracing changes nothing, no called function may read the log.
\<close>

definition env_ok :: "'k sysenv \<Rightarrow> bool" where
  "env_ok env \<longleftrightarrow> (cfg_trace env \<longrightarrow> (\<forall>v. length (fmt_p env v) \<le> 12))"

text \<open>What a numbered call of a table means, with no tracing and no argument buffer.\<close>

definition table_spec :: "'k sysenv \<Rightarrow> sysent list \<Rightarrow> u32 \<Rightarrow> int \<Rightarrow> 'k mach \<Rightarrow> 'k mach option" where
  "table_spec env table sysno off m =
     (if length table \<le> unat sysno
      then map_option (\<lambda>e. m\<lparr>regs := set_error (regs m) e\<rparr>) (iABI_errors m (- EINVAL))
      else syscall_spec env (table ! unat sysno) off m)"

text \<open>Every function of the environment returns, in every state.\<close>

definition env_total :: "'k sysenv \<Rightarrow> bool" where
  "env_total env \<longleftrightarrow>
     (\<forall>f m. errs_ok m \<longrightarrow> returns_ok (sys_regs env f) m) \<and>
     (\<forall>f a m. errs_ok m \<longrightarrow> returns_ok (sys_args env f a) m)"

section \<open>System call tables\<close>

locale sys_table =
  fixes table :: "sysent list"
  assumes entries_ok: "list_all entry_ok table"
begin

lemma entry_nth: "unat sysno < length table \<Longrightarrow> entry_ok (table ! unat sysno)" for sysno :: u32
  using entries_ok by (simp add: list_all_length)

text \<open>A numbered call does what its table entry says, whatever the trace settings are.\<close>

lemma call_refines:
  assumes "length stk = 8" "env_ok env" "cfg_trace env \<longrightarrow> log_blind env"
  shows "map_option untraced (table_lcall7 env stk table sysno off m) =
    map_option untraced (table_spec env table sysno off m)"
proof (cases "length table \<le> unat sysno")
  case True
  then show ?thesis by (simp add: table_lcall7_def table_spec_def)
next
  case False
  with entry_nth [of sysno] have "is_short (se_nargs (table ! unat sysno))" "trace_ok (table ! unat sysno)"
    by (auto simp: entry_ok_def)
  with assms False show ?thesis
    by (simp add: table_lcall7_def table_spec_def dispatch_refines env_ok_def)
qed

text \<open>No call runs into undefined behaviour of the dispatcher.\<close>

lemma entry_total:
  assumes "length stk = 8" "env_ok env" "errs_ok m"
    and "\<And>f. unat sysno < length table \<Longrightarrow> se_syscall (table ! unat sysno) = Some f \<Longrightarrow>
      returns_ok (sys_regs env f) m \<and> (\<forall>a. returns_ok (sys_args env f a) m)"
  shows "\<exists>m'. table_lcall7 env stk table sysno off m = Some m' \<and> errs_ok m'"
proof (cases "length table \<le> unat sysno")
  case True
  with iABI_errors_total [OF assms(3), of "- EINVAL"] assms(3) show ?thesis by (auto simp: table_lcall7_def)
next
  case False
  then have ok: "entry_ok (table ! unat sysno)" using entry_nth by simp
  have "\<exists>m'. lcall7_dispatch env stk (table ! unat sysno) off m = Some m' \<and> errs_ok m'"
    by (rule dispatch_total) (use assms ok False in \<open>simp_all add: entry_ok_def env_ok_def\<close>)
  with False show ?thesis by (simp add: table_lcall7_def)
qed

lemma call_total:
  assumes "length stk = 8" "env_ok env" "env_total env" "errs_ok m"
  shows "\<exists>m'. table_lcall7 env stk table sysno off m = Some m' \<and> errs_ok m'"
  by (rule entry_total) (use assms in \<open>simp_all add: env_total_def\<close>)

end

section \<open>Signal arrays\<close>

text \<open>
  \<open>to_linux\<close> maps the domain's signal numbers to Linux', \<open>from_linux\<close> the other way.
\<close>

locale sig_maps =
  fixes to_linux :: "int list" and from_linux :: "int list"
  assumes to_ok: "sigtab_ok to_linux" and from_ok: "sigtab_ok from_linux"
begin

lemma to_kernel_bits:
  "\<exists>s. map_sigvec_to_kernel vec to_linux = Some s \<and>
     (\<forall>b. bit s b \<longleftrightarrow> (\<exists>i. 1 \<le> i \<and> i \<le> 32 \<and> bit vec (i - 1) \<and> to_linux ! i = int b + 1))"
proof -
  from map_bitvec_bits [OF to_ok, of vec] obtain r where r: "map_bitvec vec to_linux = Some r"
    "\<forall>b. bit r b \<longleftrightarrow> (\<exists>i. 1 \<le> i \<and> i \<le> 32 \<and> bit vec (i - 1) \<and> to_linux ! i = int b + 1)" by blast
  then have "map_sigvec_to_kernel vec to_linux = Some (ucast r)"
    by (simp add: map_sigvec_to_kernel_eq [OF to_ok])
  moreover have "bit (ucast r :: u64) b \<longleftrightarrow> bit r b" for b
    by (auto simp: bit_simps dest: bit_imp_le_length)
  ultimately show ?thesis using r(2) by auto
qed

lemma from_kernel_bits:
  "\<exists>r. map_sigvec_from_kernel ksig from_linux = Some r \<and>
     (\<forall>b. bit r b \<longleftrightarrow> (\<exists>i. 1 \<le> i \<and> i \<le> 32 \<and> bit ksig (i - 1) \<and> from_linux ! i = int b + 1))"
proof -
  have "bit (ucast ksig :: u32) (i - 1) \<longleftrightarrow> bit ksig (i - 1)" if "1 \<le> i" "i \<le> 32" for i
    using that by (auto simp: bit_simps)
  with map_bitvec_bits [OF from_ok, of "ucast ksig"] show ?thesis
    unfolding map_sigvec_from_kernel_eq by (auto cong: conj_cong)
qed

end

section \<open>Personalities\<close>

locale personality = sys_table table + value_map errs
  for table :: "sysent list" and errs :: "map_segment list" +
  fixes dom :: "nat \<Rightarrow> exec_domain"
  assumes dom_errs: "err_map (dom p) = Some errs"
    and dom_sigs: "sigtab_ok (signal_map (dom p))" "sigtab_ok (signal_invmap (dom p))"
begin

lemma dom_errs_ok: "cur_ed m = dom p \<Longrightarrow> errs_ok m"
  using tab_ok dom_errs by (simp add: errs_ok_def)

lemma bad_number:
  "cur_ed m = dom p \<Longrightarrow> length table \<le> unat sysno \<Longrightarrow>
   table_lcall7 env stk table sysno off m = Some (m\<lparr>regs := set_error (regs m) 1\<rparr>)"
  by (simp add: table_lcall7_def iABI_errors_def dom_errs value_negative)

lemma unimplemented:
  assumes "length stk = 8" "env_ok env" "cfg_trace env \<longrightarrow> log_blind env"
    "cur_ed m = dom p" "unat sysno < length table"
    "se_syscall (table ! unat sysno) = None" "map_value (Some errs) ENOSYS 1 = Some e"
  shows "map_option untraced (table_lcall7 env stk table sysno off m) =
    Some (untraced (m\<lparr>regs := set_error (regs m) e\<rparr>))"
  unfolding call_refines [OF assms(1-3)] using assms(4-7)
  by (simp add: table_spec_def syscall_spec_def reply_def answer_def iABI_errors_def dom_errs)

end

sublocale personality \<subseteq> sigs: sig_maps "signal_map (dom p)" "signal_invmap (dom p)" for p
  by unfold_locales (rule dom_sigs)+

end
