(* ===== verification/Cxenix_Sysent.thy ===== *)
theory Cxenix_Sysent
  imports Abi_Contract
begin

text \<open>
  \<^verbatim>\<open>abi/cxenix/sysent.c\<close>: the second-level table of the Xenix calls that OpenServer multiplexes on
  system call 40, selected by the bytes above the low byte of \<open>eax\<close>.
\<close>

definition cxenix_table :: "sysent list" where [abi_consts]:
  "cxenix_table =
    [Sysent None Ukn ''syscall'' '''',
     Sysent (Some ''xnx_locking'') 3 ''locking'' ''ddd'',
     Sysent (Some ''xnx_creatsem'') 2 ''creatsem'' ''sd'',
     Sysent (Some ''xnx_opensem'') 1 ''opensem'' ''s'',
     Sysent (Some ''xnx_sigsem'') 1 ''sigsem'' ''d'',
     Sysent (Some ''xnx_waitsem'') 1 ''waitsem'' ''d'',
     Sysent (Some ''xnx_nbwaitsem'') 1 ''nbwaitsem'' ''d'',
     Sysent (Some ''xnx_rdchk'') 1 ''rdchk'' ''d'',
     Sysent None Ukn ''stkgro'' '''',
     Sysent None Ukn ''?'' '''',
     Sysent (Some ''sys_ftruncate'') 2 ''chsize'' ''dd'',
     Sysent (Some ''xnx_ftime'') 1 ''ftime'' ''x'',
     Sysent (Some ''xnx_nap'') 1 ''nap'' ''d'',
     Sysent (Some ''xnx_sdget'') 4 ''sdget'' ''sddd'',
     Sysent (Some ''xnx_sdfree'') 1 ''sdfree'' ''x'',
     Sysent (Some ''xnx_sdenter'') 2 ''sdenter'' ''xd'',
     Sysent (Some ''xnx_sdleave'') 1 ''sdleave'' ''x'',
     Sysent (Some ''xnx_sdgetv'') 1 ''sdgetv'' ''x'',
     Sysent (Some ''xnx_sdwaitv'') 2 ''sdwaitv'' ''xd'',
     Sysent None Ukn ''brkctl'' '''',
     Sysent None Ukn ''?'' '''',
     Sysent None 2 ''sco-getcwd?'' ''dx'',
     Sysent None Ukn ''?'' '''',
     Sysent None Ukn ''?'' '''',
     Sysent None Ukn ''?'' '''',
     Sysent None Ukn ''?'' '''',
     Sysent None Ukn ''?'' '''',
     Sysent None Ukn ''?'' '''',
     Sysent None Ukn ''?'' '''',
     Sysent None Ukn ''?'' '''',
     Sysent None Ukn ''?'' '''',
     Sysent None Ukn ''?'' '''',
     Sysent (Some ''xnx_proctl'') 3 ''proctl'' ''ddx'',
     Sysent (Some ''xnx_execseg'') 2 ''execseg'' ''xd'',
     Sysent (Some ''xnx_unexecseg'') 1 ''unexecseg'' ''x'',
     Sysent None Ukn ''?'' '''',
     Sysent (Some ''sys_select'') 5 ''select'' ''dxxxx'',
     Sysent (Some ''xnx_eaccess'') 2 ''eaccess'' ''so'',
     Sysent (Some ''xnx_paccess'') 5 ''paccess'' ''dddds'',
     Sysent (Some ''xnx_sigaction'') 3 ''sigaction'' ''dxx'',
     Sysent (Some ''abi_sigprocmask'') 3 ''sigprocmask'' ''dxx'',
     Sysent (Some ''xnx_sigpending'') 1 ''sigpending'' ''x'',
     Sysent (Some ''abi_sigsuspend'') Spl ''sigsuspend'' ''x'',
     Sysent (Some ''sys_getgroups16'') 2 ''getgroups'' ''dx'',
     Sysent (Some ''sys_setgroups16'') 2 ''setgroups'' ''dx'',
     Sysent (Some ''ibcs_sysconf'') 1 ''sysconf'' ''d'',
     Sysent (Some ''xnx_pathconf'') 2 ''pathconf'' ''sd'',
     Sysent (Some ''xnx_fpathconf'') 2 ''fpathconf'' ''dd'',
     Sysent (Some ''sys_rename'') 2 ''rename'' ''ss'',
     Sysent None Ukn ''?'' '''',
     Sysent (Some ''xnx_utsname'') 1 ''utsname'' ''x'',
     Sysent None Ukn ''?'' '''',
     Sysent None Ukn ''?'' '''',
     Sysent None Ukn ''?'' '''',
     Sysent None Ukn ''?'' '''',
     Sysent (Some ''sys_getitimer'') 2 ''getitimer'' ''dx'',
     Sysent (Some ''sys_setitimer'') 3 ''setitimer'' ''dxx'']"

text \<open>\<^verbatim>\<open>regs->eax >> 8\<close> shifts a signed register.\<close>

definition cxenix :: "'k sysenv \<Rightarrow> u32 list \<Rightarrow> 'k mach \<Rightarrow> 'k mach option" where
  "cxenix env stk m = table_lcall7 env stk cxenix_table (signed_drop_bit 8 (eax (regs m))) 1 m"

lemma cxenix_table_ok: "list_all entry_ok cxenix_table"
  by (simp add: cxenix_table_def entry_ok_simps)

interpretation cxenix: sys_table cxenix_table
  by unfold_locales (rule cxenix_table_ok)

end
