(* ===== verification/Abi_Signo.thy ===== *)
theory Abi_Signo
  imports Abi_Prelude
begin

text \<open>
  The signal numbers of the emulated systems (\<^verbatim>\<open>include/abi/signal.h\<close>, \<^verbatim>\<open>include/abi/sco/signal.h\<close>)
  and the socket options Linux does not define (\<^verbatim>\<open>include/abi/util/socket.h\<close>).
\<close>

definition NSIGNALS :: nat where [abi_consts]: "NSIGNALS = 32"
abbreviation (input) IBCS_SIGHUP :: int where "IBCS_SIGHUP \<equiv> 1"
abbreviation (input) IBCS_SIGINT :: int where "IBCS_SIGINT \<equiv> 2"
abbreviation (input) IBCS_SIGQUIT :: int where "IBCS_SIGQUIT \<equiv> 3"
abbreviation (input) IBCS_SIGILL :: int where "IBCS_SIGILL \<equiv> 4"
abbreviation (input) IBCS_SIGTRAP :: int where "IBCS_SIGTRAP \<equiv> 5"
abbreviation (input) IBCS_SIGIOT :: int where "IBCS_SIGIOT \<equiv> 6"
abbreviation (input) IBCS_SIGABRT :: int where "IBCS_SIGABRT \<equiv> 6"
abbreviation (input) IBCS_SIGEMT :: int where "IBCS_SIGEMT \<equiv> 7"
abbreviation (input) IBCS_SIGFPE :: int where "IBCS_SIGFPE \<equiv> 8"
abbreviation (input) IBCS_SIGKILL :: int where "IBCS_SIGKILL \<equiv> 9"
abbreviation (input) IBCS_SIGBUS :: int where "IBCS_SIGBUS \<equiv> 10"
abbreviation (input) IBCS_SIGSEGV :: int where "IBCS_SIGSEGV \<equiv> 11"
abbreviation (input) IBCS_SIGSYS :: int where "IBCS_SIGSYS \<equiv> 12"
abbreviation (input) IBCS_SIGPIPE :: int where "IBCS_SIGPIPE \<equiv> 13"
abbreviation (input) IBCS_SIGALRM :: int where "IBCS_SIGALRM \<equiv> 14"
abbreviation (input) IBCS_SIGTERM :: int where "IBCS_SIGTERM \<equiv> 15"
abbreviation (input) IBCS_SIGUSR1 :: int where "IBCS_SIGUSR1 \<equiv> 16"
abbreviation (input) IBCS_SIGUSR2 :: int where "IBCS_SIGUSR2 \<equiv> 17"
abbreviation (input) IBCS_SIGCLD :: int where "IBCS_SIGCLD \<equiv> 18"
abbreviation (input) IBCS_SIGCHLD :: int where "IBCS_SIGCHLD \<equiv> 18"
abbreviation (input) IBCS_SIGPWR :: int where "IBCS_SIGPWR \<equiv> 19"
abbreviation (input) IBCS_SIGWINCH :: int where "IBCS_SIGWINCH \<equiv> 20"
abbreviation (input) IBCS_SIGURG :: int where "IBCS_SIGURG \<equiv> 21"
abbreviation (input) IBCS_SIGPOLL :: int where "IBCS_SIGPOLL \<equiv> 22"
abbreviation (input) IBCS_SIGIO :: int where "IBCS_SIGIO \<equiv> 22"
abbreviation (input) IBCS_SIGSTOP :: int where "IBCS_SIGSTOP \<equiv> 23"
abbreviation (input) IBCS_SIGTSTP :: int where "IBCS_SIGTSTP \<equiv> 24"
abbreviation (input) IBCS_SIGCONT :: int where "IBCS_SIGCONT \<equiv> 25"
abbreviation (input) IBCS_SIGTTIN :: int where "IBCS_SIGTTIN \<equiv> 26"
abbreviation (input) IBCS_SIGTTOU :: int where "IBCS_SIGTTOU \<equiv> 27"
abbreviation (input) IBCS_SIGVTALRM :: int where "IBCS_SIGVTALRM \<equiv> 28"
abbreviation (input) IBCS_SIGPROF :: int where "IBCS_SIGPROF \<equiv> 29"
abbreviation (input) IBCS_SIGGXCPU :: int where "IBCS_SIGGXCPU \<equiv> 30"
abbreviation (input) IBCS_SIGGXFSZ :: int where "IBCS_SIGGXFSZ \<equiv> 31"
abbreviation (input) ISC_SIGSTOP :: int where "ISC_SIGSTOP \<equiv> 24"
abbreviation (input) ISC_SIGTSTP :: int where "ISC_SIGTSTP \<equiv> 25"
abbreviation (input) ISC_SIGCONT :: int where "ISC_SIGCONT \<equiv> 23"
abbreviation (input) SCO_SIGHUP :: int where "SCO_SIGHUP \<equiv> 1"
abbreviation (input) SCO_SIGINT :: int where "SCO_SIGINT \<equiv> 2"
abbreviation (input) SCO_SIGQUIT :: int where "SCO_SIGQUIT \<equiv> 3"
abbreviation (input) SCO_SIGILL :: int where "SCO_SIGILL \<equiv> 4"
abbreviation (input) SCO_SIGTRAP :: int where "SCO_SIGTRAP \<equiv> 5"
abbreviation (input) SCO_SIGIOT :: int where "SCO_SIGIOT \<equiv> 6"
abbreviation (input) SCO_SIGABRT :: int where "SCO_SIGABRT \<equiv> 6"
abbreviation (input) SCO_SIGEMT :: int where "SCO_SIGEMT \<equiv> 7"
abbreviation (input) SCO_SIGFPE :: int where "SCO_SIGFPE \<equiv> 8"
abbreviation (input) SCO_SIGKILL :: int where "SCO_SIGKILL \<equiv> 9"
abbreviation (input) SCO_SIGBUS :: int where "SCO_SIGBUS \<equiv> 10"
abbreviation (input) SCO_SIGSEGV :: int where "SCO_SIGSEGV \<equiv> 11"
abbreviation (input) SCO_SIGSYS :: int where "SCO_SIGSYS \<equiv> 12"
abbreviation (input) SCO_SIGPIPE :: int where "SCO_SIGPIPE \<equiv> 13"
abbreviation (input) SCO_SIGALRM :: int where "SCO_SIGALRM \<equiv> 14"
abbreviation (input) SCO_SIGTERM :: int where "SCO_SIGTERM \<equiv> 15"
abbreviation (input) SCO_SIGUSR1 :: int where "SCO_SIGUSR1 \<equiv> 16"
abbreviation (input) SCO_SIGUSR2 :: int where "SCO_SIGUSR2 \<equiv> 17"
abbreviation (input) SCO_SIGCLD :: int where "SCO_SIGCLD \<equiv> 18"
abbreviation (input) SCO_SIGPWR :: int where "SCO_SIGPWR \<equiv> 19"
abbreviation (input) SCO_SIGWINCH :: int where "SCO_SIGWINCH \<equiv> 20"
abbreviation (input) SCO_SIGURG :: int where "SCO_SIGURG \<equiv> 21"
abbreviation (input) SCO_SIGPOLL :: int where "SCO_SIGPOLL \<equiv> 22"
abbreviation (input) SCO_SIGSTOP :: int where "SCO_SIGSTOP \<equiv> 23"
abbreviation (input) SCO_SIGTSTP :: int where "SCO_SIGTSTP \<equiv> 24"
abbreviation (input) SCO_SIGCONT :: int where "SCO_SIGCONT \<equiv> 25"
abbreviation (input) SCO_SIGTTIN :: int where "SCO_SIGTTIN \<equiv> 26"
abbreviation (input) SCO_SIGTTOU :: int where "SCO_SIGTTOU \<equiv> 27"
abbreviation (input) SCO_SIGVTALRM :: int where "SCO_SIGVTALRM \<equiv> 28"
abbreviation (input) SCO_SIGPROF :: int where "SCO_SIGPROF \<equiv> 29"
abbreviation (input) SCO_SIGXCPU :: int where "SCO_SIGXCPU \<equiv> 30"
abbreviation (input) SCO_SIGXFSZ :: int where "SCO_SIGXFSZ \<equiv> 31"
abbreviation (input) SO_USELOOPBACK :: int where "SO_USELOOPBACK \<equiv> 0xff02"
abbreviation (input) SO_ORDREL :: int where "SO_ORDREL \<equiv> 0xff03"
abbreviation (input) SO_IMASOCKET :: int where "SO_IMASOCKET \<equiv> 0xff04"
abbreviation (input) SO_PROTOTYPE :: int where "SO_PROTOTYPE \<equiv> 0xff09"

end
