(* ===== verification/Sco_Sysent.thy ===== *)
theory Sco_Sysent
  imports Abi_Contract Abi_Signo
begin

text \<open>
  \<^verbatim>\<open>abi/sco/sysent.c\<close>: the OpenServer and Xenix personalities.  Error, signal and socket numbers,
  the system call table, the handler, the two execution domains and the module's load and unload.
\<close>

section \<open>Number translation\<close>

definition sco_err_table :: "u8 list" where [abi_consts]:
  "sco_err_table =
    [0, 1, 2, 3, 4, 5, 6, 7, 8, 9, 10, 11, 12, 13, 14, 15, 16, 17, 18, 19, 20, 21, 22, 23, 24,
     25, 26, 27, 28, 29, 30, 31, 32, 33, 34, 45, 78, 46, 89, 145, 150, 90, 35, 36, 37, 38, 39,
     40, 41, 42, 43, 44, 50, 51, 52, 53, 54, 55, 56, 57, 60, 61, 62, 63, 64, 65, 66, 67, 68,
     69, 70, 71, 74, 76, 77, 79, 80, 81, 82, 83, 84, 85, 86, 87, 88, 152, 153, 22, 93, 94, 95,
     96, 118, 97, 98, 99, 100, 101, 102, 103, 104, 105, 106, 107, 108, 63, 110, 111, 112, 113,
     114, 115, 116, 117, 92, 91, 151, 135, 137, 138, 139, 140, 28]"

definition sco_lnx_err_table :: "u8 list" where [abi_consts]:
  "sco_lnx_err_table = [word_of_int EINTR, word_of_int EINTR, word_of_int EINTR]"

definition sco_err_map :: "map_segment list" where [abi_consts]:
  "sco_err_map =
    [Seg 0 (0 + int (length sco_err_table) - 1) (Vec sco_err_table),
     Seg 512 (512 + int (length sco_lnx_err_table) - 1) (Vec sco_lnx_err_table),
     SegEnd]"

definition SCO__SIGSTKFLT :: int where [abi_consts]: "SCO__SIGSTKFLT = SCO_SIGTERM"

definition linux_to_sco_signals :: "int list" where [abi_consts]:
  "linux_to_sco_signals =
    [0, SCO_SIGHUP, SCO_SIGINT, SCO_SIGQUIT, SCO_SIGILL, SCO_SIGTRAP, SCO_SIGABRT, SCO_SIGBUS,
     SCO_SIGFPE, SCO_SIGKILL, SCO_SIGUSR1, SCO_SIGSEGV, SCO_SIGUSR2, SCO_SIGPIPE, SCO_SIGALRM,
     SCO_SIGTERM, SCO__SIGSTKFLT, SCO_SIGCLD, SCO_SIGCONT, SCO_SIGSTOP, SCO_SIGTSTP,
     SCO_SIGTTIN, SCO_SIGTTOU, SCO_SIGURG, SCO_SIGXCPU, SCO_SIGXFSZ, SCO_SIGVTALRM,
     SCO_SIGPROF, SCO_SIGWINCH, SCO_SIGPOLL, SCO_SIGPWR, SCO_SIGSYS, -1]"

definition linux_to_xenix_signals :: "int list" where [abi_consts]:
  "linux_to_xenix_signals =
    [0, IBCS_SIGHUP, IBCS_SIGINT, IBCS_SIGQUIT, IBCS_SIGILL, IBCS_SIGTRAP, IBCS_SIGABRT, -1,
     IBCS_SIGFPE, IBCS_SIGKILL, IBCS_SIGUSR1, IBCS_SIGSEGV, IBCS_SIGUSR2, IBCS_SIGPIPE,
     IBCS_SIGALRM, IBCS_SIGTERM, IBCS_SIGSEGV, IBCS_SIGCHLD, IBCS_SIGCONT, IBCS_SIGSTOP,
     IBCS_SIGTSTP, IBCS_SIGTTIN, IBCS_SIGTTOU, IBCS_SIGUSR1, IBCS_SIGGXCPU, IBCS_SIGGXFSZ,
     IBCS_SIGVTALRM, IBCS_SIGPROF, IBCS_SIGWINCH, 20, IBCS_SIGPWR, -1, -1]"

definition sco_to_linux_signals :: "int list" where [abi_consts]:
  "sco_to_linux_signals =
    [0, SIGHUP, SIGINT, SIGQUIT, SIGILL, SIGTRAP, SIGIOT, SIGABRT, SIGFPE, SIGKILL, SIGBUS,
     SIGSEGV, SIGSYS, SIGPIPE, SIGALRM, SIGTERM, SIGUSR1, SIGUSR2, SIGCHLD, SIGPWR, SIGWINCH,
     SIGURG, SIGPOLL, SIGSTOP, SIGTSTP, SIGCONT, SIGTTIN, SIGTTOU, SIGVTALRM, SIGPROF, SIGXCPU,
     SIGXFSZ, -1]"

definition xenix_to_linux_signals :: "int list" where [abi_consts]:
  "xenix_to_linux_signals =
    [0, SIGHUP, SIGINT, SIGQUIT, SIGILL, SIGTRAP, SIGIOT, SIGUNUSED, SIGFPE, SIGKILL,
     SIGUNUSED, SIGSEGV, SIGUNUSED, SIGPIPE, SIGALRM, SIGTERM, SIGUSR1, SIGUSR2, SIGCHLD,
     SIGPWR, SIGPOLL, -1, -1, -1, -1, -1, -1, -1, -1, -1, -1, -1, -1]"

definition sco_socktype :: "u8 list" where [abi_consts]:
  "sco_socktype = [SOCK_STREAM, SOCK_DGRAM, 0, SOCK_RAW, SOCK_RDM, SOCK_SEQPACKET]"

definition sco_socktype_map :: "map_segment list" where [abi_consts]:
  "sco_socktype_map = [Seg 1 6 (Vec sco_socktype), SegEnd]"

definition sco_sockopt_map :: "map_segment list" where [abi_consts]:
  "sco_sockopt_map =
    [Seg 0x1 0x1 (Imm SO_DEBUG),
     Seg 0x2 0x2 (Imm SO_ACCEPTCON),
     Seg 0x4 0x4 (Imm SO_REUSEADDR),
     Seg 0x8 0x8 (Imm SO_KEEPALIVE),
     Seg 0x10 0x10 (Imm SO_DONTROUTE),
     Seg 0x20 0x20 (Imm SO_BROADCAST),
     Seg 0x40 0x40 (Imm SO_USELOOPBACK),
     Seg 0x80 0x80 (Imm SO_LINGER),
     Seg 0x100 0x100 (Imm SO_OOBINLINE),
     Seg 0x200 0x200 (Imm SO_ORDREL),
     Seg 0x400 0x400 (Imm SO_IMASOCKET),
     Seg 0x1001 0x1001 (Imm SO_SNDBUF),
     Seg 0x1002 0x1002 (Imm SO_RCVBUF),
     Seg 0x1003 0x1003 (Imm SO_SNDLOWAT),
     Seg 0x1004 0x1004 (Imm SO_RCVLOWAT),
     Seg 0x1005 0x1005 (Imm SO_SNDTIMEO),
     Seg 0x1006 0x1006 (Imm SO_RCVTIMEO),
     Seg 0x1007 0x1007 (Imm SO_ERROR),
     Seg 0x1008 0x1008 (Imm SO_TYPE),
     Seg 0x1009 0x1009 (Imm SO_PROTOTYPE),
     SegEnd]"

definition sco_af_map :: "map_segment list" where [abi_consts]:
  "sco_af_map = [Seg 0 2 Null, SegEnd]"

section \<open>System call tables\<close>

definition sco_syscall_table_0 :: "sysent list" where [abi_consts]:
  "sco_syscall_table_0 =
    [Sysent (Some ''abi_syscall'') Fast ''syscall'' '''',
     Sysent (Some ''sys_exit'') 1 ''exit'' ''d'',
     Sysent (Some ''abi_fork'') Spl ''fork'' '''',
     Sysent (Some ''abi_read'') 3 ''read'' ''dpd'',
     Sysent (Some ''sys_write'') 3 ''write'' ''dpd'',
     Sysent (Some ''svr4_open'') 3 ''open'' ''soo'',
     Sysent (Some ''sys_close'') 1 ''close'' ''d'',
     Sysent (Some ''abi_wait'') Spl ''wait'' ''xxx'',
     Sysent (Some ''sys_creat'') 2 ''creat'' ''so'',
     Sysent (Some ''sys_link'') 2 ''link'' ''ss'',
     Sysent (Some ''sys_unlink'') 1 ''unlink'' ''s'',
     Sysent (Some ''abi_exec'') Spl ''exec'' ''sxx'',
     Sysent (Some ''sys_chdir'') 1 ''chdir'' ''s'',
     Sysent (Some ''abi_time'') 0 ''time'' '''',
     Sysent (Some ''svr4_mknod'') 3 ''mknod'' ''soo'',
     Sysent (Some ''sys_chmod'') 2 ''chmod'' ''so'',
     Sysent (Some ''sys_chown'') 3 ''chown'' ''sdd'',
     Sysent (Some ''abi_brk'') 1 ''brk/break'' ''x'',
     Sysent (Some ''svr4_stat'') 2 ''stat'' ''sp'',
     Sysent (Some ''sco_lseek'') 3 ''seek/lseek'' ''ddd'',
     Sysent (Some ''abi_getpid'') Spl ''getpid'' '''',
     Sysent None Ukn ''mount'' '''',
     Sysent (Some ''sys_umount'') 1 ''umount'' ''s'',
     Sysent (Some ''sys_setuid'') 1 ''setuid'' ''d'',
     Sysent (Some ''abi_getuid'') Spl ''getuid'' '''',
     Sysent (Some ''sys_stime'') 1 ''stime'' ''d'',
     Sysent (Some ''sco_ptrace'') 4 ''ptrace'' ''xdxx'',
     Sysent (Some ''sys_alarm'') 1 ''alarm'' ''d'',
     Sysent (Some ''svr4_fstat'') 2 ''fstat'' ''dp'',
     Sysent (Some ''sys_pause'') 0 ''pause'' '''',
     Sysent (Some ''sys_utime'') 2 ''utime'' ''xx'',
     Sysent None Ukn ''stty'' '''',
     Sysent None Ukn ''gtty'' '''',
     Sysent (Some ''sys_access'') 2 ''access'' ''so'',
     Sysent (Some ''sys_nice'') 1 ''nice'' ''d'',
     Sysent (Some ''svr4_statfs'') 4 ''statfs'' ''spdd'',
     Sysent (Some ''sys_sync'') 0 ''sync'' '''',
     Sysent (Some ''abi_kill'') 2 ''kill'' ''dd'',
     Sysent (Some ''svr4_fstatfs'') 4 ''fstatfs'' ''dpdd'',
     Sysent (Some ''abi_procids'') Spl ''procids'' ''d'',
     Sysent (Some ''cxenix'') Fast ''cxenix'' '''',
     Sysent (Some ''sys_dup'') 1 ''dup'' ''d'',
     Sysent (Some ''abi_pipe'') Spl ''pipe'' '''',
     Sysent (Some ''sys_times'') 1 ''times'' ''p'',
     Sysent None Ukn ''prof'' '''',
     Sysent None Ukn ''lock/plock'' '''',
     Sysent (Some ''sys_setgid'') 1 ''setgid'' ''d'',
     Sysent (Some ''abi_getgid'') Spl ''getgid'' '''',
     Sysent (Some ''abi_sigfunc'') Fast ''sigfunc'' ''xxx'',
     Sysent (Some ''svr4_msgsys'') Spl ''msgsys'' ''dxddd'',
     Sysent (Some ''sco_sysi86'') 3 ''sysi86/sys3b'' ''d'',
     Sysent (Some ''sys_acct'') 1 ''acct/sysacct'' ''x'',
     Sysent (Some ''svr4_shmsys'') Fast ''shmsys'' ''ddxo'',
     Sysent (Some ''svr4_semsys'') Spl ''semsys'' ''dddx'',
     Sysent (Some ''sco_ioctl'') Spl ''ioctl'' ''dxx'',
     Sysent None 3 ''uadmin'' ''xxx'',
     Sysent None Ukn ''?'' '''',
     Sysent (Some ''v7_utsname'') 1 ''utsys'' ''x'',
     Sysent (Some ''sys_fsync'') 1 ''fsync'' ''d'',
     Sysent (Some ''abi_exec'') Spl ''execv'' ''spp'',
     Sysent (Some ''sys_umask'') 1 ''umask'' ''o'',
     Sysent (Some ''sys_chroot'') 1 ''chroot'' ''s'',
     Sysent (Some ''sco_fcntl'') 3 ''fcntl'' ''dxx'',
     Sysent (Some ''svr4_ulimit'') 2 ''ulimit'' ''xx'',
     Sysent None Ukn ''?'' '''',
     Sysent None Ukn ''?'' '''',
     Sysent None Ukn ''?'' '''',
     Sysent None Ukn ''?'' '''',
     Sysent None Ukn ''?'' '''',
     Sysent None Ukn ''?'' '''',
     Sysent None Ukn ''advfs'' '''',
     Sysent None Ukn ''unadvfs'' '''',
     Sysent None Ukn ''rmount'' '''',
     Sysent None Ukn ''rumount'' '''',
     Sysent None Ukn ''rfstart'' '''',
     Sysent None Ukn ''?'' '''',
     Sysent None Ukn ''rdebug'' '''',
     Sysent None Ukn ''rfstop'' '''',
     Sysent None Ukn ''rfsys'' '''',
     Sysent (Some ''sys_rmdir'') 1 ''rmdir'' ''s'',
     Sysent (Some ''abi_mkdir'') 2 ''mkdir'' ''so'',
     Sysent (Some ''svr4_getdents'') 3 ''getdents'' ''dxd'',
     Sysent None Ukn ''libattach'' '''',
     Sysent None Ukn ''libdetach'' '''',
     Sysent (Some ''svr4_sysfs'') 3 ''sysfs'' ''dxx'',
     Sysent (Some ''svr4_getmsg'') Spl ''getmsg'' ''dxxx'',
     Sysent (Some ''svr4_putmsg'') Spl ''putmsg'' ''dxxd'',
     Sysent (Some ''sys_poll'') 3 ''poll'' ''xdd'',
     Sysent None Ukn ''nosys88'' '''',
     Sysent (Some ''sw_security'') 6 ''security'' ''dxxxxx'',
     Sysent (Some ''sys_symlink'') 2 ''symlink'' ''ss'',
     Sysent (Some ''svr4_lstat'') 2 ''lstat'' ''sp'',
     Sysent (Some ''sys_readlink'') 3 ''readlink'' ''spd'',
     Sysent None Ukn ''?'' '''',
     Sysent None Ukn ''?'' '''',
     Sysent (Some ''abi_sigprocmask'') 3 ''sigprocmask'' ''dxx'',
     Sysent (Some ''abi_sigsuspend'') Spl ''sigsuspend'' ''x'',
     Sysent None 2 ''sigaltstack'' ''xx'',
     Sysent (Some ''abi_sigaction'') 3 ''sigaction'' ''dxx'',
     Sysent (Some ''svr4_sigpending'') 2 ''sigpending'' ''dp'']"

definition sco_syscall_table_1 :: "sysent list" where [abi_consts]:
  "sco_syscall_table_1 =
    [Sysent (Some ''svr4_context'') Spl ''context'' '''',
     Sysent None Ukn ''evsys'' '''',
     Sysent None Ukn ''evtrapret'' '''',
     Sysent (Some ''sco_statvfs'') 2 ''statvfs'' ''sp'',
     Sysent (Some ''sco_fstatvfs'') 2 ''fstatvfs'' ''dp'',
     Sysent None Ukn ''unimp (sysisc)'' '''',
     Sysent None Ukn ''nfssys'' '''',
     Sysent None 4 ''waitid'' ''ddxd'',
     Sysent None 3 ''sigsendsys'' ''ddd'',
     Sysent (Some ''svr4_hrtsys'') Spl ''hrtsys'' ''xxx'',
     Sysent None 3 ''acancel'' ''dxd'',
     Sysent None Ukn ''async'' '''',
     Sysent None Ukn ''priocntlsys'' '''',
     Sysent (Some ''svr4_pathconf'') 2 ''pathconf'' ''sd'',
     Sysent (Some ''sys_mincore'') 3 ''mincore'' ''xdx'',
     Sysent (Some ''sco_mmap'') 6 ''mmap'' ''xxxxdx'',
     Sysent (Some ''sys_mprotect'') 3 ''mprotect'' ''xdx'',
     Sysent (Some ''sys_munmap'') 2 ''munmap'' ''xd'',
     Sysent (Some ''svr4_fpathconf'') 2 ''fpathconf'' ''dd'',
     Sysent (Some ''abi_fork'') Spl ''vfork'' '''',
     Sysent (Some ''sys_fchdir'') 1 ''fchdir'' ''d'',
     Sysent (Some ''sys_readv'') 3 ''readv'' ''dxd'',
     Sysent (Some ''sys_writev'') 3 ''writev'' ''dxd'',
     Sysent (Some ''sco_xstat'') 3 ''xstat'' ''dsx'',
     Sysent (Some ''sco_lxstat'') 3 ''lxstat'' ''dsx'',
     Sysent (Some ''sco_fxstat'') 3 ''fxstat'' ''ddx'',
     Sysent (Some ''svr4_xmknod'') 4 ''xmknod'' ''dsox'',
     Sysent None Ukn ''syslocal'' ''d'',
     Sysent (Some ''svr4_getrlimit'') 2 ''setrlimit'' ''dx'',
     Sysent (Some ''svr4_setrlimit'') 2 ''getrlimit'' ''dx'',
     Sysent None Ukn ''?'' '''',
     Sysent None Ukn ''?'' '''',
     Sysent None Ukn ''?'' '''',
     Sysent None Ukn ''?'' '''',
     Sysent None Ukn ''?'' '''',
     Sysent None Ukn ''?'' '''',
     Sysent None Ukn ''?'' '''',
     Sysent None Ukn ''?'' '''',
     Sysent None Ukn ''?'' '''',
     Sysent None Ukn ''?'' '''',
     Sysent (Some ''socksys_syscall'') 1 ''socksys'' ''x'',
     Sysent None Ukn ''?'' '''',
     Sysent None Ukn ''?'' '''',
     Sysent None Ukn ''?'' '''',
     Sysent None 2 ''uw7-secsys'' ''dx'',
     Sysent None 4 ''uw7-filepriv'' ''sdxd'',
     Sysent None 3 ''uw7-procpriv'' ''dxd'',
     Sysent None Ukn ''?'' '''',
     Sysent None Ukn ''?'' '''',
     Sysent None Ukn ''?'' '''',
     Sysent None Ukn ''?'' '''',
     Sysent None Ukn ''?'' '''',
     Sysent None Ukn ''?'' '''',
     Sysent None Ukn ''?'' '''',
     Sysent None Ukn ''?'' '''',
     Sysent None Ukn ''?'' '''',
     Sysent None Ukn ''?'' '''',
     Sysent None Ukn ''?'' '''',
     Sysent None Ukn ''?'' '''',
     Sysent None Ukn ''?'' '''',
     Sysent None Ukn ''?'' '''',
     Sysent None Ukn ''?'' '''',
     Sysent None Ukn ''?'' '''',
     Sysent None Ukn ''?'' '''',
     Sysent None Ukn ''?'' '''',
     Sysent None Ukn ''?'' '''',
     Sysent None Ukn ''?'' '''',
     Sysent None Ukn ''?'' '''',
     Sysent None Ukn ''?'' '''',
     Sysent None Ukn ''?'' '''',
     Sysent None Ukn ''?'' '''',
     Sysent (Some ''sys_gettimeofday'') 2 ''gettimeofday'' ''xx'',
     Sysent (Some ''sys_settimeofday'') 2 ''settimeofday'' ''xx'']"

definition sco_syscall_table :: "sysent list" where [abi_consts]:
  "sco_syscall_table = sco_syscall_table_0 @ sco_syscall_table_1"

section \<open>Handlers\<close>

definition sco_lcall7 :: "'k sysenv \<Rightarrow> u32 list \<Rightarrow> int \<Rightarrow> 'k mach \<Rightarrow> 'k mach option" where
  "sco_lcall7 env stk segment m =
     table_lcall7 env stk sco_syscall_table (eax (regs m) AND 0xff) 1 m"

definition sco_exec_domain :: "nat \<Rightarrow> exec_domain" where
  "sco_exec_domain this_module =
     \<lparr>ed_name = ''OpenServer'', ed_handler = ''sco_lcall7'',
      pers_low = 3, pers_high = 3,
      signal_map = sco_to_linux_signals, signal_invmap = linux_to_sco_signals,
      err_map = Some sco_err_map, socktype_map = Some sco_socktype_map,
      sockopt_map = Some sco_sockopt_map, af_map = Some sco_af_map,
      ed_module = this_module, ed_next = 0\<rparr>"

definition xenix_exec_domain :: "nat \<Rightarrow> exec_domain" where
  "xenix_exec_domain this_module =
     \<lparr>ed_name = ''Xenix'', ed_handler = ''sco_lcall7'',
      pers_low = 7, pers_high = 7,
      signal_map = xenix_to_linux_signals, signal_invmap = linux_to_xenix_signals,
      err_map = Some sco_err_map, socktype_map = Some sco_socktype_map,
      sockopt_map = Some sco_sockopt_map, af_map = Some sco_af_map,
      ed_module = this_module, ed_next = 0\<rparr>"

text \<open>
  Module load and unload; \<open>p\<close> and \<open>q\<close> are the addresses of the OpenServer and the Xenix domain.
\<close>

definition sco_module_init :: "nat \<Rightarrow> nat \<Rightarrow> 'k edst \<Rightarrow> (int \<times> 'k edst) option" where
  "sco_module_init p q s =
     Option.bind (register_exec_domain p s) (\<lambda>(err, s).
       if err \<noteq> 0 then Some (err, s)
       else Option.bind (register_exec_domain q s) (\<lambda>(err, s).
         if err \<noteq> 0 then map_option (\<lambda>(_, s). (err, s)) (unregister_exec_domain p s)
         else Some (err, s)))"

definition sco_module_exit :: "nat \<Rightarrow> nat \<Rightarrow> 'k edst \<Rightarrow> 'k edst option" where
  "sco_module_exit p q s =
     Option.bind (unregister_exec_domain q s)
       (\<lambda>(_, s). map_option snd (unregister_exec_domain p s))"

lemmas sco_maps = sco_err_table_def sco_lnx_err_table_def sco_err_map_def sco_socktype_def
  sco_socktype_map_def sco_sockopt_map_def sco_af_map_def

lemmas sco_syscall_table_defs = sco_syscall_table_def sco_syscall_table_0_def sco_syscall_table_1_def

section \<open>The contracts hold\<close>

lemma sco_syscall_table_ok: "list_all entry_ok sco_syscall_table"
  by (simp add: sco_syscall_table_defs entry_ok_simps)

lemma sco_err_map_ok: "segs_ok sco_err_map"
  by (simp add: sco_maps seg_ok_def)

lemma sco_signals_ok: "sigtab_ok sco_to_linux_signals" "sigtab_ok linux_to_sco_signals"
  by (simp_all add: sigtab_ok_def abi_consts)

interpretation sco: personality sco_syscall_table sco_err_map sco_exec_domain
  by unfold_locales (simp_all add: sco_syscall_table_ok sco_err_map_ok sco_signals_ok sco_exec_domain_def)

lemma xenix_signals_ok: "sigtab_ok xenix_to_linux_signals" "sigtab_ok linux_to_xenix_signals"
  by (simp_all add: sigtab_ok_def abi_consts)

interpretation xenix: personality sco_syscall_table sco_err_map xenix_exec_domain
  by unfold_locales (simp_all add: sco_syscall_table_ok sco_err_map_ok xenix_signals_ok xenix_exec_domain_def)

interpretation sco_socktype: value_map sco_socktype_map
  by unfold_locales (simp add: sco_maps seg_ok_def)

interpretation sco_sockopt: value_map sco_sockopt_map
  by unfold_locales (simp add: sco_maps seg_ok_def abi_consts)

interpretation sco_af: value_map sco_af_map
  by unfold_locales (simp add: sco_maps seg_ok_def)

end
