(* ===== verification/Wyse_Sysent.thy ===== *)
theory Wyse_Sysent
  imports Abi_Contract Abi_Signo
begin

text \<open>
  \<^verbatim>\<open>abi/wyse/sysent.c\<close>: the Wyse V/386 personality, with its second-level tables for NFS and for
  the socket calls.
\<close>

section \<open>Number translation\<close>

definition wyse_err_table :: "u8 list" where [abi_consts]:
  "wyse_err_table =
    [0, 1, 2, 3, 4, 5, 6, 7, 8, 9, 10, 11, 12, 13, 14, 15, 16, 17, 18, 19, 20, 21, 22, 23, 24,
     25, 26, 27, 28, 29, 30, 31, 32, 33, 34, 45, 78, 46, 228, 46, 22, 231, 227, 200, 37, 38,
     39, 40, 41, 42, 43, 44, 50, 51, 52, 53, 54, 55, 56, 57, 60, 61, 62, 63, 64, 65, 66, 67,
     68, 69, 70, 71, 74, 76, 77, 22, 80, 81, 82, 83, 84, 85, 86, 87, 22, 4, 22, 233, 203, 204,
     205, 206, 207, 208, 209, 210, 211, 212, 213, 214, 215, 216, 217, 218, 219, 220, 221, 222,
     223, 224, 225, 226, 229, 230, 202, 201, 237, 135, 137, 138, 139, 140, 234]"

definition wyse_lnx_err_table :: "u8 list" where [abi_consts]:
  "wyse_lnx_err_table = [word_of_int EINTR, word_of_int EINTR, word_of_int EINTR]"

definition wyse_err_map :: "map_segment list" where [abi_consts]:
  "wyse_err_map =
    [Seg 0 (0 + int (length wyse_err_table) - 1) (Vec wyse_err_table),
     Seg 512 (512 + int (length wyse_lnx_err_table) - 1) (Vec wyse_lnx_err_table),
     SegEnd]"

definition linux_to_wyse_signals :: "int list" where [abi_consts]:
  "linux_to_wyse_signals =
    [0, IBCS_SIGHUP, IBCS_SIGINT, IBCS_SIGQUIT, IBCS_SIGILL, IBCS_SIGTRAP, IBCS_SIGABRT, -1,
     IBCS_SIGFPE, IBCS_SIGKILL, IBCS_SIGUSR1, IBCS_SIGSEGV, IBCS_SIGUSR2, IBCS_SIGPIPE,
     IBCS_SIGALRM, IBCS_SIGTERM, IBCS_SIGSEGV, IBCS_SIGCHLD, IBCS_SIGCONT, IBCS_SIGSTOP,
     IBCS_SIGTSTP, IBCS_SIGTTIN, IBCS_SIGTTOU, IBCS_SIGURG, IBCS_SIGGXCPU, IBCS_SIGGXFSZ,
     IBCS_SIGVTALRM, IBCS_SIGPROF, IBCS_SIGWINCH, IBCS_SIGIO, IBCS_SIGPWR, -1, -1]"

definition wyse_to_linux_signals :: "int list" where [abi_consts]:
  "wyse_to_linux_signals =
    [0, SIGHUP, SIGINT, SIGQUIT, SIGILL, SIGTRAP, SIGIOT, SIGUNUSED, SIGFPE, SIGKILL,
     SIGUNUSED, SIGSEGV, SIGUNUSED, SIGPIPE, SIGALRM, SIGTERM, SIGUSR1, SIGUSR2, SIGCHLD,
     SIGPWR, SIGWINCH, SIGURG, SIGPOLL, SIGSTOP, SIGTSTP, SIGCONT, SIGTTIN, SIGTTOU, SIGVTALRM,
     SIGPROF, SIGXCPU, SIGXFSZ, -1]"

definition wyse_socktype :: "u8 list" where [abi_consts]:
  "wyse_socktype = [SOCK_STREAM, SOCK_DGRAM, 0, SOCK_RAW, SOCK_RDM, SOCK_SEQPACKET]"

definition wyse_socktype_map :: "map_segment list" where [abi_consts]:
  "wyse_socktype_map = [Seg 1 6 (Vec wyse_socktype), SegEnd]"

definition wyse_sockopt_map :: "map_segment list" where [abi_consts]:
  "wyse_sockopt_map =
    [Seg 0x1 0x1 (Imm SO_DEBUG),
     Seg 0x2 0x2 (Imm SO_ACCEPTCON),
     Seg 0x4 0x4 (Imm SO_REUSEADDR),
     Seg 0x8 0x8 (Imm SO_KEEPALIVE),
     Seg 0x10 0x10 (Imm SO_DONTROUTE),
     Seg 0x20 0x20 (Imm SO_BROADCAST),
     Seg 0x40 0x40 (Imm SO_USELOOPBACK),
     Seg 0x80 0x80 (Imm SO_LINGER),
     Seg 0x100 0x100 (Imm SO_OOBINLINE),
     Seg 0x200 0x200 (Imm SO_ORDREL),
     Seg 0x400 0x400 (Imm SO_IMASOCKET),
     Seg 0x1001 0x1001 (Imm SO_SNDBUF),
     Seg 0x1002 0x1002 (Imm SO_RCVBUF),
     Seg 0x1003 0x1003 (Imm SO_SNDLOWAT),
     Seg 0x1004 0x1004 (Imm SO_RCVLOWAT),
     Seg 0x1005 0x1005 (Imm SO_SNDTIMEO),
     Seg 0x1006 0x1006 (Imm SO_RCVTIMEO),
     Seg 0x1007 0x1007 (Imm SO_ERROR),
     Seg 0x1008 0x1008 (Imm SO_TYPE),
     Seg 0x1009 0x1009 (Imm SO_PROTOTYPE),
     SegEnd]"

definition wyse_af_map :: "map_segment list" where [abi_consts]:
  "wyse_af_map = [Seg 0 2 Null, SegEnd]"

section \<open>System call tables\<close>

definition wyse_nfscall_table :: "sysent list" where [abi_consts]:
  "wyse_nfscall_table =
    [Sysent None Ukn ''nfs_svc'' '''',
     Sysent None Ukn ''async_daemon'' '''',
     Sysent None Ukn ''nfs_getfh'' '''',
     Sysent None Ukn ''nfsmount'' '''']"

definition wyse_tcpcall_table :: "sysent list" where [abi_consts]:
  "wyse_tcpcall_table =
    [Sysent (Some ''sys_select'') 5 ''select'' ''dxxxx'',
     Sysent (Some ''wyse_socket'') 3 ''socket'' ''ddd'',
     Sysent (Some ''sys_connect'') 3 ''connect'' ''dxd'',
     Sysent (Some ''sys_accept'') 3 ''accept'' ''dxx'',
     Sysent (Some ''wyse_send'') 4 ''send'' ''dxdd'',
     Sysent (Some ''wyse_recv'') 4 ''recv'' ''dxdd'',
     Sysent (Some ''sys_bind'') 3 ''bind'' ''dxd'',
     Sysent (Some ''wyse_setsockopt'') 5 ''setsockopt'' ''dddxx'',
     Sysent (Some ''sys_listen'') 2 ''listen'' ''dd'',
     Sysent None 3 ''recvmsg'' ''dxd'',
     Sysent None 3 ''sendmsg'' ''dxd'',
     Sysent (Some ''wyse_getsockopt'') 5 ''getsockopt'' ''dddxx'',
     Sysent (Some ''wyse_recvfrom'') 6 ''recvfrom'' ''dxddxd'',
     Sysent (Some ''wyse_sendto'') 6 ''sendto'' ''dxddxd'',
     Sysent (Some ''sys_shutdown'') 2 ''shutdown'' ''dd'',
     Sysent (Some ''sys_socketpair'') 4 ''socketpair'' ''dddx'',
     Sysent None Ukn ''trace'' '''',
     Sysent (Some ''sys_getpeername'') 3 ''getpeername'' ''dxx'',
     Sysent (Some ''sys_getsockname'') Spl ''getsockname'' ''dxx'',
     Sysent (Some ''wyse_wait3'') 1 ''wait3'' ''x'']"

definition wyse_syscall_table_0 :: "sysent list" where [abi_consts]:
  "wyse_syscall_table_0 =
    [Sysent (Some ''abi_syscall'') Fast ''syscall'' '''',
     Sysent (Some ''sys_exit'') 1 ''exit'' ''d'',
     Sysent (Some ''abi_fork'') Spl ''fork'' '''',
     Sysent (Some ''abi_read'') 3 ''read'' ''dpd'',
     Sysent (Some ''sys_write'') 3 ''write'' ''dpd'',
     Sysent (Some ''svr4_open'') 3 ''open'' ''soo'',
     Sysent (Some ''sys_close'') 1 ''close'' ''d'',
     Sysent (Some ''abi_wait'') Spl ''wait'' ''xxx'',
     Sysent (Some ''sys_creat'') 2 ''creat'' ''so'',
     Sysent (Some ''sys_link'') 2 ''link'' ''ss'',
     Sysent (Some ''sys_unlink'') 1 ''unlink'' ''s'',
     Sysent (Some ''abi_exec'') Spl ''exec'' ''sxx'',
     Sysent (Some ''sys_chdir'') 1 ''chdir'' ''s'',
     Sysent (Some ''abi_time'') 0 ''time'' '''',
     Sysent (Some ''svr4_mknod'') 3 ''mknod'' ''soo'',
     Sysent (Some ''sys_chmod'') 2 ''chmod'' ''so'',
     Sysent (Some ''sys_chown'') 3 ''chown'' ''sdd'',
     Sysent (Some ''abi_brk'') 1 ''brk/break'' ''x'',
     Sysent (Some ''svr4_stat'') 2 ''stat'' ''sp'',
     Sysent (Some ''sys_lseek'') 3 ''seek/lseek'' ''ddd'',
     Sysent (Some ''abi_getpid'') Spl ''getpid'' '''',
     Sysent None Ukn ''mount'' '''',
     Sysent (Some ''sys_umount'') 1 ''umount'' ''s'',
     Sysent (Some ''sys_setuid'') 1 ''setuid'' ''d'',
     Sysent (Some ''abi_getuid'') Spl ''getuid'' '''',
     Sysent (Some ''sys_stime'') 1 ''stime'' ''d'',
     Sysent (Some ''wyse_ptrace'') 4 ''ptrace'' ''xdxx'',
     Sysent (Some ''sys_alarm'') 1 ''alarm'' ''d'',
     Sysent (Some ''svr4_fstat'') 2 ''fstat'' ''dp'',
     Sysent (Some ''sys_pause'') 0 ''pause'' '''',
     Sysent (Some ''sys_utime'') 2 ''utime'' ''xx'',
     Sysent None Ukn ''stty'' '''',
     Sysent None Ukn ''gtty'' '''',
     Sysent (Some ''sys_access'') 2 ''access'' ''so'',
     Sysent (Some ''sys_nice'') 1 ''nice'' ''d'',
     Sysent (Some ''svr4_statfs'') 4 ''statfs'' ''spdd'',
     Sysent (Some ''sys_sync'') 0 ''sync'' '''',
     Sysent (Some ''abi_kill'') 2 ''kill'' ''dd'',
     Sysent (Some ''svr4_fstatfs'') 4 ''fstatfs'' ''dpdd'',
     Sysent (Some ''abi_procids'') Spl ''procids'' ''d'',
     Sysent None Ukn ''cxenix'' '''',
     Sysent (Some ''sys_dup'') 1 ''dup'' ''d'',
     Sysent (Some ''abi_pipe'') Spl ''pipe'' '''',
     Sysent (Some ''sys_times'') 1 ''times'' ''p'',
     Sysent None 4 ''prof'' ''xxxx'',
     Sysent None Ukn ''lock/plock'' '''',
     Sysent (Some ''sys_setgid'') 1 ''setgid'' ''d'',
     Sysent (Some ''abi_getgid'') Spl ''getgid'' '''',
     Sysent (Some ''abi_sigfunc'') Fast ''sigfunc'' ''xxx'',
     Sysent (Some ''svr4_msgsys'') Spl ''msgsys'' ''dxddd'',
     Sysent (Some ''svr4_sysi86'') 3 ''sysi86/sys3b'' ''d'',
     Sysent (Some ''sys_acct'') 1 ''acct/sysacct'' ''x'',
     Sysent (Some ''svr4_shmsys'') Fast ''shmsys'' ''ddxo'',
     Sysent (Some ''svr4_semsys'') Spl ''semsys'' ''dddx'',
     Sysent (Some ''svr4_ioctl'') Spl ''ioctl'' ''dxx'',
     Sysent None 3 ''uadmin'' ''xxx'',
     Sysent None Ukn ''?'' '''',
     Sysent (Some ''v7_utsname'') 1 ''utsys'' ''x'',
     Sysent (Some ''sys_fsync'') 1 ''fsync'' ''d'',
     Sysent (Some ''abi_exec'') Spl ''execv'' ''spp'',
     Sysent (Some ''sys_umask'') 1 ''umask'' ''o'',
     Sysent (Some ''sys_chroot'') 1 ''chroot'' ''s'',
     Sysent (Some ''svr4_fcntl'') 3 ''fcntl'' ''dxx'',
     Sysent (Some ''svr4_ulimit'') 2 ''ulimit'' ''xx'',
     Sysent None Ukn ''?'' '''',
     Sysent None Ukn ''?'' '''',
     Sysent None Ukn ''?'' '''',
     Sysent None Ukn ''?'' '''',
     Sysent None Ukn ''?'' '''',
     Sysent None Ukn ''?'' '''',
     Sysent None Ukn ''advfs'' '''',
     Sysent None Ukn ''unadvfs'' '''',
     Sysent None Ukn ''rmount'' '''',
     Sysent None Ukn ''rumount'' '''',
     Sysent None Ukn ''rfstart'' '''',
     Sysent None Ukn ''?'' '''',
     Sysent None Ukn ''rdebug'' '''',
     Sysent None Ukn ''rfstop'' '''',
     Sysent None Ukn ''rfsys'' '''',
     Sysent (Some ''sys_rmdir'') 1 ''rmdir'' ''s'',
     Sysent (Some ''abi_mkdir'') 2 ''mkdir'' ''so'',
     Sysent (Some ''svr4_getdents'') 3 ''getdents'' ''dxd'',
     Sysent None Ukn ''libattach'' '''',
     Sysent None Ukn ''libdetach'' '''',
     Sysent (Some ''svr4_sysfs'') 3 ''sysfs'' ''dxx'',
     Sysent (Some ''svr4_getmsg'') Spl ''getmsg'' ''dxxx'',
     Sysent (Some ''svr4_putmsg'') Spl ''putmsg'' ''dxxd'',
     Sysent (Some ''sys_poll'') 3 ''poll'' ''xdd'',
     Sysent None Ukn ''nosys88'' '''',
     Sysent None Ukn ''nosys89'' '''',
     Sysent None Ukn ''nosys90'' '''',
     Sysent None Ukn ''nosys91'' '''',
     Sysent None Ukn ''nosys92'' '''',
     Sysent None Ukn ''nosys93'' '''',
     Sysent None Ukn ''nosys94'' '''',
     Sysent None Ukn ''nosys95'' '''',
     Sysent None Ukn ''nosys96'' '''',
     Sysent None Ukn ''nosys97'' '''',
     Sysent None Ukn ''nosys98'' '''',
     Sysent None Ukn ''nosys99'' '''',
     Sysent None Ukn ''nosys100'' '''',
     Sysent None Ukn ''nosys101'' '''',
     Sysent None Ukn ''nosys102'' '''',
     Sysent None Ukn ''nosys103'' '''',
     Sysent None Ukn ''nosys104'' '''',
     Sysent None Ukn ''nosys105'' '''',
     Sysent None Ukn ''nosys106'' '''',
     Sysent None Ukn ''nosys107'' '''',
     Sysent None Ukn ''nosys108'' '''',
     Sysent None Ukn ''nosys109'' '''',
     Sysent None Ukn ''nosys110'' '''',
     Sysent None Ukn ''nosys111'' '''',
     Sysent None Ukn ''nosys112'' '''',
     Sysent None Ukn ''nosys113'' '''',
     Sysent None Ukn ''nosys114'' '''',
     Sysent None Ukn ''nosys115'' '''',
     Sysent None Ukn ''nosys116'' '''',
     Sysent None Ukn ''nosys117'' '''',
     Sysent None Ukn ''nosys118'' '''',
     Sysent None Ukn ''nosys119'' '''']"

definition wyse_syscall_table_1 :: "sysent list" where [abi_consts]:
  "wyse_syscall_table_1 =
    [Sysent None Ukn ''nosys120'' '''',
     Sysent None Ukn ''nosys121'' '''',
     Sysent None Ukn ''nosys122'' '''',
     Sysent None Ukn ''nosys123'' '''',
     Sysent None Ukn ''nosys124'' '''',
     Sysent None Ukn ''nosys125'' '''',
     Sysent None Ukn ''nosys126'' '''',
     Sysent None Ukn ''nosys127'' '''',
     Sysent (Some ''svr4_lstat'') 2 ''lstat'' ''sp'',
     Sysent (Some ''sys_readlink'') 3 ''readlink'' ''spd'',
     Sysent (Some ''sys_symlink'') 2 ''symlink'' ''ss'',
     Sysent (Some ''wyse_class_tcp'') Fast '''' '''',
     Sysent (Some ''wyse_class_nfs'') Fast '''' '''',
     Sysent (Some ''wyse_gethostname'') 2 ''gethostname'' ''xd'',
     Sysent (Some ''sys_sethostname'') 2 ''sethostname'' ''sd'',
     Sysent (Some ''wyse_getdomainname'') 2 ''getdomainname'' ''xd'',
     Sysent (Some ''sys_setdomainname'') 2 ''setdomainname'' ''sd'',
     Sysent None Ukn ''?'' '''',
     Sysent (Some ''sys_setreuid'') 2 ''setreuid'' ''dd'',
     Sysent (Some ''sys_setregid'') 2 ''setregid'' ''dd'']"

definition wyse_syscall_table :: "sysent list" where [abi_consts]:
  "wyse_syscall_table = wyse_syscall_table_0 @ wyse_syscall_table_1"

section \<open>Handlers\<close>

definition wyse_class_nfs :: "'k sysenv \<Rightarrow> u32 list \<Rightarrow> 'k mach \<Rightarrow> 'k mach option" where
  "wyse_class_nfs env stk m =
     table_lcall7 env stk wyse_nfscall_table (signed_drop_bit 8 (eax (regs m))) 1 m"

definition wyse_class_tcp :: "'k sysenv \<Rightarrow> u32 list \<Rightarrow> 'k mach \<Rightarrow> 'k mach option" where
  "wyse_class_tcp env stk m =
     table_lcall7 env stk wyse_tcpcall_table (signed_drop_bit 8 (eax (regs m))) 1 m"

definition wyse_lcall7 :: "'k sysenv \<Rightarrow> u32 list \<Rightarrow> int \<Rightarrow> 'k mach \<Rightarrow> 'k mach option" where
  "wyse_lcall7 env stk segment m =
     table_lcall7 env stk wyse_syscall_table (eax (regs m) AND 0xff) 1 m"

definition wyse_exec_domain :: "nat \<Rightarrow> exec_domain" where
  "wyse_exec_domain this_module =
     \<lparr>ed_name = ''Wyse/386'', ed_handler = ''wyse_lcall7'',
      pers_low = 4, pers_high = 4,
      signal_map = wyse_to_linux_signals, signal_invmap = linux_to_wyse_signals,
      err_map = Some wyse_err_map, socktype_map = Some wyse_socktype_map,
      sockopt_map = Some wyse_sockopt_map, af_map = Some wyse_af_map,
      ed_module = this_module, ed_next = 0\<rparr>"

text \<open>
  Module load and unload; \<open>p\<close> is the address of the domain object.
\<close>

definition wyse_module_init :: "nat \<Rightarrow> 'k edst \<Rightarrow> (int \<times> 'k edst) option" where
  "wyse_module_init p s = register_exec_domain p s"

definition wyse_module_exit :: "nat \<Rightarrow> 'k edst \<Rightarrow> 'k edst option" where
  "wyse_module_exit p s = map_option snd (unregister_exec_domain p s)"

lemmas wyse_maps = wyse_err_table_def wyse_lnx_err_table_def wyse_err_map_def wyse_socktype_def
  wyse_socktype_map_def wyse_sockopt_map_def wyse_af_map_def

lemmas wyse_nfscall_table_defs = wyse_nfscall_table_def

lemmas wyse_tcpcall_table_defs = wyse_tcpcall_table_def

lemmas wyse_syscall_table_defs = wyse_syscall_table_def wyse_syscall_table_0_def wyse_syscall_table_1_def

section \<open>The contracts hold\<close>

lemma wyse_nfscall_table_ok: "list_all entry_ok wyse_nfscall_table"
  by (simp add: wyse_nfscall_table_defs entry_ok_simps)

lemma wyse_tcpcall_table_ok: "list_all entry_ok wyse_tcpcall_table"
  by (simp add: wyse_tcpcall_table_defs entry_ok_simps)

lemma wyse_syscall_table_ok: "list_all entry_ok wyse_syscall_table"
  by (simp add: wyse_syscall_table_defs entry_ok_simps)

lemma wyse_err_map_ok: "segs_ok wyse_err_map"
  by (simp add: wyse_maps seg_ok_def)

lemma wyse_signals_ok: "sigtab_ok wyse_to_linux_signals" "sigtab_ok linux_to_wyse_signals"
  by (simp_all add: sigtab_ok_def abi_consts)

interpretation wyse: personality wyse_syscall_table wyse_err_map wyse_exec_domain
  by unfold_locales (simp_all add: wyse_syscall_table_ok wyse_err_map_ok wyse_signals_ok wyse_exec_domain_def)

interpretation wyse_nfscall: sys_table wyse_nfscall_table
  by unfold_locales (rule wyse_nfscall_table_ok)

interpretation wyse_tcpcall: sys_table wyse_tcpcall_table
  by unfold_locales (rule wyse_tcpcall_table_ok)

interpretation wyse_socktype: value_map wyse_socktype_map
  by unfold_locales (simp add: wyse_maps seg_ok_def)

interpretation wyse_sockopt: value_map wyse_sockopt_map
  by unfold_locales (simp add: wyse_maps seg_ok_def abi_consts)

interpretation wyse_af: value_map wyse_af_map
  by unfold_locales (simp add: wyse_maps seg_ok_def)

end
