(* ===== verification/Uw7_Sysent.thy ===== *)
theory Uw7_Sysent
  imports Abi_Contract Abi_Signo
begin

text \<open>
  \<^verbatim>\<open>abi/uw7/sysent.c\<close>: the UnixWare 7 personality.
\<close>

section \<open>Number translation\<close>

definition uw7_err_table :: "u8 list" where [abi_consts]:
  "uw7_err_table =
    [0, 1, 2, 3, 4, 5, 6, 7, 8, 9, 10, 11, 12, 13, 14, 15, 16, 17, 18, 19, 20, 21, 22, 23, 24,
     25, 26, 27, 28, 29, 30, 31, 32, 33, 34, 45, 78, 46, 89, 93, 90, 90, 35, 36, 37, 38, 39,
     40, 41, 42, 43, 44, 50, 51, 52, 53, 54, 55, 56, 57, 60, 61, 62, 63, 64, 65, 66, 67, 68,
     69, 70, 71, 74, 76, 77, 79, 80, 81, 82, 83, 84, 85, 86, 87, 88, 91, 92, 94, 95, 96, 97,
     98, 99, 120, 121, 122, 123, 124, 125, 126, 127, 128, 129, 130, 131, 132, 133, 134, 143,
     144, 145, 146, 147, 148, 149, 150, 22, 135, 137, 138, 139, 140, 28]"

definition uw7_lnx_err_table :: "u8 list" where [abi_consts]:
  "uw7_lnx_err_table = [word_of_int EINTR, word_of_int EINTR, word_of_int EINTR]"

definition uw7_err_map :: "map_segment list" where [abi_consts]:
  "uw7_err_map =
    [Seg 0 (0 + int (length uw7_err_table) - 1) (Vec uw7_err_table),
     Seg 512 (512 + int (length uw7_lnx_err_table) - 1) (Vec uw7_lnx_err_table),
     SegEnd]"

definition linux_to_uw7_signals :: "int list" where [abi_consts]:
  "linux_to_uw7_signals =
    [0, IBCS_SIGHUP, IBCS_SIGINT, IBCS_SIGQUIT, IBCS_SIGILL, IBCS_SIGTRAP, IBCS_SIGABRT, -1,
     IBCS_SIGFPE, IBCS_SIGKILL, IBCS_SIGUSR1, IBCS_SIGSEGV, IBCS_SIGUSR2, IBCS_SIGPIPE,
     IBCS_SIGALRM, IBCS_SIGTERM, IBCS_SIGSEGV, IBCS_SIGCHLD, IBCS_SIGCONT, IBCS_SIGSTOP,
     IBCS_SIGTSTP, IBCS_SIGTTIN, IBCS_SIGTTOU, IBCS_SIGURG, IBCS_SIGGXCPU, IBCS_SIGGXFSZ,
     IBCS_SIGVTALRM, IBCS_SIGPROF, IBCS_SIGWINCH, IBCS_SIGIO, IBCS_SIGPWR, -1, -1]"

definition uw7_to_linux_signals :: "int list" where [abi_consts]:
  "uw7_to_linux_signals =
    [0, SIGHUP, SIGINT, SIGQUIT, SIGILL, SIGTRAP, SIGIOT, SIGUNUSED, SIGFPE, SIGKILL,
     SIGUNUSED, SIGSEGV, SIGUNUSED, SIGPIPE, SIGALRM, SIGTERM, SIGUSR1, SIGUSR2, SIGCHLD,
     SIGPWR, SIGWINCH, SIGURG, SIGPOLL, SIGSTOP, SIGTSTP, SIGCONT, SIGTTIN, SIGTTOU, SIGVTALRM,
     SIGPROF, SIGXCPU, SIGXFSZ, -1]"

definition uw7_socktype :: "u8 list" where [abi_consts]:
  "uw7_socktype = [SOCK_STREAM, SOCK_DGRAM, 0, SOCK_RAW, SOCK_RDM, SOCK_SEQPACKET]"

definition uw7_socktype_map :: "map_segment list" where [abi_consts]:
  "uw7_socktype_map = [Seg 1 6 (Vec uw7_socktype), SegEnd]"

definition uw7_sockopt_map :: "map_segment list" where [abi_consts]:
  "uw7_sockopt_map =
    [Seg 0x1 0x1 (Imm SO_DEBUG),
     Seg 0x2 0x2 (Imm SO_ACCEPTCON),
     Seg 0x4 0x4 (Imm SO_REUSEADDR),
     Seg 0x8 0x8 (Imm SO_KEEPALIVE),
     Seg 0x10 0x10 (Imm SO_DONTROUTE),
     Seg 0x20 0x20 (Imm SO_BROADCAST),
     Seg 0x40 0x40 (Imm SO_USELOOPBACK),
     Seg 0x80 0x80 (Imm SO_LINGER),
     Seg 0x100 0x100 (Imm SO_OOBINLINE),
     Seg 0x200 0x200 (Imm SO_ORDREL),
     Seg 0x400 0x400 (Imm SO_IMASOCKET),
     Seg 0x1001 0x1001 (Imm SO_SNDBUF),
     Seg 0x1002 0x1002 (Imm SO_RCVBUF),
     Seg 0x1003 0x1003 (Imm SO_SNDLOWAT),
     Seg 0x1004 0x1004 (Imm SO_RCVLOWAT),
     Seg 0x1005 0x1005 (Imm SO_SNDTIMEO),
     Seg 0x1006 0x1006 (Imm SO_RCVTIMEO),
     Seg 0x1007 0x1007 (Imm SO_ERROR),
     Seg 0x1008 0x1008 (Imm SO_TYPE),
     Seg 0x1009 0x1009 (Imm SO_PROTOTYPE),
     SegEnd]"

definition uw7_af_map :: "map_segment list" where [abi_consts]:
  "uw7_af_map = [Seg 0 2 Null, SegEnd]"

section \<open>System call tables\<close>

definition uw7_syscall_table_0 :: "sysent list" where [abi_consts]:
  "uw7_syscall_table_0 =
    [Sysent (Some ''abi_syscall'') Fast ''syscall'' '''',
     Sysent (Some ''sys_exit'') 1 ''exit'' ''d'',
     Sysent (Some ''abi_fork'') Spl ''fork'' '''',
     Sysent (Some ''abi_read'') 3 ''read'' ''dpd'',
     Sysent (Some ''sys_write'') 3 ''write'' ''dpd'',
     Sysent (Some ''svr4_open'') 3 ''open'' ''soo'',
     Sysent (Some ''sys_close'') 1 ''close'' ''d'',
     Sysent (Some ''abi_wait'') Spl ''wait'' ''xxx'',
     Sysent (Some ''sys_creat'') 2 ''creat'' ''so'',
     Sysent (Some ''sys_link'') 2 ''link'' ''ss'',
     Sysent (Some ''sys_unlink'') 1 ''unlink'' ''s'',
     Sysent (Some ''abi_exec'') Spl ''exec'' ''sxx'',
     Sysent (Some ''sys_chdir'') 1 ''chdir'' ''s'',
     Sysent (Some ''abi_time'') 0 ''time'' '''',
     Sysent (Some ''svr4_mknod'') 3 ''mknod'' ''soo'',
     Sysent (Some ''sys_chmod'') 2 ''chmod'' ''so'',
     Sysent (Some ''sys_chown'') 3 ''chown'' ''sdd'',
     Sysent (Some ''abi_brk'') 1 ''brk/break'' ''x'',
     Sysent (Some ''svr4_stat'') 2 ''stat'' ''sp'',
     Sysent (Some ''sys_lseek'') 3 ''seek/lseek'' ''ddd'',
     Sysent (Some ''abi_getpid'') Spl ''getpid'' '''',
     Sysent None Ukn ''mount'' '''',
     Sysent (Some ''sys_umount'') 1 ''umount'' ''s'',
     Sysent (Some ''sys_setuid'') 1 ''setuid'' ''d'',
     Sysent (Some ''abi_getuid'') Spl ''getuid'' '''',
     Sysent (Some ''sys_stime'') 1 ''stime'' ''d'',
     Sysent None 4 ''ptrace'' '''',
     Sysent (Some ''sys_alarm'') 1 ''alarm'' ''d'',
     Sysent (Some ''svr4_fstat'') 2 ''fstat'' ''dp'',
     Sysent (Some ''sys_pause'') 0 ''pause'' '''',
     Sysent (Some ''sys_utime'') 2 ''utime'' ''xx'',
     Sysent (Some ''uw7_stty'') 2 ''stty'' ''dd'',
     Sysent (Some ''uw7_gtty'') 2 ''gtty'' ''dd'',
     Sysent (Some ''uw7_access'') 2 ''access'' ''so'',
     Sysent (Some ''sys_nice'') 1 ''nice'' ''d'',
     Sysent (Some ''svr4_statfs'') 4 ''statfs'' ''spdd'',
     Sysent (Some ''sys_sync'') 0 ''sync'' '''',
     Sysent (Some ''abi_kill'') 2 ''kill'' ''dd'',
     Sysent (Some ''svr4_fstatfs'') 4 ''fstatfs'' ''dpdd'',
     Sysent (Some ''abi_procids'') Spl ''procids'' ''d'',
     Sysent None Ukn ''cxenix'' '''',
     Sysent (Some ''sys_dup'') 1 ''dup'' ''d'',
     Sysent (Some ''abi_pipe'') Spl ''pipe'' '''',
     Sysent (Some ''sys_times'') 1 ''times'' ''p'',
     Sysent None 4 '''' '''',
     Sysent None Ukn ''plock'' '''',
     Sysent (Some ''sys_setgid'') 1 ''setgid'' ''d'',
     Sysent (Some ''abi_getgid'') Spl ''getgid'' '''',
     Sysent (Some ''abi_sigfunc'') Fast ''sigfunc'' ''xxx'',
     Sysent (Some ''svr4_msgsys'') Spl ''msgsys'' ''dxddd'',
     Sysent (Some ''svr4_sysi86'') 3 ''sysi86/sys3b'' ''d'',
     Sysent (Some ''sys_acct'') 1 ''acct/sysacct'' ''x'',
     Sysent (Some ''svr4_shmsys'') Fast ''shmsys'' ''ddxo'',
     Sysent (Some ''svr4_semsys'') Spl ''semsys'' ''dddx'',
     Sysent (Some ''uw7_ioctl'') Spl ''ioctl'' ''dxx'',
     Sysent None 3 ''uadmin'' ''xxx'',
     Sysent None Ukn ''unimpl/exch'' '''',
     Sysent (Some ''v7_utsname'') 1 ''utsys'' ''x'',
     Sysent (Some ''sys_fsync'') 1 ''fsync'' ''d'',
     Sysent (Some ''abi_exec'') Spl ''execv'' ''spp'',
     Sysent (Some ''sys_umask'') 1 ''umask'' ''o'',
     Sysent (Some ''sys_chroot'') 1 ''chroot'' ''s'',
     Sysent (Some ''svr4_fcntl'') 3 ''fcntl'' ''dxx'',
     Sysent (Some ''svr4_ulimit'') 2 ''ulimit'' ''xx'',
     Sysent None Ukn ''cg_ids'' '''',
     Sysent None Ukn ''cg_processors'' '''',
     Sysent None Ukn ''cg_info'' '''',
     Sysent None Ukn ''cg_bind'' '''',
     Sysent None Ukn ''cg_current'' '''',
     Sysent None Ukn ''cg_memloc'' '''',
     Sysent None Ukn ''unimpl/advfs'' '''',
     Sysent None Ukn ''unimpl/unadvfs'' '''',
     Sysent None Ukn ''unimpl/rmount'' '''',
     Sysent None Ukn ''unimpl/rumount'' '''',
     Sysent None Ukn ''unimpl/rfstart'' '''',
     Sysent None Ukn ''unimpl 75'' '''',
     Sysent None Ukn ''unimpl/rdebug'' '''',
     Sysent None Ukn ''unimpl/rfstop'' '''',
     Sysent None Ukn ''rfsys'' '''',
     Sysent (Some ''sys_rmdir'') 1 ''rmdir'' ''s'',
     Sysent (Some ''sys_mkdir'') 2 ''mkdir'' ''so'',
     Sysent (Some ''svr4_getdents'') 3 ''getdents'' ''dxd'',
     Sysent None Ukn ''unimpl/libattach'' '''',
     Sysent None Ukn ''unimpl/libdetach'' '''',
     Sysent (Some ''svr4_sysfs'') 3 ''sysfs'' ''dxx'',
     Sysent (Some ''svr4_getmsg'') Spl ''getmsg'' ''dxxx'',
     Sysent (Some ''svr4_putmsg'') Spl ''putmsg'' ''dxxd'',
     Sysent (Some ''sys_poll'') 3 ''poll'' ''xdd'',
     Sysent (Some ''svr4_lstat'') 2 ''lstat'' ''sp'',
     Sysent (Some ''sys_symlink'') 2 ''symlink'' ''ss'',
     Sysent (Some ''sys_readlink'') 3 ''readlink'' ''spd'',
     Sysent (Some ''sys_setgroups'') 2 ''setgroups'' ''dp'',
     Sysent (Some ''sys_getgroups'') 2 ''getgroups'' ''dp'',
     Sysent (Some ''sys_fchmod'') 2 ''fchmod'' ''do'',
     Sysent (Some ''sys_fchown'') 3 ''fchown'' ''ddd'',
     Sysent (Some ''abi_sigprocmask'') 3 ''sigprocmask'' ''dxx'',
     Sysent (Some ''abi_sigsuspend'') Spl ''sigsuspend'' ''x'',
     Sysent (Some ''uw7_sigaltstack'') 2 ''sigaltstack'' ''xx'',
     Sysent (Some ''abi_sigaction'') 3 ''sigaction'' ''dxx'',
     Sysent (Some ''svr4_sigpending'') 2 ''sigpending'' ''dp'',
     Sysent (Some ''uw7_context'') Spl ''ucontext'' '''',
     Sysent None Ukn ''evsys'' '''',
     Sysent None Ukn ''evtrapret'' '''',
     Sysent (Some ''svr4_statvfs'') 2 ''statvfs'' ''sp'',
     Sysent (Some ''svr4_fstatvfs'') 2 ''fstatvfs'' ''dp'',
     Sysent None Ukn ''reserved 105'' '''',
     Sysent None Ukn ''nfssys'' '''',
     Sysent (Some ''svr4_waitid'') 4 ''waitid'' ''ddxd'',
     Sysent None 3 ''sigsendsys'' ''ddd'',
     Sysent (Some ''svr4_hrtsys'') Spl ''hrtsys'' ''xxx'',
     Sysent None 3 ''acancel'' ''dxd'',
     Sysent None Ukn ''async'' '''',
     Sysent None Ukn ''priocntlsys'' '''',
     Sysent (Some ''svr4_pathconf'') 2 ''pathconf'' ''sd'',
     Sysent None 3 ''mincore'' ''xdx'',
     Sysent (Some ''svr4_mmap'') 6 ''mmap'' ''xxxxdx'']"

definition uw7_syscall_table_1 :: "bool \<Rightarrow> sysent list" where [abi_consts]:
  "uw7_syscall_table_1 xti =
    [Sysent (Some ''sys_mprotect'') 3 ''mprotect'' ''xdx'',
     Sysent (Some ''sys_munmap'') 2 ''munmap'' ''xd'',
     Sysent (Some ''svr4_fpathconf'') 2 ''fpathconf'' ''dd'',
     Sysent (Some ''abi_fork'') Spl ''vfork'' '''',
     Sysent (Some ''sys_fchdir'') 1 ''fchdir'' ''d'',
     Sysent (Some ''sys_readv'') 3 ''readv'' ''dxd'',
     Sysent (Some ''sys_writev'') 3 ''writev'' ''dxd'',
     Sysent (Some ''uw7_xstat'') 3 ''xstat'' ''dsx'',
     Sysent (Some ''uw7_lxstat'') 3 ''lxstat'' ''dsx'',
     Sysent (Some ''uw7_fxstat'') 3 ''fxstat'' ''ddx'',
     Sysent (Some ''svr4_xmknod'') 4 ''xmknod'' ''dsox'',
     Sysent None Spl ''syslocal'' ''d'',
     Sysent (Some ''svr4_getrlimit'') 2 ''setrlimit'' ''dx'',
     Sysent (Some ''svr4_setrlimit'') 2 ''getrlimit'' ''dx'',
     Sysent (Some ''sys_lchown'') 3 ''lchown'' ''sdd'',
     Sysent None Ukn ''memcntl'' ''''] @
    (if xti
     then [Sysent (Some ''svr4_getpmsg'') 5 ''getpmsg'' ''dxxxx'',
        Sysent (Some ''svr4_putpmsg'') 5 ''putpmsg'' ''dxxdd'']
     else [Sysent None 5 ''getpmsg'' ''dxxxx'',
        Sysent None 5 ''putpmsg'' ''dxxdd'']) @
    [Sysent (Some ''sys_rename'') 2 ''rename'' ''ss'',
     Sysent (Some ''abi_utsname'') 1 ''uname'' ''x'',
     Sysent (Some ''uw7_setegid'') 1 ''setegid'' ''d'',
     Sysent (Some ''svr4_sysconfig'') 1 ''sysconfig'' ''d'',
     Sysent None Ukn ''adjtime'' '''',
     Sysent (Some ''svr4_sysinfo'') 3 ''systeminfo'' ''dsd'',
     Sysent (Some ''socksys_syscall'') 1 ''socksys_syscall'' ''x'',
     Sysent (Some ''uw7_seteuid'') 1 ''seteuid'' ''d'',
     Sysent None Ukn ''unimpl 142'' '''',
     Sysent None Ukn ''keyctl'' '''',
     Sysent None 2 ''secsys'' ''dx'',
     Sysent None 4 ''filepriv'' ''sdxd'',
     Sysent None 3 ''procpriv'' ''dxd'',
     Sysent None 3 ''devstat'' ''sdx'',
     Sysent None 5 ''aclipc'' ''ddddx'',
     Sysent None 3 ''fdevstat'' ''ddx'',
     Sysent None 3 ''flvlfile'' ''ddx'',
     Sysent None 3 ''lvlfile'' ''sdx'',
     Sysent None Ukn ''sendv'' '''',
     Sysent None 2 ''lvlequal'' ''xx'',
     Sysent None 2 ''lvlproc'' ''dx'',
     Sysent None Ukn ''unimpl 155'' '''',
     Sysent None 4 ''lvlipc'' ''dddx'',
     Sysent None 4 ''acl'' ''sddx'',
     Sysent None Ukn ''auditevt'' '''',
     Sysent None Ukn ''auditctl'' '''',
     Sysent None Ukn ''auditdmp'' '''',
     Sysent None Ukn ''auditlog'' '''',
     Sysent None Ukn ''auditbuf'' '''',
     Sysent None 2 ''lvldom'' ''xx'',
     Sysent None Ukn ''lvlvfs'' '''',
     Sysent None 2 ''mkmld'' ''so'',
     Sysent (Some ''uw7_mldmode'') 1 ''mldmode'' ''d'',
     Sysent None 2 ''secadvise'' ''xx'',
     Sysent None Ukn ''online'' '''',
     Sysent (Some ''sys_setitimer'') 3 ''setitimer'' ''dxx'',
     Sysent (Some ''sys_getitimer'') 2 ''getitimer'' ''dx'',
     Sysent (Some ''sys_gettimeofday'') 2 ''gettimeofday'' ''xx'',
     Sysent (Some ''sys_settimeofday'') 2 ''settimeofday'' ''xx'',
     Sysent None Ukn ''lwpcreate'' '''',
     Sysent None Ukn ''lwpexit'' '''',
     Sysent None Ukn ''lwpwait'' '''',
     Sysent None Ukn ''lwpself'' '''',
     Sysent None Ukn ''lwpinfo'' '''',
     Sysent None Ukn ''lwpprivate'' '''',
     Sysent None Ukn ''processorbind'' '''',
     Sysent None Ukn ''processorexbind'' '''',
     Sysent None Ukn ''unimpl 181'' '''',
     Sysent None Ukn ''sendv64'' '''',
     Sysent None Ukn ''prepblock'' '''',
     Sysent None Ukn ''block'' '''',
     Sysent None Ukn ''rdblock'' '''',
     Sysent None Ukn ''unblock'' '''',
     Sysent None Ukn ''cancelblock'' '''',
     Sysent None Ukn ''unimpl 188'' '''',
     Sysent (Some ''uw7_pread'') 4 ''pread'' ''dsdd'',
     Sysent (Some ''uw7_pwrite'') 4 ''pwrite'' ''dsdd'',
     Sysent (Some ''sys_truncate'') 2 ''truncate'' ''sd'',
     Sysent (Some ''sys_ftruncate'') 2 ''ftruncate'' ''dd'',
     Sysent None Ukn ''lwpkill'' '''',
     Sysent None Ukn ''sigwait'' '''',
     Sysent (Some ''abi_fork'') Spl ''fork1'' '''',
     Sysent (Some ''abi_fork'') Spl ''forkall'' '''',
     Sysent None Ukn ''modload'' '''',
     Sysent None Ukn ''moduload'' '''',
     Sysent None Ukn ''modpath'' '''',
     Sysent None Ukn ''modstat'' '''',
     Sysent None Ukn ''modadm'' '''',
     Sysent None Ukn ''getksym'' '''',
     Sysent None Ukn ''lwpsuspend'' '''',
     Sysent None Ukn ''lwpcontinue'' '''',
     Sysent None Ukn ''priocntllst'' '''',
     Sysent (Some ''uw7_sleep'') 1 ''sleep'' ''d'',
     Sysent None Ukn ''lwp_sema_wait'' '''',
     Sysent None Ukn ''lwp_sema_post'' '''',
     Sysent None Ukn ''lwp_sema_trywait'' '''',
     Sysent None Ukn ''reserved 210'' '''',
     Sysent None Ukn ''unused 211'' '''',
     Sysent None Ukn ''unused 212'' '''',
     Sysent None Ukn ''unused 213'' '''',
     Sysent None Ukn ''unused 214'' '''',
     Sysent None Ukn ''unused 215'' '''',
     Sysent (Some ''uw7_fstatvfs64'') 2 ''fstatvfs64'' ''dp'']"

definition uw7_syscall_table_2 :: "sysent list" where [abi_consts]:
  "uw7_syscall_table_2 =
    [Sysent (Some ''uw7_statvfs64'') 2 ''statvfs64'' ''sp'',
     Sysent (Some ''uw7_ftruncate64'') 3 ''ftruncate64'' ''sdd'',
     Sysent (Some ''uw7_truncate64'') 3 ''truncate64'' ''ddd'',
     Sysent (Some ''uw7_getrlimit64'') 2 ''getrlimit64'' ''dp'',
     Sysent (Some ''uw7_setrlimit64'') 2 ''setrlimit64'' ''dp'',
     Sysent (Some ''uw7_lseek64'') 4 ''lseek64'' ''dddd'',
     Sysent (Some ''uw7_mmap64'') 7 ''mmap64'' ''xxxxdxx'',
     Sysent (Some ''uw7_pread64'') 5 ''pread64'' ''dsddd'',
     Sysent (Some ''uw7_pwrite64'') 5 ''pwrite64'' ''dsddd'',
     Sysent (Some ''uw7_creat64'') 2 ''creat64'' ''so'',
     Sysent None Ukn ''dshmsys'' '''',
     Sysent None Ukn ''invlpg'' '''',
     Sysent None Ukn ''rfork1'' '''',
     Sysent None Ukn ''rforkall'' '''',
     Sysent None Ukn ''rexecve'' '''',
     Sysent None Ukn ''migrate'' '''',
     Sysent None Ukn ''kill3'' '''',
     Sysent None Ukn ''ssisys'' '''',
     Sysent None Ukn ''xaccept'' '''',
     Sysent None Ukn ''xbind'' '''',
     Sysent None Ukn ''xbindresvport'' '''',
     Sysent None Ukn ''xconnect'' '''',
     Sysent None Ukn ''xgetsockaddr'' '''',
     Sysent None Ukn ''xgetsockopt'' '''',
     Sysent None Ukn ''xlisten'' '''',
     Sysent None Ukn ''xrecvmsg'' '''',
     Sysent None Ukn ''xsendmsg'' '''',
     Sysent None Ukn ''xsetsockaddr'' '''',
     Sysent None Ukn ''xsetsockopt'' '''',
     Sysent None Ukn ''xshutdown'' '''',
     Sysent None Ukn ''xsocket'' '''',
     Sysent None Ukn ''xsocketpair'' '''',
     Sysent None Ukn ''unused 249'' '''',
     Sysent None Ukn ''unused 250'' '''']"

definition uw7_syscall_table :: "bool \<Rightarrow> sysent list" where [abi_consts]:
  "uw7_syscall_table xti = uw7_syscall_table_0 @ uw7_syscall_table_1 xti @ uw7_syscall_table_2"

section \<open>Handlers\<close>

definition uw7_lcall7 :: "bool \<Rightarrow> 'k sysenv \<Rightarrow> u32 list \<Rightarrow> int \<Rightarrow> 'k mach \<Rightarrow> 'k mach option" where
  "uw7_lcall7 xti env stk segment m =
     table_lcall7 env stk (uw7_syscall_table xti) (eax (regs m) AND 0xff) 1 m"

definition uw7_exec_domain :: "nat \<Rightarrow> exec_domain" where
  "uw7_exec_domain this_module =
     \<lparr>ed_name = ''UnixWare 7'', ed_handler = ''uw7_lcall7'',
      pers_low = 14, pers_high = 14,
      signal_map = uw7_to_linux_signals, signal_invmap = linux_to_uw7_signals,
      err_map = Some uw7_err_map, socktype_map = Some uw7_socktype_map,
      sockopt_map = Some uw7_sockopt_map, af_map = Some uw7_af_map,
      ed_module = this_module, ed_next = 0\<rparr>"

text \<open>
  Module load and unload; \<open>p\<close> is the address of the domain object.
\<close>

definition init_uw7 :: "nat \<Rightarrow> 'k edst \<Rightarrow> (int \<times> 'k edst) option" where
  "init_uw7 p s = register_exec_domain p s"

definition cleanup_uw7 :: "nat \<Rightarrow> 'k edst \<Rightarrow> 'k edst option" where
  "cleanup_uw7 p s = map_option snd (unregister_exec_domain p s)"

lemmas uw7_maps = uw7_err_table_def uw7_lnx_err_table_def uw7_err_map_def uw7_socktype_def
  uw7_socktype_map_def uw7_sockopt_map_def uw7_af_map_def

lemmas uw7_syscall_table_defs = uw7_syscall_table_def uw7_syscall_table_0_def uw7_syscall_table_1_def uw7_syscall_table_2_def

section \<open>The contracts hold\<close>

lemma uw7_syscall_table_ok: "list_all entry_ok (uw7_syscall_table xti)"
  by (simp add: uw7_syscall_table_defs entry_ok_simps)

lemma uw7_err_map_ok: "segs_ok uw7_err_map"
  by (simp add: uw7_maps seg_ok_def)

lemma uw7_signals_ok: "sigtab_ok uw7_to_linux_signals" "sigtab_ok linux_to_uw7_signals"
  by (simp_all add: sigtab_ok_def abi_consts)

interpretation uw7: personality "uw7_syscall_table xti" uw7_err_map uw7_exec_domain for xti
  by unfold_locales (simp_all add: uw7_syscall_table_ok uw7_err_map_ok uw7_signals_ok uw7_exec_domain_def)

interpretation uw7_socktype: value_map uw7_socktype_map
  by unfold_locales (simp add: uw7_maps seg_ok_def)

interpretation uw7_sockopt: value_map uw7_sockopt_map
  by unfold_locales (simp add: uw7_maps seg_ok_def abi_consts)

interpretation uw7_af: value_map uw7_af_map
  by unfold_locales (simp add: uw7_maps seg_ok_def)

end
