(* ===== verification/Abi_Entry.thy ===== *)
theory Abi_Entry
  imports Cxenix_Sysent Sco_Sysent Ibcs_Sysent Isc_Sysent Wyse_Sysent Uw7_Sysent Solaris_Sysent
begin

text \<open>
  The personalities put together: the handler that the domain of a process names, the second-level
  dispatchers that a first-level table names, and the indirect system call, which calls the handler
  again.  That last call nests; \<open>lcall7_entry\<close> counts the nesting, so \<open>lcall7_entry d\<close> is a kernel
  stack with room for \<open>d\<close> handlers and \<open>None\<close> covers a stack that is too small.
\<close>

section \<open>Definitions\<close>

text \<open>
  The functions of the tables that are dispatchers themselves; every other function is one of
  \<open>base\<close>.  \<open>handler\<close> is what the handler name of a domain stands for.
\<close>

definition isc_calls :: "'k sysenv \<Rightarrow> 'k sysenv" where
  "isc_calls base = base\<lparr>sys_args := (\<lambda>f a m.
     if f = ''isc_setostype'' then Some (isc_setostype (hd a), m) else sys_args base f a m)\<rparr>"

definition abi_calls ::
  "'k sysenv \<Rightarrow> u32 list \<Rightarrow> (string \<Rightarrow> int \<Rightarrow> 'k mach \<Rightarrow> 'k mach option) \<Rightarrow> 'k sysenv" where
  "abi_calls base stk handler = base\<lparr>sys_regs := (\<lambda>f m.
     if f = ''abi_syscall'' then lcall7_syscall handler m
     else if f = ''cxenix'' then map_option (Pair 0) (cxenix base stk m)
     else if f = ''isc_sysisc'' then map_option (Pair 0) (isc_sysisc (isc_calls base) stk m)
     else if f = ''wyse_class_tcp'' then map_option (Pair 0) (wyse_class_tcp base stk m)
     else if f = ''wyse_class_nfs'' then map_option (Pair 0) (wyse_class_nfs base stk m)
     else sys_regs base f m)\<rparr>"

definition run_handler ::
  "bool \<Rightarrow> 'k sysenv \<Rightarrow> u32 list \<Rightarrow> string \<Rightarrow> int \<Rightarrow> 'k mach \<Rightarrow> 'k mach option" where
  "run_handler xti env stk name segment m =
     (if name = ''sco_lcall7'' then sco_lcall7 env stk segment m
      else if name = ''ibcs_lcall7'' then ibcs_lcall7 xti env stk segment m
      else if name = ''isc_lcall7'' then isc_lcall7 xti env stk segment m
      else if name = ''wyse_lcall7'' then wyse_lcall7 env stk segment m
      else if name = ''uw7_lcall7'' then uw7_lcall7 xti env stk segment m
      else if name = ''solaris_lcall7'' then solaris_lcall7 xti env stk segment m
      else None)"

fun lcall7_entry ::
  "bool \<Rightarrow> 'k sysenv \<Rightarrow> u32 list \<Rightarrow> nat \<Rightarrow> string \<Rightarrow> int \<Rightarrow> 'k mach \<Rightarrow> 'k mach option" where
  "lcall7_entry xti base stk 0 name segment m = None"
| "lcall7_entry xti base stk (Suc d) name segment m =
     run_handler xti (abi_calls base stk (lcall7_entry xti base stk d)) stk name segment m"

section \<open>Which table a handler uses\<close>

definition lcall7_handlers :: "string list" where
  "lcall7_handlers =
    [''sco_lcall7'', ''ibcs_lcall7'', ''isc_lcall7'', ''wyse_lcall7'', ''uw7_lcall7'', ''solaris_lcall7'']"

definition handler_table :: "bool \<Rightarrow> string \<Rightarrow> sysent list" where
  "handler_table xti name =
     (if name = ''sco_lcall7'' then sco_syscall_table
      else if name = ''ibcs_lcall7'' then ibcs_syscall_table xti
      else if name = ''isc_lcall7'' then isc_syscall_table xti
      else if name = ''wyse_lcall7'' then wyse_syscall_table
      else if name = ''uw7_lcall7'' then uw7_syscall_table xti
      else if name = ''solaris_lcall7'' then solaris_syscall_table xti
      else [])"

lemma run_handler_table:
  "name \<in> set lcall7_handlers \<Longrightarrow> run_handler xti env stk name segment m =
     table_lcall7 env stk (handler_table xti name) (eax (regs m) AND 0xff) 1 m"
  by (auto simp: lcall7_handlers_def run_handler_def handler_table_def sco_lcall7_def ibcs_lcall7_def
      isc_lcall7_def wyse_lcall7_def uw7_lcall7_def solaris_lcall7_def)

interpretation handler: sys_table "handler_table xti name" for xti name
  by unfold_locales (simp add: handler_table_def sco_syscall_table_ok ibcs_syscall_table_ok
      isc_syscall_table_ok wyse_syscall_table_ok uw7_syscall_table_ok solaris_syscall_table_ok)

lemmas syscall_tables = sco_syscall_table_defs ibcs_syscall_table_defs isc_syscall_table_defs
  wyse_syscall_table_defs uw7_syscall_table_defs solaris_syscall_table_defs

text \<open>Number 0 of every table is the indirect call, and no other number is.\<close>

definition indirect_entry :: sysent where
  "indirect_entry = Sysent (Some ''abi_syscall'') Fast ''syscall'' ''''"

definition no_indirect :: "sysent list \<Rightarrow> bool" where
  "no_indirect es \<longleftrightarrow> list_all (\<lambda>e. se_syscall e \<noteq> Some ''abi_syscall'') es"

lemma sco_table_indirect: "\<exists>es. sco_syscall_table = indirect_entry # es \<and> no_indirect es"
  by (simp add: sco_syscall_table_defs indirect_entry_def no_indirect_def)

lemma ibcs_table_indirect: "\<exists>es. ibcs_syscall_table xti = indirect_entry # es \<and> no_indirect es"
  by (simp add: ibcs_syscall_table_defs indirect_entry_def no_indirect_def)

lemma isc_table_indirect: "\<exists>es. isc_syscall_table xti = indirect_entry # es \<and> no_indirect es"
  by (simp add: isc_syscall_table_defs indirect_entry_def no_indirect_def)

lemma wyse_table_indirect: "\<exists>es. wyse_syscall_table = indirect_entry # es \<and> no_indirect es"
  by (simp add: wyse_syscall_table_defs indirect_entry_def no_indirect_def)

lemma uw7_table_indirect: "\<exists>es. uw7_syscall_table xti = indirect_entry # es \<and> no_indirect es"
  by (simp add: uw7_syscall_table_defs indirect_entry_def no_indirect_def)

lemma solaris_table_indirect: "\<exists>es. solaris_syscall_table xti = indirect_entry # es \<and> no_indirect es"
  by (simp add: solaris_syscall_table_defs indirect_entry_def no_indirect_def)

lemma handler_table_indirect:
  "name \<in> set lcall7_handlers \<Longrightarrow> \<exists>es. handler_table xti name = indirect_entry # es \<and> no_indirect es"
  using sco_table_indirect ibcs_table_indirect isc_table_indirect wyse_table_indirect
    uw7_table_indirect solaris_table_indirect
  by (auto simp: handler_table_def lcall7_handlers_def)

lemma handler_table_nth:
  assumes "name \<in> set lcall7_handlers"
  shows "handler_table xti name \<noteq> []" "handler_table xti name ! 0 = indirect_entry"
    "0 < i \<Longrightarrow> i < length (handler_table xti name) \<Longrightarrow>
       se_syscall (handler_table xti name ! i) \<noteq> Some ''abi_syscall''"
proof -
  from handler_table_indirect [OF assms] obtain es where
    es: "handler_table xti name = indirect_entry # es" "no_indirect es" by blast
  then show "handler_table xti name \<noteq> []" "handler_table xti name ! 0 = indirect_entry" by simp_all
  show "se_syscall (handler_table xti name ! i) \<noteq> Some ''abi_syscall''"
    if "0 < i" "i < length (handler_table xti name)"
    using es that by (cases i) (auto simp: no_indirect_def list_all_length)
qed

section \<open>Second-level dispatchers return\<close>

lemma isc_calls_ok: "env_ok (isc_calls base) = env_ok base"
  by (simp add: env_ok_def isc_calls_def)

lemma isc_calls_total: "env_total base \<Longrightarrow> env_total (isc_calls base)"
  by (auto simp: env_total_def isc_calls_def returns_ok_def)

lemma abi_calls_ok: "env_ok (abi_calls base stk handler) = env_ok base"
  by (simp add: env_ok_def abi_calls_def)

text \<open>A dispatcher that returns is a function that returns.\<close>

lemma returns_ok_table:
  "(\<And>m. errs_ok m \<Longrightarrow> \<exists>m'. f m = Some m' \<and> errs_ok m') \<Longrightarrow> errs_ok m \<Longrightarrow>
     returns_ok (\<lambda>m. map_option (Pair 0) (f m)) m"
  unfolding returns_ok_def by (metis errs_ok_frame(1) option.map(2))

lemma abi_calls_returns:
  assumes "length stk = 8" "env_ok base" "env_total base" "errs_ok m" "f \<noteq> ''abi_syscall''"
  shows "returns_ok (sys_regs (abi_calls base stk handler) f) m"
proof -
  note total = cxenix.call_total [OF assms(1-3)] wyse_tcpcall.call_total [OF assms(1-3)]
    wyse_nfscall.call_total [OF assms(1-3)]
    sysisc.call_total [OF assms(1), of "isc_calls base", unfolded isc_calls_ok,
      OF assms(2) isc_calls_total [OF assms(3)]]
  have "returns_ok (\<lambda>m. map_option (Pair 0) (cxenix base stk m)) m"
    "returns_ok (\<lambda>m. map_option (Pair 0) (isc_sysisc (isc_calls base) stk m)) m"
    "returns_ok (\<lambda>m. map_option (Pair 0) (wyse_class_tcp base stk m)) m"
    "returns_ok (\<lambda>m. map_option (Pair 0) (wyse_class_nfs base stk m)) m"
    using assms(4) total
    by (auto intro!: returns_ok_table simp: cxenix_def isc_sysisc_def wyse_class_tcp_def wyse_class_nfs_def)
  moreover have "returns_ok (sys_regs base f) m" using assms(3,4) by (simp add: env_total_def)
  ultimately show ?thesis using assms(5) by (simp add: abi_calls_def returns_ok_def)
qed

section \<open>The indirect call\<close>

text \<open>The state that an indirect call hands to the handler.\<close>

definition nested :: "'k mach \<Rightarrow> 'k mach" where
  "nested m = m\<lparr>regs := (regs m)\<lparr>eax := get_user32 (mem m) (esp (regs m) + 4), esp := esp (regs m) + 1\<rparr>\<rparr>"

text \<open>One of the first \<open>d\<close> numbers that nested indirect calls read is not the indirect call's.\<close>

fun direct_within :: "nat \<Rightarrow> 'k mach \<Rightarrow> bool" where
  "direct_within 0 m = False"
| "direct_within (Suc d) m = (eax (regs m) AND 0xff \<noteq> 0 \<or> direct_within d (nested m))"

lemma nested_frame [simp]:
  "nested (m\<lparr>klog := l\<rparr>) = nested m\<lparr>klog := l\<rparr>" "errs_ok (nested m) = errs_ok m"
  "cur_ed (nested m) = cur_ed m"
  by (simp_all add: nested_def)

lemma direct_within_klog [simp]: "direct_within d (m\<lparr>klog := l\<rparr>) = direct_within d m"
  by (induction d arbitrary: m) simp_all

lemma lcall7_syscall_nested:
  "lcall7_syscall handler m =
     map_option (\<lambda>m2. (0, m2\<lparr>regs := (regs m2)\<lparr>esp := esp (regs m2) - 1\<rparr>\<rparr>))
       (handler (ed_handler (cur_ed m)) (- 1) (nested m))"
  by (simp add: lcall7_syscall_def nested_def Let_def)

lemma indirect_entry_simps:
  "se_syscall indirect_entry = Some ''abi_syscall''" "se_nargs indirect_entry = Fast"
  "dispatch_nargs indirect_entry = Fast" "is_short (se_nargs indirect_entry)" "trace_ok indirect_entry"
  by (simp_all add: indirect_entry_def dispatch_nargs_def Fast_def is_short_def trace_ok_def)

lemma dispatch_indirect:
  assumes "length stk = 8" "env_ok env"
  shows "\<exists>l g. lcall7_dispatch env stk indirect_entry off m =
    map_option g (sys_regs env ''abi_syscall'' (m\<lparr>klog := l\<rparr>))"
proof -
  have tr: "cfg_trace env \<Longrightarrow> trace_ok indirect_entry \<and> (\<forall>v. length (fmt_p env v) \<le> 12)"
    using assms(2) by (simp add: env_ok_def indirect_entry_simps)
  obtain args m1 where
    disp: "lcall7_dispatch env stk indirect_entry off m =
       Option.bind (call_syscall env indirect_entry Fast args m1) (finish env indirect_entry)"
    and m1: "m1 = m\<lparr>klog := klog m1\<rparr>"
    using dispatch_run [OF assms(1) indirect_entry_simps(4) tr, of off m] indirect_entry_simps(3)
    by metis
  have "Option.bind (map_option (\<lambda>(_, m'). Done m') x) (finish env indirect_entry) =
      map_option (\<lambda>(_, m'). show_signals env m') x" for x :: "(int \<times> 'a mach) option"
    by (cases x) (auto simp: finish_def)
  then have "lcall7_dispatch env stk indirect_entry off m =
      map_option (\<lambda>(_, m'). show_signals env m') (sys_regs env ''abi_syscall'' m1)"
    by (simp add: disp call_syscall_def indirect_entry_simps)
  then have "lcall7_dispatch env stk indirect_entry off m =
      map_option (\<lambda>(_, m'). show_signals env m') (sys_regs env ''abi_syscall'' (m\<lparr>klog := klog m1\<rparr>))"
    by (simp only: m1 [symmetric])
  then show ?thesis by blast
qed

lemma entry_indirect:
  assumes "length stk = 8" "env_ok base" "name \<in> set lcall7_handlers" "eax (regs m) AND 0xff = 0"
  shows "\<exists>l g. lcall7_entry xti base stk (Suc d) name segment m =
    map_option g (lcall7_entry xti base stk d (ed_handler (cur_ed m)) (- 1) (nested m\<lparr>klog := l\<rparr>))"
proof -
  let ?env = "abi_calls base stk (lcall7_entry xti base stk d)"
  have ok: "env_ok ?env" using assms(2) by (simp add: abi_calls_ok)
  have "lcall7_entry xti base stk (Suc d) name segment m = lcall7_dispatch ?env stk indirect_entry 1 m"
    using handler_table_nth(1,2) [OF assms(3), of xti] assms(4)
    by (simp add: run_handler_table [OF assms(3)] table_lcall7_def)
  with dispatch_indirect [OF assms(1) ok, of 1 m] obtain l g where
    "lcall7_entry xti base stk (Suc d) name segment m =
      map_option g (sys_regs ?env ''abi_syscall'' (m\<lparr>klog := l\<rparr>))" by auto
  moreover have "sys_regs ?env ''abi_syscall'' (m\<lparr>klog := l\<rparr>) =
      lcall7_syscall (lcall7_entry xti base stk d) (m\<lparr>klog := l\<rparr>)"
    by (simp add: abi_calls_def)
  ultimately show ?thesis
    by (auto simp: lcall7_syscall_nested option.map_comp)
qed

text \<open>
  A kernel stack with room for \<open>d\<close> handlers is enough exactly when one of the first \<open>d\<close> nested
  numbers is a direct call.
\<close>

lemma entry_returns_iff:
  assumes "length stk = 8" "env_ok base" "env_total base" "errs_ok m"
    "name \<in> set lcall7_handlers" "ed_handler (cur_ed m) \<in> set lcall7_handlers"
  shows "(\<exists>m'. lcall7_entry xti base stk d name segment m = Some m') \<longleftrightarrow> direct_within d m"
  using assms(4-6)
proof (induction d arbitrary: m name segment)
  case 0
  then show ?case by simp
next
  case (Suc d)
  show ?case
  proof (cases "eax (regs m) AND 0xff = 0")
    case True
    from entry_indirect [OF assms(1,2) Suc.prems(2) True, of xti d segment] obtain l g where
      eq: "lcall7_entry xti base stk (Suc d) name segment m =
        map_option g (lcall7_entry xti base stk d (ed_handler (cur_ed m)) (- 1) (nested m\<lparr>klog := l\<rparr>))"
      by blast
    have "(\<exists>m'. lcall7_entry xti base stk d (ed_handler (cur_ed m)) (- 1) (nested m\<lparr>klog := l\<rparr>) = Some m') \<longleftrightarrow>
        direct_within d (nested m\<lparr>klog := l\<rparr>)"
      by (rule Suc.IH) (use Suc.prems in simp_all)
    with True show ?thesis unfolding eq by auto
  next
    case False
    let ?env = "abi_calls base stk (lcall7_entry xti base stk d)"
    let ?e = "handler_table xti name ! unat (eax (regs m) AND 0xff)"
    from False have "0 < unat (eax (regs m) AND 0xff)" by (simp add: unat_gt_0)
    from handler_table_nth(3) [OF Suc.prems(2) this]
    have f: "f \<noteq> ''abi_syscall''"
      if "unat (eax (regs m) AND 0xff) < length (handler_table xti name)" "se_syscall ?e = Some f" for f
      using that by auto
    have a: "returns_ok (sys_args ?env f a) m" for f a
      using assms(3) Suc.prems(1) by (simp add: env_total_def abi_calls_def)
    have "\<exists>m'. table_lcall7 ?env stk (handler_table xti name) (eax (regs m) AND 0xff) 1 m = Some m' \<and> errs_ok m'"
      by (rule handler.entry_total)
        (use assms(1,2) Suc.prems(1) f a in \<open>simp_all add: abi_calls_ok abi_calls_returns assms(3)\<close>)
    with False show ?thesis by (auto simp: run_handler_table [OF Suc.prems(2)])
  qed
qed

section \<open>The execution domains\<close>

text \<open>The domain objects of the six modules; \<open>p\<close> is the address of the module.\<close>

definition abi_domains :: "nat \<Rightarrow> exec_domain list" where
  "abi_domains p =
    [sco_exec_domain p, xenix_exec_domain p, ibcs_exec_domain p, isc_exec_domain p, wyse_exec_domain p,
     uw7_exec_domain p, solaris_exec_domain p]"

lemmas domain_defs = sco_exec_domain_def xenix_exec_domain_def ibcs_exec_domain_def
  isc_exec_domain_def wyse_exec_domain_def uw7_exec_domain_def solaris_exec_domain_def

lemma domain_handler: "ed \<in> set (abi_domains p) \<Longrightarrow> ed_handler ed \<in> set lcall7_handlers"
  by (auto simp: abi_domains_def domain_defs lcall7_handlers_def)

lemma domain_errs: "ed \<in> set (abi_domains p) \<Longrightarrow> \<exists>t. err_map ed = Some t \<and> segs_ok t"
  using sco_err_map_ok ibcs_err_map_ok isc_err_map_ok wyse_err_map_ok uw7_err_map_ok solaris_err_map_ok
  by (auto simp: abi_domains_def domain_defs)

lemma domain_errs_ok: "cur_ed m \<in> set (abi_domains p) \<Longrightarrow> errs_ok m"
  using domain_errs [of "cur_ed m" p] by (auto simp: errs_ok_def)

definition abi_ENOSYS :: "exec_domain \<Rightarrow> int" where
  "abi_ENOSYS ed = (if ed_handler ed = ''wyse_lcall7'' then 228 else 89)"

text \<open>The numbers the personalities give to \<^verbatim>\<open>EINVAL\<close>, \<^verbatim>\<open>ENOSYS\<close> and the restart codes.\<close>

lemma domain_err_values:
  assumes "ed \<in> set (abi_domains p)"
  shows "map_value (err_map ed) EINVAL 1 = Some 22" "map_value (err_map ed) ENOSYS 1 = Some (abi_ENOSYS ed)"
    "map_value (err_map ed) 512 1 = Some 4" "map_value (err_map ed) (- EINVAL) 1 = Some 1"
  using assms
  by (auto simp: abi_domains_def domain_defs map_value_def seg_value_def arr_get_def abi_ENOSYS_def
      sco_maps ibcs_maps isc_maps wyse_maps uw7_maps solaris_maps)

lemma domain_socket_maps:
  assumes "ed \<in> set (abi_domains p)"
  shows "\<exists>v. map_value (socktype_map ed) n d = Some v" "\<exists>v. map_value (sockopt_map ed) n d = Some v"
    "\<exists>v. map_value (af_map ed) n d = Some v"
  using assms sco_socktype.value_total sco_sockopt.value_total sco_af.value_total
    ibcs_socktype.value_total ibcs_sockopt.value_total ibcs_af.value_total
    isc_socktype.value_total isc_sockopt.value_total isc_af.value_total
    wyse_socktype.value_total wyse_sockopt.value_total wyse_af.value_total
    uw7_socktype.value_total uw7_sockopt.value_total uw7_af.value_total
    solaris_socktype.value_total solaris_sockopt.value_total solaris_af.value_total
  by (auto simp: abi_domains_def domain_defs)

lemma domain_sigs:
  assumes "ed \<in> set (abi_domains p)"
  shows "sigtab_ok (signal_map ed)" "sigtab_ok (signal_invmap ed)"
  using assms sco_signals_ok xenix_signals_ok ibcs_signals_ok isc_signals_ok wyse_signals_ok
    uw7_signals_ok solaris_signals_ok
  by (auto simp: abi_domains_def domain_defs)

text \<open>The shape of all error tables: one vector for the usual numbers, one for the restart codes.\<close>

definition err_vecs :: "map_segment list \<Rightarrow> u8 list \<Rightarrow> u8 list \<Rightarrow> bool" where
  "err_vecs errs tab lnx \<longleftrightarrow> errs = [Seg 0 122 (Vec tab), Seg 512 514 (Vec lnx), SegEnd] \<and>
     length tab = 123 \<and> length lnx = 3 \<and> list_all (\<lambda>v. v \<noteq> 0) (tl tab) \<and> list_all (\<lambda>v. v \<noteq> 0) lnx"

lemma domain_err_vecs:
  assumes "ed \<in> set (abi_domains p)"
  shows "\<exists>errs tab lnx. err_map ed = Some errs \<and> err_vecs errs tab lnx"
proof -
  have "err_vecs sco_err_map sco_err_table sco_lnx_err_table" "err_vecs ibcs_err_map ibcs_err_table ibcs_lnx_err_table"
    "err_vecs isc_err_map isc_err_table isc_lnx_err_table" "err_vecs wyse_err_map wyse_err_table wyse_lnx_err_table"
    "err_vecs uw7_err_map uw7_err_table uw7_lnx_err_table"
    "err_vecs solaris_err_map solaris_err_table solaris_lnx_err_table"
    by (simp_all add: err_vecs_def sco_maps ibcs_maps isc_maps wyse_maps uw7_maps solaris_maps)
  with assms show ?thesis by (fastforce simp: abi_domains_def domain_defs)
qed

lemma err_vecs_value:
  assumes "err_vecs errs tab lnx"
  shows "0 \<le> e \<Longrightarrow> e \<le> 122 \<Longrightarrow> map_value (Some errs) e d = Some (uint (tab ! nat e))"
    "512 \<le> e \<Longrightarrow> e \<le> 514 \<Longrightarrow> map_value (Some errs) e d = Some (uint (lnx ! nat (e - 512)))"
    "e < 0 \<or> 122 < e \<and> e < 512 \<or> 514 < e \<Longrightarrow> map_value (Some errs) e d = Some d"
  using assms by (auto simp: err_vecs_def map_value_def seg_value_def arr_get_def)

lemma err_vecs_nonzero:
  assumes "err_vecs errs tab lnx"
  shows "1 \<le> i \<Longrightarrow> i \<le> 122 \<Longrightarrow> tab ! i \<noteq> 0" "j < 3 \<Longrightarrow> lnx ! j \<noteq> 0"
proof -
  show "tab ! i \<noteq> 0" if "1 \<le> i" "i \<le> 122"
    using assms that by (cases tab; cases i) (auto simp: err_vecs_def list_all_length)
  show "lnx ! j \<noteq> 0" if "j < 3"
    using assms that by (auto simp: err_vecs_def list_all_length)
qed

end
