(* ===== verification/Abi_Switch.thy ===== *)
theory Abi_Switch
  imports Abi_Exec_Domain
begin

text \<open>
  What the registry and the personality switch of \<^verbatim>\<open>kernel/exec_domain.c\<close> guarantee: registration
  against a plain list, what a process runs under after \<^verbatim>\<open>__set_personality\<close>, how often modules are
  pinned, and the size of \<^verbatim>\<open>/proc/execdomains\<close>.
\<close>

section \<open>Registration against a plain list\<close>

definition reg_spec :: "nat \<Rightarrow> bool \<Rightarrow> nat list \<Rightarrow> int \<times> nat list" where
  "reg_spec p linked xs =
     (if p = 0 then (- EINVAL, xs)
      else if linked \<or> p \<in> set xs then (- EBUSY, xs)
      else (0, p # xs))"

definition unreg_spec :: "nat \<Rightarrow> nat list \<Rightarrow> int \<times> nat list" where
  "unreg_spec p xs = (if p \<in> set xs then (0, remove1 p xs) else (- EINVAL, xs))"

text \<open>
  C15: The pointer manipulation of the registry implements a list of domains.  On a well-formed
  registry, registering puts a new domain at the front and refuses the null pointer and a domain that
  is linked already; unregistering removes exactly the given domain and refuses an unknown one.  Both
  always return and leave the registry well formed.
\<close>

theorem registry_refines_list:
  assumes "reg_inv s"
  shows "(\<exists>e s1. register_exec_domain p s = Some (e, s1) \<and> reg_inv s1 \<and>
      (e, doms s1) = reg_spec p (ed_next (ed_heap s p) \<noteq> 0) (doms s)) \<and>
    (\<exists>e s2. unregister_exec_domain p s = Some (e, s2) \<and> reg_inv s2 \<and>
      (e, doms s2) = unreg_spec p (doms s))"
proof
  show "\<exists>e s1. register_exec_domain p s = Some (e, s1) \<and> reg_inv s1 \<and>
      (e, doms s1) = reg_spec p (ed_next (ed_heap s p) \<noteq> 0) (doms s)"
  proof (cases "p = 0 \<or> p \<in> set (doms s) \<or> ed_next (ed_heap s p) \<noteq> 0")
    case True
    then show ?thesis
      using assms register_present [OF assms, of p]
      by (cases "p \<in> set (doms s)") (auto simp: reg_spec_def register_exec_domain_def dest: doms_nonnull)
  next
    case False
    with register_new [OF assms, of p] show ?thesis by (auto simp: reg_spec_def)
  qed
  show "\<exists>e s2. unregister_exec_domain p s = Some (e, s2) \<and> reg_inv s2 \<and> (e, doms s2) = unreg_spec p (doms s)"
    using assms unregister_present [OF assms, of p] unregister_absent [OF assms, of p]
    by (cases "p \<in> set (doms s)") (auto simp: unreg_spec_def)
qed

text \<open>A registry as it is at boot: only the default domain, here at address 1.\<close>

definition boot_edst :: "'k \<Rightarrow> (nat \<Rightarrow> exec_domain) \<Rightarrow> 'k edst" where
  "boot_edst k h =
     \<lparr>ed_heap = h(1 := default_exec_domain True), exec_domains = 1, task_ed = 1, task_pers = PER_LINUX,
      task_fs = 1, abi_defhandler_lcall7 = PER_SVR4, edk = k\<rparr>"

lemma boot_chain: "chain (ed_heap (boot_edst k h)) (exec_domains (boot_edst k h)) [1]"
  by (simp add: boot_edst_def default_exec_domain_def)

lemma boot_inv: "reg_inv (boot_edst k h)" and boot_doms: "doms (boot_edst k h) = [1]"
  using reg_invI [OF boot_chain, of k h] by simp_all

theorem registry_refines_list_witness:
  "\<exists>s1 s2 :: unit edst. register_exec_domain 5 (boot_edst () (\<lambda>_. default_exec_domain True)) = Some (0, s1) \<and>
     doms s1 = [5, 1] \<and> unregister_exec_domain 1 (boot_edst () (\<lambda>_. default_exec_domain True)) = Some (0, s2) \<and>
     doms s2 = []"
  using registry_refines_list [OF boot_inv, of 5 "()" "\<lambda>_. default_exec_domain True"]
    registry_refines_list [OF boot_inv, of 1 "()" "\<lambda>_. default_exec_domain True"]
  by (auto simp: reg_spec_def unreg_spec_def boot_doms) (auto simp: boot_edst_def default_exec_domain_def)

section \<open>Switching the personality\<close>

text \<open>
  What the switch relies on: loading a module may add domains and keeps the registry well formed, and
  \<^verbatim>\<open>set_fs_altroot\<close> changes the file system structures only.
\<close>

definition edenv_ok :: "'k edenv \<Rightarrow> bool" where
  "edenv_ok env \<longleftrightarrow>
     (\<forall>i s. \<exists>h x k. request_module env i s = s\<lparr>ed_heap := h, exec_domains := x, edk := k\<rparr> \<and>
        (reg_inv s \<longrightarrow> reg_inv (request_module env i s))) \<and>
     (\<forall>s. \<exists>k. set_fs_altroot env s = s\<lparr>edk := k\<rparr>)"

definition same_task :: "'k edst \<Rightarrow> 'k edst \<Rightarrow> bool" where
  "same_task s s' \<longleftrightarrow> task_ed s' = task_ed s \<and> task_pers s' = task_pers s \<and> task_fs s' = task_fs s"

abbreviation per_id :: "u32 \<Rightarrow> u8" where
  "per_id p \<equiv> ucast (get_personality_id p)"

text \<open>A domain that may run a process with the given personality.\<close>

definition suits :: "'k edenv \<Rightarrow> 'k edst \<Rightarrow> u32 \<Rightarrow> nat \<Rightarrow> bool" where
  "suits env s p ep \<longleftrightarrow>
     ep \<in> set (doms s) \<and> covers (ed_heap s ep) (per_id p) \<or> late_probing env \<and> ep = default_ed env"

lemma doms_edk [simp]: "doms (s\<lparr>edk := k\<rparr>) = doms s" "reg_inv (s\<lparr>edk := k\<rparr>) = reg_inv s"
  by (simp_all add: doms_def reg_inv_def)

lemma doms_task [simp]:
  "doms (s\<lparr>task_ed := x\<rparr>) = doms s" "doms (s\<lparr>task_pers := y\<rparr>) = doms s" "doms (s\<lparr>task_fs := z\<rparr>) = doms s"
  by (simp_all add: doms_def)

lemma reg_inv_task [simp]:
  "reg_inv (s\<lparr>task_ed := x\<rparr>) = reg_inv s" "reg_inv (s\<lparr>task_pers := y\<rparr>) = reg_inv s"
  "reg_inv (s\<lparr>task_fs := z\<rparr>) = reg_inv s"
  by (simp_all add: reg_inv_def)

lemma suits_frame [simp]:
  "suits env (s\<lparr>edk := k\<rparr>) = suits env s" "suits env (s\<lparr>task_ed := x\<rparr>) = suits env s"
  "suits env (s\<lparr>task_pers := y\<rparr>) = suits env s" "suits env (s\<lparr>task_fs := z\<rparr>) = suits env s"
  by (simp_all add: suits_def fun_eq_iff)

lemma request_module_ok:
  assumes "edenv_ok env"
  shows "same_task s (request_module env i s)" "reg_inv s \<Longrightarrow> reg_inv (request_module env i s)"
proof -
  from assms obtain h x k where
    "request_module env i s = s\<lparr>ed_heap := h, exec_domains := x, edk := k\<rparr>"
    "reg_inv s \<longrightarrow> reg_inv (request_module env i s)"
    unfolding edenv_ok_def by blast
  then show "same_task s (request_module env i s)" "reg_inv s \<Longrightarrow> reg_inv (request_module env i s)"
    by (simp_all add: same_task_def)
qed

lemma set_fs_altroot_ok: "edenv_ok env \<Longrightarrow> \<exists>k. set_fs_altroot env s = s\<lparr>edk := k\<rparr>"
  by (simp add: edenv_ok_def)

lemma lookup_pass_suits:
  assumes "reg_inv s"
  shows "\<exists>ep k. lookup_pass env (per_id p) s = Some (ep, s\<lparr>edk := k\<rparr>) \<and>
    (ep \<noteq> 0 \<longrightarrow> suits env (s\<lparr>edk := k\<rparr>) p ep)"
proof -
  from lookup_pass_total [OF assms, of env "per_id p"] obtain ep k where
    ep: "lookup_pass env (per_id p) s = Some (ep, s\<lparr>edk := k\<rparr>)"
    "lookup_list env (ed_heap s) (per_id p) (doms s) (edk s) = (ep, k)" by blast
  then have "ep \<noteq> 0 \<longrightarrow> suits env (s\<lparr>edk := k\<rparr>) p ep"
    by (auto simp: suits_def dest: lookup_list_covers)
  with ep show ?thesis by blast
qed

lemma lookup_suits:
  assumes "reg_inv s" "edenv_ok env"
  shows "\<exists>ep s'. lookup_exec_domain env p s = Some (ep, s') \<and> reg_inv s' \<and> same_task s s' \<and>
    (suits env s' p ep \<or> ep = 0)"
proof -
  from lookup_pass_suits [OF assms(1), of env p] obtain ep k where
    1: "lookup_pass env (per_id p) s = Some (ep, s\<lparr>edk := k\<rparr>)" "ep \<noteq> 0 \<longrightarrow> suits env (s\<lparr>edk := k\<rparr>) p ep"
    by blast
  let ?s = "request_module env (per_id p) (s\<lparr>edk := k\<rparr>)"
  have s: "reg_inv ?s" "same_task s ?s"
    using request_module_ok [OF assms(2), of "s\<lparr>edk := k\<rparr>" "per_id p"] assms(1)
    by (simp_all add: same_task_def)
  from lookup_pass_suits [OF s(1), of env p] obtain ep2 k2 where
    2: "lookup_pass env (per_id p) ?s = Some (ep2, ?s\<lparr>edk := k2\<rparr>)" "ep2 \<noteq> 0 \<longrightarrow> suits env (?s\<lparr>edk := k2\<rparr>) p ep2"
    by blast
  show ?thesis
    using 1 2 s assms(1) by (auto simp: lookup_exec_domain_def Let_def same_task_def suits_def)
qed

lemma unshare_fs_Inr:
  assumes "unshare_fs env s = Inr s'"
  shows "\<exists>f k. s' = s\<lparr>task_fs := f, edk := k\<rparr>"
proof (cases "fs_count env (task_fs s) (edk s) = 1")
  case True
  with assms have "s' = s\<lparr>task_fs := task_fs s, edk := edk s\<rparr>" by (simp add: unshare_fs_def)
  then show ?thesis by blast
next
  case False
  with assms show ?thesis by (auto simp: unshare_fs_def split: if_splits prod.splits)
qed


lemma set_personality_outcome_lemma:
  assumes "reg_inv s" "edenv_ok env"
  shows "\<exists>e s'. set_personality_raw env p s = Some (e, s') \<and> reg_inv s' \<and>
    (if e = 0 then task_pers s' = p \<and> suits env s' p (task_ed s')
     else (e = - ENOEXEC \<or> e = - ENOMEM) \<and> task_pers s' = task_pers s \<and> task_ed s' = task_ed s)"
proof -
  from lookup_suits [OF assms, of p] obtain ep s1 where
    1: "lookup_exec_domain env p s = Some (ep, s1)" "reg_inv s1" "same_task s s1"
      "suits env s1 p ep \<or> ep = 0" by blast
  note raw = set_personality_raw_def 1(1)
  show ?thesis
  proof (cases "ep = 0 \<or> ep = task_ed s1")
    case True
    then show ?thesis using 1(2-4) by (auto simp: raw same_task_def)
  next
    case False
    show ?thesis
    proof (cases "unshare_fs env s1")
      case (Inl s2)
      then obtain k where "s2 = s1\<lparr>edk := k\<rparr>" by (auto simp: unshare_fs_def split: if_splits prod.splits)
      with Inl False show ?thesis using 1(2,3) by (simp add: raw same_task_def)
    next
      case (Inr s2)
      then obtain f k where s2: "s2 = s1\<lparr>task_fs := f, edk := k\<rparr>"
        using unshare_fs_Inr by blast
      obtain k' where "set_fs_altroot env (s2\<lparr>task_pers := p, task_ed := ep\<rparr>) = s2\<lparr>task_pers := p, task_ed := ep, edk := k'\<rparr>"
        using set_fs_altroot_ok [OF assms(2)] by blast
      with Inr False s2 show ?thesis using 1(2,4) by (simp add: raw Let_def)
    qed
  qed
qed


text \<open>A kernel whose modules are always there and whose state is the table of their use counts.\<close>

definition counting_env :: "(nat \<Rightarrow> int) edenv" where
  "counting_env =
     \<lparr>late_probing = False, kmod = False, default_ed = 1,
      try_module_get = (\<lambda>m k. (True, k(m := k m + 1))), module_put = (\<lambda>m k. k(m := k m - 1)),
      request_module = (\<lambda>i s. s), fs_count = (\<lambda>f k. 1), copy_fs_struct = (\<lambda>f k. (f, k)),
      put_fs_struct = (\<lambda>f k. k), set_fs_altroot = (\<lambda>s. s), send_sig = (\<lambda>n k. k),
      call_handler = (\<lambda>h n s. s)\<rparr>"

lemma counting_env_ok: "edenv_ok counting_env"
proof (unfold edenv_ok_def, intro conjI allI)
  fix i and s :: "(nat \<Rightarrow> int) edst"
  show "\<exists>h x k. request_module counting_env i s = s\<lparr>ed_heap := h, exec_domains := x, edk := k\<rparr> \<and>
      (reg_inv s \<longrightarrow> reg_inv (request_module counting_env i s))"
    by (intro exI [of _ "ed_heap s"] exI [of _ "exec_domains s"] exI [of _ "edk s"]) (simp add: counting_env_def)
next
  fix s :: "(nat \<Rightarrow> int) edst"
  show "\<exists>k. set_fs_altroot counting_env s = s\<lparr>edk := k\<rparr>"
    by (intro exI [of _ "edk s"]) (simp add: counting_env_def)
qed

text \<open>A domain for the ids 1 and 2 at address 5, of module 9, in front of the default domain.\<close>

definition svr_edst :: "(nat \<Rightarrow> int) edst" where
  "svr_edst = (boot_edst (\<lambda>_. 0)
     (\<lambda>_. (default_exec_domain False)\<lparr>pers_low := 1, pers_high := 2, ed_module := 9, ed_next := 1\<rparr>))\<lparr>exec_domains := 5\<rparr>"

lemma svr_chain: "chain (ed_heap svr_edst) (exec_domains svr_edst) [5, 1]"
  by (simp add: svr_edst_def boot_edst_def default_exec_domain_def)

lemma svr_inv: "reg_inv svr_edst" and svr_doms: "doms svr_edst = [5, 1]"
  using reg_invI [OF svr_chain] by simp_all


text \<open>
  C17: The system call reports what happened.  \<^verbatim>\<open>sys_personality\<close> with the query value changes nothing
  and returns the personality; with another value it returns the old personality when the process has
  the requested one afterwards, and otherwise \<^verbatim>\<open>EINVAL\<close> with the process in its old domain.
\<close>

theorem sys_personality_result:
  assumes "reg_inv s" "edenv_ok env"
  shows "\<exists>r s'. sys_personality env p s = Some (r, s') \<and> reg_inv s' \<and>
    (if p = PER_QUERY then r = sint (task_pers s) \<and> s' = s
     else if task_pers s' = p then r = sint (task_pers s)
     else r = - EINVAL \<and> task_pers s' = task_pers s \<and> task_ed s' = task_ed s)"
proof (cases "p = PER_QUERY \<or> task_pers s = p")
  case True
  with assms(1) show ?thesis
    by (auto simp: sys_personality_def set_personality_def is_cur_personality_def c_bool_def Let_def)
next
  case False
  then have "set_personality env p s = set_personality_raw env p s"
    by (simp add: set_personality_def is_cur_personality_def c_bool_def)
  moreover from set_personality_outcome_lemma [OF assms, of p] obtain e s' where
    "set_personality_raw env p s = Some (e, s')" "reg_inv s'"
    "if e = 0 then task_pers s' = p \<and> suits env s' p (task_ed s')
     else (e = - ENOEXEC \<or> e = - ENOMEM) \<and> task_pers s' = task_pers s \<and> task_ed s' = task_ed s" by blast
  ultimately show ?thesis
    using False by (auto simp: sys_personality_def Let_def split: if_splits)
qed

theorem sys_personality_result_witness:
  "\<exists>r s'. sys_personality counting_env PER_SVR4 svr_edst = Some (r, s') \<and> reg_inv s' \<and>
    (if PER_SVR4 = PER_QUERY then r = sint (task_pers svr_edst) \<and> s' = svr_edst
     else if task_pers s' = PER_SVR4 then r = sint (task_pers svr_edst)
     else r = - EINVAL \<and> task_pers s' = task_pers svr_edst \<and> task_ed s' = task_ed svr_edst)"
  by (rule sys_personality_result [OF svr_inv counting_env_ok])

section \<open>Use counts of modules\<close>

lemma lookup_list_first:
  assumes "\<forall>y \<in> set ys. \<not> covers (h y) i" "covers (h d) i"
  shows "lookup_list counting_env h i (ys @ d # zs) k = (d, k(ed_module (h d) := k (ed_module (h d)) + 1))"
  using assms by (induction ys) (simp_all add: counting_env_def)

text \<open>The first registered domain for an id is \<open>d\<close>.\<close>

definition serves :: "'k edst \<Rightarrow> nat \<Rightarrow> u32 \<Rightarrow> bool" where
  "serves s d p \<longleftrightarrow> (\<exists>ys zs. doms s = ys @ d # zs \<and> (\<forall>y \<in> set ys. \<not> covers (ed_heap s y) (per_id p)) \<and>
     covers (ed_heap s d) (per_id p))"

lemma switch_same_domain:
  assumes "reg_inv s" "serves s (task_ed s) p" "p \<noteq> task_pers s"
  shows "set_personality counting_env p s = Some (0, s\<lparr>task_pers := p,
    edk := (edk s)(ed_module (ed_heap s (task_ed s)) := edk s (ed_module (ed_heap s (task_ed s))) + 1)\<rparr>)"
proof -
  let ?d = "task_ed s"
  from assms(2) obtain ys zs where d: "doms s = ys @ ?d # zs"
    "\<forall>y \<in> set ys. \<not> covers (ed_heap s y) (per_id p)" "covers (ed_heap s ?d) (per_id p)"
    unfolding serves_def by blast
  then have "?d \<noteq> 0" using doms_nonnull [OF assms(1), of ?d] by simp
  have "lookup_loop counting_env (ed_heap s) (per_id p) (exec_domains s) (edk s) =
      Some (?d, (edk s)(ed_module (ed_heap s ?d) := edk s (ed_module (ed_heap s ?d)) + 1))"
    using lookup_loop_chain [OF conjunct1 [OF reg_invD [OF assms(1)]], of counting_env "per_id p" "edk s"]
      lookup_list_first [OF d(2,3)]
    by (simp add: d(1))
  with \<open>?d \<noteq> 0\<close> assms(3) show ?thesis
    by (simp add: set_personality_def is_cur_personality_def c_bool_def set_personality_raw_def
        lookup_exec_domain_def lookup_pass_def Let_def)
qed

fun switch_all :: "'k edenv \<Rightarrow> u32 list \<Rightarrow> 'k edst \<Rightarrow> 'k edst option" where
  "switch_all env [] s = Some s"
| "switch_all env (p # ps) s = Option.bind (set_personality env p s) (\<lambda>(_, s'). switch_all env ps s')"

text \<open>
  Module use counts leak.  Every switch between two personalities of the same domain pins the
  domain's module once more and nothing releases it: after \<open>n\<close> such switches the count is \<open>n\<close> higher,
  although the process still uses the module once.
\<close>

lemma same_domain_switch_leaks:
  assumes "reg_inv s" "\<forall>p \<in> set ps. serves s (task_ed s) p" "distinct_adj (task_pers s # ps)"
  shows "\<exists>s'. switch_all counting_env ps s = Some s' \<and> task_ed s' = task_ed s \<and>
    edk s' (ed_module (ed_heap s (task_ed s))) = edk s (ed_module (ed_heap s (task_ed s))) + int (length ps)"
  using assms
proof (induction ps arbitrary: s)
  case Nil
  then show ?case by simp
next
  case (Cons p ps)
  let ?m = "ed_module (ed_heap s (task_ed s))"
  let ?s = "s\<lparr>task_pers := p, edk := (edk s)(?m := edk s ?m + 1)\<rparr>"
  have step: "set_personality counting_env p s = Some (0, ?s)"
    by (rule switch_same_domain) (use Cons.prems in auto)
  have "serves ?s (task_ed ?s) q" if "serves s (task_ed s) q" for q
    using that by (simp add: serves_def)
  with Cons.prems Cons.IH [of ?s] step show ?case by (auto simp: distinct_adj_Cons)
qed

section \<open>The list in /proc\<close>

lemma exec_domain_list_bound:
  assumes "chain h ep xs" "\<And>l u n m. length (fmt l u n m) \<le> 80" "length page \<le> PAGE_SIZE"
  shows "\<exists>page'. exec_domain_list_loop fmt h ep page = Some page' \<and> length page' \<le> PAGE_SIZE \<and>
    (\<exists>n \<le> length xs. page' = page @ concat (map (\<lambda>x. fmt (pers_low (h x)) (pers_high (h x)) (ed_name (h x)) (ed_module (h x))) (take n xs)))"
  using assms(1,3)
proof (induction xs arbitrary: ep page)
  case Nil
  then show ?case by (subst exec_domain_list_loop.simps) simp
next
  case (Cons x xs)
  let ?line = "fmt (pers_low (h x)) (pers_high (h x)) (ed_name (h x)) (ed_module (h x))"
  from Cons.prems have ep: "ep = x" "x \<noteq> 0" "chain h (ed_next (h x)) xs" by auto
  show ?case
  proof (cases "length page < PAGE_SIZE - 80")
    case True
    with assms(2) [of "pers_low (h x)" "pers_high (h x)" "ed_name (h x)" "ed_module (h x)"]
    have "length (page @ ?line) \<le> PAGE_SIZE" by simp
    from Cons.IH [OF ep(3) this] obtain page' n where
      "exec_domain_list_loop fmt h (ed_next (h x)) (page @ ?line) = Some page'" "length page' \<le> PAGE_SIZE"
      "n \<le> length xs" "page' = (page @ ?line) @ concat (map (\<lambda>x. fmt (pers_low (h x)) (pers_high (h x)) (ed_name (h x)) (ed_module (h x))) (take n xs))"
      by blast
    with ep True show ?thesis
      by (subst exec_domain_list_loop.simps) (auto intro!: exI [of _ "Suc n"])
  next
    case False
    then show ?thesis
      using Cons.prems(2) by (subst exec_domain_list_loop.simps) (auto intro!: exI [of _ 0])
  qed
qed

text \<open>
  \<^verbatim>\<open>/proc/execdomains\<close> stays within its page.  When no line is longer than 80 characters, the listing
  ends, consists of whole lines for the first domains of the registry and has at most 4096 characters.
\<close>

lemma exec_domain_list_fits:
  assumes "reg_inv s" "\<And>l u n m. length (fmt l u n m) \<le> 80"
  shows "\<exists>page n. get_exec_domain_list fmt s = Some page \<and> length page \<le> PAGE_SIZE \<and> n \<le> length (doms s) \<and>
    page = concat (map (\<lambda>x. fmt (pers_low (ed_heap s x)) (pers_high (ed_heap s x)) (ed_name (ed_heap s x))
      (ed_module (ed_heap s x))) (take n (doms s)))"
  using exec_domain_list_bound [OF conjunct1 [OF reg_invD [OF assms(1)]] assms(2), where page = "''''"]
  by (auto simp: get_exec_domain_list_def)

end
