(* ===== verification/Abi_Protos.thy ===== *)
theory Abi_Protos
  imports Abi_Machine
begin

text \<open>
  The prototypes of the emulation's own system calls (the \<^verbatim>\<open>sysent.h\<close> headers under
  \<^verbatim>\<open>include/abi\<close>, and the static functions of two of the tables) and the check that a table entry
  calls a function the way it is declared.
\<close>

text \<open>A function takes the saved registers, or so many integer arguments.\<close>

datatype conv = Regs | Args nat

definition svr4_protos :: "(string \<times> conv) list" where [abi_consts]:
  "svr4_protos =
    [(''abi_syscall'', Regs), (''svr4_fcntl'', Args 3), (''svr4_hrtsys'', Regs),
     (''svr4_ioctl'', Regs), (''svr4_semsys'', Regs), (''svr4_shmsys'', Regs),
     (''svr4_msgsys'', Regs), (''abi_brk'', Args 1), (''abi_exec'', Regs),
     (''abi_fork'', Regs), (''abi_getpid'', Regs), (''abi_getuid'', Regs),
     (''abi_getgid'', Regs), (''abi_mkdir'', Args 2), (''svr4_mknod'', Args 3),
     (''svr4_xmknod'', Args 4), (''abi_kill'', Args 2), (''abi_pipe'', Regs),
     (''abi_procids'', Regs), (''abi_read'', Args 3), (''abi_select'', Args 5),
     (''abi_time'', Args 0), (''abi_wait'', Regs), (''svr4_mmap'', Args 6),
     (''svr4_open'', Args 3), (''svr4_statfs'', Args 4), (''svr4_fstatfs'', Args 4),
     (''svr4_getdents'', Args 3), (''abi_sigsuspend'', Regs), (''abi_sigfunc'', Regs),
     (''abi_sigaction'', Args 3), (''abi_sigprocmask'', Args 3), (''socksys_syscall'', Args 1),
     (''svr4_getmsg'', Regs), (''svr4_putmsg'', Regs), (''svr4_getpmsg'', Regs),
     (''svr4_putpmsg'', Regs), (''svr4_access'', Args 2), (''svr4_waitid'', Args 4),
     (''svr4_waitsys'', Regs), (''svr4_seteuid'', Args 1), (''svr4_setegid'', Args 1),
     (''svr4_fpathconf'', Args 2), (''svr4_pathconf'', Args 2), (''svr4_sigpending'', Args 2),
     (''svr4_context'', Regs), (''ibcs_sysconf'', Args 1), (''svr4_sysfs'', Args 3),
     (''svr4_sysinfo'', Args 3), (''svr4_ulimit'', Args 2), (''svr4_getrlimit'', Args 2),
     (''svr4_setrlimit'', Args 2), (''svr4_stat'', Args 2), (''svr4_lstat'', Args 2),
     (''svr4_fstat'', Args 2), (''svr4_xstat'', Args 3), (''svr4_fxstat'', Args 3),
     (''svr4_lxstat'', Args 3), (''svr4_sysconfig'', Args 1), (''svr4_sysi86'', Args 3),
     (''abi_utsname'', Args 1), (''v7_utsname'', Args 1), (''svr4_statvfs'', Args 2),
     (''svr4_fstatvfs'', Args 2)]"

definition cxenix_protos :: "(string \<times> conv) list" where [abi_consts]:
  "cxenix_protos =
    [(''xnx_locking'', Args 3), (''xnx_creatsem'', Args 2), (''xnx_opensem'', Args 1),
     (''xnx_sigsem'', Args 1), (''xnx_waitsem'', Args 1), (''xnx_nbwaitsem'', Args 1),
     (''xnx_rdchk'', Args 1), (''xnx_ftime'', Args 1), (''xnx_nap'', Args 1),
     (''xnx_sdget'', Args 4), (''xnx_sdfree'', Args 1), (''xnx_sdenter'', Args 2),
     (''xnx_sdleave'', Args 1), (''xnx_sdgetv'', Args 1), (''xnx_sdwaitv'', Args 2),
     (''xnx_proctl'', Args 3), (''xnx_execseg'', Args 2), (''xnx_unexecseg'', Args 1),
     (''xnx_eaccess'', Args 2), (''xnx_paccess'', Args 5), (''xnx_sigpending'', Args 1),
     (''xnx_pathconf'', Args 2), (''xnx_fpathconf'', Args 2), (''xnx_sigaction'', Args 3),
     (''xnx_utsname'', Args 1), (''cxenix'', Regs)]"

definition sco_protos :: "(string \<times> conv) list" where [abi_consts]:
  "sco_protos =
    [(''sco_ioctl'', Regs), (''sco_lseek'', Args 3), (''sco_fcntl'', Args 3),
     (''sco_sysi86'', Args 3), (''sco_mmap'', Args 6), (''sco_ptrace'', Args 4),
     (''sw_security'', Args 6), (''sco_xstat'', Args 3), (''sco_lxstat'', Args 3),
     (''sco_fxstat'', Args 3), (''sco_statvfs'', Args 2), (''sco_fstatvfs'', Args 2)]"

definition wyse_protos :: "(string \<times> conv) list" where [abi_consts]:
  "wyse_protos =
    [(''wyse_ptrace'', Args 4), (''wyse_gethostname'', Args 2),
     (''wyse_getdomainname'', Args 2), (''wyse_wait3'', Args 1), (''wyse_socket'', Args 3),
     (''wyse_setsockopt'', Args 5), (''wyse_getsockopt'', Args 5), (''wyse_recvfrom'', Args 6),
     (''wyse_recv'', Args 4), (''wyse_sendto'', Args 6), (''wyse_send'', Args 4),
     (''wyse_syslocal'', Regs)]"

definition uw7_protos :: "(string \<times> conv) list" where [abi_consts]:
  "uw7_protos =
    [(''uw7_access'', Args 2), (''uw7_context'', Regs), (''uw7_sigaltstack'', Args 2),
     (''uw7_sleep'', Args 1), (''uw7_seteuid'', Args 1), (''uw7_setegid'', Args 1),
     (''uw7_pread'', Args 4), (''uw7_pwrite'', Args 4), (''uw7_stty'', Args 2),
     (''uw7_gtty'', Args 2), (''uw7_ioctl'', Regs), (''uw7_truncate64'', Args 3),
     (''uw7_ftruncate64'', Args 3), (''uw7_statvfs64'', Args 2), (''uw7_fstatvfs64'', Args 2),
     (''uw7_getrlimit64'', Args 2), (''uw7_setrlimit64'', Args 2), (''uw7_lseek64'', Args 4),
     (''uw7_pread64'', Args 5), (''uw7_pwrite64'', Args 5), (''uw7_creat64'', Args 2),
     (''uw7_mldmode'', Args 1), (''uw7_mmap64'', Args 7), (''uw7_xstat'', Args 3),
     (''uw7_lxstat'', Args 3), (''uw7_fxstat'', Args 3)]"

definition solaris_protos :: "(string \<times> conv) list" where [abi_consts]:
  "solaris_protos =
    [(''sol_open64'', Args 3), (''sol_getdents64'', Args 3), (''sol_mmap64'', Args 7),
     (''solaris_socket'', Args 3), (''solaris_socketpair'', Args 1),
     (''solaris_bind'', Args 3), (''solaris_setsockopt'', Args 5),
     (''solaris_getsockopt'', Args 5), (''solaris_connect'', Args 3),
     (''solaris_accept'', Args 3), (''solaris_listen'', Args 2),
     (''solaris_shutdown'', Args 2), (''solaris_recvfrom'', Args 6),
     (''solaris_recv'', Args 4), (''solaris_sendto'', Args 6), (''solaris_send'', Args 4),
     (''solaris_getpeername'', Args 3), (''solaris_getsockname'', Args 3),
     (''solaris_sendmsg'', Args 3), (''solaris_recvmsg'', Args 3), (''sol_llseek'', Regs),
     (''sol_memcntl'', Args 6), (''sol_acl'', Args 4), (''sol_stat64'', Args 2),
     (''sol_lstat64'', Args 2), (''sol_fstat64'', Args 2)]"

definition isc_protos :: "(string \<times> conv) list" where [abi_consts]:
  "isc_protos = [(''isc_sysisc'', Regs), (''isc_setostype'', Args 1)]"

definition wyse_static_protos :: "(string \<times> conv) list" where [abi_consts]:
  "wyse_static_protos = [(''wyse_class_tcp'', Regs), (''wyse_class_nfs'', Regs)]"

definition all_protos :: "(string \<times> conv) list" where [abi_consts]:
  "all_protos = svr4_protos @ cxenix_protos @ sco_protos @
     wyse_protos @ uw7_protos @ solaris_protos @ isc_protos @ wyse_static_protos"

text \<open>The socket calls of \<^verbatim>\<open>net/socket.c\<close> that the tables name.\<close>

definition net_protos :: "(string \<times> conv) list" where [abi_consts]:
  "net_protos =
    [(''sys_socketpair'', Args 4), (''sys_bind'', Args 3), (''sys_listen'', Args 2),
     (''sys_accept'', Args 3), (''sys_connect'', Args 3), (''sys_getsockname'', Args 3),
     (''sys_getpeername'', Args 3), (''sys_shutdown'', Args 2)]"

definition proto :: "string \<Rightarrow> conv option" where
  "proto f = map_of (all_protos @ net_protos) f"

text \<open>
  An entry calls its function the way it is declared: with the registers (\<open>Spl\<close>, \<open>Fast\<close>) or with
  the declared number of arguments.  A function the headers do not declare is one of Linux'.
\<close>

definition conforms :: "sysent \<Rightarrow> bool" where
  "conforms e =
     (case se_syscall e of
        None \<Rightarrow> True
      | Some f \<Rightarrow>
          (case proto f of
             None \<Rightarrow> True
           | Some Regs \<Rightarrow> se_nargs e = Spl \<or> se_nargs e = Fast
           | Some (Args n) \<Rightarrow> se_nargs e = int n))"

text \<open>The positions of the entries that do not.\<close>

fun mismatches_from :: "nat \<Rightarrow> sysent list \<Rightarrow> nat list" where
  "mismatches_from i [] = []"
| "mismatches_from i (e # es) = (if conforms e then [] else [i]) @ mismatches_from (i + 1) es"

definition mismatches :: "sysent list \<Rightarrow> nat list" where
  "mismatches table = mismatches_from 0 table"

lemmas all_protos_defs = all_protos_def svr4_protos_def cxenix_protos_def sco_protos_def
  wyse_protos_def uw7_protos_def solaris_protos_def isc_protos_def wyse_static_protos_def

text \<open>No function is declared twice, so a declared function has the prototype it is declared with.\<close>

lemma protos_distinct: "distinct (map fst all_protos)"
  by (simp add: all_protos_defs)

lemma protos_declared: "list_all (\<lambda>(f, c). proto f = Some c) all_protos"
  using protos_distinct by (auto simp: list_all_iff proto_def map_add_def)

lemmas proto_simps =
  protos_declared [unfolded all_protos_defs append_Cons append_Nil list.pred_inject prod.case]

lemma protos_not_linux: "list_all (\<lambda>(f, _). take 4 f \<noteq> ''sys_'') all_protos"
  by code_simp

lemma proto_linux:
  "proto (CHR ''s'' # CHR ''y'' # CHR ''s'' # CHR ''_'' # f) =
     map_of net_protos (CHR ''s'' # CHR ''y'' # CHR ''s'' # CHR ''_'' # f)"
proof -
  have "map_of all_protos (CHR ''s'' # CHR ''y'' # CHR ''s'' # CHR ''_'' # f) = None"
    using protos_not_linux by (force simp: map_of_eq_None_iff list_all_iff)
  then show ?thesis by (simp add: proto_def map_add_def)
qed

lemma mismatches_from_nth:
  "i \<in> set (mismatches_from k table) \<longleftrightarrow>
     k \<le> i \<and> i < k + length table \<and> \<not> conforms (table ! (i - k))"
proof (induction table arbitrary: k)
  case Nil
  then show ?case by simp
next
  case (Cons e es)
  show ?case
  proof (cases "i = k")
    case True
    then show ?thesis using Cons [of "k + 1"] by simp
  next
    case False
    then have "(e # es) ! (i - k) = es ! (i - (k + 1))" if "k \<le> i" using that by (simp add: nth_Cons')
    with False show ?thesis using Cons [of "k + 1"] by auto
  qed
qed

lemma mismatches_iff: "i \<in> set (mismatches table) \<longleftrightarrow> i < length table \<and> \<not> conforms (table ! i)"
  by (simp add: mismatches_def mismatches_from_nth)

lemmas mismatches_simps = mismatches_def conforms_def proto_simps proto_linux net_protos_def Spl_def
  Fast_def Ukn_def Unimpl_def

end
