(* ===== verification/Abi_Samples.thy ===== *)
theory Abi_Samples
  imports Abi_Entry
begin

text \<open>
  A small concrete machine, on which the hypotheses of the general theorems hold: tracing compiled in
  and switched on, every table function answering in its own way, zero-filled memory.
\<close>

definition sample_env :: "unit sysenv" where
  "sample_env =
     \<lparr>cfg_trace = True,
      sys_regs = (\<lambda>f m. Some (if f = ''abi_getpid'' then 42 else - EINVAL, m)),
      sys_args = (\<lambda>f a m. Some (int (length a), m)),
      getname = (\<lambda>m a. None),
      fmt_p = (\<lambda>v. ''0x'' @ show_base 16 (unat v)),
      sig_pending = (\<lambda>_. False), pending_word = (\<lambda>_. 0), blocked_word = (\<lambda>_. 0)\<rparr>"

definition sample_mach :: "exec_domain \<Rightarrow> u32 \<Rightarrow> unit mach" where
  "sample_mach ed n =
     \<lparr>regs = \<lparr>eax = n, edx = 0, esp = 0x1000, eflags = 0\<rparr>, mem = (\<lambda>_. Some 0), cur_ed = ed,
      cur_pers = 0, abi_traceflg = 0xffff, klog = [], kern = ()\<rparr>"

definition sample_stk :: "u32 list" where
  "sample_stk = replicate 8 0xdeadbeef"

lemma sample_stk_length: "length sample_stk = 8"
  by (simp add: sample_stk_def)

lemma sample_env_ok: "env_ok sample_env"
proof -
  have "length (show_base 16 (unat v)) \<le> 8" for v :: u32
  proof -
    have "unat v < 2 ^ 32" using unsigned_less [of v] by simp
    then show ?thesis using show_base_length [of 16 8 "unat v"] by simp
  qed
  then show ?thesis by (force simp: env_ok_def sample_env_def intro: order_trans)
qed

lemma sample_env_blind: "log_blind sample_env"
  by (simp add: log_blind_def sample_env_def unlog_def)

lemma sample_env_total: "env_total sample_env"
  by (simp add: env_total_def sample_env_def returns_ok_def)

lemma sample_mach_simps [simp]:
  "eax (regs (sample_mach ed n)) = n" "cur_ed (sample_mach ed n) = ed" "esp (regs (sample_mach ed n)) = 0x1000"
  "mem (sample_mach ed n) = (\<lambda>_. Some 0)"
  by (simp_all add: sample_mach_def)

lemma sample_get_user32: "get_user32 (\<lambda>_. Some 0) a = 0"
  by (simp add: get_user32_def rd32_def)

lemmas sample = sample_stk_length sample_env_ok sample_env_blind sample_env_total

end
