(* ===== verification/Abi_User.thy ===== *)
theory Abi_User
  imports Abi_Machine
begin

text \<open>
  Transfers between the kernel and user memory, byte by byte as \<^verbatim>\<open>copy_to_user\<close>, \<^verbatim>\<open>copy_from_user\<close>
  and \<^verbatim>\<open>put_user\<close> do them: a transfer stops at the first address that faults, tells how many bytes
  are missing, and a kernel buffer that is not filled is filled with zeros.  Structures cross the
  border as the little-endian bytes of their fields.
\<close>

section \<open>Transfers\<close>

fun copy_to_user :: "umem \<Rightarrow> u32 \<Rightarrow> u8 list \<Rightarrow> nat \<times> umem" where
  "copy_to_user m a [] = (0, m)"
| "copy_to_user m a (b # bs) =
     (if m a = None then (length (b # bs), m) else copy_to_user (m(a \<mapsto> b)) (a + 1) bs)"

fun copy_from_user :: "umem \<Rightarrow> u32 \<Rightarrow> nat \<Rightarrow> u8 list \<times> nat" where
  "copy_from_user m a 0 = ([], 0)"
| "copy_from_user m a (Suc n) =
     (case m a of
        None \<Rightarrow> (replicate (Suc n) 0, Suc n)
      | Some b \<Rightarrow> (let (bs, left) = copy_from_user m (a + 1) n in (b # bs, left)))"

text \<open>The addresses \<open>a\<close> to \<open>a + n - 1\<close> are all mapped.\<close>

definition mapped :: "umem \<Rightarrow> u32 \<Rightarrow> nat \<Rightarrow> bool" where
  "mapped m a n \<longleftrightarrow> (\<forall>i < n. m (a + of_nat i) \<noteq> None)"

text \<open>\<^verbatim>\<open>put_user\<close> on a word or a smaller object: all or nothing, and the error code.\<close>

definition put_user :: "umem \<Rightarrow> u32 \<Rightarrow> u8 list \<Rightarrow> int \<times> umem" where
  "put_user m a bs = (if list_all (\<lambda>i. m (a + of_nat i) \<noteq> None) [0..<length bs]
     then (0, snd (copy_to_user m a bs)) else (- EFAULT, m))"

section \<open>Bytes of numbers\<close>

definition bytes16 :: "u16 \<Rightarrow> u8 list" where
  "bytes16 w = [ucast w, ucast (drop_bit 8 w)]"

definition bytes32 :: "u32 \<Rightarrow> u8 list" where
  "bytes32 w = [ucast w, ucast (drop_bit 8 w), ucast (drop_bit 16 w), ucast (drop_bit 24 w)]"

definition bytes64 :: "u64 \<Rightarrow> u8 list" where
  "bytes64 w = bytes32 (ucast w) @ bytes32 (ucast (drop_bit 32 w))"

definition word16 :: "u8 list \<Rightarrow> u16" where
  "word16 bs = ucast (bs ! 0) OR push_bit 8 (ucast (bs ! 1))"

definition word32 :: "u8 list \<Rightarrow> u32" where
  "word32 bs = ucast (bs ! 0) OR push_bit 8 (ucast (bs ! 1)) OR push_bit 16 (ucast (bs ! 2))
     OR push_bit 24 (ucast (bs ! 3))"

definition field :: "nat \<Rightarrow> nat \<Rightarrow> u8 list \<Rightarrow> u8 list" where
  "field off n bs = take n (drop off bs)"

text \<open>A short word of the program; a fault reads as 0.\<close>

definition get_user16 :: "umem \<Rightarrow> u32 \<Rightarrow> u16" where
  "get_user16 mm a = (let (bs, left) = copy_from_user mm a 2 in if left \<noteq> 0 then 0 else word16 bs)"

section \<open>Facts\<close>

lemma and_pow: "f AND 2 ^ k = (if bit f k then 2 ^ k else 0)" for f :: u32
  by (rule bit_word_eqI) (auto simp: bit_simps)

lemma of_nat_offset: "i < 2 ^ 32 \<Longrightarrow> j < 2 ^ 32 \<Longrightarrow> a + of_nat i = a + (of_nat j :: u32) \<longleftrightarrow> i = j"
  by (simp add: of_nat_inverse word_of_nat_eq_iff take_bit_nat_eq_self)

lemma bytes_length [simp]: "length (bytes16 v) = 2" "length (bytes32 w) = 4" "length (bytes64 x) = 8"
  by (simp_all add: bytes16_def bytes32_def bytes64_def)

lemma word16_bytes16 [simp]: "word16 (bytes16 v) = v"
proof (rule bit_word_eqI)
  fix n assume n: "n < LENGTH(16)"
  have "n < 8 \<or> 8 \<le> n" by linarith
  with n show "bit (word16 (bytes16 v)) n = bit v n"
    by (elim disjE) (auto simp: word16_def bytes16_def bit_simps)
qed

lemma word32_bytes32 [simp]: "word32 (bytes32 v) = v"
  by (simp add: word32_def bytes32_def word_of_bytes)

lemma copy_to_user_length: "fst (copy_to_user m a bs) \<le> length bs"
  by (induction bs arbitrary: m a) (auto intro: le_SucI)

lemma copy_from_user_length [simp]: "length (fst (copy_from_user m a n)) = n"
  by (induction m a n rule: copy_from_user.induct) (auto split: option.splits prod.splits)

lemma mapped_0 [simp]: "mapped m a 0"
  by (simp add: mapped_def)

lemma mapped_Suc: "mapped m a (Suc n) \<longleftrightarrow> m a \<noteq> None \<and> mapped m (a + 1) n"
  unfolding mapped_def by (auto simp: less_Suc_eq_0_disj algebra_simps)

lemma mapped_dom: "dom m' = dom m \<Longrightarrow> mapped m' a n = mapped m a n"
  by (auto simp: mapped_def dom_def)

lemma mapped_upd [simp]: "m a \<noteq> None \<Longrightarrow> mapped (m(a \<mapsto> b)) c n = mapped m c n"
  by (rule mapped_dom) (auto split: if_splits)

lemma copy_to_user_dom: "dom (snd (copy_to_user m a bs)) = dom m"
  by (induction bs arbitrary: m a) auto

lemma copy_to_user_ok_iff: "fst (copy_to_user m a bs) = 0 \<longleftrightarrow> mapped m a (length bs)"
  by (induction bs arbitrary: m a) (auto simp: mapped_Suc)

lemma copy_from_user_ok_iff: "snd (copy_from_user m a n) = 0 \<longleftrightarrow> mapped m a n"
proof (induction n arbitrary: a)
  case 0
  then show ?case by simp
next
  case (Suc n)
  then show ?case
    using Suc [of "a + 1"] by (cases "m a"; cases "copy_from_user m (a + 1) n") (auto simp: mapped_Suc)
qed

lemma put_user_ok_iff: "fst (put_user m a bs) = 0 \<longleftrightarrow> mapped m a (length bs)"
  by (auto simp: put_user_def mapped_def list_all_iff)

text \<open>A transfer touches only the addresses it is given.\<close>

lemma copy_to_user_frame:
  "(\<And>i. i < length bs \<Longrightarrow> x \<noteq> a + of_nat i) \<Longrightarrow> snd (copy_to_user m a bs) x = m x"
proof (induction bs arbitrary: m a)
  case Nil
  then show ?case by simp
next
  case (Cons b bs)
  have "x \<noteq> a + 1 + of_nat i" if "i < length bs" for i
    using Cons.prems [of "Suc i"] that by (simp add: algebra_simps)
  moreover have "x \<noteq> a" using Cons.prems [of 0] by simp
  ultimately show ?case using Cons.IH by simp
qed

lemma of_nat_neq_0: "0 < i \<Longrightarrow> i < 2 ^ 32 \<Longrightarrow> (of_nat i :: u32) \<noteq> 0"
proof
  assume "0 < i" "i < 2 ^ 32" "(of_nat i :: u32) = 0"
  then have "2 ^ 32 dvd i" by (simp add: word_of_nat_eq_0_iff)
  with \<open>0 < i\<close> have "2 ^ 32 \<le> i" by (rule dvd_imp_le [rotated])
  with \<open>i < 2 ^ 32\<close> show False by simp
qed

text \<open>What was written can be read back.\<close>

lemma copy_round_trip:
  assumes "mapped m a (length bs)" "length bs < 2 ^ 32"
  shows "copy_from_user (snd (copy_to_user m a bs)) a (length bs) = (bs, 0)"
  using assms
proof (induction bs arbitrary: m a)
  case Nil
  then show ?case by simp
next
  case (Cons b bs)
  from Cons.prems(1) have m: "m a \<noteq> None" "mapped m (a + 1) (length bs)" by (simp_all add: mapped_Suc)
  then have "mapped (m(a \<mapsto> b)) (a + 1) (length bs)" by simp
  with Cons.IH Cons.prems(2) have IH: "copy_from_user (snd (copy_to_user (m(a \<mapsto> b)) (a + 1) bs)) (a + 1) (length bs) = (bs, 0)"
    by simp
  have "snd (copy_to_user (m(a \<mapsto> b)) (a + 1) bs) a = Some b"
  proof (subst copy_to_user_frame)
    show "a \<noteq> a + 1 + of_nat i" if "i < length bs" for i
      using of_nat_neq_0 [of "Suc i"] that Cons.prems(2) by (simp add: algebra_simps)
  qed simp
  with IH m show ?case by simp
qed

section \<open>A machine to try things on\<close>

definition blank_mach :: "'k \<Rightarrow> 'k mach" where
  "blank_mach k =
     \<lparr>regs = \<lparr>eax = 0, edx = 0, esp = 0x1000, eflags = 0\<rparr>, mem = (\<lambda>_. Some 0),
      cur_ed = \<lparr>ed_name = [], ed_handler = [], pers_low = 0, pers_high = 0, signal_map = [], signal_invmap = [],
        err_map = None, socktype_map = None, sockopt_map = None, af_map = None, ed_module = 0, ed_next = 0\<rparr>,
      cur_pers = PER_SVR3, abi_traceflg = 0, klog = [], kern = k\<rparr>"

lemma blank_mapped [simp]: "mapped (mem (blank_mach k)) a n"
  by (simp add: mapped_def blank_mach_def)

end
