(* ===== verification/Svr4_Types.thy ===== *)
theory Svr4_Types
  imports Abi_User
begin

text \<open>
  \<^verbatim>\<open>include/abi/svr4/types.h\<close> and \<^verbatim>\<open>include/abi/sco/types.h\<close>: device, inode and user numbers in the
  sizes of the emulated systems.  How Linux splits a device number and narrows a user number belongs
  to the kernel, the fields of \<open>kdevs\<close>.  \<open>pers\<close> is the personality of the running process.
\<close>

record kdevs =
  MAJOR :: "u32 \<Rightarrow> u32"
  MINOR :: "u32 \<Rightarrow> u32"
  MKDEV :: "u32 \<Rightarrow> u32 \<Rightarrow> u32"
  high2lowuid :: "u32 \<Rightarrow> u16"
  high2lowgid :: "u32 \<Rightarrow> u16"

section \<open>Device numbers\<close>

definition SVR4_MINORBITS :: nat where [abi_consts]: "SVR4_MINORBITS = 18"
definition SVR4_MINORMASK :: u32 where [abi_consts]: "SVR4_MINORMASK = push_bit SVR4_MINORBITS 1 - 1"
definition SVR4_O_MINORBITS :: nat where [abi_consts]: "SVR4_O_MINORBITS = 8"
definition SVR4_O_MINORMASK :: u32 where [abi_consts]: "SVR4_O_MINORMASK = push_bit SVR4_O_MINORBITS 1 - 1"

text \<open>The macros mask with the number of bits, not with the mask.\<close>

definition SVR4_MAJOR :: "u32 \<Rightarrow> u32" where
  "SVR4_MAJOR dev = drop_bit SVR4_MINORBITS dev"

definition SVR4_MINOR :: "u32 \<Rightarrow> u32" where
  "SVR4_MINOR dev = dev AND of_nat SVR4_MINORBITS"

definition SVR4_MKDEV :: "u32 \<Rightarrow> u32 \<Rightarrow> u32" where
  "SVR4_MKDEV ma mi = push_bit SVR4_MINORBITS ma OR mi"

text \<open>The old numbers are signed 16-bit ones: they are promoted to \<open>int\<close> before they are shifted.\<close>

definition SVR4_O_MAJOR :: "u16 \<Rightarrow> u32" where
  "SVR4_O_MAJOR dev = signed_drop_bit SVR4_O_MINORBITS (scast dev :: u32)"

definition SVR4_O_MINOR :: "u16 \<Rightarrow> u32" where
  "SVR4_O_MINOR dev = (scast dev :: u32) AND of_nat SVR4_O_MINORBITS"

definition SVR4_O_MKDEV :: "u32 \<Rightarrow> u32 \<Rightarrow> u32" where
  "SVR4_O_MKDEV ma mi = push_bit SVR4_O_MINORBITS ma OR mi"

definition linux_to_svr4_dev_t :: "kdevs \<Rightarrow> u32 \<Rightarrow> u32" where
  "linux_to_svr4_dev_t kd dev = SVR4_MKDEV (MAJOR kd dev) (MINOR kd dev)"

definition linux_to_svr4_o_dev_t :: "kdevs \<Rightarrow> u32 \<Rightarrow> u16" where
  "linux_to_svr4_o_dev_t kd dev = ucast (SVR4_O_MKDEV (MAJOR kd dev) (MINOR kd dev))"

definition linux_to_sco_dev_t :: "u32 \<Rightarrow> u16" where
  "linux_to_sco_dev_t dev = ucast dev"

section \<open>Inode and user numbers\<close>

definition linux_to_svr4_ino_t :: "u32 \<Rightarrow> u32 \<Rightarrow> u32" where
  "linux_to_svr4_ino_t pers ino =
     (if is_cur_personality_flag pers PERF_SHORT_INODE = 0 then ino
      else if ino AND 0xffff \<noteq> 0 then ino
      else 0xfffffffe)"

definition linux_to_svr4_o_ino_t :: "u32 \<Rightarrow> u16" where
  "linux_to_svr4_o_ino_t ino = (if ino AND 0xffff \<noteq> 0 then ucast ino else 0xfffe)"

definition linux_to_svr4_uid_t :: "u32 \<Rightarrow> u32" where
  "linux_to_svr4_uid_t uid = uid"

definition linux_to_svr4_o_uid_t :: "kdevs \<Rightarrow> u32 \<Rightarrow> u16" where
  "linux_to_svr4_o_uid_t kd uid = high2lowuid kd uid"

definition linux_to_svr4_gid_t :: "u32 \<Rightarrow> u32" where
  "linux_to_svr4_gid_t gid = gid"

definition linux_to_svr4_o_gid_t :: "kdevs \<Rightarrow> u32 \<Rightarrow> u16" where
  "linux_to_svr4_o_gid_t kd gid = high2lowgid kd gid"

definition linux_to_sco_ino_t :: "u32 \<Rightarrow> u32 \<Rightarrow> u32" where
  "linux_to_sco_ino_t pers ino =
     (if is_cur_personality_flag pers PERF_SHORT_INODE = 0 then ino
      else if ino AND 0xffff \<noteq> 0 then ino
      else 0xfffffffe)"

definition linux_to_sco_uid_t :: "kdevs \<Rightarrow> u32 \<Rightarrow> u16" where
  "linux_to_sco_uid_t kd uid = high2lowuid kd uid"

definition linux_to_sco_gid_t :: "kdevs \<Rightarrow> u32 \<Rightarrow> u16" where
  "linux_to_sco_gid_t kd gid = high2lowgid kd gid"

section \<open>Facts\<close>

lemma low_word: "ucast (x AND 0xffff :: u32) = (ucast x :: u16)" "(x :: u32) AND 0xffff = ucast (ucast x :: u16)"
proof -
  have m: "(0xffff :: u32) = mask 16" by (simp add: mask_eq_exp_minus_1)
  show "ucast (x AND 0xffff :: u32) = (ucast x :: u16)"
    unfolding m by (intro bit_word_eqI) (auto simp: bit_simps)
  show "(x :: u32) AND 0xffff = ucast (ucast x :: u16)"
    unfolding m by (intro bit_word_eqI) (auto simp: bit_simps)
qed

lemma low_word_0_iff: "(x :: u32) AND 0xffff = 0 \<longleftrightarrow> (ucast x :: u16) = 0"
  unfolding low_word(2) by transfer simp

text \<open>
  Inode numbers are folded consistently.  The 16-bit inode of the old calls is never 0, which
  programs take for an empty directory slot, and it is the low half of what the 32-bit calls report to
  a program with short inodes; without short inodes the 32-bit number is the Linux one.
\<close>

lemma inode_folding:
  "linux_to_svr4_o_ino_t ino \<noteq> 0 \<and>
   (is_cur_personality_flag pers PERF_SHORT_INODE \<noteq> 0 \<longrightarrow>
      ucast (linux_to_svr4_ino_t pers ino) = linux_to_svr4_o_ino_t ino \<and>
      linux_to_sco_ino_t pers ino = linux_to_svr4_ino_t pers ino) \<and>
   (is_cur_personality_flag pers PERF_SHORT_INODE = 0 \<longrightarrow> linux_to_svr4_ino_t pers ino = ino)"
  by (auto simp: linux_to_svr4_o_ino_t_def linux_to_svr4_ino_t_def linux_to_sco_ino_t_def low_word_0_iff)

end
