(* ===== verification/Svr4_Stat.thy ===== *)
theory Svr4_Stat
  imports Svr4_Types "HOL-Library.Signed_Division"
begin

text \<open>
  The \<open>stat\<close> families: \<^verbatim>\<open>abi/svr4/stat.c\<close>, \<^verbatim>\<open>abi/sco/stat.c\<close>, \<^verbatim>\<open>abi/uw7/stat.c\<close> and
  \<^verbatim>\<open>abi/solaris/stat.c\<close> with the structures of their headers, laid out as the i386 ABI does (64-bit
  members aligned to four bytes).  The file system is the record \<open>vfs\<close>.  A structure is cleared before
  it is filled, so padding is zero.
\<close>

section \<open>Data\<close>

record kstat =
  ks_ino :: u32
  ks_dev :: u32
  ks_mode :: u16
  ks_nlink :: u32
  ks_uid :: u32
  ks_gid :: u32
  ks_rdev :: u32
  ks_size :: int
  ks_atime :: "u32 \<times> int"
  ks_mtime :: "u32 \<times> int"
  ks_ctime :: "u32 \<times> int"
  ks_blksize :: u32
  ks_blocks :: u64

record 'k vfs =
  kdev :: kdevs
  vfs_stat :: "u32 \<Rightarrow> 'k mach \<Rightarrow> int \<times> kstat \<times> 'k"
  vfs_lstat :: "u32 \<Rightarrow> 'k mach \<Rightarrow> int \<times> kstat \<times> 'k"
  vfs_fstat :: "int \<Rightarrow> 'k mach \<Rightarrow> int \<times> kstat \<times> 'k"

definition zeros :: "nat \<Rightarrow> u8 list" where
  "zeros n = replicate n 0"

definition timeval_bytes :: "u32 \<times> u32 \<Rightarrow> u8 list" where
  "timeval_bytes = (\<lambda>(s, u). bytes32 s @ bytes32 u)"

record struct_svr4_stat =
  so_st_dev :: u16
  so_st_ino :: u16
  so_st_mode :: u16
  so_st_nlink :: u16
  so_st_uid :: u16
  so_st_gid :: u16
  so_st_rdev :: u16
  so_st_size :: u32
  so_st_atime :: u32
  so_st_mtime :: u32
  so_st_ctime :: u32

definition svr4_stat_bytes :: "struct_svr4_stat \<Rightarrow> u8 list" where
  "svr4_stat_bytes s =
     bytes16 (so_st_dev s) @ bytes16 (so_st_ino s) @ bytes16 (so_st_mode s) @
     bytes16 (so_st_nlink s) @ bytes16 (so_st_uid s) @ bytes16 (so_st_gid s) @
     bytes16 (so_st_rdev s) @ zeros 2 @ bytes32 (so_st_size s) @ bytes32 (so_st_atime s) @
     bytes32 (so_st_mtime s) @ bytes32 (so_st_ctime s)"

record struct_svr4_xstat =
  sx_st_dev :: u32
  sx_st_ino :: u32
  sx_st_mode :: u32
  sx_st_nlink :: u32
  sx_st_uid :: u32
  sx_st_gid :: u32
  sx_st_rdev :: u32
  sx_st_size :: u32
  sx_st_atim :: "u32 \<times> u32"
  sx_st_mtim :: "u32 \<times> u32"
  sx_st_ctim :: "u32 \<times> u32"
  sx_st_blksize :: u32
  sx_st_blocks :: u32

definition svr4_xstat_bytes :: "struct_svr4_xstat \<Rightarrow> u8 list" where
  "svr4_xstat_bytes s =
     bytes32 (sx_st_dev s) @ zeros 12 @ bytes32 (sx_st_ino s) @ bytes32 (sx_st_mode s) @
     bytes32 (sx_st_nlink s) @ bytes32 (sx_st_uid s) @ bytes32 (sx_st_gid s) @
     bytes32 (sx_st_rdev s) @ zeros 8 @ bytes32 (sx_st_size s) @ zeros 4 @
     timeval_bytes (sx_st_atim s) @ timeval_bytes (sx_st_mtim s) @
     timeval_bytes (sx_st_ctim s) @ bytes32 (sx_st_blksize s) @ bytes32 (sx_st_blocks s) @
     zeros 48"

record struct_sco_xstat =
  sc_st_dev :: u16
  sc_st_ino :: u32
  sc_st_mode :: u16
  sc_st_nlink :: u16
  sc_st_uid :: u16
  sc_st_gid :: u16
  sc_st_rdev :: u16
  sc_st_size :: u32
  sc_st_atime :: u32
  sc_st_mtime :: u32
  sc_st_ctime :: u32
  sc_st_blksize :: u32
  sc_st_blocks :: u32
  sc_st_fstype :: "u8 list"
  sc_st_sco_flags :: u32

definition sco_xstat_bytes :: "struct_sco_xstat \<Rightarrow> u8 list" where
  "sco_xstat_bytes s =
     bytes16 (sc_st_dev s) @ zeros 14 @ bytes32 (sc_st_ino s) @ bytes16 (sc_st_mode s) @
     bytes16 (sc_st_nlink s) @ bytes16 (sc_st_uid s) @ bytes16 (sc_st_gid s) @
     bytes16 (sc_st_rdev s) @ zeros 10 @ bytes32 (sc_st_size s) @ zeros 4 @
     bytes32 (sc_st_atime s) @ bytes32 (sc_st_mtime s) @ bytes32 (sc_st_ctime s) @
     bytes32 (sc_st_blksize s) @ bytes32 (sc_st_blocks s) @ sc_st_fstype s @ zeros 28 @
     bytes32 (sc_st_sco_flags s)"

record uw7_stat64 =
  uw_st_dev :: u32
  uw_st_ino :: u64
  uw_st_mode :: u32
  uw_st_nlink :: u32
  uw_st_uid :: u32
  uw_st_gid :: u32
  uw_st_rdev :: u32
  uw_st_size :: u64
  uw_st_atime :: "u32 \<times> u32"
  uw_st_mtime :: "u32 \<times> u32"
  uw_st_ctime :: "u32 \<times> u32"
  uw_st_blksize :: u32
  uw_st_blocks :: u64
  uw_st_fstype :: "u8 list"

definition uw7_stat64_bytes :: "uw7_stat64 \<Rightarrow> u8 list" where
  "uw7_stat64_bytes s =
     bytes32 (uw_st_dev s) @ zeros 12 @ bytes64 (uw_st_ino s) @ bytes32 (uw_st_mode s) @
     bytes32 (uw_st_nlink s) @ bytes32 (uw_st_uid s) @ bytes32 (uw_st_gid s) @
     bytes32 (uw_st_rdev s) @ zeros 8 @ bytes64 (uw_st_size s) @
     timeval_bytes (uw_st_atime s) @ timeval_bytes (uw_st_mtime s) @
     timeval_bytes (uw_st_ctime s) @ bytes32 (uw_st_blksize s) @ bytes64 (uw_st_blocks s) @
     uw_st_fstype s @ zeros 32"

record struct_sol_stat64 =
  sl_st_dev :: u32
  sl_st_ino :: u64
  sl_st_mode :: u32
  sl_st_nlink :: u32
  sl_st_uid :: u32
  sl_st_gid :: u32
  sl_st_rdev :: u32
  sl_st_size :: u64
  sl_st_atime :: u32
  sl_st_mtime :: u32
  sl_st_ctime :: u32
  sl_st_blksize :: u32
  sl_st_blocks :: u64
  sl_st_fstype :: "u8 list"

definition sol_stat64_bytes :: "struct_sol_stat64 \<Rightarrow> u8 list" where
  "sol_stat64_bytes s =
     bytes32 (sl_st_dev s) @ zeros 12 @ bytes64 (sl_st_ino s) @ bytes32 (sl_st_mode s) @
     bytes32 (sl_st_nlink s) @ bytes32 (sl_st_uid s) @ bytes32 (sl_st_gid s) @
     bytes32 (sl_st_rdev s) @ zeros 8 @ bytes64 (sl_st_size s) @ bytes32 (sl_st_atime s) @
     bytes32 (sl_st_mtime s) @ bytes32 (sl_st_ctime s) @ bytes32 (sl_st_blksize s) @
     bytes64 (sl_st_blocks s) @ sl_st_fstype s @ zeros 16"

section \<open>Filling the structures\<close>

definition put_struct :: "u32 \<Rightarrow> u8 list \<Rightarrow> 'k mach \<Rightarrow> int \<times> 'k mach" where
  "put_struct bufp bs m =
     (let (left, mm) = copy_to_user (mem m) bufp bs
      in (if left \<noteq> 0 then - EFAULT else 0, m\<lparr>mem := mm\<rparr>))"

abbreviation (input) "MAX_NON_LFS \<equiv> (0x7fffffff::int)"

definition ext2_name :: "u8 list" where
  "ext2_name = [0x65, 0x78, 0x74, 0x32] @ zeros 12"

definition to_timeval :: "u32 \<times> int \<Rightarrow> u32 \<times> u32" where
  "to_timeval t = (fst t, word_of_int (snd t sdiv 1000))"

definition svr4_stat_of :: "kdevs \<Rightarrow> kstat \<Rightarrow> struct_svr4_stat" where
  "svr4_stat_of kd st =
     \<lparr>so_st_dev = linux_to_svr4_o_dev_t kd (ks_dev st), so_st_ino = linux_to_svr4_o_ino_t (ks_ino st),
      so_st_mode = ks_mode st, so_st_nlink = ucast (ks_nlink st),
      so_st_uid = linux_to_svr4_o_uid_t kd (ks_uid st), so_st_gid = linux_to_svr4_o_gid_t kd (ks_gid st),
      so_st_rdev = linux_to_svr4_o_dev_t kd (ks_rdev st), so_st_size = word_of_int (ks_size st),
      so_st_atime = fst (ks_atime st), so_st_mtime = fst (ks_mtime st), so_st_ctime = fst (ks_ctime st)\<rparr>"

definition report_svr4_stat :: "kdevs \<Rightarrow> kstat \<Rightarrow> u32 \<Rightarrow> 'k mach \<Rightarrow> int \<times> 'k mach" where
  "report_svr4_stat kd st bufp m =
     (if ks_size st > MAX_NON_LFS then (- EOVERFLOW, m)
      else put_struct bufp (svr4_stat_bytes (svr4_stat_of kd st)) m)"

definition svr4_xstat_of :: "kdevs \<Rightarrow> u32 \<Rightarrow> kstat \<Rightarrow> struct_svr4_xstat" where
  "svr4_xstat_of kd pers st =
     \<lparr>sx_st_dev = linux_to_svr4_dev_t kd (ks_dev st), sx_st_ino = linux_to_svr4_ino_t pers (ks_ino st),
      sx_st_mode = ucast (ks_mode st), sx_st_nlink = ks_nlink st,
      sx_st_uid = linux_to_svr4_uid_t (ks_uid st), sx_st_gid = linux_to_svr4_gid_t (ks_gid st),
      sx_st_rdev = linux_to_svr4_dev_t kd (ks_rdev st), sx_st_size = word_of_int (ks_size st),
      sx_st_atim = to_timeval (ks_atime st), sx_st_mtim = to_timeval (ks_mtime st),
      sx_st_ctim = to_timeval (ks_ctime st), sx_st_blksize = ks_blksize st, sx_st_blocks = ucast (ks_blocks st)\<rparr>"

definition report_svr4_xstat :: "kdevs \<Rightarrow> kstat \<Rightarrow> u32 \<Rightarrow> 'k mach \<Rightarrow> int \<times> 'k mach" where
  "report_svr4_xstat kd st bufp m =
     (if ks_size st > MAX_NON_LFS then (- EOVERFLOW, m)
      else put_struct bufp (svr4_xstat_bytes (svr4_xstat_of kd (cur_pers m) st)) m)"

definition sco_xstat_of :: "kdevs \<Rightarrow> u32 \<Rightarrow> kstat \<Rightarrow> struct_sco_xstat" where
  "sco_xstat_of kd pers st =
     \<lparr>sc_st_dev = linux_to_sco_dev_t (ks_dev st), sc_st_ino = linux_to_sco_ino_t pers (ks_ino st),
      sc_st_mode = ks_mode st, sc_st_nlink = ucast (ks_nlink st),
      sc_st_uid = linux_to_sco_uid_t kd (ks_uid st), sc_st_gid = linux_to_sco_gid_t kd (ks_gid st),
      sc_st_rdev = linux_to_sco_dev_t (ks_rdev st), sc_st_size = word_of_int (ks_size st),
      sc_st_atime = fst (ks_atime st), sc_st_mtime = fst (ks_mtime st), sc_st_ctime = fst (ks_ctime st),
      sc_st_blksize = ks_blksize st, sc_st_blocks = ucast (ks_blocks st), sc_st_fstype = ext2_name,
      sc_st_sco_flags = 0\<rparr>"

definition report_sco_xstat :: "kdevs \<Rightarrow> kstat \<Rightarrow> u32 \<Rightarrow> 'k mach \<Rightarrow> int \<times> 'k mach" where
  "report_sco_xstat kd st bufp m =
     (if ks_size st > MAX_NON_LFS then (- EOVERFLOW, m)
      else put_struct bufp (sco_xstat_bytes (sco_xstat_of kd (cur_pers m) st)) m)"

definition uw7_stat64_of :: "kdevs \<Rightarrow> u32 \<Rightarrow> kstat \<Rightarrow> uw7_stat64" where
  "uw7_stat64_of kd pers st =
     \<lparr>uw_st_dev = linux_to_svr4_dev_t kd (ks_dev st), uw_st_ino = ucast (linux_to_svr4_ino_t pers (ks_ino st)),
      uw_st_mode = ucast (ks_mode st), uw_st_nlink = ks_nlink st,
      uw_st_uid = linux_to_svr4_uid_t (ks_uid st), uw_st_gid = linux_to_svr4_gid_t (ks_gid st),
      uw_st_rdev = linux_to_svr4_dev_t kd (ks_rdev st), uw_st_size = word_of_int (ks_size st),
      uw_st_atime = (fst (ks_atime st), 0), uw_st_mtime = (fst (ks_mtime st), 0),
      uw_st_ctime = (fst (ks_ctime st), 0), uw_st_blksize = ks_blksize st, uw_st_blocks = ks_blocks st,
      uw_st_fstype = ext2_name\<rparr>"

definition report_uw7_stat64 :: "kdevs \<Rightarrow> kstat \<Rightarrow> u32 \<Rightarrow> 'k mach \<Rightarrow> int \<times> 'k mach" where
  "report_uw7_stat64 kd st bufp m = put_struct bufp (uw7_stat64_bytes (uw7_stat64_of kd (cur_pers m) st)) m"

definition sol_stat64_of :: "kdevs \<Rightarrow> u32 \<Rightarrow> kstat \<Rightarrow> struct_sol_stat64" where
  "sol_stat64_of kd pers st =
     \<lparr>sl_st_dev = linux_to_svr4_dev_t kd (ks_dev st), sl_st_ino = ucast (linux_to_svr4_ino_t pers (ks_ino st)),
      sl_st_mode = ucast (ks_mode st), sl_st_nlink = ks_nlink st,
      sl_st_uid = linux_to_svr4_uid_t (ks_uid st), sl_st_gid = linux_to_svr4_gid_t (ks_gid st),
      sl_st_rdev = linux_to_svr4_dev_t kd (ks_rdev st), sl_st_size = word_of_int (ks_size st),
      sl_st_atime = fst (ks_atime st), sl_st_mtime = fst (ks_mtime st), sl_st_ctime = fst (ks_ctime st),
      sl_st_blksize = ks_blksize st, sl_st_blocks = ks_blocks st, sl_st_fstype = ext2_name\<rparr>"

definition report_sol_stat64 :: "kdevs \<Rightarrow> kstat \<Rightarrow> u32 \<Rightarrow> 'k mach \<Rightarrow> int \<times> 'k mach" where
  "report_sol_stat64 kd st bufp m = put_struct bufp (sol_stat64_bytes (sol_stat64_of kd (cur_pers m) st)) m"

section \<open>The calls\<close>

text \<open>All of them look the file up first and report only when that succeeded.\<close>

definition with_stat ::
  "('k mach \<Rightarrow> int \<times> kstat \<times> 'k) \<Rightarrow> (kstat \<Rightarrow> 'k mach \<Rightarrow> int \<times> 'k mach) \<Rightarrow> 'k mach \<Rightarrow> int \<times> 'k mach" where
  "with_stat lookup report m =
     (let (error, st, k) = lookup m; m' = m\<lparr>kern := k\<rparr>
      in if error = 0 then report st m' else (error, m'))"

definition svr4_stat :: "'k vfs \<Rightarrow> u32 \<Rightarrow> u32 \<Rightarrow> 'k mach \<Rightarrow> int \<times> 'k mach" where
  "svr4_stat V filename bufp = with_stat (vfs_stat V filename) (\<lambda>st. report_svr4_stat (kdev V) st bufp)"

definition svr4_lstat :: "'k vfs \<Rightarrow> u32 \<Rightarrow> u32 \<Rightarrow> 'k mach \<Rightarrow> int \<times> 'k mach" where
  "svr4_lstat V filename bufp = with_stat (vfs_lstat V filename) (\<lambda>st. report_svr4_stat (kdev V) st bufp)"

definition svr4_fstat :: "'k vfs \<Rightarrow> int \<Rightarrow> u32 \<Rightarrow> 'k mach \<Rightarrow> int \<times> 'k mach" where
  "svr4_fstat V fd bufp = with_stat (vfs_fstat V fd) (\<lambda>st. report_svr4_stat (kdev V) st bufp)"

definition svr4_xstat_report :: "kdevs \<Rightarrow> int \<Rightarrow> u32 \<Rightarrow> kstat \<Rightarrow> 'k mach \<Rightarrow> int \<times> 'k mach" where
  "svr4_xstat_report kd vers bufp st m =
     (if vers = 1 then report_svr4_stat kd st bufp m
      else if vers = 2 then report_svr4_xstat kd st bufp m
      else (- EINVAL, m))"

definition svr4_xstat :: "'k vfs \<Rightarrow> int \<Rightarrow> u32 \<Rightarrow> u32 \<Rightarrow> 'k mach \<Rightarrow> int \<times> 'k mach" where
  "svr4_xstat V vers filename bufp = with_stat (vfs_stat V filename) (svr4_xstat_report (kdev V) vers bufp)"

definition svr4_lxstat :: "'k vfs \<Rightarrow> int \<Rightarrow> u32 \<Rightarrow> u32 \<Rightarrow> 'k mach \<Rightarrow> int \<times> 'k mach" where
  "svr4_lxstat V vers filename bufp = with_stat (vfs_lstat V filename) (svr4_xstat_report (kdev V) vers bufp)"

definition svr4_fxstat :: "'k vfs \<Rightarrow> int \<Rightarrow> int \<Rightarrow> u32 \<Rightarrow> 'k mach \<Rightarrow> int \<times> 'k mach" where
  "svr4_fxstat V vers fd bufp = with_stat (vfs_fstat V fd) (svr4_xstat_report (kdev V) vers bufp)"

definition sco_xstat_report :: "kdevs \<Rightarrow> int \<Rightarrow> u32 \<Rightarrow> kstat \<Rightarrow> 'k mach \<Rightarrow> int \<times> 'k mach" where
  "sco_xstat_report kd vers bufp st m =
     (if vers = 1 then report_svr4_stat kd st bufp m
      else if vers = 51 then report_sco_xstat kd st bufp m
      else (- EINVAL, m))"

definition sco_xstat :: "'k vfs \<Rightarrow> int \<Rightarrow> u32 \<Rightarrow> u32 \<Rightarrow> 'k mach \<Rightarrow> int \<times> 'k mach" where
  "sco_xstat V vers filename bufp = with_stat (vfs_stat V filename) (sco_xstat_report (kdev V) vers bufp)"

definition sco_lxstat :: "'k vfs \<Rightarrow> int \<Rightarrow> u32 \<Rightarrow> u32 \<Rightarrow> 'k mach \<Rightarrow> int \<times> 'k mach" where
  "sco_lxstat V vers filename bufp = with_stat (vfs_lstat V filename) (sco_xstat_report (kdev V) vers bufp)"

definition sco_fxstat :: "'k vfs \<Rightarrow> int \<Rightarrow> int \<Rightarrow> u32 \<Rightarrow> 'k mach \<Rightarrow> int \<times> 'k mach" where
  "sco_fxstat V vers fd bufp = with_stat (vfs_fstat V fd) (sco_xstat_report (kdev V) vers bufp)"

definition uw7_xstat_report :: "kdevs \<Rightarrow> int \<Rightarrow> u32 \<Rightarrow> kstat \<Rightarrow> 'k mach \<Rightarrow> int \<times> 'k mach" where
  "uw7_xstat_report kd vers bufp st m =
     (if vers = 1 then report_svr4_stat kd st bufp m
      else if vers = 2 then report_svr4_xstat kd st bufp m
      else if vers = 4 then report_uw7_stat64 kd st bufp m
      else (- EINVAL, m))"

definition uw7_xstat :: "'k vfs \<Rightarrow> int \<Rightarrow> u32 \<Rightarrow> u32 \<Rightarrow> 'k mach \<Rightarrow> int \<times> 'k mach" where
  "uw7_xstat V vers filename bufp = with_stat (vfs_stat V filename) (uw7_xstat_report (kdev V) vers bufp)"

definition uw7_lxstat :: "'k vfs \<Rightarrow> int \<Rightarrow> u32 \<Rightarrow> u32 \<Rightarrow> 'k mach \<Rightarrow> int \<times> 'k mach" where
  "uw7_lxstat V vers filename bufp = with_stat (vfs_lstat V filename) (uw7_xstat_report (kdev V) vers bufp)"

definition uw7_fxstat :: "'k vfs \<Rightarrow> int \<Rightarrow> int \<Rightarrow> u32 \<Rightarrow> 'k mach \<Rightarrow> int \<times> 'k mach" where
  "uw7_fxstat V vers fd bufp = with_stat (vfs_fstat V fd) (uw7_xstat_report (kdev V) vers bufp)"

definition sol_stat64 :: "'k vfs \<Rightarrow> u32 \<Rightarrow> u32 \<Rightarrow> 'k mach \<Rightarrow> int \<times> 'k mach" where
  "sol_stat64 V filename bufp = with_stat (vfs_stat V filename) (\<lambda>st. report_sol_stat64 (kdev V) st bufp)"

definition sol_lstat64 :: "'k vfs \<Rightarrow> u32 \<Rightarrow> u32 \<Rightarrow> 'k mach \<Rightarrow> int \<times> 'k mach" where
  "sol_lstat64 V filename bufp = with_stat (vfs_lstat V filename) (\<lambda>st. report_sol_stat64 (kdev V) st bufp)"

definition sol_fstat64 :: "'k vfs \<Rightarrow> int \<Rightarrow> u32 \<Rightarrow> 'k mach \<Rightarrow> int \<times> 'k mach" where
  "sol_fstat64 V fd bufp = with_stat (vfs_fstat V fd) (\<lambda>st. report_sol_stat64 (kdev V) st bufp)"

section \<open>What a program sees\<close>

lemma struct_lengths [simp]:
  "length (zeros n) = n" "length (timeval_bytes t) = 8" "length ext2_name = 16"
  "length (svr4_stat_bytes s) = 32" "length (svr4_xstat_bytes x) = 136"
  by (simp_all add: zeros_def timeval_bytes_def ext2_name_def svr4_stat_bytes_def svr4_xstat_bytes_def
      split: prod.split)

lemma struct_lengths_of:
  "length (sco_xstat_bytes (sco_xstat_of kd p st)) = 116" "length (uw7_stat64_bytes (uw7_stat64_of kd p st)) = 144"
  "length (sol_stat64_bytes (sol_stat64_of kd p st)) = 116"
  by (simp_all add: sco_xstat_bytes_def sco_xstat_of_def uw7_stat64_bytes_def uw7_stat64_of_def
      sol_stat64_bytes_def sol_stat64_of_def)

lemma put_struct_ok:
  assumes "mapped (mem m) bufp (length bs)" "length bs < 2 ^ 32"
  shows "\<exists>m'. put_struct bufp bs m = (0, m') \<and> copy_from_user (mem m') bufp (length bs) = (bs, 0) \<and>
    (\<forall>x. (\<forall>i < length bs. x \<noteq> bufp + of_nat i) \<longrightarrow> mem m' x = mem m x) \<and> kern m' = kern m"
proof -
  obtain left mm where c: "copy_to_user (mem m) bufp bs = (left, mm)" by fastforce
  with copy_to_user_ok_iff [of "mem m" bufp bs] assms(1) have "left = 0" by simp
  with c copy_round_trip [OF assms] copy_to_user_frame [of bs _ bufp "mem m"] show ?thesis
    by (auto simp: put_struct_def)
qed

lemma put_struct_fault: "\<not> mapped (mem m) bufp (length bs) \<Longrightarrow> fst (put_struct bufp bs m) = - EFAULT"
  using copy_to_user_ok_iff [of "mem m" bufp bs]
  by (cases "copy_to_user (mem m) bufp bs") (auto simp: put_struct_def)

text \<open>The structure a program finds in its buffer, field by field at the offsets of the header.\<close>

definition svr4_stat_at :: "umem \<Rightarrow> u32 \<Rightarrow> struct_svr4_stat" where
  "svr4_stat_at m a =
     (let bs = fst (copy_from_user m a 32) in
      \<lparr>so_st_dev = word16 (field 0 2 bs), so_st_ino = word16 (field 2 2 bs), so_st_mode = word16 (field 4 2 bs),
       so_st_nlink = word16 (field 6 2 bs), so_st_uid = word16 (field 8 2 bs), so_st_gid = word16 (field 10 2 bs),
       so_st_rdev = word16 (field 12 2 bs), so_st_size = word32 (field 16 4 bs), so_st_atime = word32 (field 20 4 bs),
       so_st_mtime = word32 (field 24 4 bs), so_st_ctime = word32 (field 28 4 bs)\<rparr>)"

lemma svr4_stat_fields:
  "(let bs = svr4_stat_bytes s in
      \<lparr>so_st_dev = word16 (field 0 2 bs), so_st_ino = word16 (field 2 2 bs), so_st_mode = word16 (field 4 2 bs),
       so_st_nlink = word16 (field 6 2 bs), so_st_uid = word16 (field 8 2 bs), so_st_gid = word16 (field 10 2 bs),
       so_st_rdev = word16 (field 12 2 bs), so_st_size = word32 (field 16 4 bs), so_st_atime = word32 (field 20 4 bs),
       so_st_mtime = word32 (field 24 4 bs), so_st_ctime = word32 (field 28 4 bs)\<rparr>) = s"
  by (simp add: svr4_stat_bytes_def field_def Let_def zeros_def)


definition sample_kstat :: kstat where
  "sample_kstat =
     \<lparr>ks_ino = 0x30000, ks_dev = 0x800001, ks_mode = 0x81a4, ks_nlink = 1, ks_uid = 70000, ks_gid = 100,
      ks_rdev = 0, ks_size = 1234, ks_atime = (5, 0), ks_mtime = (6, 0), ks_ctime = (7, 0),
      ks_blksize = 4096, ks_blocks = 8\<rparr>"

definition sample_vfs :: "unit vfs" where
  "sample_vfs =
     \<lparr>kdev = \<lparr>MAJOR = drop_bit 20, MINOR = (\<lambda>d. d AND 0xfffff), MKDEV = (\<lambda>a b. push_bit 20 a OR b),
        high2lowuid = (\<lambda>u. if u > 65535 then 65534 else ucast u),
        high2lowgid = (\<lambda>u. if u > 65535 then 65534 else ucast u)\<rparr>,
      vfs_stat = (\<lambda>f m. (0, sample_kstat, ())), vfs_lstat = (\<lambda>f m. (0, sample_kstat, ())),
      vfs_fstat = (\<lambda>f m. (0, sample_kstat, ()))\<rparr>"


end
