(* ===== verification/Svr4_Fcntl.thy ===== *)
theory Svr4_Fcntl
  imports Abi_User
begin

text \<open>
  \<^verbatim>\<open>abi/svr4/fcntl.c\<close>: \<^verbatim>\<open>fcntl\<close> with the flag and lock structures of System V.  The calls into Linux are
  the fields of \<open>fcntl_env\<close>; \<open>sys_fcntl_lock\<close> is \<^verbatim>\<open>sys_fcntl\<close> on a lock structure in kernel memory, and
  \<open>fionread\<close> is \<^verbatim>\<open>sys_ioctl(fd, FIONREAD, &nbytes)\<close> with the value it stores.
\<close>

section \<open>Definitions\<close>

record svr4_flock =
  fl_type :: u16
  fl_whence :: u16
  fl_start :: u32
  fl_len :: u32
  fl_sysid :: u16
  fl_pid :: u16

record linux_flock =
  lf_type :: u16
  lf_whence :: u16
  lf_start :: u32
  lf_len :: u32
  lf_pid :: u32

record 'k fcntl_env =
  access_ok :: "u32 \<Rightarrow> nat \<Rightarrow> bool"
  sys_fcntl :: "int \<Rightarrow> u32 \<Rightarrow> u32 \<Rightarrow> 'k mach \<Rightarrow> int \<times> 'k mach"
  sys_fcntl_lock :: "int \<Rightarrow> u32 \<Rightarrow> linux_flock \<Rightarrow> 'k \<Rightarrow> int \<times> linux_flock \<times> 'k"
  sys_ftruncate :: "int \<Rightarrow> u32 \<Rightarrow> 'k mach \<Rightarrow> int \<times> 'k mach"
  fionread :: "int \<Rightarrow> 'k \<Rightarrow> int \<times> u32 \<times> 'k"

definition fl_svr4_to_linux :: "u16 list" where [abi_consts]:
  "fl_svr4_to_linux =
    [0x0001, 0x0002, 0x0800, 0x0400, 0x1000, 0x0000, 0x0000, 0x0800,
     0x0040, 0x0240, 0x0080, 0x0100, 0x0000, 0x0000, 0x0000, 0x0000]"

definition fl_linux_to_svr4 :: "u16 list" where [abi_consts]:
  "fl_linux_to_svr4 =
    [0x0001, 0x0002, 0x0000, 0x0000, 0x0000, 0x0000, 0x0100, 0x0400,
     0x0800, 0x0200, 0x0008, 0x0004, 0x0010, 0x0000, 0x0000, 0x0000]"

definition flock_bytes :: "svr4_flock \<Rightarrow> u8 list" where
  "flock_bytes f = bytes16 (fl_type f) @ bytes16 (fl_whence f) @ bytes32 (fl_start f) @ bytes32 (fl_len f) @
     bytes16 (fl_sysid f) @ bytes16 (fl_pid f)"

definition flock_of_bytes :: "u8 list \<Rightarrow> svr4_flock" where
  "flock_of_bytes bs =
     \<lparr>fl_type = word16 (field 0 2 bs), fl_whence = word16 (field 2 2 bs), fl_start = word32 (field 4 4 bs),
      fl_len = word32 (field 8 4 bs), fl_sysid = word16 (field 12 2 bs), fl_pid = word16 (field 14 2 bs)\<rparr>"

definition flock_to_linux :: "svr4_flock \<Rightarrow> linux_flock" where
  "flock_to_linux fl =
     \<lparr>lf_type = fl_type fl - 1, lf_whence = fl_whence fl, lf_start = fl_start fl, lf_len = fl_len fl,
      lf_pid = scast (fl_pid fl)\<rparr>"

definition flock_from_linux :: "linux_flock \<Rightarrow> svr4_flock" where
  "flock_from_linux l =
     \<lparr>fl_type = lf_type l + 1, fl_whence = lf_whence l, fl_start = lf_start l, fl_len = lf_len l,
      fl_sysid = 0, fl_pid = ucast (lf_pid l)\<rparr>"

definition svr4_fcntl_flock ::
  "'k fcntl_env \<Rightarrow> int \<Rightarrow> u32 \<Rightarrow> u32 \<Rightarrow> 'k mach \<Rightarrow> int \<times> 'k mach" where
  "svr4_fcntl_flock K fd cmd arg m =
     (if \<not> access_ok K arg 16 then (- EFAULT, m)
      else let (bs, left) = copy_from_user (mem m) arg 16 in
        if left \<noteq> 0 then (- EFAULT, m)
        else let (rval, l_fl, k) = sys_fcntl_lock K fd cmd (flock_to_linux (flock_of_bytes bs)) (kern m);
                 m = m\<lparr>kern := k\<rparr>
             in if rval \<noteq> 0 then (rval, m)
                else let (left, mm) = copy_to_user (mem m) arg (flock_bytes (flock_from_linux l_fl));
                         m = m\<lparr>mem := mm\<rparr>
                     in (if left \<noteq> 0 then - EFAULT else 0, m))"

text \<open>\<open>map_flags\<close> takes an unsigned short, so an \<open>int\<close> or \<open>long\<close> argument is cut to 16 bits.\<close>

definition svr4_fcntl :: "'k fcntl_env \<Rightarrow> int \<Rightarrow> u32 \<Rightarrow> u32 \<Rightarrow> 'k mach \<Rightarrow> (int \<times> 'k mach) option" where
  "svr4_fcntl K fd cmd arg m =
     (if cmd = 0 \<or> cmd = 1 \<or> cmd = 2 then Some (sys_fcntl K fd cmd arg m)
      else if cmd = 3
      then (let (rval, m) = sys_fcntl K fd cmd arg m
            in map_option (\<lambda>f. (uint f, m)) (map_flags (word_of_int rval) fl_linux_to_svr4))
      else if cmd = 4
      then map_option (\<lambda>f. sys_fcntl K fd cmd (ucast f) m) (map_flags (ucast arg) fl_svr4_to_linux)
      else if cmd = 14 then Some (svr4_fcntl_flock K fd 5 arg m)
      else if cmd = 5 \<or> cmd = 6 \<or> cmd = 7 then Some (svr4_fcntl_flock K fd cmd arg m)
      else if cmd = 10 \<or> cmd = 11 then Some (0, m)
      else if cmd = 0x6000 then Some (sys_ftruncate K fd arg m)
      else if cmd = 0x6001
      then (let (rval, nbytes, k) = fionread K fd (kern m); m = m\<lparr>kern := k\<rparr>
            in Some (if rval < 0 then (rval, m) else (if nbytes \<noteq> 0 then 1 else 0, m)))
      else Some (- EINVAL, m))"

section \<open>Facts\<close>

lemma flags_length [simp]: "length fl_svr4_to_linux = 16" "length fl_linux_to_svr4 = 16"
  by (simp_all add: abi_consts)

lemma map_flags_total: "length tab = 16 \<Longrightarrow> \<exists>r. map_flags f tab = Some r"
  using map_flags_bits [of tab f] by auto

lemma flock_round_trip: "flock_of_bytes (flock_bytes f) = f" and flock_bytes_length [simp]: "length (flock_bytes f) = 16"
  by (simp_all add: flock_of_bytes_def flock_bytes_def field_def)

lemma ucast_scast_id: "ucast (scast (v :: u16) :: u32) = v"
  by (intro bit_word_eqI) (auto simp: bit_simps)

lemma flock_linux_round_trip: "flock_from_linux (flock_to_linux f) = f\<lparr>fl_sysid := 0\<rparr>"
  by (simp add: flock_from_linux_def flock_to_linux_def ucast_scast_id)

lemma ex_less_16:
  "(\<exists>i < 16. P i) \<longleftrightarrow> P (0::nat) \<or> P 1 \<or> P 2 \<or> P 3 \<or> P 4 \<or> P 5 \<or> P 6 \<or> P 7 \<or> P 8 \<or> P 9 \<or> P 10 \<or> P 11 \<or>
     P 12 \<or> P 13 \<or> P 14 \<or> P 15"
proof -
  have "{..<16::nat} = set [0..<16]" by auto
  also have "\<dots> = {0, 1, 2, 3, 4, 5, 6, 7, 8, 9, 10, 11, 12, 13, 14, 15}" by (simp add: upt_rec eval_nat_numeral)
  finally have range: "{..<16::nat} = \<dots>" .
  have "(\<exists>i < 16. P i) \<longleftrightarrow> (\<exists>i \<in> {..<16}. P i)" by auto
  then show ?thesis unfolding range by simp
qed

text \<open>The lock structure in user memory.\<close>

definition flock_at :: "umem \<Rightarrow> u32 \<Rightarrow> svr4_flock" where
  "flock_at m a = flock_of_bytes (fst (copy_from_user m a 16))"

definition lock_cmd :: "u32 \<Rightarrow> u32" where
  "lock_cmd cmd = (if cmd = 14 then 5 else cmd)"

text \<open>
  C19: Record locks reach Linux and come back.  For the four lock commands on a mapped structure, Linux
  gets the caller's lock with the lock type renumbered; when it refuses, its error is returned and the
  structure is unchanged; when it accepts, the call returns 0 and the structure holds Linux' answer
  renumbered back, and nothing else in memory changes.  A lock Linux leaves alone comes back as it
  was, except for the system id, which is cleared.
\<close>

theorem fcntl_lock:
  assumes "cmd \<in> {5, 6, 7, 14}" "access_ok K arg 16" "mapped (mem m) arg 16"
    "sys_fcntl_lock K fd (lock_cmd cmd) (flock_to_linux (flock_at (mem m) arg)) (kern m) = (rval, l, k)"
  shows "\<exists>m'. svr4_fcntl K fd cmd arg m = Some (rval, m') \<and> kern m' = k \<and>
    (if rval \<noteq> 0 then mem m' = mem m
     else flock_at (mem m') arg = flock_from_linux l \<and>
       (\<forall>x. (\<forall>i < 16. x \<noteq> arg + of_nat i) \<longrightarrow> mem m' x = mem m x) \<and>
       (l = flock_to_linux (flock_at (mem m) arg) \<longrightarrow>
          flock_at (mem m') arg = (flock_at (mem m) arg)\<lparr>fl_sysid := 0\<rparr>))"
proof -
  obtain bs where bs: "copy_from_user (mem m) arg 16 = (bs, 0)"
    using copy_from_user_ok_iff [of "mem m" arg 16] assms(3) by (metis prod.collapse)
  have call: "svr4_fcntl K fd cmd arg m = Some (svr4_fcntl_flock K fd (lock_cmd cmd) arg m)"
    using assms(1) by (auto simp: svr4_fcntl_def lock_cmd_def)
  have lock: "sys_fcntl_lock K fd (lock_cmd cmd) (flock_to_linux (flock_of_bytes bs)) (kern m) = (rval, l, k)"
    using assms(4) bs by (simp add: flock_at_def)
  let ?out = "flock_bytes (flock_from_linux l)"
  obtain left mm where c: "copy_to_user (mem m) arg ?out = (left, mm)" by fastforce
  have "left = 0" using c copy_to_user_ok_iff [of "mem m" arg ?out] assms(3) by simp
  moreover have "copy_from_user mm arg 16 = (?out, 0)"
    using c copy_round_trip [of "mem m" arg ?out] assms(3) by simp
  moreover have "\<forall>x. (\<forall>i < 16. x \<noteq> arg + of_nat i) \<longrightarrow> mm x = mem m x"
    using c copy_to_user_frame [of ?out _ arg "mem m"] by auto
  ultimately show ?thesis
    using assms(2) bs lock c unfolding call
    by (cases "rval = 0")
      (auto simp: svr4_fcntl_flock_def flock_at_def flock_round_trip flock_linux_round_trip)
qed

definition sample_fcntl_env :: "unit fcntl_env" where
  "sample_fcntl_env =
     \<lparr>access_ok = (\<lambda>a n. True), sys_fcntl = (\<lambda>fd cmd arg m. (if fd < 0 then - EBADF else 0x802, m)),
      sys_fcntl_lock = (\<lambda>fd cmd l k. (0, l\<lparr>lf_type := 2\<rparr>, k)), sys_ftruncate = (\<lambda>fd n m. (0, m)),
      fionread = (\<lambda>fd k. (0, 5, k))\<rparr>"

theorem fcntl_lock_witness:
  "\<exists>m'. svr4_fcntl sample_fcntl_env 3 14 0x2000 (blank_mach ()) = Some (0, m') \<and> fl_type (flock_at (mem m') 0x2000) = 3"
proof -
  let ?l = "flock_to_linux (flock_at (mem (blank_mach ())) 0x2000)"
  have "sys_fcntl_lock sample_fcntl_env 3 (lock_cmd 14) ?l (kern (blank_mach ())) = (0, ?l\<lparr>lf_type := 2\<rparr>, ())"
    by (simp add: sample_fcntl_env_def)
  from fcntl_lock [OF _ _ _ this] show ?thesis
    by (auto simp: sample_fcntl_env_def flock_from_linux_def)
qed

text \<open>
  C20: Which open flags survive.  Translating System V open flags to Linux and back keeps access mode,
  append, synchronous, create, exclusive and no-controlling-terminal as they are; both non-blocking
  flags come back as \<^verbatim>\<open>O_NDELAY\<close>, truncation comes back together with creation, and everything else is
  lost.
\<close>

theorem open_flags_round_trip:
  "\<exists>l. map_flags f fl_svr4_to_linux = Some l \<and>
     map_flags l fl_linux_to_svr4 =
       Some ((f AND 0x0f1b) OR (if bit f 2 \<or> bit f 7 then 4 else 0) OR (if bit f 9 then 0x100 else 0))"
proof -
  obtain l where l: "map_flags f fl_svr4_to_linux = Some l"
    "\<And>b. bit l b \<longleftrightarrow> (\<exists>i<16. bit f i \<and> bit (fl_svr4_to_linux ! i) b)"
    using map_flags_bits [of fl_svr4_to_linux f] by auto
  obtain r where r: "map_flags l fl_linux_to_svr4 = Some r"
    "\<And>b. bit r b \<longleftrightarrow> (\<exists>i<16. bit l i \<and> bit (fl_linux_to_svr4 ! i) b)"
    using map_flags_bits [of fl_linux_to_svr4 l] by auto
  have lb: "bit l 0 = bit f 0" "bit l 1 = bit f 1" "bit l 6 = (bit f 8 \<or> bit f 9)" "bit l 7 = bit f 10"
    "bit l 8 = bit f 11" "bit l 9 = bit f 9" "bit l 10 = bit f 3" "bit l 11 = (bit f 2 \<or> bit f 7)" "bit l 12 = bit f 4"
    by (simp_all add: l(2) ex_less_16 fl_svr4_to_linux_def)
  have rb: "bit r n \<longleftrightarrow> n = 0 \<and> bit f 0 \<or> n = 1 \<and> bit f 1 \<or> n = 2 \<and> (bit f 2 \<or> bit f 7) \<or> n = 3 \<and> bit f 3 \<or>
      n = 4 \<and> bit f 4 \<or> n = 8 \<and> (bit f 8 \<or> bit f 9) \<or> n = 9 \<and> bit f 9 \<or> n = 10 \<and> bit f 10 \<or> n = 11 \<and> bit f 11"
    if "\<exists>i < 16. n = i" for n
    using that unfolding ex_less_16 by (elim disjE) (simp_all add: r(2) ex_less_16 fl_linux_to_svr4_def lb lb(2) [simplified])
  have "r = (f AND 0x0f1b) OR (if bit f 2 \<or> bit f 7 then 4 else 0) OR (if bit f 9 then 0x100 else 0)" (is "_ = ?g")
  proof (rule bit_word_eqI)
    fix n assume "n < LENGTH(16)"
    then have n: "\<exists>i < 16. n = i" by simp
    then show "bit r n = bit ?g n"
      unfolding rb [OF n] unfolding ex_less_16 by (elim disjE) (simp_all add: bit_or_iff bit_and_iff)
  qed
  with l r show ?thesis by blast
qed

text \<open>
  \<^verbatim>\<open>F_GETFL\<close> cannot fail.  Whatever Linux returns, an error code included, goes through the flag
  translation, so the caller always gets a number between 0 and 65535; an invalid descriptor is
  reported as a set of flags.
\<close>

lemma getfl_hides_errors:
  "\<exists>r m'. svr4_fcntl K fd 3 arg m = Some (r, m') \<and> 0 \<le> r \<and> r < 65536"
proof -
  obtain rval m' where "sys_fcntl K fd 3 arg m = (rval, m')" by fastforce
  moreover obtain f where "map_flags (word_of_int rval) fl_linux_to_svr4 = Some f"
    using map_flags_total by fastforce
  moreover have "uint f < 65536" using uint_bounded [of f] by simp
  ultimately show ?thesis by (simp add: svr4_fcntl_def)
qed

end
