(* ===== verification/Svr4_Open.thy ===== *)
theory Svr4_Open
  imports Svr4_Fcntl
begin

text \<open>
  \<^verbatim>\<open>abi/svr4/open.c\<close>: \<^verbatim>\<open>statfs\<close>, \<^verbatim>\<open>open\<close> and \<^verbatim>\<open>getdents\<close> of System V.  Files, file systems, sockets and
  the directory walk belong to Linux, the fields of \<open>open_env\<close>; \<open>None\<close> is undefined behaviour: a
  read past a kernel object, or a direct access of the kernel to an unmapped user address.
\<close>

section \<open>Data\<close>

record kstatfs =
  kf_type :: u32
  kf_bsize :: u32
  kf_blocks :: u64
  kf_bfree :: u64
  kf_files :: u64
  kf_ffree :: u64

record struct_svr4_statfs =
  f_type :: u16
  f_bsize :: u32
  f_frsize :: u32
  f_blocks :: u32
  f_bfree :: u32
  f_files :: u32
  f_ffree :: u32

text \<open>A directory entry that Linux offers: name, offset of the next one, inode.\<close>

type_synonym dir_entry = "u8 list \<times> u32 \<times> u32"

record 'k open_env =
  oe_access_ok :: "u32 \<Rightarrow> nat \<Rightarrow> bool"
  user_path_walk :: "u32 \<Rightarrow> 'k mach \<Rightarrow> int \<times> nat \<times> 'k"
  path_release :: "nat \<Rightarrow> 'k \<Rightarrow> 'k"
  vfs_statfs :: "nat \<Rightarrow> 'k \<Rightarrow> int \<times> kstatfs \<times> 'k"
  fget :: "int \<Rightarrow> 'k \<Rightarrow> nat \<times> 'k"
  fput :: "nat \<Rightarrow> 'k \<Rightarrow> 'k"
  file_sb :: "nat \<Rightarrow> 'k \<Rightarrow> nat"
  is_sock :: "nat \<Rightarrow> 'k \<Rightarrow> bool"
  f_pos :: "nat \<Rightarrow> 'k \<Rightarrow> u32"
  sys_open :: "u32 \<Rightarrow> u32 \<Rightarrow> u32 \<Rightarrow> 'k mach \<Rightarrow> int \<times> 'k mach"
  sys_close :: "int \<Rightarrow> 'k mach \<Rightarrow> 'k mach"
  unix_socket :: "'k mach \<Rightarrow> int \<times> 'k mach"
  unix_connect :: "int \<Rightarrow> string \<Rightarrow> 'k mach \<Rightarrow> int \<times> 'k mach"
  oe_getname :: "u32 \<Rightarrow> 'k mach \<Rightarrow> int + string"
  readdir_entries :: "nat \<Rightarrow> 'k \<Rightarrow> dir_entry list"
  readdir_done :: "nat \<Rightarrow> nat \<Rightarrow> 'k \<Rightarrow> int \<times> 'k"

section \<open>File system statistics\<close>

text \<open>
  The structure is a local variable that is never cleared: \<open>junk\<close> is what was on the stack, of which
  the two bytes of padding (and, for an unmounted file system, the type) reach the program.
\<close>

definition statfs_bytes :: "u8 list \<Rightarrow> struct_svr4_statfs \<Rightarrow> u8 list" where
  "statfs_bytes junk s =
     bytes16 (f_type s) @ field 2 2 junk @ bytes32 (f_bsize s) @ bytes32 (f_frsize s) @ bytes32 (f_blocks s) @
     bytes32 (f_bfree s) @ bytes32 (f_files s) @ bytes32 (f_ffree s) @ replicate 12 0"

definition copy_kstatfs :: "u8 list \<Rightarrow> u32 \<Rightarrow> kstatfs \<Rightarrow> 'k mach \<Rightarrow> nat \<times> 'k mach" where
  "copy_kstatfs junk buf st m =
     (let (left, mm) = copy_to_user (mem m) buf (statfs_bytes junk
            \<lparr>f_type = ucast (kf_type st), f_bsize = kf_bsize st, f_frsize = 0, f_blocks = ucast (kf_blocks st),
             f_bfree = ucast (kf_bfree st), f_files = ucast (kf_files st), f_ffree = ucast (kf_ffree st)\<rparr>)
      in (left, m\<lparr>mem := mm\<rparr>))"

definition fake_statfs :: "u8 list \<Rightarrow> struct_svr4_statfs" where
  "fake_statfs junk =
     \<lparr>f_type = word16 (field 0 2 junk), f_bsize = 1024, f_frsize = 0, f_blocks = 8 * 1024 * 1024,
      f_bfree = 500 * 1024, f_files = 60000, f_ffree = 50000\<rparr>"

text \<open>
  \<^verbatim>\<open>copy_to_user(buf, &ibcsstat, len)\<close> with a signed length that becomes unsigned.  A negative length
  that passes the range check reads far past the structure.
\<close>

definition copy_fake :: "'k open_env \<Rightarrow> u8 list \<Rightarrow> u32 \<Rightarrow> int \<Rightarrow> 'k mach \<Rightarrow> (int \<times> 'k mach) option" where
  "copy_fake K junk buf len m =
     (if \<not> oe_access_ok K buf (nat (len mod 2 ^ 32)) then Some (- EFAULT, m)
      else if len < 0 then None
      else let (left, mm) = copy_to_user (mem m) buf (take (nat len) (statfs_bytes junk (fake_statfs junk)))
           in Some (if left \<noteq> 0 then - EFAULT else 0, m\<lparr>mem := mm\<rparr>))"

definition svr4_statfs ::
  "'k open_env \<Rightarrow> u8 list \<Rightarrow> u32 \<Rightarrow> u32 \<Rightarrow> int \<Rightarrow> int \<Rightarrow> 'k mach \<Rightarrow> (int \<times> 'k mach) option" where
  "svr4_statfs K junk path buf len fstype m =
     (if len > 40 then Some (- EINVAL, m)
      else if fstype = 0
      then (let (error, nd, k) = user_path_walk K path m; m = m\<lparr>kern := k\<rparr> in
            if error \<noteq> 0 then Some (error, m)
            else let (error, tmp, k) = vfs_statfs K nd (kern m); m = m\<lparr>kern := k\<rparr>;
                     (error, m) = (if error \<noteq> 0 then (error, m)
                       else let (left, m) = copy_kstatfs junk buf tmp m in (if left \<noteq> 0 then - EFAULT else 0, m))
                 in Some (error, m\<lparr>kern := path_release K nd (kern m)\<rparr>))
      else copy_fake K junk buf len m)"

definition svr4_fstatfs ::
  "'k open_env \<Rightarrow> u8 list \<Rightarrow> int \<Rightarrow> u32 \<Rightarrow> int \<Rightarrow> int \<Rightarrow> 'k mach \<Rightarrow> (int \<times> 'k mach) option" where
  "svr4_fstatfs K junk fd buf len fstype m =
     (if len > 40 then Some (- EINVAL, m)
      else if fstype = 0
      then (let (file, k) = fget K fd (kern m); m = m\<lparr>kern := k\<rparr> in
            if file = 0 then Some (- EBADF, m)
            else let (error, tmp, k) = vfs_statfs K (file_sb K file (kern m)) (kern m); m = m\<lparr>kern := k\<rparr>;
                     (error, m) = (if error \<noteq> 0 then (error, m)
                       else let (left, m) = copy_kstatfs junk buf tmp m in (if left \<noteq> 0 then - EFAULT else 0, m))
                 in Some (error, m\<lparr>kern := fput K file (kern m)\<rparr>))
      else copy_fake K junk buf len m)"

section \<open>Opening files\<close>

abbreviation (input) "UNIX_PATH_MAX \<equiv> (108::nat)"

text \<open>The part after a socket was found behind the descriptor.\<close>

definition open_unix :: "'k open_env \<Rightarrow> u32 \<Rightarrow> 'k mach \<Rightarrow> int \<times> 'k mach" where
  "open_unix K fname m =
     (let (fd, m) = unix_socket K m in
      if fd < 0 then (fd, m)
      else case oe_getname K fname m of
             Inl e \<Rightarrow> (e, sys_close K fd m)
           | Inr p \<Rightarrow>
               if length p \<ge> UNIX_PATH_MAX then (- E2BIG, sys_close K fd m)
               else let (error, m) = unix_connect K fd p m
                    in if error \<noteq> 0 then (error, sys_close K fd m) else (fd, m))"

definition svr4_open :: "'k open_env \<Rightarrow> u32 \<Rightarrow> u32 \<Rightarrow> u32 \<Rightarrow> 'k mach \<Rightarrow> (int \<times> 'k mach) option" where
  "svr4_open K fname flag mode m =
     (case map_flags (ucast flag) fl_svr4_to_linux of
        None \<Rightarrow> None
      | Some lflag \<Rightarrow>
          let (fd, m) = sys_open K fname (ucast lflag) mode m in
          if fd < 0 then Some (fd, m)
          else let (file, k) = fget K fd (kern m); m = m\<lparr>kern := k\<rparr> in
            if file = 0 then Some (fd, m)
            else let sock = is_sock K file (kern m); m = m\<lparr>kern := fput K file (kern m)\<rparr>
                 in if \<not> sock then Some (fd, m) else Some (open_unix K fname (sys_close K fd m)))"

section \<open>Reading directories\<close>

record getdents_callback =
  current_dir :: u32
  previous :: u32
  cb_count :: int
  cb_error :: int

abbreviation (input) "NAME_OFFSET \<equiv> (10::nat)"

definition ROUND_UP :: "nat \<Rightarrow> nat" where
  "ROUND_UP x = (x + 3) div 4 * 4"

text \<open>
  With short inodes the kernel reads, and perhaps writes, the old inode field of the program's buffer
  directly.
\<close>

definition short_inode_fix :: "u32 \<Rightarrow> u32 \<Rightarrow> umem \<Rightarrow> umem option" where
  "short_inode_fix pers dirent m =
     (if is_cur_personality_flag pers PERF_SHORT_INODE \<noteq> 0
      then (case rd32 m dirent of
              None \<Rightarrow> None
            | Some d_ino \<Rightarrow> if d_ino AND 0xffff = 0 then wr32 m dirent 0xfffffffe else Some m)
      else Some m)"

text \<open>The offset of a record is stored when the next one is filled in.\<close>

definition link_previous :: "u32 \<Rightarrow> u32 \<Rightarrow> umem \<Rightarrow> umem" where
  "link_previous prev offset m = (if prev \<noteq> 0 then snd (put_user m (prev + 4) (bytes32 offset)) else m)"

text \<open>\<^verbatim>\<open>svr4_filldir\<close>: the value returned, the callback state and the memory.\<close>

definition svr4_filldir ::
  "u32 \<Rightarrow> dir_entry \<Rightarrow> getdents_callback \<Rightarrow> umem \<Rightarrow> (int \<times> getdents_callback \<times> umem) option" where
  "svr4_filldir pers entry buf m =
     (let (name, offset, ino) = entry; namlen = length name;
          reclen = ROUND_UP (NAME_OFFSET + namlen + 1);
          buf = buf\<lparr>cb_error := - EINVAL\<rparr> in
      if int reclen > cb_count buf then Some (- EINVAL, buf, m)
      else let m1 = link_previous (previous buf) offset m;
               dirent = current_dir buf; buf = buf\<lparr>previous := dirent\<rparr> in
        case short_inode_fix pers dirent m1 of
          None \<Rightarrow> None
        | Some m2 \<Rightarrow>
            let m3 = snd (put_user m2 dirent (bytes32 ino));
                m4 = snd (put_user m3 (dirent + 8) (bytes16 (of_nat reclen)));
                (left, m5) = copy_to_user m4 (dirent + 10) name in
            if left \<noteq> 0 then Some (- EFAULT, buf, m5)
            else let m6 = snd (put_user m5 (dirent + 10 + of_nat namlen) [0])
                 in Some (0, buf\<lparr>current_dir := dirent + of_nat reclen, cb_count := cb_count buf - int reclen\<rparr>, m6))"

text \<open>
  \<^verbatim>\<open>vfs_readdir\<close> hands its entries to the callback until that returns non-zero; the number of entries
  that were accepted decides where the file position is left.
\<close>

fun fill_entries ::
  "u32 \<Rightarrow> dir_entry list \<Rightarrow> nat \<Rightarrow> getdents_callback \<Rightarrow> umem \<Rightarrow> (nat \<times> getdents_callback \<times> umem) option" where
  "fill_entries pers [] n buf m = Some (n, buf, m)"
| "fill_entries pers (e # es) n buf m =
     (case svr4_filldir pers e buf m of
        None \<Rightarrow> None
      | Some (r, buf', m') \<Rightarrow> if r \<noteq> 0 then Some (n, buf', m') else fill_entries pers es (Suc n) buf' m')"

definition svr4_getdents :: "'k open_env \<Rightarrow> int \<Rightarrow> u32 \<Rightarrow> int \<Rightarrow> 'k mach \<Rightarrow> (int \<times> 'k mach) option" where
  "svr4_getdents K fd dirent count m =
     (let (file, k) = fget K fd (kern m); m = m\<lparr>kern := k\<rparr> in
      if file = 0 then Some (- EBADF, m)
      else case fill_entries (cur_pers m) (readdir_entries K file (kern m)) 0
                  \<lparr>current_dir = dirent, previous = 0, cb_count = count, cb_error = 0\<rparr> (mem m) of
             None \<Rightarrow> None
           | Some (n, buf, mm) \<Rightarrow>
               let m = m\<lparr>mem := mm\<rparr>;
                   (error, k) = readdir_done K file n (kern m); m = m\<lparr>kern := k\<rparr>;
                   (error, m) =
                     (if error < 0 then (error, m)
                      else if previous buf \<noteq> 0
                      then (count - cb_count buf, m\<lparr>mem := link_previous (previous buf) (f_pos K file (kern m)) (mem m)\<rparr>)
                      else (cb_error buf, m))
               in Some (error, m\<lparr>kern := fput K file (kern m)\<rparr>))"

section \<open>Facts\<close>

lemma ROUND_UP_bounds: "x \<le> ROUND_UP x" "ROUND_UP x < x + 4" "4 dvd ROUND_UP x"
  by (simp_all add: ROUND_UP_def)

text \<open>A transfer into the \<open>n\<close> bytes at \<open>a\<close> leaves every other address alone.\<close>

lemma copy_inside:
  assumes "off + length bs \<le> n" "n \<le> unat (x - a)"
  shows "snd (copy_to_user m (a + of_nat off) bs) x = m x"
proof (rule copy_to_user_frame)
  fix i assume i: "i < length bs"
  show "x \<noteq> a + of_nat off + of_nat i"
  proof
    assume "x = a + of_nat off + of_nat i"
    then have "x - a = of_nat (off + i)" by (simp add: algebra_simps)
    then have "unat (x - a) \<le> off + i" by (metis unat_of_nat mod_less_eq_dividend)
    with i assms show False by simp
  qed
qed

lemma put_inside:
  assumes "off + length bs \<le> n" "n \<le> unat (x - a)"
  shows "snd (put_user m (a + of_nat off) bs) x = m x"
  using copy_inside [OF assms] by (simp add: put_user_def)

lemma put_user_dom [simp]: "dom (snd (put_user m a bs)) = dom m"
  by (simp add: put_user_def copy_to_user_dom)

lemma wr32_inside:
  assumes "wr32 m (a + of_nat off) v = Some m'" "off + 4 \<le> n" "n \<le> unat (x - a)"
  shows "m' x = m x"
proof (rule wr32_frame [OF assms(1)])
  have ne: "x \<noteq> a + of_nat off + of_nat i" if "i < 4" for i
  proof
    assume "x = a + of_nat off + of_nat i"
    then have "x - a = of_nat (off + i)" by (simp add: algebra_simps)
    then have "unat (x - a) \<le> off + i" by (metis unat_of_nat mod_less_eq_dividend)
    with that assms show False by simp
  qed
  show "x \<notin> {a + of_nat off, a + of_nat off + 1, a + of_nat off + 2, a + of_nat off + 3}"
    using ne [of 0] ne [of 1] ne [of 2] ne [of 3] by simp
qed

text \<open>The bookkeeping of the callback: how far the buffer is filled and where the last record starts.\<close>

definition buf_ok :: "u32 \<Rightarrow> int \<Rightarrow> getdents_callback \<Rightarrow> bool" where
  "buf_ok a n b \<longleftrightarrow> (\<exists>used. int used + cb_count b = n \<and> current_dir b = a + of_nat used) \<and>
     (previous b \<noteq> 0 \<longrightarrow> (\<exists>p. previous b = a + of_nat p \<and> int p + 12 \<le> n) \<and> 0 \<le> cb_count b) \<and>
     cb_error b \<le> 0"

lemma short_inode_fix_inside:
  assumes "short_inode_fix pers (a + of_nat off) m = Some m'" "off + 4 \<le> n" "n \<le> unat (x - a)"
  shows "m' x = m x"
  using assms wr32_inside [OF _ assms(2,3)] by (auto simp: short_inode_fix_def split: if_splits option.splits)

lemma short_inode_fix_dom: "short_inode_fix pers a m = Some m' \<Longrightarrow> dom m' = dom m"
  using wr32_dom by (fastforce simp: short_inode_fix_def split: if_splits option.splits)

lemma filldir_cases:
  assumes "svr4_filldir pers (name, offset, ino) b m = Some (r, b', m')"
  obtains (full) "r = - EINVAL" "b' = b\<lparr>cb_error := - EINVAL\<rparr>" "m' = m"
        "cb_count b < int (ROUND_UP (11 + length name))"
    | (fill) m1 m2 left m5 where
        "int (ROUND_UP (11 + length name)) \<le> cb_count b"
        "m1 = link_previous (previous b) offset m"
        "short_inode_fix pers (current_dir b) m1 = Some m2"
        "copy_to_user (snd (put_user (snd (put_user m2 (current_dir b) (bytes32 ino))) (current_dir b + 8)
           (bytes16 (of_nat (ROUND_UP (11 + length name)))))) (current_dir b + 10) name = (left, m5)"
        "previous b' = current_dir b" "cb_error b' = - EINVAL"
        "left \<noteq> 0 \<Longrightarrow> r = - EFAULT \<and> m' = m5 \<and> current_dir b' = current_dir b \<and> cb_count b' = cb_count b"
        "left = 0 \<Longrightarrow> r = 0 \<and> m' = snd (put_user m5 (current_dir b + 10 + of_nat (length name)) [0]) \<and>
           current_dir b' = current_dir b + of_nat (ROUND_UP (11 + length name)) \<and>
           cb_count b' = cb_count b - int (ROUND_UP (11 + length name))"
proof (cases "cb_count b < int (ROUND_UP (11 + length name))")
  case True
  with assms show ?thesis by (intro full) (simp_all add: svr4_filldir_def Let_def)
next
  case False
  define m1 where "m1 = link_previous (previous b) offset m"
  from assms False obtain m2 where m2: "short_inode_fix pers (current_dir b) m1 = Some m2"
    by (cases "short_inode_fix pers (current_dir b) m1") (simp_all add: svr4_filldir_def Let_def m1_def)
  obtain left m5 where c: "copy_to_user (snd (put_user (snd (put_user m2 (current_dir b) (bytes32 ino))) (current_dir b + 8)
      (bytes16 (of_nat (ROUND_UP (11 + length name)))))) (current_dir b + 10) name = (left, m5)"
    by (metis surj_pair)
  show ?thesis
    by (rule fill [OF _ m1_def m2 c])
      (use assms False m2 c in \<open>auto simp: svr4_filldir_def Let_def m1_def [symmetric] split: if_splits\<close>)
qed

lemma link_previous_inside:
  assumes "buf_ok a n b" "nat n \<le> unat (x - a)"
  shows "link_previous (previous b) v m x = m x"
proof (cases "previous b = 0")
  case False
  with assms(1) obtain p where p: "previous b = a + of_nat p" "int p + 12 \<le> n"
    by (auto simp: buf_ok_def)
  have "snd (put_user m (a + of_nat (p + 4)) (bytes32 v)) x = m x"
    by (rule put_inside [OF _ assms(2)]) (use p in simp)
  with False p show ?thesis by (simp add: link_previous_def add.assoc)
qed (simp add: link_previous_def)

lemma link_previous_dom: "dom (link_previous p v m) = dom m"
  by (simp add: link_previous_def)

lemma filldir_ok:
  assumes ok: "buf_ok a n b" and f: "svr4_filldir pers e b m = Some (r, b', m')"
  shows "buf_ok a n b' \<and> cb_count b' \<le> cb_count b \<and> (\<forall>x. nat n \<le> unat (x - a) \<longrightarrow> m' x = m x)"
proof -
  obtain name offset ino where e: "e = (name, offset, ino)" by (cases e) auto
  from ok obtain used where u: "int used + cb_count b = n" "current_dir b = a + of_nat used"
    by (auto simp: buf_ok_def)
  note bounds = ROUND_UP_bounds [of "11 + length name"]
  from f show ?thesis unfolding e
  proof (cases rule: filldir_cases)
    case full
    with ok show ?thesis by (simp add: buf_ok_def)
  next
    case (fill m1 m2 left m5)
    have four: "12 \<le> ROUND_UP (11 + length name)"
      using bounds by (auto elim!: dvdE)
    let ?R = "ROUND_UP (11 + length name)"
    have room: "used + ?R \<le> nat n" using fill(1) u(1) by linarith
    have prev: "previous b' = a + of_nat used \<and> int used + 12 \<le> n" "0 \<le> cb_count b'" "cb_error b' \<le> 0"
      using fill(1,5-8) u(2) room four by (auto, cases "left = 0", auto)
    have "\<exists>used'. int used' + cb_count b' = n \<and> current_dir b' = a + of_nat used'"
    proof (cases "left = 0")
      case True
      have "int (used + ?R) + cb_count b' = n \<and> current_dir b' = a + of_nat (used + ?R)"
        using fill(8) [OF True] u by simp
      then show ?thesis by (rule exI)
    qed (use fill(7) u in auto)
    with prev have "buf_ok a n b'" unfolding buf_ok_def by blast
    moreover have "m' x = m x" if x: "nat n \<le> unat (x - a)" for x
    proof -
      have "m1 x = m x" unfolding fill(2) by (rule link_previous_inside [OF ok x])
      moreover have "m2 x = m1 x"
        by (rule short_inode_fix_inside [OF fill(3) [unfolded u] _ x]) (use room four in linarith)
      moreover have "m5 x = m2 x"
      proof -
        have "m5 = snd (copy_to_user (snd (put_user (snd (put_user m2 (a + of_nat used) (bytes32 ino)))
            (a + of_nat (used + 8)) (bytes16 (of_nat ?R)))) (a + of_nat (used + 10)) name)"
          using fill(4) u(2) by (simp add: add.assoc)
        then show ?thesis
          using copy_inside [OF _ x, of "used + 10" name] put_inside [OF _ x, of "used + 8" "bytes16 (of_nat ?R)"]
            put_inside [OF _ x, of used "bytes32 ino"] room bounds(1) four by simp
      qed
      moreover have "m' x = m5 x"
        using fill(7,8) put_inside [OF _ x, of "used + 10 + length name" "[0]" m5] room bounds(1) u(2)
        by (cases "left = 0") (simp_all add: add.assoc)
      ultimately show ?thesis by simp
    qed
    ultimately show ?thesis using fill(7,8) by (cases "left = 0") auto
  qed
qed

lemma fill_entries_ok:
  assumes "buf_ok a n b" "fill_entries pers es k b m = Some (k', b', m')"
  shows "buf_ok a n b' \<and> (\<forall>x. nat n \<le> unat (x - a) \<longrightarrow> m' x = m x)"
  using assms
proof (induction es arbitrary: k b m)
  case Nil
  then show ?case by simp
next
  case (Cons e es)
  then obtain r b1 m1 where f: "svr4_filldir pers e b m = Some (r, b1, m1)"
    by (auto split: option.splits)
  note step = filldir_ok [OF Cons.prems(1) f]
  show ?case
  proof (cases "r = 0")
    case True
    with f Cons.prems(2) have "fill_entries pers es (Suc k) b1 m1 = Some (k', b', m')" by simp
    with Cons.IH step show ?thesis by metis
  next
    case False
    with f Cons.prems(2) step show ?thesis by simp
  qed
qed

lemma getdents_cases:
  assumes "svr4_getdents K fd dirent count m = Some (r, m')"
  obtains (bad) "r = - EBADF" "mem m' = mem m"
    | (read) f k n b mm where
        "fill_entries (cur_pers m) (readdir_entries K f k) 0
           \<lparr>current_dir = dirent, previous = 0, cb_count = count, cb_error = 0\<rparr> (mem m) = Some (n, b, mm)"
        "mem m' = mm \<and> (r < 0 \<or> previous b = 0 \<and> r = cb_error b) \<or>
         previous b \<noteq> 0 \<and> r = count - cb_count b \<and> (\<exists>v. mem m' = link_previous (previous b) v mm)"
  using assms unfolding svr4_getdents_def
  by (auto simp: Let_def split: prod.splits if_splits option.splits) blast

lemma copy_from_user_cong:
  "(\<And>i. i < n \<Longrightarrow> m' (a + of_nat i) = m (a + of_nat i)) \<Longrightarrow> copy_from_user m' a n = copy_from_user m a n"
proof (induction n arbitrary: a)
  case (Suc n)
  have "copy_from_user m' (a + 1) n = copy_from_user m (a + 1) n"
    by (rule Suc.IH) (use Suc.prems in \<open>force simp: algebra_simps\<close>)
  moreover have "m' a = m a" using Suc.prems [of 0] by simp
  ultimately show ?case by (simp split: option.splits)
qed simp

lemma put_user_round_trip:
  assumes "mapped m a (length bs)" "length bs < 2 ^ 32"
  shows "copy_from_user (snd (put_user m a bs)) a (length bs) = (bs, 0)"
  using copy_round_trip [OF assms] assms by (simp add: put_user_def mapped_def list_all_iff)

lemma statfs_bytes_length: "length junk = 40 \<Longrightarrow> length (statfs_bytes junk s) = 40"
  by (simp add: statfs_bytes_def field_def)

text \<open>The records a buffer of \<open>c\<close> bytes has room for: their lengths, up to the first that does not fit.\<close>

fun taken :: "int \<Rightarrow> dir_entry list \<Rightarrow> nat list" where
  "taken c [] = []"
| "taken c ((name, offset, ino) # es) =
     (if c < int (ROUND_UP (11 + length name)) then []
      else ROUND_UP (11 + length name) # taken (c - int (ROUND_UP (11 + length name))) es)"

lemma base_neq_0: "0 < unat a \<Longrightarrow> unat a + i < 2 ^ 32 \<Longrightarrow> a + of_nat i \<noteq> (0::u32)"
  using of_nat_neq_0 [of "unat a + i"] by simp

lemma mapped_inside: "mapped m a n \<Longrightarrow> off + l \<le> n \<Longrightarrow> mapped m (a + of_nat off) l"
  by (auto simp: mapped_def add.assoc simp flip: of_nat_add)

lemma rd32_ok: "mapped m a 4 \<Longrightarrow> \<exists>v. rd32 m a = Some v"
proof -
  assume "mapped m a 4"
  then have "m (a + of_nat i) \<noteq> None" if "i < 4" for i using that by (simp add: mapped_def)
  from this [of 0] this [of 1] this [of 2] this [of 3] show ?thesis
    by (auto simp: rd32_def split: option.splits)
qed

lemma short_inode_fix_ok: "mapped m a 4 \<Longrightarrow> \<exists>m'. short_inode_fix pers a m = Some m'"
  using rd32_ok [of m a] wr32_defined_iff [of m a "0xfffffffe"] by (auto simp: short_inode_fix_def)

lemma filldir_fills:
  assumes ok: "buf_ok a n b" and m: "mapped m a (nat n)"
    and fits: "int (ROUND_UP (11 + length name)) \<le> cb_count b"
  shows "\<exists>b' m'. svr4_filldir pers (name, offset, ino) b m = Some (0, b', m') \<and> dom m' = dom m \<and>
    cb_count b' = cb_count b - int (ROUND_UP (11 + length name)) \<and> previous b' = current_dir b"
proof -
  let ?R = "ROUND_UP (11 + length name)"
  from ok obtain used where u: "int used + cb_count b = n" "current_dir b = a + of_nat used"
    by (auto simp: buf_ok_def)
  have R: "11 + length name \<le> ?R" "used + ?R \<le> nat n"
    using ROUND_UP_bounds [of "11 + length name"] fits u(1) by linarith+
  have "mapped (link_previous (previous b) offset m) (current_dir b) 4"
    using mapped_inside [OF m, of used 4] R u(2) by (simp add: mapped_dom [OF link_previous_dom])
  from short_inode_fix_ok [OF this] obtain m2
    where m2: "short_inode_fix pers (current_dir b) (link_previous (previous b) offset m) = Some m2" by blast
  define m4 where "m4 = snd (put_user (snd (put_user m2 (current_dir b) (bytes32 ino))) (current_dir b + 8) (bytes16 (of_nat ?R)))"
  have dom: "dom m4 = dom m"
    by (simp add: m4_def short_inode_fix_dom [OF m2] link_previous_dom)
  have "mapped m4 (current_dir b + 10) (length name)"
    using mapped_inside [OF m, of "used + 10" "length name"] R u(2) by (simp add: mapped_dom [OF dom] add.assoc)
  then have left: "fst (copy_to_user m4 (current_dir b + 10) name) = 0"
    by (simp add: copy_to_user_ok_iff)
  then show ?thesis
    using fits m2 dom copy_to_user_dom [of m4 "current_dir b + 10" name]
    by (cases "copy_to_user m4 (current_dir b + 10) name") (simp add: svr4_filldir_def Let_def m4_def [symmetric])
qed

text \<open>With the buffer mapped and not at address zero, every entry that fits is filled in.\<close>

lemma fill_entries_taken:
  assumes "buf_ok a n b" "mapped m a (nat n)" "0 < unat a" "int (unat a) + n < 2 ^ 32"
  shows "\<exists>b' m'. fill_entries pers es k b m = Some (k + length (taken (cb_count b) es), b', m') \<and>
    cb_count b' = cb_count b - int (sum_list (taken (cb_count b) es)) \<and>
    (previous b' = 0 \<longleftrightarrow> previous b = 0 \<and> taken (cb_count b) es = []) \<and>
    (taken (cb_count b) es = [] \<longrightarrow> cb_error b' = (if es = [] then cb_error b else - EINVAL))"
  using assms(1,2)
proof (induction es arbitrary: k b m)
  case Nil
  then show ?case by simp
next
  case (Cons e es)
  obtain name offset ino where e: "e = (name, offset, ino)" by (cases e) auto
  let ?R = "ROUND_UP (11 + length name)"
  show ?case
  proof (cases "cb_count b < int ?R")
    case True
    then show ?thesis by (simp add: e svr4_filldir_def Let_def)
  next
    case False
    then obtain b1 m1 where f: "svr4_filldir pers e b m = Some (0, b1, m1)" "dom m1 = dom m"
      "cb_count b1 = cb_count b - int ?R" "previous b1 = current_dir b"
      using filldir_fills [OF Cons.prems, of name pers offset ino] e by auto
    have ok: "buf_ok a n b1" using filldir_ok [OF Cons.prems(1) f(1)] by simp
    have m1: "mapped m1 a (nat n)" using Cons.prems(2) by (simp add: mapped_dom [OF f(2)])
    obtain used where u: "int used + cb_count b = n" "current_dir b = a + of_nat used"
      using Cons.prems(1) by (auto simp: buf_ok_def)
    have "int (unat a + used) < int (2 ^ 32)"
      using u(1) False assms(4) of_nat_0_le_iff [of ?R, where 'a = int] by (simp only: of_nat_add of_nat_power of_nat_numeral)
    then have "unat a + used < 2 ^ 32" by (simp only: of_nat_less_iff)
    then have "current_dir b \<noteq> 0" using base_neq_0 [OF assms(3)] u(2) by simp
    moreover obtain b' m' where IH: "fill_entries pers es (Suc k) b1 m1 = Some (Suc k + length (taken (cb_count b1) es), b', m')"
      "cb_count b' = cb_count b1 - int (sum_list (taken (cb_count b1) es))"
      "previous b' = 0 \<longleftrightarrow> previous b1 = 0 \<and> taken (cb_count b1) es = []"
      using Cons.IH [OF ok m1, of "Suc k"] by blast
    ultimately show ?thesis using False f by (simp add: e)
  qed
qed

lemma getdents_taken:
  assumes "fget K fd (kern m) = (f, k)" "f \<noteq> 0" "0 \<le> fst (readdir_done K f (length (taken count (readdir_entries K f k))) k)"
    and "mapped (mem m) dirent (nat count)" "0 < unat dirent" "int (unat dirent) + count < 2 ^ 32"
  shows "\<exists>m'. svr4_getdents K fd dirent count m =
    Some (if readdir_entries K f k = [] then 0 else if taken count (readdir_entries K f k) = [] then - EINVAL
          else int (sum_list (taken count (readdir_entries K f k))), m')"
proof -
  let ?es = "readdir_entries K f k" and ?b = "\<lparr>current_dir = dirent, previous = 0, cb_count = count, cb_error = 0\<rparr>"
  have "buf_ok dirent count ?b" by (auto simp: buf_ok_def intro: exI [of _ 0])
  from fill_entries_taken [OF this assms(4-6), of "cur_pers m" ?es 0] obtain b' m' where
    "fill_entries (cur_pers m) ?es 0 ?b (mem m) = Some (length (taken count ?es), b', m')"
    "cb_count b' = count - int (sum_list (taken count ?es))"
    "previous b' = 0 \<longleftrightarrow> taken count ?es = []" "taken count ?es = [] \<longrightarrow> cb_error b' = (if ?es = [] then 0 else - EINVAL)"
    by auto
  with assms(1-3) show ?thesis
    by (auto simp: svr4_getdents_def Let_def split: prod.splits)
qed

text \<open>
  What Linux documents of file descriptors: \<open>fds\<close> is the set of open ones, opening adds a fresh one
  or fails, closing removes one, nothing else changes the set, and errors are negative.
\<close>

definition fd_outcome :: "('k \<Rightarrow> int set) \<Rightarrow> 'k mach \<Rightarrow> int \<Rightarrow> 'k mach \<Rightarrow> bool" where
  "fd_outcome fds m r m' \<longleftrightarrow>
     (if r < 0 then fds (kern m') = fds (kern m)
      else r \<notin> fds (kern m) \<and> fds (kern m') = insert r (fds (kern m)))"

definition fd_laws :: "('k \<Rightarrow> int set) \<Rightarrow> 'k open_env \<Rightarrow> bool" where
  "fd_laws fds K \<longleftrightarrow>
     (\<forall>a f md m. fd_outcome fds m (fst (sys_open K a f md m)) (snd (sys_open K a f md m))) \<and>
     (\<forall>m. fd_outcome fds m (fst (unix_socket K m)) (snd (unix_socket K m))) \<and>
     (\<forall>fd m. fds (kern (sys_close K fd m)) = fds (kern m) - {fd}) \<and>
     (\<forall>fd k. fds (snd (fget K fd k)) = fds k) \<and> (\<forall>f k. fds (fput K f k) = fds k) \<and>
     (\<forall>fd p m. fst (unix_connect K fd p m) \<le> 0 \<and> fds (kern (snd (unix_connect K fd p m))) = fds (kern m)) \<and>
     (\<forall>a m e. oe_getname K a m = Inl e \<longrightarrow> e < 0)"

lemma fd_lawsD:
  assumes "fd_laws fds K"
  shows "fd_outcome fds m (fst (sys_open K a f md m)) (snd (sys_open K a f md m))"
    and "fd_outcome fds m (fst (unix_socket K m)) (snd (unix_socket K m))"
    and "fds (kern (sys_close K fd m)) = fds (kern m) - {fd}"
    and "fds (snd (fget K fd k)) = fds k" and "fds (fput K file k) = fds k"
    and "fst (unix_connect K fd p m) \<le> 0" and "fds (kern (snd (unix_connect K fd p m))) = fds (kern m)"
    and "oe_getname K a m = Inl e \<Longrightarrow> e < 0"
  using assms by (simp_all add: fd_laws_def)

lemma open_unix_fds:
  assumes L: "fd_laws fds K" and u: "open_unix K fname m = (r, m')"
  shows "fd_outcome fds m r m'"
proof -
  obtain fd m1 where s: "unix_socket K m = (fd, m1)" by (metis surj_pair)
  have f: "fd_outcome fds m fd m1" using fd_lawsD(2) [OF L, of m] s by simp
  note close = fd_lawsD(3) [OF L]
  show ?thesis
  proof (cases "fd < 0")
    case True
    with u s f show ?thesis by (simp add: open_unix_def)
  next
    case False
    with f have new: "fd \<notin> fds (kern m)" "fds (kern m1) = insert fd (fds (kern m))"
      by (simp_all add: fd_outcome_def)
    show ?thesis
    proof (cases "oe_getname K fname m1")
      case (Inl e)
      with u s False new fd_lawsD(8) [OF L Inl] show ?thesis
        by (auto simp: open_unix_def fd_outcome_def close)
    next
      case (Inr p)
      obtain e m2 where c: "unix_connect K fd p m1 = (e, m2)" by (metis surj_pair)
      with fd_lawsD(6,7) [OF L, of fd p m1] have "e \<le> 0" "fds (kern m2) = fds (kern m1)" by simp_all
      with u s False new Inr c show ?thesis
        by (auto simp: open_unix_def fd_outcome_def close split: if_splits)
    qed
  qed
qed

section \<open>Properties\<close>

text \<open>
  C21: \<^verbatim>\<open>getdents\<close> stays inside the program's buffer: it changes no byte of memory outside the \<open>count\<close>
  bytes at \<open>dirent\<close>, whatever names, inodes and offsets the file system offers, whatever the personality,
  and it never reports more bytes than the buffer has.
\<close>

theorem getdents_bounded:
  assumes "svr4_getdents K fd dirent count m = Some (r, m')"
  shows "(\<forall>x. nat count \<le> unat (x - dirent) \<longrightarrow> mem m' x = mem m x) \<and> r \<le> max 0 count"
  using assms
proof (cases rule: getdents_cases)
  case bad
  then show ?thesis by simp
next
  case (read f k n b mm)
  have "buf_ok dirent count \<lparr>current_dir = dirent, previous = 0, cb_count = count, cb_error = 0\<rparr>"
    by (auto simp: buf_ok_def intro: exI [of _ 0])
  note ok = fill_entries_ok [OF this read(1)]
  have "mem m' x = mem m x" if x: "nat count \<le> unat (x - dirent)" for x
    using read(2) ok x link_previous_inside [OF conjunct1 [OF ok] x] by auto
  moreover have "r \<le> max 0 count"
    using read(2) ok by (auto simp: buf_ok_def)
  ultimately show ?thesis by blast
qed

definition dir_kernel :: "dir_entry list \<Rightarrow> nat open_env" where
  "dir_kernel es =
     \<lparr>oe_access_ok = (\<lambda>a n. unat a + n \<le> 0xc0000000), user_path_walk = (\<lambda>_ m. (0, 1, kern m)), path_release = (\<lambda>_ k. k),
      vfs_statfs = (\<lambda>_ k. (0, \<lparr>kf_type = 0xef53, kf_bsize = 4096, kf_blocks = 9, kf_bfree = 8, kf_files = 7, kf_ffree = 6\<rparr>, k)),
      fget = (\<lambda>fd k. (if 0 \<le> fd \<and> fd < int k then 1 else 0, k)), fput = (\<lambda>_ k. k), file_sb = (\<lambda>_ _. 1),
      is_sock = (\<lambda>_ _. True), f_pos = (\<lambda>_ _. 99),
      sys_open = (\<lambda>_ _ _ m. (int (kern m), m\<lparr>kern := Suc (kern m)\<rparr>)),
      sys_close = (\<lambda>_ m. m\<lparr>kern := kern m - 1\<rparr>),
      unix_socket = (\<lambda>m. (int (kern m), m\<lparr>kern := Suc (kern m)\<rparr>)),
      unix_connect = (\<lambda>_ _ m. (- 111, m)), oe_getname = (\<lambda>_ _. Inr ''/x''),
      readdir_entries = (\<lambda>_ _. es), readdir_done = (\<lambda>_ _ k. (0, k))\<rparr>"

theorem getdents_bounded_witness:
  "\<exists>m'. svr4_getdents (dir_kernel [([65], 1, 2), ([66], 2, 3)]) 1 0x8000 20 (blank_mach 3) = Some (12, m') \<and>
     mem m' 0x8014 = Some 0"
proof -
  have "\<exists>m'. svr4_getdents (dir_kernel [([65], 1, 2), ([66], 2, 3)]) 1 0x8000 20 (blank_mach (3::nat)) = Some (12, m')"
    using getdents_taken [of "dir_kernel [([65], 1, 2), ([66], 2, 3)]" 1 "blank_mach 3" 1 3 20 "0x8000"]
    by (simp add: dir_kernel_def blank_mach_def ROUND_UP_def mapped_def)
  then obtain m' where m': "svr4_getdents (dir_kernel [([65], 1, 2), ([66], 2, 3)]) 1 0x8000 20 (blank_mach (3::nat)) = Some (12, m')" ..
  then have "mem m' 0x8014 = mem (blank_mach (3::nat)) 0x8014"
    using getdents_bounded [OF m'] by simp
  with m' show ?thesis by (auto simp: blank_mach_def)
qed

text \<open>
  C22: what \<^verbatim>\<open>getdents\<close> answers when the buffer is mapped: the total length of the records of the longest
  run of entries that fit, 0 at the end of the directory, and \<^verbatim>\<open>EINVAL\<close> when not even the first fits.
\<close>

theorem getdents_result:
  assumes "fget K fd (kern m) = (f, k)" "f \<noteq> 0" "0 \<le> fst (readdir_done K f (length (taken count (readdir_entries K f k))) k)"
    and "mapped (mem m) dirent (nat count)" "0 < unat dirent" "int (unat dirent) + count < 2 ^ 32"
  shows "map_option fst (svr4_getdents K fd dirent count m) =
    Some (if readdir_entries K f k = [] then 0 else if taken count (readdir_entries K f k) = [] then - EINVAL
          else int (sum_list (taken count (readdir_entries K f k))))"
  using getdents_taken [OF assms] by force

theorem getdents_result_witness:
  "map_option fst (svr4_getdents (dir_kernel [([65], 1, 2), ([66], 2, 3)]) 1 0x8000 24 (blank_mach 3)) = Some 24"
  using getdents_result [of "dir_kernel [([65], 1, 2), ([66], 2, 3)]" 1 "blank_mach 3" 1 3 24 "0x8000"]
  by (simp add: dir_kernel_def blank_mach_def ROUND_UP_def mapped_def)

text \<open>
  the folding of inode numbers has no effect.  For a program with 16-bit inodes the code means to
  keep the low half of an inode from being 0, which marks an empty slot; it changes the old content of
  the buffer, then stores the inode it was given, low half 0 or not.
\<close>

lemma getdents_never_folds:
  assumes "svr4_filldir pers (name, offset, ino) b m = Some (0, b', m')"
    and "mapped m (current_dir b) 4" "length name \<le> 255"
  shows "copy_from_user m' (current_dir b) 4 = (bytes32 ino, 0)"
  using assms(1)
proof (cases rule: filldir_cases)
  case full
  then show ?thesis by simp
next
  case (fill m1 m2 left m5)
  let ?d = "current_dir b"
  have "dom m2 = dom m" using short_inode_fix_dom [OF fill(3)] fill(2) by (simp add: link_previous_dom)
  from mapped_dom [OF this] assms(2) have "mapped m2 ?d 4" by simp
  then have "copy_from_user (snd (put_user m2 ?d (bytes32 ino))) ?d 4 = (bytes32 ino, 0)"
    using put_user_round_trip [of m2 ?d "bytes32 ino"] by simp
  moreover have "m' (?d + of_nat i) = snd (put_user m2 ?d (bytes32 ino)) (?d + of_nat i)" if i: "i < 4" for i
  proof -
    have "i = 0 \<or> i = 1 \<or> i = 2 \<or> i = 3" using i by linarith
    then have big: "4294967288 \<le> unat ((of_nat i :: u32) - 8)" by (elim disjE) simp_all
    have shift: "?d + of_nat i - (?d + 8) = of_nat i - 8" by (simp only: add_diff_cancel_left)
    have far: "length name + 4 \<le> unat (?d + of_nat i - (?d + 8))" unfolding shift using big assms(3) by linarith
    let ?n = "bytes16 (of_nat (ROUND_UP (11 + length name)))"
    have zero: "left = 0" by (rule ccontr) (drule fill(7), linarith)
    have m5: "m5 = snd (copy_to_user (snd (put_user (snd (put_user m2 ?d (bytes32 ino))) (?d + 8 + of_nat 0) ?n)) (?d + 8 + of_nat 2) name)"
      using fill(4) by (simp add: add.assoc)
    have m': "m' = snd (put_user m5 (?d + 8 + of_nat (2 + length name)) [0])"
      using fill(8) [OF zero] by (simp add: add.assoc)
    have "m' (?d + of_nat i) = m5 (?d + of_nat i)" unfolding m' by (rule put_inside [OF _ far]) simp
    also have "\<dots> = snd (put_user (snd (put_user m2 ?d (bytes32 ino))) (?d + 8 + of_nat 0) ?n) (?d + of_nat i)"
      unfolding m5 by (rule copy_inside [OF _ far]) simp
    also have "\<dots> = snd (put_user m2 ?d (bytes32 ino)) (?d + of_nat i)" by (rule put_inside [OF _ far]) simp
    finally show ?thesis .
  qed
  then have "copy_from_user m' ?d 4 = copy_from_user (snd (put_user m2 ?d (bytes32 ino))) ?d 4"
    by (rule copy_from_user_cong)
  ultimately show ?thesis by simp
qed

text \<open>
  C23: \<^verbatim>\<open>open\<close> leaks no descriptor.  Given what Linux documents of descriptors, an error leaves the set of
  open descriptors as it was, on every path through the replacement of a socket by a connection, and
  success adds exactly the descriptor that is returned, which was not open before.
\<close>

theorem open_leaks_no_descriptor:
  assumes L: "fd_laws fds K" and "svr4_open K fname flag mode m = Some (r, m')"
  shows "if r < 0 then fds (kern m') = fds (kern m)
    else r \<notin> fds (kern m) \<and> fds (kern m') = insert r (fds (kern m))"
proof -
  from assms(2) obtain lflag where lf: "map_flags (ucast flag) fl_svr4_to_linux = Some lflag"
    by (auto simp: svr4_open_def split: option.splits)
  obtain fd m1 where o: "sys_open K fname (ucast lflag) mode m = (fd, m1)" by (metis surj_pair)
  obtain f k where g: "fget K fd (kern m1) = (f, k)" by (metis surj_pair)
  define m2 where "m2 = sys_close K fd (m1\<lparr>kern := fput K f k\<rparr>)"
  have fo: "fd_outcome fds m fd m1" using fd_lawsD(1) [OF L, of m fname "ucast lflag" mode] o by simp
  have k: "fds k = fds (kern m1)" using fd_lawsD(4) [OF L, of fd "kern m1"] g by simp
  have m2: "fds (kern m2) = fds (kern m)" if "\<not> fd < 0"
    using that fo k by (auto simp: m2_def fd_lawsD(3,5) [OF L] fd_outcome_def)
  obtain r2 m3 where u: "open_unix K fname m2 = (r2, m3)" by (metis surj_pair)
  from open_unix_fds [OF L u] m2 assms(2) lf o g fo k u show ?thesis
    by (auto simp: svr4_open_def fd_outcome_def fd_lawsD(5) [OF L] m2_def [symmetric] Let_def split: if_splits)
qed

text \<open>A kernel that keeps a list of descriptors, finds a socket behind every name and refuses connections.\<close>

definition fresh_fd :: "int list \<Rightarrow> int" where
  "fresh_fd ks = foldr max ks 0 + 1"

definition sock_kernel :: "int list open_env" where
  "sock_kernel =
     \<lparr>oe_access_ok = (\<lambda>_ _. True), user_path_walk = (\<lambda>_ m. (0, 1, kern m)), path_release = (\<lambda>_ k. k),
      vfs_statfs = (\<lambda>_ k. (0, \<lparr>kf_type = 0, kf_bsize = 0, kf_blocks = 0, kf_bfree = 0, kf_files = 0, kf_ffree = 0\<rparr>, k)),
      fget = (\<lambda>_ k. (1, k)), fput = (\<lambda>_ k. k), file_sb = (\<lambda>_ _. 1),
      is_sock = (\<lambda>_ _. True), f_pos = (\<lambda>_ _. 0),
      sys_open = (\<lambda>_ _ _ m. (fresh_fd (kern m), m\<lparr>kern := fresh_fd (kern m) # kern m\<rparr>)),
      sys_close = (\<lambda>fd m. m\<lparr>kern := removeAll fd (kern m)\<rparr>),
      unix_socket = (\<lambda>m. (fresh_fd (kern m), m\<lparr>kern := fresh_fd (kern m) # kern m\<rparr>)),
      unix_connect = (\<lambda>_ _ m. (- 111, m)), oe_getname = (\<lambda>_ _. Inr ''/x''),
      readdir_entries = (\<lambda>_ _. []), readdir_done = (\<lambda>_ _ k. (0, k))\<rparr>"

lemma fresh_fd: "0 < fresh_fd ks" "fresh_fd ks \<notin> set ks"
proof -
  have "x \<le> foldr max ks 0" if "x \<in> set ks" for x using that by (induction ks) auto
  then show "fresh_fd ks \<notin> set ks" by (force simp: fresh_fd_def)
  have "0 \<le> foldr max ks 0" by (induction ks) auto
  then show "0 < fresh_fd ks" by (simp add: fresh_fd_def)
qed

lemma sock_kernel_laws: "fd_laws set sock_kernel"
  using fresh_fd(2) less_not_sym [OF fresh_fd(1)] by (simp add: fd_laws_def fd_outcome_def sock_kernel_def)

theorem open_leaks_no_descriptor_witness:
  "\<exists>m'. svr4_open sock_kernel 0x9000 0 0 (blank_mach [1, 2]) = Some (- 111, m') \<and> set (kern m') = {1, 2}"
proof -
  have "\<exists>m'. svr4_open sock_kernel 0x9000 0 0 (blank_mach [1, 2]) = Some (- 111, m')"
    by (simp add: svr4_open_def map_flags_def sock_kernel_def open_unix_def fresh_fd_def blank_mach_def numeral_eq_Suc)
  then obtain m' where o: "svr4_open sock_kernel 0x9000 0 0 (blank_mach [1, 2]) = Some (- 111, m')" ..
  from open_leaks_no_descriptor [OF sock_kernel_laws o] o show ?thesis by (auto simp: blank_mach_def)
qed



end
