(* ===== verification/Svr4_Misc.thy ===== *)
theory Svr4_Misc
  imports Svr4_Types Svr4_Open Abi_Signo
begin

text \<open>
  \<^verbatim>\<open>abi/svr4/misc.c\<close>: processes, process groups, waiting, reading directories, creating nodes and
  sending signals.  Processes, files and names belong to Linux, the fields of \<open>misc_env\<close>.  \<open>None\<close> is
  undefined behaviour: a read outside a kernel array.  What the calls print when they are traced is
  not modelled.
\<close>

section \<open>Linux\<close>

record 'k misc_env =
  me_kdev :: kdevs
  sys_time :: "'k \<Rightarrow> int \<times> 'k"
  mm_brk :: "'k \<Rightarrow> u32"
  sys_brk :: "u32 \<Rightarrow> 'k \<Rightarrow> u32 \<times> 'k"
  do_fork :: "pt_regs \<Rightarrow> 'k \<Rightarrow> int \<times> 'k"
  do_pipe :: "'k \<Rightarrow> int \<times> (int \<times> int) \<times> 'k"
  tsk_pid :: "'k \<Rightarrow> u32"
  tsk_ppid :: "'k \<Rightarrow> u32"
  tsk_uid :: "'k \<Rightarrow> u32"
  tsk_euid :: "'k \<Rightarrow> u32"
  tsk_gid :: "'k \<Rightarrow> u32"
  tsk_egid :: "'k \<Rightarrow> u32"
  wait4_any :: "'k \<Rightarrow> int \<times> u32 option \<times> 'k"
  sys_wait4 :: "u32 \<Rightarrow> u32 \<Rightarrow> u32 \<Rightarrow> 'k mach \<Rightarrow> int \<times> 'k mach"
  me_getname :: "u32 \<Rightarrow> 'k mach \<Rightarrow> int + string"
  do_execve :: "string \<Rightarrow> u32 \<Rightarrow> u32 \<Rightarrow> 'k mach \<Rightarrow> int \<times> 'k mach"
  process_group :: "'k \<Rightarrow> u32"
  sys_setpgid :: "u32 \<Rightarrow> u32 \<Rightarrow> 'k \<Rightarrow> int \<times> 'k"
  sys_getpgid :: "u32 \<Rightarrow> 'k \<Rightarrow> int \<times> 'k"
  sys_getsid :: "u32 \<Rightarrow> 'k \<Rightarrow> int \<times> 'k"
  sys_setsid :: "'k \<Rightarrow> int \<times> 'k"
  me_fget :: "int \<Rightarrow> 'k \<Rightarrow> nat \<times> 'k"
  me_fput :: "nat \<Rightarrow> 'k \<Rightarrow> 'k"
  me_f_pos :: "nat \<Rightarrow> 'k \<Rightarrow> u32"
  get_free_page :: "'k \<Rightarrow> bool \<times> 'k"
  free_page :: "'k \<Rightarrow> 'k"
  old_readdir :: "int \<Rightarrow> 'k \<Rightarrow> int \<times> (u32 \<times> u8 list) \<times> 'k"
  sys_lseek :: "int \<Rightarrow> u32 \<Rightarrow> 'k \<Rightarrow> 'k"
  sys_read :: "int \<Rightarrow> u32 \<Rightarrow> int \<Rightarrow> 'k mach \<Rightarrow> int \<times> 'k mach"
  sys_mkdir :: "string \<Rightarrow> u32 \<Rightarrow> 'k mach \<Rightarrow> int \<times> 'k mach"
  sys_mknod :: "u32 \<Rightarrow> u32 \<Rightarrow> u32 \<Rightarrow> 'k mach \<Rightarrow> int \<times> 'k mach"
  sys_kill :: "int \<Rightarrow> int \<Rightarrow> 'k mach \<Rightarrow> int \<times> 'k mach"

section \<open>Processes\<close>

definition abi_time :: "'k misc_env \<Rightarrow> 'k mach \<Rightarrow> int \<times> 'k mach" where
  "abi_time K m = (let (t, k) = sys_time K (kern m) in (t, m\<lparr>kern := k\<rparr>))"

definition PAGE_ALIGN :: "u32 \<Rightarrow> u32" where
  "PAGE_ALIGN a = (a + 4095) AND NOT 4095"

definition abi_brk :: "'k misc_env \<Rightarrow> u32 \<Rightarrow> 'k mach \<Rightarrow> int \<times> 'k mach" where
  "abi_brk K brk m =
     (let newbrk = PAGE_ALIGN brk in
      if brk = 0 then (sint (mm_brk K (kern m)), m)
      else let oldbrk = PAGE_ALIGN (mm_brk K (kern m)) in
        if newbrk \<noteq> oldbrk
        then (let (sysbrk, k) = sys_brk K brk (kern m); m = m\<lparr>kern := k\<rparr>
              in if PAGE_ALIGN sysbrk \<noteq> newbrk then (- ENOMEM, m) else (0, m))
        else (0, m))"

definition abi_fork :: "'k misc_env \<Rightarrow> 'k mach \<Rightarrow> int \<times> 'k mach" where
  "abi_fork K m =
     (let r = (regs m)\<lparr>eflags := eflags (regs m) AND NOT 1\<rparr>;
          (retval, k) = do_fork K r (kern m)
      in (retval, m\<lparr>regs := r\<lparr>edx := 0\<rparr>, kern := k\<rparr>))"

definition abi_pipe :: "'k misc_env \<Rightarrow> 'k mach \<Rightarrow> int \<times> 'k mach" where
  "abi_pipe K m =
     (let (retval, filedes, k) = do_pipe K (kern m); m = m\<lparr>kern := k\<rparr>
      in if retval = 0 then (fst filedes, m\<lparr>regs := (regs m)\<lparr>edx := word_of_int (snd filedes)\<rparr>\<rparr>) else (retval, m))"

definition abi_getpid :: "'k misc_env \<Rightarrow> 'k mach \<Rightarrow> int \<times> 'k mach" where
  "abi_getpid K m = (sint (tsk_pid K (kern m)), m\<lparr>regs := (regs m)\<lparr>edx := tsk_ppid K (kern m)\<rparr>\<rparr>)"

definition abi_getuid :: "'k misc_env \<Rightarrow> 'k mach \<Rightarrow> int \<times> 'k mach" where
  "abi_getuid K m = (sint (tsk_uid K (kern m)), m\<lparr>regs := (regs m)\<lparr>edx := tsk_euid K (kern m)\<rparr>\<rparr>)"

definition abi_getgid :: "'k misc_env \<Rightarrow> 'k mach \<Rightarrow> int \<times> 'k mach" where
  "abi_getgid K m = (sint (tsk_gid K (kern m)), m\<lparr>regs := (regs m)\<lparr>edx := tsk_egid K (kern m)\<rparr>\<rparr>)"

section \<open>Waiting\<close>

definition MAGIC_WAITPID_FLAG :: u32 where [abi_consts]: "MAGIC_WAITPID_FLAG = 0x8c4"

abbreviation (input) "WNOHANG \<equiv> (1::u32)"
abbreviation (input) "WUNTRACED \<equiv> (2::u32)"

text \<open>
  The status in the numbering of the program: the new status, and whether it is written back.  Both
  branches index \<open>signal_map\<close>.
\<close>

definition wait_status :: "int list \<Rightarrow> u32 \<Rightarrow> (u32 \<times> bool) option" where
  "wait_status sigmap st =
     (if st AND 0xff = 0x7f
      then (let sig = drop_bit 8 st AND 0xff in
            map_option (\<lambda>s. ((st AND NOT 0xff00) OR push_bit 8 (word_of_int s), True))
              (if unat sig < NSIGNALS then arr_get sigmap (uint sig) else Some (uint sig)))
      else if st \<noteq> 0 \<and> st = st AND 0xff
      then (if unat (st AND 0x7f) < NSIGNALS
            then map_option (\<lambda>s. (word_of_int s, True)) (arr_get sigmap (uint (st AND 0x7f)))
            else Some (st, True))
      else Some (st, False))"

text \<open>\<open>junk\<close> is what the local variable of the Xenix call holds when Linux does not set it.\<close>

definition abi_wait :: "'k misc_env \<Rightarrow> u32 \<Rightarrow> 'k mach \<Rightarrow> (int \<times> 'k mach) option" where
  "abi_wait K junk m =
     (if is_cur_personality (cur_pers m) PER_XENIX \<noteq> 0
      then (let (result, status, k) = wait4_any K (kern m)
            in Some (result, m\<lparr>regs := (regs m)\<lparr>edx := (case status of None \<Rightarrow> junk | Some s \<Rightarrow> s)\<rparr>, kern := k\<rparr>))
      else
        let (result, loc, m) =
          (if eflags (regs m) AND MAGIC_WAITPID_FLAG = MAGIC_WAITPID_FLAG
           then (let pid = get_user32 (mem m) (esp (regs m) + 4);
                     loc = get_user32 (mem m) (esp (regs m) + 8);
                     opt = get_user32 (mem m) (esp (regs m) + 12);
                     kopt = (if opt AND 64 \<noteq> 0 then WNOHANG else 0) OR (if opt AND 4 \<noteq> 0 then WUNTRACED else 0);
                     (result, m) = sys_wait4 K pid loc kopt m
                 in (result, loc, m))
           else (let loc = get_user32 (mem m) (esp (regs m) + 4);
                     (result, m) = sys_wait4 K (- 1) loc WUNTRACED m
                 in (result, loc, m)))
        in if result < 0 \<or> loc = 0 then Some (result, m)
           else map_option (\<lambda>(st, back).
                  (result, m\<lparr>regs := (regs m)\<lparr>edx := st\<rparr>,
                             mem := (if back then snd (put_user (mem m) loc (bytes32 st)) else mem m)\<rparr>))
                (wait_status (signal_map (cur_ed m)) (get_user32 (mem m) loc)))"

section \<open>Executing programs\<close>

definition abi_exec :: "'k misc_env \<Rightarrow> 'k mach \<Rightarrow> int \<times> 'k mach" where
  "abi_exec K m =
     (case rd32 (mem m) (esp (regs m) + 4) of
        None \<Rightarrow> (- EFAULT, m)
      | Some pgm \<Rightarrow>
          (case rd32 (mem m) (esp (regs m) + 8) of
             None \<Rightarrow> (- EFAULT, m)
           | Some argv \<Rightarrow>
               (case rd32 (mem m) (esp (regs m) + 12) of
                  None \<Rightarrow> (- EFAULT, m)
                | Some envp \<Rightarrow>
                    (case me_getname K pgm m of
                       Inl e \<Rightarrow> (e, m)
                     | Inr filename \<Rightarrow> do_execve K filename argv envp m))))"

section \<open>Process groups and sessions\<close>

text \<open>The personalities with an extra return address between the operation and its arguments.\<close>

definition old_procids :: "u32 \<Rightarrow> bool" where
  "old_procids pers \<longleftrightarrow>
     get_personality_id pers \<in> {PERID_SVR3, PERID_SCOSVR3, PERID_WYSEV386, PERID_XENIX}"

definition procids_op :: "int \<Rightarrow> int" where
  "procids_op op = [0, 1, 5, 3, - 1, - 1] ! nat op"

text \<open>Argument \<open>i\<close> of the call; a fault is reported as \<^verbatim>\<open>EPERM\<close>.\<close>

definition procids_arg :: "'k mach \<Rightarrow> u32 \<Rightarrow> u32 \<Rightarrow> u32 option" where
  "procids_arg m offset i = rd32 (mem m) (esp (regs m) + 4 * (i + offset))"

definition procids_do :: "'k misc_env \<Rightarrow> int \<Rightarrow> u32 \<Rightarrow> 'k mach \<Rightarrow> int \<times> 'k mach" where
  "procids_do K op offset m =
     (if op = 0 then (sint (process_group K (kern m)), m)
      else if op = 1
      then (let (_, k) = sys_setpgid K 0 0 (kern m) in (sint (process_group K k), m\<lparr>kern := k\<rparr>))
      else if op = 2
      then (case procids_arg m offset 2 of None \<Rightarrow> (- EPERM, m)
            | Some pid \<Rightarrow> let (r, k) = sys_getsid K pid (kern m) in (r, m\<lparr>kern := k\<rparr>))
      else if op = 3 then (let (r, k) = sys_setsid K (kern m) in (r, m\<lparr>kern := k\<rparr>))
      else if op = 4
      then (case procids_arg m offset 2 of None \<Rightarrow> (- EPERM, m)
            | Some pid \<Rightarrow> let (r, k) = sys_getpgid K pid (kern m) in (r, m\<lparr>kern := k\<rparr>))
      else if op = 5
      then (case procids_arg m offset 2 of None \<Rightarrow> (- EPERM, m)
            | Some pid \<Rightarrow>
                (case procids_arg m offset 3 of None \<Rightarrow> (- EPERM, m)
                 | Some pgid \<Rightarrow> let (r, k) = sys_setpgid K pid pgid (kern m) in (r, m\<lparr>kern := k\<rparr>)))
      else (- EINVAL, m))"

definition abi_procids :: "'k misc_env \<Rightarrow> 'k mach \<Rightarrow> int \<times> 'k mach" where
  "abi_procids K m =
     (case rd32 (mem m) (esp (regs m) + 4) of
        None \<Rightarrow> (- EPERM, m)
      | Some w \<Rightarrow>
          let op = sint w in
          if old_procids (cur_pers m)
          then (if op < 0 \<or> op > 5 then (- EINVAL, m) else procids_do K (procids_op op) 1 m)
          else procids_do K op 0 m)"

section \<open>Reading a directory\<close>

text \<open>
  A long name is stored in chunks of 14 characters, all but the last marked with inode \<open>0xffff\<close>.  The
  result of \<open>put_chunks\<close>: whether a copy faulted, the position, the rest of the name, the memory.
\<close>

function put_chunks :: "u32 \<Rightarrow> nat \<Rightarrow> u8 list \<Rightarrow> umem \<Rightarrow> bool \<times> nat \<times> u8 list \<times> umem" where
  "put_chunks buf posn p m =
     (if length p > 14
      then (let m = snd (put_user m (buf + of_nat posn) [0xff, 0xff]); posn = posn + 2;
                (left, m) = copy_to_user m (buf + of_nat posn) (take 14 p)
            in if left \<noteq> 0 then (True, posn, p, m) else put_chunks buf (posn + 14) (drop 14 p) m)
      else (False, posn, p, m))"
  by pat_completeness auto
termination by (relation "measure (\<lambda>(_, _, p, _). length p)") auto

declare put_chunks.simps [simp del]

lemma put_chunks_posn:
  "put_chunks buf posn p m = (False, posn', p', m') \<Longrightarrow>
    posn \<le> posn' \<and> length p' \<le> 14 \<and> (p \<noteq> [] \<longrightarrow> posn' + 16 = posn + 16 * ((length p + 13) div 14))"
proof (induction buf posn p m arbitrary: posn' p' m' rule: put_chunks.induct)
  case (1 buf posn p m)
  show ?case
  proof (cases "length p > 14")
    case True
    define m1 where "m1 = snd (put_user m (buf + of_nat posn) [0xff, 0xff])"
    obtain left m2 where c: "copy_to_user m1 (buf + of_nat (posn + 2)) (take 14 p) = (left, m2)" by (metis surj_pair)
    with 1(2) True have l: "left = 0" and r: "put_chunks buf (posn + 16) (drop 14 p) m2 = (False, posn', p', m')"
      by (auto simp: put_chunks.simps [of buf posn] m1_def [symmetric] Let_def eval_nat_numeral split: if_splits)
    from 1(1) [OF True m1_def refl c [symmetric] refl] l r
    have "posn + 16 \<le> posn' \<and> length p' \<le> 14 \<and> posn' + 16 = posn + 16 + 16 * ((length (drop 14 p) + 13) div 14)"
      using True by (simp add: add.commute [of posn])
    moreover have "(length p + 13) div 14 = Suc ((length (drop 14 p) + 13) div 14)"
      using True le_div_geq [of 14 "length p + 13"] by simp
    ultimately show ?thesis by simp
  next
    case False
    moreover from False have "(length p + 13) div 14 = 1" if "p \<noteq> []"
      using that by (cases p) auto
    ultimately show ?thesis using 1(2) by (auto simp: put_chunks.simps [of buf posn])
  qed
qed

fun fill_nulls :: "nat \<Rightarrow> u32 \<Rightarrow> umem \<Rightarrow> bool \<times> umem" where
  "fill_nulls 0 a m = (False, m)"
| "fill_nulls (Suc n) a m =
     (let (e, m) = put_user m a [0] in if e \<noteq> 0 then (True, m) else fill_nulls n (a + 1) m)"

text \<open>The last chunk.  The destination of \<^verbatim>\<open>put_user\<close> is a \<^verbatim>\<open>char\<close>, so one byte of the inode is stored.\<close>

definition put_last :: "u32 \<Rightarrow> nat \<Rightarrow> u32 \<Rightarrow> u8 list \<Rightarrow> umem \<Rightarrow> bool \<times> umem" where
  "put_last buf posn ino p m =
     (let (e, m) = put_user m (buf + of_nat posn) [if ino AND 0xffff \<noteq> 0 then ucast ino else 0xfe] in
      if e \<noteq> 0 then (True, m)
      else let posn = posn + 2; (left, m) = copy_to_user m (buf + of_nat posn) p in
        if left \<noteq> 0 then (True, m)
        else fill_nulls (14 - length p) (buf + of_nat posn + of_nat (length p)) m)"

datatype read_dir_end = Fault | Stop nat int

function read_dir_loop ::
  "'k misc_env \<Rightarrow> int \<Rightarrow> nat \<Rightarrow> u32 \<Rightarrow> int \<Rightarrow> nat \<Rightarrow> nat \<Rightarrow> int \<Rightarrow> 'k mach \<Rightarrow> read_dir_end \<times> 'k mach" where
  "read_dir_loop K fd fp buf count posn reclen error m =
     (if int posn + int reclen < count
      then (let here = me_f_pos K fp (kern m); (error, (ino, name), k) = old_readdir K fd (kern m); m = m\<lparr>kern := k\<rparr> in
            if error \<le> 0 then (Stop posn error, m)
            else let reclen = 16 * ((length name + 13) div 14) in
              if int posn + int reclen > count
              then read_dir_loop K fd fp buf count posn reclen error
                     (if posn \<noteq> 0 then m\<lparr>kern := sys_lseek K fd here (kern m)\<rparr> else m)
              else let (fault, posn', p, mm) = put_chunks buf posn name (mem m) in
                if fault then (Fault, m\<lparr>mem := mm\<rparr>)
                else let (fault, mm) = put_last buf posn' ino p mm in
                  if fault then (Fault, m\<lparr>mem := mm\<rparr>)
                  else read_dir_loop K fd fp buf count (posn' + 16) reclen error (m\<lparr>mem := mm\<rparr>))
      else (Stop posn error, m))"
  by pat_completeness auto

termination
  by (relation "measure (\<lambda>(K, fd, fp, buf, count, posn, reclen, error, m).
    nat (count - int posn) + (if int posn + int reclen < count then 1 else 0))")
    (auto dest!: put_chunks_posn [OF sym])

declare read_dir_loop.simps [simp del]

definition abi_read_dir :: "'k misc_env \<Rightarrow> int \<Rightarrow> u32 \<Rightarrow> int \<Rightarrow> 'k mach \<Rightarrow> int \<times> 'k mach" where
  "abi_read_dir K fd buf count m =
     (let (fp, k) = me_fget K fd (kern m); m = m\<lparr>kern := k\<rparr> in
      if fp = 0 then (- EBADF, m)
      else let (de, k) = get_free_page K (kern m); m = m\<lparr>kern := k\<rparr> in
        if \<not> de then (- ENOMEM, m\<lparr>kern := me_fput K fp (kern m)\<rparr>)
        else let (r, m) = read_dir_loop K fd fp buf count 0 0 0 m;
                 m = m\<lparr>kern := me_fput K fp (free_page K (kern m))\<rparr>
             in (case r of Fault \<Rightarrow> - EFAULT | Stop posn error \<Rightarrow> if posn \<noteq> 0 then int posn else error, m))"

definition abi_read :: "'k misc_env \<Rightarrow> int \<Rightarrow> u32 \<Rightarrow> int \<Rightarrow> 'k mach \<Rightarrow> int \<times> 'k mach" where
  "abi_read K fd buf count m =
     (let (error, m) = sys_read K fd buf count m
      in if error = - EISDIR then abi_read_dir K fd buf count m else (error, m))"

section \<open>Creating nodes\<close>

text \<open>The last character is looked at before the name is known not to be empty.\<close>

definition abi_mkdir :: "'k misc_env \<Rightarrow> u32 \<Rightarrow> u32 \<Rightarrow> 'k mach \<Rightarrow> (int \<times> 'k mach) option" where
  "abi_mkdir K fname mode m =
     (case me_getname K fname m of
        Inl e \<Rightarrow> Some (e, m)
      | Inr tmp \<Rightarrow>
          if tmp = [] then None
          else Some (sys_mkdir K (if last tmp = CHR ''/'' then butlast tmp else tmp) mode m))"

definition svr4_mknod :: "'k misc_env \<Rightarrow> u32 \<Rightarrow> u16 \<Rightarrow> u16 \<Rightarrow> 'k mach \<Rightarrow> (int \<times> 'k mach) option" where
  "svr4_mknod K filename mode dev m =
     (if mode AND 0x1e00 = 0x4000 then abi_mkdir K filename (ucast mode) m
      else Some (sys_mknod K filename (ucast mode)
             (MKDEV (me_kdev K) (SVR4_O_MAJOR dev) (SVR4_O_MINOR dev)) m))"

definition svr4_do_xmknod :: "'k misc_env \<Rightarrow> u32 \<Rightarrow> u32 \<Rightarrow> u32 \<Rightarrow> 'k mach \<Rightarrow> (int \<times> 'k mach) option" where
  "svr4_do_xmknod K filename mode dev m =
     (let minor = SVR4_MINOR dev; major = SVR4_MAJOR dev
      in if minor > 0xff \<or> major > 0xff then Some (- EINVAL, m)
         else svr4_mknod K filename (ucast mode) (ucast (SVR4_O_MKDEV major minor)) m)"

definition svr4_xmknod :: "'k misc_env \<Rightarrow> int \<Rightarrow> u32 \<Rightarrow> u32 \<Rightarrow> u32 \<Rightarrow> 'k mach \<Rightarrow> (int \<times> 'k mach) option" where
  "svr4_xmknod K vers filename mode dev m =
     (if vers = 1 then svr4_mknod K filename (ucast mode) (ucast dev) m
      else if vers = 2 then svr4_do_xmknod K filename mode dev m
      else Some (- EINVAL, m))"

section \<open>Signals\<close>

definition abi_kill :: "'k misc_env \<Rightarrow> int \<Rightarrow> u32 \<Rightarrow> 'k mach \<Rightarrow> (int \<times> 'k mach) option" where
  "abi_kill K pid sig m =
     map_option (\<lambda>outsig. sys_kill K pid outsig m) (arr_get (signal_map (cur_ed m)) (uint (sig AND 0xff)))"

section \<open>Facts\<close>

lemma put_chunks_inside:
  assumes "posn + 16 * ((length p + 13) div 14) \<le> n" "n \<le> unat (x - buf)" "p \<noteq> []"
  shows "snd (snd (snd (put_chunks buf posn p m))) x = m x"
  using assms
proof (induction buf posn p m rule: put_chunks.induct)
  case (1 buf posn p m)
  show ?case
  proof (cases "length p > 14")
    case True
    define m1 where "m1 = snd (put_user m (buf + of_nat posn) [0xff, 0xff])"
    obtain left m2 where c: "copy_to_user m1 (buf + of_nat (posn + 2)) (take 14 p) = (left, m2)" by (metis surj_pair)
    have d: "(length p + 13) div 14 = Suc ((length (drop 14 p) + 13) div 14)"
      using True le_div_geq [of 14 "length p + 13"] by simp
    with 1(2) have room: "posn + 16 \<le> n" "posn + 2 + 14 + 16 * ((length (drop 14 p) + 13) div 14) \<le> n" by simp_all
    have m1: "m1 x = m x" unfolding m1_def by (rule put_inside [OF _ 1(3)]) (use room in simp)
    have "m2 x = m1 x" using copy_inside [OF _ 1(3), of "posn + 2" "take 14 p" m1] room True c by simp
    with m1 have m2: "m2 x = m x" by simp
    show ?thesis
    proof (cases "left = 0")
      case False
      with True c m2 show ?thesis
        by (simp add: put_chunks.simps [of buf posn] m1_def [symmetric] Let_def)
    next
      case zero: True
      have "drop 14 p \<noteq> []" using True by simp
      from 1(1) [OF True m1_def refl c [symmetric] refl _ room(2) 1(3) this] zero m2 True c show ?thesis
        by (simp add: put_chunks.simps [of buf posn] m1_def [symmetric] Let_def)
    qed
  next
    case False
    then show ?thesis by (simp add: put_chunks.simps [of buf posn])
  qed
qed

lemma fill_nulls_inside:
  "off + k \<le> n \<Longrightarrow> n \<le> unat (x - buf) \<Longrightarrow> snd (fill_nulls k (buf + of_nat off) m) x = m x"
proof (induction k arbitrary: off m)
  case (Suc k)
  have p: "snd (put_user m (buf + of_nat off) [0]) x = m x" by (rule put_inside [OF _ Suc.prems(2)]) (use Suc.prems in simp)
  have "snd (fill_nulls k (buf + of_nat (Suc off)) m') x = m' x" for m' by (rule Suc.IH) (use Suc.prems in simp_all)
  with p show ?case by (simp add: add.assoc add.commute [of 1] split: prod.splits) (metis snd_conv)
qed simp

lemma put_last_inside:
  assumes "posn + 16 \<le> n" "n \<le> unat (x - buf)" "length p \<le> 14"
  shows "snd (put_last buf posn ino p m) x = m x"
proof -
  define b where "b = (if ino AND 0xffff \<noteq> 0 then ucast ino else 0xfe :: u8)"
  obtain e m1 where p: "put_user m (buf + of_nat posn) [b] = (e, m1)" by (metis surj_pair)
  obtain left m2 where c: "copy_to_user m1 (buf + of_nat (posn + 2)) p = (left, m2)" by (metis surj_pair)
  have "m1 x = m x" using put_inside [OF _ assms(2), of posn "[b]" m] assms(1) p by simp
  moreover have "m2 x = m1 x" using copy_inside [OF _ assms(2), of "posn + 2" p m1] assms(1,3) c by simp
  moreover have "snd (fill_nulls (14 - length p) (buf + of_nat (posn + 2 + length p)) m2) x = m2 x"
    by (rule fill_nulls_inside [OF _ assms(2)]) (use assms(1,3) in simp)
  ultimately show ?thesis using p c by (simp add: put_last_def Let_def b_def [symmetric] add.assoc)
qed

text \<open>Linux reports at most one directory entry at a time and none with an empty name.\<close>

definition readdir_ok :: "'k misc_env \<Rightarrow> bool" where
  "readdir_ok K \<longleftrightarrow> (\<forall>fd k. fst (old_readdir K fd k) \<le> 1 \<and>
     (0 < fst (old_readdir K fd k) \<longrightarrow> snd (fst (snd (old_readdir K fd k))) \<noteq> []))"

definition read_dir_bounded :: "u32 \<Rightarrow> int \<Rightarrow> 'k mach \<Rightarrow> read_dir_end \<times> 'k mach \<Rightarrow> bool" where
  "read_dir_bounded buf count m res \<longleftrightarrow>
     (\<forall>x. nat count \<le> unat (x - buf) \<longrightarrow> mem (snd res) x = mem m x) \<and>
     (\<forall>p e. fst res = Stop p e \<longrightarrow> p \<le> nat count \<and> (e \<le> 0 \<or> e \<le> 1 \<and> 0 < count))"

lemma read_dir_loop_bounded:
  assumes "readdir_ok K" "posn \<le> nat count" "error \<le> 0 \<or> error \<le> 1 \<and> 0 < count"
  shows "read_dir_bounded buf count m (read_dir_loop K fd fp buf count posn reclen error m)"
  using assms
proof (induction K fd fp buf count posn reclen error m rule: read_dir_loop.induct)
  case (1 K fd fp buf count posn reclen error m)
  obtain e ino name k where r: "old_readdir K fd (kern m) = (e, (ino, name), k)" by (metis surj_pair)
  define m0 where "m0 = m\<lparr>kern := k\<rparr>"
  have e1: "e \<le> 1" using 1(3) r unfolding readdir_ok_def by (metis fst_conv)
  let ?R = "16 * ((length name + 13) div 14)"
  note unfold = read_dir_loop.simps [of K fd fp buf count posn reclen error m]
  consider (stop) "\<not> int posn + int reclen < count \<or> e \<le> 0"
    | (big) "int posn + int reclen < count" "\<not> e \<le> 0" "count < int posn + int ?R"
    | (fits) "int posn + int reclen < count" "\<not> e \<le> 0" "\<not> count < int posn + int ?R" by blast
  then show ?case
  proof cases
    case stop
    then show ?thesis using 1(4,5) unfolding unfold by (auto simp: r read_dir_bounded_def)
  next
    case big
    have e: "e \<le> 0 \<or> e \<le> 1 \<and> 0 < count" using e1 big(1) by auto
    note IH = 1(1) [OF big(1) refl refl r [symmetric] refl refl refl big(2) refl big(3) 1(3,4) e, of k]
    show ?thesis
      using IH big unfolding unfold by (simp add: r read_dir_bounded_def split: if_splits)
  next
    case fits
    obtain f posn' p mm where c: "put_chunks buf posn name (mem m) = (f, posn', p, mm)" by (metis surj_pair)
    then have c0: "put_chunks buf posn name (mem m0) = (f, posn', p, mm)" by (simp add: m0_def)
    obtain g ml where l: "put_last buf posn' ino p mm = (g, ml)" by (metis surj_pair)
    have ne: "name \<noteq> []" using 1(3) r fits(2) unfolding readdir_ok_def by (metis fst_conv snd_conv not_le)
    have room: "posn + ?R \<le> nat count" using fits(3) by linarith
    have mm: "mm x = mem m x" if "nat count \<le> unat (x - buf)" for x
      using put_chunks_inside [OF room that ne, of "mem m"] c by simp
    show ?thesis
    proof (cases f)
      case True
      then show ?thesis using fits c mm unfolding unfold by (simp add: r m0_def [symmetric] read_dir_bounded_def)
    next
      case False
      with c have "put_chunks buf posn name (mem m) = (False, posn', p, mm)" by simp
      from put_chunks_posn [OF this] ne have p: "posn' + 16 = posn + ?R" "length p \<le> 14" by simp_all
      have ml: "ml x = mem m x" if "nat count \<le> unat (x - buf)" for x
        using put_last_inside [of posn' "nat count" x buf p ino mm] l mm p room that by simp
      show ?thesis
      proof (cases g)
        case True
        then show ?thesis using fits c l ml False unfolding unfold by (simp add: r m0_def [symmetric] read_dir_bounded_def)
      next
        case gF: False
        have e: "e \<le> 0 \<or> e \<le> 1 \<and> 0 < count" using e1 fits(1) by auto
        have le: "posn' + 16 \<le> nat count" using p room by simp
        note IH = 1(2) [OF fits(1) refl refl r [symmetric] refl refl m0_def fits(2) refl fits(3) refl c0 [symmetric] refl refl
            False refl l [symmetric] gF 1(3) le e]
        then show ?thesis
          using fits c l ml False gF unfolding unfold by (simp add: r m0_def [symmetric] read_dir_bounded_def)
      qed
    qed
  qed
qed

section \<open>Properties\<close>

text \<open>
  C25: reading a directory as a file stays inside the buffer.  Whatever entries Linux reports, with names
  of any length but not empty, no byte outside the \<open>count\<close> bytes at \<open>buf\<close> changes; the call always
  returns, and never more than \<open>count\<close>.
\<close>

theorem read_dir_inside:
  assumes "readdir_ok K"
  shows "\<exists>r m'. abi_read_dir K fd buf count m = (r, m') \<and> r \<le> max 0 count \<and>
    (\<forall>x. nat count \<le> unat (x - buf) \<longrightarrow> mem m' x = mem m x)"
proof -
  obtain fp k where f: "me_fget K fd (kern m) = (fp, k)" by (metis surj_pair)
  obtain de k2 where g: "get_free_page K k = (de, k2)" by (metis surj_pair)
  obtain r m' where l: "read_dir_loop K fd fp buf count 0 0 0 (m\<lparr>kern := k2\<rparr>) = (r, m')" by (metis surj_pair)
  have "read_dir_bounded buf count (m\<lparr>kern := k2\<rparr>) (r, m')"
    using read_dir_loop_bounded [OF assms, of 0 count 0 buf "m\<lparr>kern := k2\<rparr>" fd fp 0] l by simp
  then show ?thesis
    using f g l by (auto simp: abi_read_dir_def Let_def read_dir_bounded_def split: read_dir_end.splits)
qed

text \<open>A kernel with one directory that has one entry, and processes that do nothing.\<close>

definition misc_kernel :: "u8 list \<Rightarrow> nat misc_env" where
  "misc_kernel name =
     \<lparr>me_kdev = \<lparr>MAJOR = drop_bit 20, MINOR = take_bit 20, MKDEV = (\<lambda>ma mi. push_bit 20 ma OR mi),
        high2lowuid = ucast, high2lowgid = ucast\<rparr>,
      sys_time = (\<lambda>k. (0, k)), mm_brk = (\<lambda>k. 0), sys_brk = (\<lambda>b k. (b, k)), do_fork = (\<lambda>r k. (2, k)),
      do_pipe = (\<lambda>k. (0, (3, 4), k)), tsk_pid = (\<lambda>k. 1), tsk_ppid = (\<lambda>k. 0), tsk_uid = (\<lambda>k. 0),
      tsk_euid = (\<lambda>k. 0), tsk_gid = (\<lambda>k. 0), tsk_egid = (\<lambda>k. 0), wait4_any = (\<lambda>k. (- 10, None, k)),
      sys_wait4 = (\<lambda>p l f m. (- 10, m)), me_getname = (\<lambda>a m. Inr ''/x''), do_execve = (\<lambda>f a e m. (0, m)),
      process_group = (\<lambda>k. 1), sys_setpgid = (\<lambda>p g k. (0, k)), sys_getpgid = (\<lambda>p k. (1, k)),
      sys_getsid = (\<lambda>p k. (1, k)), sys_setsid = (\<lambda>k. (1, k)), me_fget = (\<lambda>fd k. (1, k)), me_fput = (\<lambda>f k. k),
      me_f_pos = (\<lambda>f k. of_nat k), get_free_page = (\<lambda>k. (True, k)), free_page = (\<lambda>k. k),
      old_readdir = (\<lambda>fd k. if k = 0 then (1, (5, name), 1) else (0, (0, []), k)),
      sys_lseek = (\<lambda>fd p k. unat p), sys_read = (\<lambda>fd b c m. (- EISDIR, m)), sys_mkdir = (\<lambda>n md m. (0, m)),
      sys_mknod = (\<lambda>f md d m. (0, m)), sys_kill = (\<lambda>p s m. (s, m))\<rparr>"

lemma misc_kernel_readdir: "name \<noteq> [] \<Longrightarrow> readdir_ok (misc_kernel name)"
  by (simp add: readdir_ok_def misc_kernel_def)

theorem read_dir_inside_witness:
  "\<exists>r m'. abi_read_dir (misc_kernel [65]) 3 0x8000 32 (blank_mach 0) = (r, m') \<and> r \<le> 32 \<and> mem m' 0x8020 = Some 0"
  using read_dir_inside [OF misc_kernel_readdir, of "[65]" 3 "0x8000" 32 "blank_mach 0"]
  by (force simp: blank_mach_def)

text \<open>
  a directory entry that does not fit is reported as one byte.  When the buffer is too small for the
  first entry, nothing is stored, yet the result is 1: the program takes a byte of its old buffer for
  directory contents, and the entry is skipped.
\<close>

lemma read_dir_small_buffer:
  assumes "me_fget K fd (kern m) = (fp, k)" "fp \<noteq> 0" "get_free_page K k = (True, k2)"
    and "old_readdir K fd k2 = (1, (ino, name), k3)"
    and "0 < count" "count < 16 * ((int (length name) + 13) div 14)"
  shows "\<exists>m'. abi_read_dir K fd buf count m = (1, m') \<and> mem m' = mem m"
proof -
  have "16 * ((int (length name) + 13) div 14) = int (16 * ((length name + 13) div 14))" by (simp add: zdiv_int)
  with assms(6) have big: "count < 16 * int ((length name + 13) div 14)" by simp
  have "read_dir_loop K fd fp buf count 0 0 0 (m\<lparr>kern := k2\<rparr>) = (Stop 0 1, m\<lparr>kern := k3\<rparr>)"
    using assms(4,5) big by (simp add: read_dir_loop.simps)
  with assms(1-3) show ?thesis by (simp add: abi_read_dir_def)
qed

text \<open>
  \<^verbatim>\<open>kill\<close> reads past the signal table.  The table has 33 entries and the index is the low byte of the
  signal, so the call is defined exactly for the bytes up to 32; a program that passes another byte makes
  the kernel take a signal number from whatever memory follows the table.
\<close>

lemma kill_reads_past_table:
  assumes "length (signal_map (cur_ed m)) = NSIGNALS + 1"
  shows "abi_kill K pid sig m = (if unat (sig AND 0xff) \<le> 32
    then Some (sys_kill K pid (signal_map (cur_ed m) ! unat (sig AND 0xff)) m) else None)"
  using assms by (auto simp: abi_kill_def arr_get_def NSIGNALS_def uint_nat simp del: of_nat_unat)

text \<open>
  \<^verbatim>\<open>mknod\<close> makes neither directories nor most devices.  The test for a directory uses a mask that
  misses the directory bit, so every request goes to Linux' \<^verbatim>\<open>mknod\<close>; and of the minor number only bit 3
  is kept, so Linux is asked for minor 0 or 8.
\<close>

lemma mknod_loses_minor:
  "svr4_mknod K filename mode dev m =
     Some (sys_mknod K filename (ucast mode) (MKDEV (me_kdev K) (SVR4_O_MAJOR dev) (if bit dev 3 then 8 else 0)) m)"
proof -
  have "mode AND 0x1e00 \<noteq> 0x4000"
  proof
    assume "mode AND 0x1e00 = 0x4000"
    then have "bit (mode AND 0x1e00) 14 = bit (0x4000 :: u16) 14" by simp
    then show False by (simp add: bit_and_iff)
  qed
  moreover have "SVR4_O_MINOR dev = (if bit dev 3 then 8 else 0)"
  proof (rule bit_word_eqI)
    fix n :: nat
    have "bit (8::u32) n \<longleftrightarrow> n = 3" using bit_exp_iff [where 'a = u32, of 3 n] by auto
    then show "bit (SVR4_O_MINOR dev) n = bit (if bit dev 3 then 8 else 0 :: u32) n"
      by (auto simp: SVR4_O_MINOR_def SVR4_O_MINORBITS_def bit_simps)
  qed
  ultimately show ?thesis by (simp add: svr4_mknod_def)
qed

end
