(* ===== verification/Svr4_Signal.thy ===== *)
theory Svr4_Signal
  imports Svr4_Open Abi_Signo
begin

text \<open>
  \<^verbatim>\<open>abi/svr4/signal.c\<close>: the multiplexed signal call of System V release 3, \<^verbatim>\<open>sigaction\<close>,
  \<^verbatim>\<open>sigprocmask\<close> and \<^verbatim>\<open>sigsuspend\<close>.  Handlers, masks and pending signals of a process belong to Linux,
  the fields of \<open>sig_env\<close>.  \<open>None\<close> is undefined behaviour: a read outside a table, or a signal number
  outside the set that \<^verbatim>\<open>sigaddset\<close> and a shift can take.
\<close>

section \<open>Linux\<close>

record ksigaction =
  sa_handler :: u32
  sa_mask :: sigset
  sa_flags :: u32
  sa_restorer :: u32

record 'k sig_env =
  rt_sigaction :: "int \<Rightarrow> ksigaction option \<Rightarrow> 'k \<Rightarrow> int \<times> ksigaction \<times> 'k"
  rt_sigprocmask :: "int \<Rightarrow> sigset option \<Rightarrow> 'k \<Rightarrow> int \<times> sigset \<times> 'k"
  sys_sigsuspend :: "u32 \<Rightarrow> 'k mach \<Rightarrow> int \<times> 'k mach"
  pending :: "'k \<Rightarrow> sigset"
  set_pending :: "sigset \<Rightarrow> 'k \<Rightarrow> 'k"
  recalc_sigpending :: "'k \<Rightarrow> 'k"
  sg_verify_area :: "u32 \<Rightarrow> nat \<Rightarrow> int"

abbreviation (input) "SIG_BLOCK \<equiv> (0::int)"
abbreviation (input) "SIG_UNBLOCK \<equiv> (1::int)"
abbreviation (input) "SIG_SETMASK \<equiv> (2::int)"
abbreviation (input) "SIG_IGN \<equiv> (1::u32)"
abbreviation (input) "SA_NOCLDSTOP \<equiv> (1::u32)"
abbreviation (input) "SA_NOCLDWAIT \<equiv> (2::u32)"
abbreviation (input) "SA_ONSTACK \<equiv> (0x08000000::u32)"
abbreviation (input) "SA_RESTART \<equiv> (0x10000000::u32)"
abbreviation (input) "SA_NODEFER \<equiv> (0x40000000::u32)"
abbreviation (input) "SA_RESETHAND \<equiv> (0x80000000::u32)"

definition SIG_HOLD :: u32 where [abi_consts]: "SIG_HOLD = 2"

definition sigdelset :: "sigset \<Rightarrow> int \<Rightarrow> sigset option" where
  "sigdelset s n = (if 1 \<le> n \<and> n \<le> 64 then Some (s AND NOT (push_bit (nat (n - 1)) 1)) else None)"

section \<open>Parameters\<close>

definition SIGNAL_NUMBER :: "'k mach \<Rightarrow> u32" where
  "SIGNAL_NUMBER m = get_syscall_parameter (mem m) (regs m) 0"

definition HIDDEN_PARAM :: "'k mach \<Rightarrow> u32" where
  "HIDDEN_PARAM m = SIGNAL_NUMBER m AND NOT 0xff"

definition SECOND_PARAM :: "'k mach \<Rightarrow> u32" where
  "SECOND_PARAM m = get_syscall_parameter (mem m) (regs m) 1"

text \<open>\<^verbatim>\<open>set_error(regp, iABI_errors(errno))\<close>.\<close>

definition answer_error :: "'k mach \<Rightarrow> int \<Rightarrow> 'k mach option" where
  "answer_error m errno = map_option (\<lambda>e. m\<lparr>regs := set_error (regs m) e\<rparr>) (iABI_errors m errno)"

definition deactivate_signal :: "'k sig_env \<Rightarrow> int \<Rightarrow> 'k mach \<Rightarrow> 'k mach option" where
  "deactivate_signal K signum m =
     map_option (\<lambda>s. m\<lparr>kern := recalc_sigpending K (set_pending K s (kern m))\<rparr>)
       (sigdelset (pending K (kern m)) signum)"

definition abi_mapsig :: "'k mach \<Rightarrow> u32 \<Rightarrow> int option" where
  "abi_mapsig m sig = (if unat sig \<ge> NSIGNALS then Some (- 1) else arr_get (signal_map (cur_ed m)) (uint sig))"

text \<open>The Linux signal of the call, if it has one, and the registers with the error otherwise.\<close>

definition abi_signo :: "'k mach \<Rightarrow> (int option \<times> 'k mach) option" where
  "abi_signo m =
     Option.bind (abi_mapsig m (SIGNAL_NUMBER m AND 0xff))
       (\<lambda>value. if value = - 1 then map_option (\<lambda>m. (None, m)) (answer_error m EINVAL) else Some (Some value, m))"

section \<open>The signal functions\<close>

definition abi_sig_handler :: "'k sig_env \<Rightarrow> int \<Rightarrow> u32 \<Rightarrow> bool \<Rightarrow> 'k mach \<Rightarrow> 'k mach option" where
  "abi_sig_handler K sig handler oneshot m =
     (let act = \<lparr>sa_handler = handler, sa_mask = 0, sa_flags = (if oneshot then SA_RESETHAND OR SA_NODEFER else 0),
                 sa_restorer = 0\<rparr>;
          (error, oact, k) = rt_sigaction K sig (Some act) (kern m); m = m\<lparr>kern := k\<rparr>
      in if error < 0 then answer_error m (- error)
         else Some (m\<lparr>regs := set_result (regs m) (sint (sa_handler oact))\<rparr>))"

text \<open>A function that needs the signal does nothing more when there is none.\<close>

definition with_signo :: "(int \<Rightarrow> 'k mach \<Rightarrow> 'k mach option) \<Rightarrow> 'k mach \<Rightarrow> 'k mach option" where
  "with_signo f m = Option.bind (abi_signo m) (\<lambda>(sig, m). case sig of None \<Rightarrow> Some m | Some s \<Rightarrow> f s m)"

definition abi_signal :: "'k sig_env \<Rightarrow> 'k mach \<Rightarrow> 'k mach option" where
  "abi_signal K = with_signo (\<lambda>sig m. abi_sig_handler K sig (SECOND_PARAM m) True m)"

text \<open>The block of \<^verbatim>\<open>sigset\<close>, \<^verbatim>\<open>sighold\<close> and \<^verbatim>\<open>sigrelse\<close> that changes the mask.\<close>

definition change_mask :: "'k sig_env \<Rightarrow> int \<Rightarrow> int \<Rightarrow> 'k mach \<Rightarrow> 'k mach option" where
  "change_mask K action sig m =
     (case sigaddset 0 sig of
        None \<Rightarrow> None
      | Some newmask \<Rightarrow>
          let (error, oldmask, k) = rt_sigprocmask K action (Some newmask) (kern m); m = m\<lparr>kern := k\<rparr>
          in if error < 0 then answer_error m (- error) else Some m)"

definition abi_sigset :: "'k sig_env \<Rightarrow> 'k mach \<Rightarrow> 'k mach option" where
  "abi_sigset K = with_signo (\<lambda>sig m.
     let vec = SECOND_PARAM m in
     if vec \<noteq> SIG_HOLD
     then Option.bind (deactivate_signal K sig m)
            (\<lambda>m. Option.bind (abi_sig_handler K sig vec False m) (change_mask K SIG_UNBLOCK sig))
     else change_mask K SIG_BLOCK sig m)"

definition abi_sighold :: "'k sig_env \<Rightarrow> 'k mach \<Rightarrow> 'k mach option" where
  "abi_sighold K = with_signo (change_mask K SIG_BLOCK)"

definition abi_sigrelse :: "'k sig_env \<Rightarrow> 'k mach \<Rightarrow> 'k mach option" where
  "abi_sigrelse K = with_signo (change_mask K SIG_UNBLOCK)"

definition abi_sigignore :: "'k sig_env \<Rightarrow> 'k mach \<Rightarrow> 'k mach option" where
  "abi_sigignore K = with_signo (\<lambda>sig m.
     let (error, oact, k) =
           rt_sigaction K sig (Some \<lparr>sa_handler = SIG_IGN, sa_mask = 0, sa_flags = 0, sa_restorer = 0\<rparr>) (kern m);
         m = m\<lparr>kern := k\<rparr>
     in if error < 0 then answer_error m (- error) else Some m)"

text \<open>\<^verbatim>\<open>error = sys_sigsuspend(...) < 0\<close> gives \<open>error\<close> the value of the comparison.\<close>

definition abi_sigpause :: "'k sig_env \<Rightarrow> 'k mach \<Rightarrow> 'k mach option" where
  "abi_sigpause K = with_signo (\<lambda>sig m.
     case shl1 sig of
       None \<Rightarrow> None
     | Some newset \<Rightarrow>
         let (r, m) = sys_sigsuspend K newset m; error = (if r < 0 then 1 else 0)
         in if error \<noteq> 0 then answer_error m (- error) else Some m)"

definition abi_sigfunc :: "'k sig_env \<Rightarrow> 'k mach \<Rightarrow> (int \<times> 'k mach) option" where
  "abi_sigfunc K m =
     (let sig_type = HIDDEN_PARAM m;
          m = m\<lparr>regs := (regs m)\<lparr>eflags := eflags (regs m) AND NOT 1, eax := 0\<rparr>\<rparr>
      in map_option (\<lambda>m. (0, m))
        (if sig_type = 0 then abi_signal K m
         else if sig_type = 0x100 then abi_sigset K m
         else if sig_type = 0x200 then abi_sighold K m
         else if sig_type = 0x400 then abi_sigrelse K m
         else if sig_type = 0x800 then abi_sigignore K m
         else if sig_type = 0x1000 then abi_sigpause K m
         else Some (m\<lparr>regs := set_error (regs m) EINVAL\<rparr>)))"

section \<open>POSIX signals\<close>

record struct_abi_sigaction =
  abi_sa_flags :: u32
  abi_sa_handler :: u32
  abi_sa_mask :: u32
  abi_sa_resv :: "u8 list"

definition sigaction_bytes :: "struct_abi_sigaction \<Rightarrow> u8 list" where
  "sigaction_bytes a = bytes32 (abi_sa_flags a) @ bytes32 (abi_sa_handler a) @ bytes32 (abi_sa_mask a) @ abi_sa_resv a"

definition sigaction_of_bytes :: "u8 list \<Rightarrow> struct_abi_sigaction" where
  "sigaction_of_bytes bs =
     \<lparr>abi_sa_flags = word32 (field 0 4 bs), abi_sa_handler = word32 (field 4 4 bs),
      abi_sa_mask = word32 (field 8 4 bs), abi_sa_resv = field 12 8 bs\<rparr>"

abbreviation (input) ABI_SA_ONSTACK :: u32 where "ABI_SA_ONSTACK \<equiv> 1"
abbreviation (input) ABI_SA_RESETHAND :: u32 where "ABI_SA_RESETHAND \<equiv> 2"
abbreviation (input) ABI_SA_RESTART :: u32 where "ABI_SA_RESTART \<equiv> 4"
abbreviation (input) ABI_SA_NODEFER :: u32 where "ABI_SA_NODEFER \<equiv> 16"
abbreviation (input) ABI_SA_NOCLDWAIT :: u32 where "ABI_SA_NOCLDWAIT \<equiv> 0x10000"
abbreviation (input) ABI_SA_NOCLDSTOP :: u32 where "ABI_SA_NOCLDSTOP \<equiv> 0x20000"

text \<open>The flags are added to what \<^verbatim>\<open>nsa.sa_flags\<close> holds, which nothing has set.\<close>

definition sa_flags_to_linux :: "u32 \<Rightarrow> u32 \<Rightarrow> u32" where
  "sa_flags_to_linux junk f =
     junk OR (if f AND ABI_SA_ONSTACK \<noteq> 0 then SA_ONSTACK else 0)
          OR (if f AND ABI_SA_RESTART \<noteq> 0 then SA_RESTART else 0)
          OR (if f AND ABI_SA_NODEFER \<noteq> 0 then SA_NODEFER else 0)
          OR (if f AND ABI_SA_RESETHAND \<noteq> 0 then SA_RESETHAND else 0)
          OR (if f AND ABI_SA_NOCLDSTOP \<noteq> 0 then SA_NOCLDSTOP else 0)
          OR (if f AND ABI_SA_NOCLDWAIT \<noteq> 0 then SA_NOCLDWAIT else 0)"

definition sa_flags_from_linux :: "u32 \<Rightarrow> u32" where
  "sa_flags_from_linux f =
     (if f AND SA_ONSTACK \<noteq> 0 then ABI_SA_ONSTACK else 0)
       OR (if f AND SA_RESTART \<noteq> 0 then ABI_SA_RESTART else 0)
       OR (if f AND SA_NODEFER \<noteq> 0 then ABI_SA_NODEFER else 0)
       OR (if f AND SA_RESETHAND \<noteq> 0 then ABI_SA_RESETHAND else 0)
       OR (if f AND SA_NOCLDSTOP \<noteq> 0 then ABI_SA_NOCLDSTOP else 0)
       OR (if f AND SA_NOCLDWAIT \<noteq> 0 then ABI_SA_NOCLDWAIT else 0)"

text \<open>\<open>junk\<close> and \<open>resv\<close> are the old contents of the stack under \<^verbatim>\<open>nsa.sa_flags\<close> and \<^verbatim>\<open>old_sa.sa_resv\<close>.\<close>

definition abi_sigaction ::
  "'k sig_env \<Rightarrow> u32 \<Rightarrow> u8 list \<Rightarrow> u32 \<Rightarrow> u32 \<Rightarrow> u32 \<Rightarrow> 'k mach \<Rightarrow> (int \<times> 'k mach) option" where
  "abi_sigaction K junk resv abi_signum action oldaction m =
     (case abi_mapsig m abi_signum of
        None \<Rightarrow> None
      | Some signo \<Rightarrow>
          if signo = - 1 then Some (- EINVAL, m)
          else if oldaction \<noteq> 0 \<and> sg_verify_area K oldaction 20 \<noteq> 0 then Some (- EFAULT, m)
          else let (bs, left) = (if action \<noteq> 0 then copy_from_user (mem m) action 20 else ([], 0)) in
            if left \<noteq> 0 then Some (- EFAULT, m)
            else let new_sa = sigaction_of_bytes bs in
              case (if action \<noteq> 0 then map_sigvec_to_kernel (abi_sa_mask new_sa) (signal_map (cur_ed m)) else Some 0) of
                None \<Rightarrow> None
              | Some kmask \<Rightarrow>
                  let nsa = (if action \<noteq> 0
                        then Some \<lparr>sa_handler = abi_sa_handler new_sa, sa_mask = kmask,
                                   sa_flags = sa_flags_to_linux junk (abi_sa_flags new_sa), sa_restorer = 0\<rparr>
                        else None);
                      (error, osa, k) = rt_sigaction K signo nsa (kern m); m = m\<lparr>kern := k\<rparr>
                  in if error \<noteq> 0 \<or> oldaction = 0 then Some (error, m)
                     else case map_sigvec_from_kernel (sa_mask osa) (signal_invmap (cur_ed m)) of
                       None \<Rightarrow> None
                     | Some vec \<Rightarrow>
                         let (left, mm) = copy_to_user (mem m) oldaction (sigaction_bytes
                               \<lparr>abi_sa_flags = sa_flags_from_linux (sa_flags osa), abi_sa_handler = sa_handler osa,
                                abi_sa_mask = vec, abi_sa_resv = resv\<rparr>)
                         in Some (if left \<noteq> 0 then - EFAULT else 0, m\<lparr>mem := mm\<rparr>))"

definition howcnv :: "int list" where
  "howcnv = [SIG_SETMASK, SIG_BLOCK, SIG_UNBLOCK, SIG_SETMASK]"

definition abi_sigprocmask :: "'k sig_env \<Rightarrow> int \<Rightarrow> u32 \<Rightarrow> u32 \<Rightarrow> 'k mach \<Rightarrow> (int \<times> 'k mach) option" where
  "abi_sigprocmask K how abinset abioset m =
     Option.bind (if abinset \<noteq> 0
                  then map_option Some (map_sigvec_to_kernel (get_user32 (mem m) abinset) (signal_map (cur_ed m)))
                  else Some None)
       (\<lambda>nset. Option.bind (arr_get howcnv how)
       (\<lambda>h. let (error, old_set, k) = rt_sigprocmask K h nset (kern m); m = m\<lparr>kern := k\<rparr>
            in if error = 0 \<and> abioset \<noteq> 0
               then map_option (\<lambda>old. (error, m\<lparr>mem := snd (put_user (mem m) abioset (bytes32 old))\<rparr>))
                      (map_sigvec_from_kernel old_set (signal_invmap (cur_ed m)))
               else Some (error, m)))"

definition abi_sigsuspend :: "'k sig_env \<Rightarrow> 'k mach \<Rightarrow> (int \<times> 'k mach) option" where
  "abi_sigsuspend K m =
     (case rd32 (mem m) (SIGNAL_NUMBER m) of
        None \<Rightarrow> Some (- EFAULT, m)
      | Some abi_mask \<Rightarrow>
          map_option (\<lambda>mask. sys_sigsuspend K mask m) (map_bitvec abi_mask (signal_map (cur_ed m))))"

section \<open>When the signal functions are defined\<close>

text \<open>The domain of a process can translate every error.\<close>

definition errors_ok :: "exec_domain \<Rightarrow> bool" where
  "errors_ok ed \<longleftrightarrow> (\<forall>n. map_value (err_map ed) n 1 \<noteq> None)"

lemma answer_error_ok:
  "errors_ok (cur_ed m) \<Longrightarrow> answer_error m e \<noteq> None"
  by (simp add: answer_error_def iABI_errors_def errors_ok_def)

lemma answer_error_kern:
  "errors_ok (cur_ed m) \<Longrightarrow> \<exists>y. answer_error (m\<lparr>kern := k\<rparr>) e = Some y"
  using answer_error_ok [of "m\<lparr>kern := k\<rparr>" e] by auto

lemma sig_handler_ok:
  assumes "errors_ok (cur_ed m)"
  shows "\<exists>m'. abi_sig_handler K sig h one m = Some m' \<and> cur_ed m' = cur_ed m"
proof -
  obtain e oa k where r: "rt_sigaction K sig (Some \<lparr>sa_handler = h, sa_mask = 0,
      sa_flags = (if one then SA_RESETHAND OR SA_NODEFER else 0), sa_restorer = 0\<rparr>) (kern m) = (e, oa, k)"
    by (metis prod_cases3)
  have "answer_error (m\<lparr>kern := k\<rparr>) (- e) \<noteq> None" by (rule answer_error_ok) (simp add: assms)
  with r show ?thesis by (auto simp: abi_sig_handler_def answer_error_def Let_def)
qed

lemma change_mask_defined_iff:
  "errors_ok (cur_ed m) \<Longrightarrow> change_mask K a sig m = None \<longleftrightarrow> \<not> (1 \<le> sig \<and> sig \<le> 64)"
  using answer_error_kern [of m] by (auto simp: change_mask_def sigaddset_def Let_def split: prod.splits)

lemma deactivate_signal_cases:
  "(if 1 \<le> sig \<and> sig \<le> 64 then \<exists>m'. deactivate_signal K sig m = Some m' \<and> cur_ed m' = cur_ed m
    else deactivate_signal K sig m = None)"
  by (auto simp: deactivate_signal_def sigdelset_def)

definition signal_case :: "exec_domain \<Rightarrow> u32 \<Rightarrow> int" where
  "signal_case ed b = (if unat b < NSIGNALS then signal_map ed ! unat b else - 1)"

lemma with_signo_cases:
  assumes "length (signal_map (cur_ed m)) = 33" "errors_ok (cur_ed m)"
  shows "with_signo f m = None \<longleftrightarrow>
    signal_case (cur_ed m) (SIGNAL_NUMBER m AND 0xff) \<noteq> - 1 \<and> f (signal_case (cur_ed m) (SIGNAL_NUMBER m AND 0xff)) m = None"
proof -
  let ?b = "SIGNAL_NUMBER m AND 0xff"
  have "abi_mapsig m ?b = Some (signal_case (cur_ed m) ?b)"
    using assms(1) by (auto simp: abi_mapsig_def signal_case_def NSIGNALS_def uint_nat simp del: of_nat_unat)
  with answer_error_ok [OF assms(2), of EINVAL] show ?thesis
    by (auto simp: with_signo_def abi_signo_def)
qed

lemma sigset_body_iff:
  assumes "errors_ok (cur_ed m)"
  shows "Option.bind (deactivate_signal K sig m)
      (\<lambda>m. Option.bind (abi_sig_handler K sig vec False m) (change_mask K SIG_UNBLOCK sig)) = None \<longleftrightarrow>
    \<not> (1 \<le> sig \<and> sig \<le> 64)"
proof (cases "1 \<le> sig \<and> sig \<le> 64")
  case True
  with deactivate_signal_cases [of sig K m] obtain m1 where d: "deactivate_signal K sig m = Some m1" "cur_ed m1 = cur_ed m"
    by auto
  with sig_handler_ok [of m1 K sig vec False] assms obtain m2
    where h: "abi_sig_handler K sig vec False m1 = Some m2" "cur_ed m2 = cur_ed m" by auto
  with d True change_mask_defined_iff [of m2 K SIG_UNBLOCK sig] assms show ?thesis by simp
next
  case False
  with deactivate_signal_cases [of sig K m] show ?thesis by auto
qed

lemma sigpause_body_iff:
  assumes "\<And>v. errors_ok (cur_ed (snd (sys_sigsuspend K v m)))"
  shows "(case shl1 sig of None \<Rightarrow> None
     | Some newset \<Rightarrow>
         let (r, m) = sys_sigsuspend K newset m; error = (if r < 0 then 1 else 0)
         in if error \<noteq> 0 then answer_error m (- error) else Some m) = None \<longleftrightarrow> \<not> (1 \<le> sig \<and> sig \<le> 32)"
proof (cases "1 \<le> sig \<and> sig \<le> 32")
  case True
  then obtain v where sh: "shl1 sig = Some v" by (simp add: shl1_def)
  obtain r m1 where r: "sys_sigsuspend K v m = (r, m1)" by (metis surj_pair)
  with assms [of v] answer_error_ok [of m1 "- 1"] True sh show ?thesis by (simp add: Let_def)
next
  case False
  then show ?thesis by (auto simp: shl1_def)
qed

lemma sigfunc_undefined_iff:
  assumes tab: "sigtab_ok (signal_map (cur_ed m))" "signal_map (cur_ed m) ! 0 = 0" and err: "errors_ok (cur_ed m)"
    and susp: "\<And>v x. cur_ed (snd (sys_sigsuspend K v x)) = cur_ed x"
  shows "abi_sigfunc K m = None \<longleftrightarrow>
    SIGNAL_NUMBER m AND 0xff = 0 \<and> HIDDEN_PARAM m \<in> {0x100, 0x200, 0x400, 0x1000}"
proof -
  define m0 where "m0 = m\<lparr>regs := (regs m)\<lparr>eflags := eflags (regs m) AND NOT 1, eax := 0\<rparr>\<rparr>"
  let ?b = "SIGNAL_NUMBER m AND 0xff" and ?s = "signal_case (cur_ed m) (SIGNAL_NUMBER m AND 0xff)"
  have num: "SIGNAL_NUMBER m0 = SIGNAL_NUMBER m" by (simp add: m0_def SIGNAL_NUMBER_def get_syscall_parameter_def)
  have ed: "cur_ed m0 = cur_ed m" by (simp add: m0_def)
  note w = with_signo_cases [of m0, unfolded ed num, OF sigtab_ok_length [OF tab(1)] err]
  have s: "?s = - 1 \<or> 1 \<le> ?s \<and> ?s \<le> 32 \<or> ?s = 0" "?s = 0 \<longleftrightarrow> ?b = 0"
    using sigtab_ok_nth [OF tab(1), of "unat ?b"] tab(2) unat_eq_zero [of ?b]
    by (auto simp: signal_case_def NSIGNALS_def not_less_eq_eq)
  have pause: "errors_ok (cur_ed (snd (sys_sigsuspend K v m0)))" for v by (simp add: susp ed err)
  have hand: "abi_sig_handler K x y z m0 \<noteq> None" for x y z
    using sig_handler_ok [of m0 K x y z] ed err by auto
  have "abi_signal K m0 \<noteq> None" using hand by (simp add: abi_signal_def w)
  moreover have "abi_sigignore K m0 \<noteq> None"
    using answer_error_kern [of m0] by (auto simp: abi_sigignore_def w ed err Let_def split: prod.splits)
  moreover have "abi_sighold K m0 = None \<longleftrightarrow> ?b = 0" "abi_sigrelse K m0 = None \<longleftrightarrow> ?b = 0"
    using s by (auto simp: abi_sighold_def abi_sigrelse_def w change_mask_defined_iff ed err)
  moreover have "abi_sigset K m0 = None \<longleftrightarrow> ?b = 0"
    using s by (auto simp: abi_sigset_def w change_mask_defined_iff sigset_body_iff ed err Let_def)
  moreover have "abi_sigpause K m0 = None \<longleftrightarrow> ?b = 0"
    using s by (auto simp only: abi_sigpause_def w sigpause_body_iff [OF pause])
  ultimately show ?thesis
    unfolding abi_sigfunc_def Let_def m0_def [symmetric] by auto
qed

lemma sigvec_total:
  assumes "sigtab_ok tab"
  shows "\<exists>s. map_sigvec_to_kernel v tab = Some s" "\<exists>s. map_sigvec_from_kernel k tab = Some s" "\<exists>s. map_bitvec v tab = Some s"
  using map_bitvec_bits [OF assms] by (force simp: map_sigvec_from_kernel_eq map_sigvec_to_kernel_eq [OF assms])+

lemma sigprocmask_undefined_iff:
  assumes "sigtab_ok (signal_map (cur_ed m))" "sigtab_ok (signal_invmap (cur_ed m))"
  shows "abi_sigprocmask K how abinset abioset m = None \<longleftrightarrow> how < 0 \<or> 3 < how"
proof -
  obtain nset where n: "(if abinset \<noteq> 0
      then map_option Some (map_sigvec_to_kernel (get_user32 (mem m) abinset) (signal_map (cur_ed m))) else Some None) = Some nset"
    using sigvec_total(1) [OF assms(1), of "get_user32 (mem m) abinset"] by (cases "abinset = 0") auto
  show ?thesis
  proof (cases "how < 0 \<or> 3 < how")
    case True
    then have "arr_get howcnv how = None" by (auto simp: howcnv_def arr_get_def)
    with n True show ?thesis unfolding abi_sigprocmask_def by simp
  next
    case False
    then obtain h where h: "arr_get howcnv how = Some h" by (simp add: howcnv_def arr_get_def)
    obtain e os k where r: "rt_sigprocmask K h nset (kern m) = (e, os, k)" by (metis prod_cases3)
    obtain old where "map_sigvec_from_kernel os (signal_invmap (cur_ed m)) = Some old"
      using sigvec_total(2) [OF assms(2)] by blast
    with n h r False show ?thesis unfolding abi_sigprocmask_def by (simp add: Let_def)
  qed
qed

lemma sigaction_defined:
  assumes "sigtab_ok (signal_map (cur_ed m))" "sigtab_ok (signal_invmap (cur_ed m))"
  shows "abi_sigaction K junk resv n action oldaction m \<noteq> None"
proof -
  have "uint n < int (length (signal_map (cur_ed m)))" if "\<not> unat n \<ge> NSIGNALS"
    using that sigtab_ok_length [OF assms(1)] by (simp add: NSIGNALS_def uint_nat del: of_nat_unat)
  then obtain sg where "abi_mapsig m n = Some sg" by (fastforce simp: abi_mapsig_def)
  moreover obtain F where "\<And>v. map_sigvec_to_kernel v (signal_map (cur_ed m)) = Some (F v)"
    using sigvec_total(1) [OF assms(1)] by metis
  moreover obtain G where "\<And>k. map_sigvec_from_kernel k (signal_invmap (cur_ed m)) = Some (G k)"
    using sigvec_total(2) [OF assms(2)] by metis
  ultimately show ?thesis
    by (simp add: abi_sigaction_def Let_def split: prod.split)
qed

lemma and_flag_value:
  "f AND 1 = (if bit f 0 then 1 else 0)" "f AND 2 = (if bit f 1 then 2 else 0)" "f AND 4 = (if bit f 2 then 4 else 0)"
  "f AND 16 = (if bit f 4 then 16 else 0)" "f AND 0x10000 = (if bit f 16 then 0x10000 else 0)"
  "f AND 0x20000 = (if bit f 17 then 0x20000 else 0)" "f AND 0x08000000 = (if bit f 27 then 0x08000000 else 0)"
  "f AND 0x10000000 = (if bit f 28 then 0x10000000 else 0)" "f AND 0x40000000 = (if bit f 30 then 0x40000000 else 0)"
  "f AND 0x80000000 = (if bit f 31 then 0x80000000 else 0)" for f :: u32
  using and_pow [of f 0] and_pow [of f 1] and_pow [of f 2] and_pow [of f 4] and_pow [of f 16] and_pow [of f 17]
    and_pow [of f 27] and_pow [of f 28] and_pow [of f 30] and_pow [of f 31] by simp_all

lemma and_flag:
  "f AND 1 \<noteq> 0 \<longleftrightarrow> bit f 0" "f AND 2 \<noteq> 0 \<longleftrightarrow> bit f 1" "f AND 4 \<noteq> 0 \<longleftrightarrow> bit f 2" "f AND 16 \<noteq> 0 \<longleftrightarrow> bit f 4"
  "f AND 0x10000 \<noteq> 0 \<longleftrightarrow> bit f 16" "f AND 0x20000 \<noteq> 0 \<longleftrightarrow> bit f 17" "f AND 0x08000000 \<noteq> 0 \<longleftrightarrow> bit f 27"
  "f AND 0x10000000 \<noteq> 0 \<longleftrightarrow> bit f 28" "f AND 0x40000000 \<noteq> 0 \<longleftrightarrow> bit f 30" "f AND 0x80000000 \<noteq> 0 \<longleftrightarrow> bit f 31"
  for f :: u32
  by (simp_all add: and_flag_value)

lemma if_or: "(if a \<or> b then c else 0) = (if a then c else 0) OR (if b then c else 0)" for c :: u32
  by simp

section \<open>Properties\<close>

text \<open>
  C27: the flags of \<^verbatim>\<open>sigaction\<close> survive translation to Linux and back: the six flags Linux knows come
  back, the others are dropped; but whatever the uninitialised structure held is added, so a program can
  find flags set that it never asked for.
\<close>

theorem sigaction_flags_round_trip:
  "sa_flags_from_linux (sa_flags_to_linux junk f) = (f AND 0x30017) OR sa_flags_from_linux junk"
proof -
  let ?to = "sa_flags_to_linux junk f"
  have bits: "bit ?to 27 \<longleftrightarrow> bit junk 27 \<or> bit f 0" "bit ?to 28 \<longleftrightarrow> bit junk 28 \<or> bit f 2"
    "bit ?to 30 \<longleftrightarrow> bit junk 30 \<or> bit f 4" "bit ?to 31 \<longleftrightarrow> bit junk 31 \<or> bit f 1"
    "bit ?to 0 \<longleftrightarrow> bit junk 0 \<or> bit f 17" "bit ?to 1 \<longleftrightarrow> bit junk 1 \<or> bit f 16"
    by (auto simp: sa_flags_to_linux_def abi_consts and_flag bit_or_iff)
  have "(0x30017 :: u32) = 1 OR 4 OR 16 OR 2 OR 0x20000 OR 0x10000" by simp
  then have "f AND 0x30017 = (f AND 1) OR (f AND 4) OR (f AND 16) OR (f AND 2) OR (f AND 0x20000) OR (f AND 0x10000)"
    by (simp only: bit.conj_disj_distrib)
  also have "\<dots> = (if bit f 0 then 1 else 0) OR (if bit f 2 then 4 else 0) OR (if bit f 4 then 16 else 0)
      OR (if bit f 1 then 2 else 0) OR (if bit f 17 then 0x20000 else 0) OR (if bit f 16 then 0x10000 else 0)"
    by (simp only: and_flag_value)
  finally show ?thesis
    by (simp only: sa_flags_from_linux_def abi_consts and_flag bits if_or or.assoc or.commute or.left_commute)
qed

end
