(* ===== verification/Svr4_Process.thy ===== *)
theory Svr4_Process
  imports Svr4_Signal
begin

text \<open>
  Process control of System V: \<^verbatim>\<open>abi/svr4/svr4.c\<close> (waiting for a child, path limits, contexts),
  \<^verbatim>\<open>abi/svr4/ulimit.c\<close>, \<^verbatim>\<open>abi/svr4/hrtsys.c\<close> (high resolution timers) and \<^verbatim>\<open>abi/svr4/mmap.c\<close>.  Linux is
  the record \<open>proc_env\<close>; \<open>None\<close> is undefined behaviour.  Messages of \<^verbatim>\<open>printk\<close> and of the trace macros inside
  the calls are left out.
\<close>

section \<open>Linux\<close>

type_synonym timeval = "u32 \<times> u32"

record 'k proc_env =
  pe_verify_area :: "u32 \<Rightarrow> nat \<Rightarrow> int"
  sys_access :: "u32 \<Rightarrow> u32 \<Rightarrow> 'k mach \<Rightarrow> int \<times> 'k mach"
  wait4_status :: "u32 \<Rightarrow> u32 \<Rightarrow> 'k \<Rightarrow> int \<times> u32 option \<times> 'k"
  sys_setreuid16 :: "u32 \<Rightarrow> u32 \<Rightarrow> 'k \<Rightarrow> int \<times> 'k"
  sys_setregid16 :: "u32 \<Rightarrow> u32 \<Rightarrow> 'k \<Rightarrow> int \<times> 'k"
  pe_getname :: "u32 \<Rightarrow> 'k mach \<Rightarrow> int + string"
  statfs_namelen :: "string \<Rightarrow> 'k \<Rightarrow> int \<times> int \<times> 'k"
  fstatfs_namelen :: "int \<Rightarrow> 'k \<Rightarrow> int \<times> int \<times> 'k"
  LINK_MAX :: int
  MAX_CANON :: int
  MAX_INPUT :: int
  PATH_MAX :: int
  PIPE_BUF :: int
  rlim :: "int \<Rightarrow> 'k \<Rightarrow> u32 \<times> u32"
  set_rlim :: "int \<Rightarrow> u32 \<times> u32 \<Rightarrow> 'k \<Rightarrow> 'k"
  capable_resource :: "'k \<Rightarrow> bool"
  sys_getrlimit :: "int \<Rightarrow> u32 \<Rightarrow> 'k mach \<Rightarrow> int \<times> 'k mach"
  sys_gettimeofday :: "u32 \<Rightarrow> 'k mach \<Rightarrow> int \<times> 'k mach"
  sys_setitimer :: "int \<Rightarrow> timeval \<times> timeval \<Rightarrow> 'k \<Rightarrow> int \<times> 'k"
  sys_getitimer :: "int \<Rightarrow> 'k \<Rightarrow> int \<times> (timeval \<times> timeval) \<times> 'k"
  pe_fget :: "int \<Rightarrow> 'k \<Rightarrow> nat \<times> 'k"
  pe_fput :: "nat \<Rightarrow> 'k \<Rightarrow> 'k"
  do_mmap :: "nat \<Rightarrow> u32 \<Rightarrow> u32 \<Rightarrow> u32 \<Rightarrow> u32 \<Rightarrow> u32 \<Rightarrow> 'k mach \<Rightarrow> u32 \<times> 'k mach"

section \<open>\<^verbatim>\<open>svr4.c\<close>\<close>

definition svr4_access :: "'k proc_env \<Rightarrow> u32 \<Rightarrow> u32 \<Rightarrow> 'k mach \<Rightarrow> int \<times> 'k mach" where
  "svr4_access K path mode m = sys_access K path (mode AND 7) m"

text \<open>Code and status of a child, from the status Linux gives; the signal is looked up without a check.\<close>

definition waitid_code :: "int list \<Rightarrow> u32 \<Rightarrow> (u32 \<times> u32) option" where
  "waitid_code invmap status =
     (if status AND 0xff = 0 then Some (1, signed_drop_bit 8 status)
      else let st = drop_bit 8 (status AND 0xff00) in
        if status AND 0xff = 0x7f
        then map_option (\<lambda>s. (if st = 19 \<or> st = 20 then 5 else 6, word_of_int s)) (arr_get invmap (uint st))
        else map_option (\<lambda>s. (if status AND 0x80 \<noteq> 0 then 3 else 2, word_of_int s)) (arr_get invmap (uint st)))"

text \<open>
  \<open>junk\<close> is the old content of the stack under \<^verbatim>\<open>status\<close>: with \<^verbatim>\<open>WNOHANG\<close> and no child to report, Linux
  answers 0 and stores no status, and the call goes on to translate it.
\<close>

definition svr4_waitid ::
  "'k proc_env \<Rightarrow> u32 \<Rightarrow> int \<Rightarrow> u32 \<Rightarrow> u32 \<Rightarrow> u32 \<Rightarrow> 'k mach \<Rightarrow> (int \<times> 'k mach) option" where
  "svr4_waitid K junk idtype pid_arg infop options m =
     (if idtype \<noteq> 0 \<and> idtype \<noteq> 1 \<and> idtype \<noteq> 7 then Some (- EINVAL, m)
      else let pid = (if idtype = 0 then pid_arg else if idtype = 1 then - pid_arg else - 1);
               result = (if infop \<noteq> 0 then pe_verify_area K infop 28 else 0) in
        if result \<noteq> 0 then Some (result, m)
        else let kopt = (if options AND 64 \<noteq> 0 then 1 else 0) OR (if options AND 4 \<noteq> 0 then 2 else 0);
                 (result, stored, k) = wait4_status K pid kopt (kern m); m = m\<lparr>kern := k\<rparr>;
                 status = (case stored of None \<Rightarrow> junk | Some v \<Rightarrow> v) in
          if result < 0 then Some (result, m)
          else if infop = 0 then Some (0, m)
          else Option.bind (arr_get (signal_map (cur_ed m)) SIGCHLD) (\<lambda>chld.
            let mm = snd (put_user (mem m) infop (bytes32 (word_of_int chld)));
                mm = snd (put_user mm (infop + 12) (bytes32 (word_of_int result)))
            in map_option (\<lambda>(op, st).
                 let mm = snd (put_user mm (infop + 4) (bytes32 op));
                     mm = snd (put_user mm (infop + 20) (bytes32 st))
                 in (0, m\<lparr>mem := mm\<rparr>)) (waitid_code (signal_invmap (cur_ed m)) status)))"

definition svr4_seteuid :: "'k proc_env \<Rightarrow> u32 \<Rightarrow> 'k mach \<Rightarrow> int \<times> 'k mach" where
  "svr4_seteuid K uid m = (let (r, k) = sys_setreuid16 K (- 1) uid (kern m) in (r, m\<lparr>kern := k\<rparr>))"

definition svr4_setegid :: "'k proc_env \<Rightarrow> u32 \<Rightarrow> 'k mach \<Rightarrow> int \<times> 'k mach" where
  "svr4_setegid K gid m = (let (r, k) = sys_setregid16 K (- 1) gid (kern m) in (r, m\<lparr>kern := k\<rparr>))"

text \<open>The limits that do not depend on the file.\<close>

definition pathconf_const :: "'k proc_env \<Rightarrow> int \<Rightarrow> int option" where
  "pathconf_const K name =
     (if name = 1 then Some (LINK_MAX K)
      else if name = 2 then Some (MAX_CANON K)
      else if name = 3 then Some (MAX_INPUT K)
      else if name = 5 then Some (PATH_MAX K)
      else if name = 6 then Some (PIPE_BUF K)
      else if name = 9 then Some 0
      else if name = 7 then Some 1
      else if name = 8 then Some 1
      else None)"

definition svr4_pathconf :: "'k proc_env \<Rightarrow> u32 \<Rightarrow> int \<Rightarrow> 'k mach \<Rightarrow> int \<times> 'k mach" where
  "svr4_pathconf K path name m =
     (case pathconf_const K name of
        Some v \<Rightarrow> (v, m)
      | None \<Rightarrow>
          if name = 4
          then (case pe_getname K path m of
                  Inl e \<Rightarrow> (e, m)
                | Inr p \<Rightarrow> let (error, n, k) = statfs_namelen K p (kern m)
                           in (if error = 0 then n else error, m\<lparr>kern := k\<rparr>))
          else (- EINVAL, m))"

definition svr4_fpathconf :: "'k proc_env \<Rightarrow> int \<Rightarrow> int \<Rightarrow> 'k mach \<Rightarrow> int \<times> 'k mach" where
  "svr4_fpathconf K fildes name m =
     (case pathconf_const K name of
        Some v \<Rightarrow> (v, m)
      | None \<Rightarrow>
          if name = 4
          then (let (error, n, k) = fstatfs_namelen K fildes (kern m)
                in (if error = 0 then n else error, m\<lparr>kern := k\<rparr>))
          else (- EINVAL, m))"

text \<open>\<^verbatim>\<open>sigfillset\<close> stores through the pointer of the program, without a check and without a fault handler.\<close>

definition svr4_sigpending :: "int \<Rightarrow> u32 \<Rightarrow> 'k mach \<Rightarrow> (int \<times> 'k mach) option" where
  "svr4_sigpending which pset m =
     (if which = 2
      then Option.bind (wr32 (mem m) pset 0xffffffff) (\<lambda>mm.
           Option.bind (wr32 mm (pset + 4) 0) (\<lambda>mm.
           Option.bind (wr32 mm (pset + 8) 0) (\<lambda>mm.
           map_option (\<lambda>mm. (0, m\<lparr>mem := mm\<rparr>)) (wr32 mm (pset + 12) 0))))
      else Some (- EINVAL, m))"

definition svr4_context :: "'k mach \<Rightarrow> int \<times> 'k mach" where
  "svr4_context m =
     (let context_fn = get_syscall_parameter (mem m) (regs m) 0
      in if context_fn = 0 \<or> context_fn = 1 then (0, m) else (- EINVAL, m))"

section \<open>\<^verbatim>\<open>ulimit.c\<close>\<close>

abbreviation (input) "RLIMIT_FSIZE \<equiv> (1::int)"
abbreviation (input) "RLIMIT_DATA \<equiv> (2::int)"
abbreviation (input) "RLIMIT_NOFILE \<equiv> (7::int)"
abbreviation (input) "ERANGE \<equiv> (34::int)"

definition ULIM_MAX_BLOCKSIZE :: int where
  "ULIM_MAX_BLOCKSIZE = 0x7fffffff div 2 ^ 9"

definition svr4_ulimit :: "'k proc_env \<Rightarrow> int \<Rightarrow> int \<Rightarrow> 'k mach \<Rightarrow> int \<times> 'k mach" where
  "svr4_ulimit K cmd val m =
     (if cmd = 1 then (uint (drop_bit 9 (fst (rlim K RLIMIT_FSIZE (kern m)))), m)
      else if cmd = 2
      then (if val > ULIM_MAX_BLOCKSIZE \<or> val < 0 then (- ERANGE, m)
            else let val = word_of_int (val * 2 ^ 9); (cur, max) = rlim K RLIMIT_FSIZE (kern m) in
              if val > max
              then (if \<not> capable_resource K (kern m) then (- EPERM, m)
                    else (0, m\<lparr>kern := set_rlim K RLIMIT_FSIZE (val, val) (kern m)\<rparr>))
              else (0, m\<lparr>kern := set_rlim K RLIMIT_FSIZE (val, max) (kern m)\<rparr>))
      else if cmd = 3 then (sint (fst (rlim K RLIMIT_DATA (kern m))), m)
      else if cmd = 4 then (sint (fst (rlim K RLIMIT_NOFILE (kern m))), m)
      else (- EINVAL, m))"

text \<open>The resources of System V in the numbering of Linux.\<close>

definition rlimit_cmd :: "int \<Rightarrow> int option" where
  "rlimit_cmd cmd = (if 0 \<le> cmd \<and> cmd \<le> 4 then Some cmd else if cmd = 5 then Some 7 else if cmd = 6 then Some 9 else None)"

definition svr4_getrlimit :: "'k proc_env \<Rightarrow> int \<Rightarrow> u32 \<Rightarrow> 'k mach \<Rightarrow> int \<times> 'k mach" where
  "svr4_getrlimit K cmd val m =
     (case rlimit_cmd cmd of None \<Rightarrow> (- EINVAL, m) | Some c \<Rightarrow> sys_getrlimit K c val m)"

definition svr4_setrlimit :: "'k proc_env \<Rightarrow> int \<Rightarrow> u32 \<Rightarrow> 'k mach \<Rightarrow> int \<times> 'k mach" where
  "svr4_setrlimit K cmd val m =
     (case rlimit_cmd cmd of None \<Rightarrow> (- EINVAL, m) | Some c \<Rightarrow> sys_getrlimit K c val m)"

section \<open>\<^verbatim>\<open>hrtsys.c\<close>\<close>

text \<open>A \<^verbatim>\<open>struct hrtcmd\<close> has 52 bytes: command, clock, interval at 8 and time of day at 20, three words each.\<close>

definition timeval_bytes :: "timeval \<Rightarrow> u8 list" where
  "timeval_bytes tv = bytes32 (fst tv) @ bytes32 (snd tv)"

definition timeval_of_bytes :: "u8 list \<Rightarrow> timeval" where
  "timeval_of_bytes bs = (word32 (field 0 4 bs), word32 (field 4 4 bs))"

definition ibcs_hrtcntl :: "'k proc_env \<Rightarrow> 'k mach \<Rightarrow> int \<times> 'k mach" where
  "ibcs_hrtcntl K m =
     (let param = (\<lambda>i. get_syscall_parameter (mem m) (regs m) (1 + i)) in
      if param 0 \<noteq> 1 \<or> param 1 \<noteq> 1 \<or> param 2 \<noteq> 0 then (- EINVAL, m)
      else let tv = param 3; error = pe_verify_area K tv 8 in
        if error \<noteq> 0 then (error, m) else sys_gettimeofday K tv m)"

definition hrt_clock :: "u32 \<Rightarrow> int option" where
  "hrt_clock which = (if which = 4 then Some 2 else if which = 2 then Some 1 else if which = 1 then Some 0 else None)"

definition set_timer :: "'k proc_env \<Rightarrow> int \<Rightarrow> timeval \<times> timeval \<Rightarrow> 'k mach \<Rightarrow> int \<times> 'k mach" where
  "set_timer K which it m = (let (r, k) = sys_setitimer K which it (kern m) in (r, m\<lparr>kern := k\<rparr>))"

text \<open>A timer is the pair of \<^verbatim>\<open>it_interval\<close> and \<^verbatim>\<open>it_value\<close>.\<close>

definition ibcs_hrtalarm :: "'k proc_env \<Rightarrow> 'k mach \<Rightarrow> int \<times> 'k mach" where
  "ibcs_hrtalarm K m =
     (if get_syscall_parameter (mem m) (regs m) 2 \<noteq> 1 then (- EINVAL, m)
      else let hcmd = get_syscall_parameter (mem m) (regs m) 1; error = pe_verify_area K hcmd 52 in
        if error \<noteq> 0 then (error, m)
        else let cmd = get_user32 (mem m) hcmd in
          case hrt_clock (get_user32 (mem m) (hcmd + 4)) of
            None \<Rightarrow> (- EINVAL, m)
          | Some which \<Rightarrow>
              if cmd = 0xc
              then (if get_user32 (mem m) (hcmd + 16) \<noteq> 1000000 then (- EINVAL, m)
                    else let (bs, left) = copy_from_user (mem m) (hcmd + 8) 8 in
                      if left \<noteq> 0 then (- EFAULT, m)
                      else set_timer K which ((0, 0), timeval_of_bytes bs) m)
              else if cmd = 0xd
              then (let (r, (interval, val), k) = sys_getitimer K which (kern m); m = m\<lparr>kern := k\<rparr>;
                        mm = snd (put_user (mem m) (hcmd + 16) (bytes32 1000000));
                        mm = snd (copy_to_user mm (hcmd + 8) (timeval_bytes interval @ timeval_bytes val))
                    in (1, m\<lparr>mem := mm\<rparr>))
              else if cmd = 0xf
              then (if get_user32 (mem m) (hcmd + 16) \<noteq> 1000000 then (- EINVAL, m)
                    else if get_user32 (mem m) (hcmd + 28) \<noteq> 1000000 then (- EINVAL, m)
                    else let (vs, left) = copy_from_user (mem m) (hcmd + 20) 8 in
                      if left \<noteq> 0 then (- EFAULT, m)
                      else let (ivs, left) = copy_from_user (mem m) (hcmd + 8) 8 in
                        if left \<noteq> 0 then (- EFAULT, m)
                        else set_timer K which (timeval_of_bytes ivs, timeval_of_bytes vs) m)
              else if cmd = 0x10 then set_timer K which ((0, 0), (0, 0)) m
              else (- EINVAL, m))"

definition svr4_hrtsys :: "'k proc_env \<Rightarrow> 'k mach \<Rightarrow> int \<times> 'k mach" where
  "svr4_hrtsys K m =
     (let func = get_syscall_parameter (mem m) (regs m) 0
      in if func = 0 then ibcs_hrtcntl K m
         else if func = 1 then ibcs_hrtalarm K m
         else (- EINVAL, m))"

section \<open>\<^verbatim>\<open>mmap.c\<close>\<close>

abbreviation (input) "MAP_ANONYMOUS \<equiv> (0x20::u32)"
abbreviation (input) "EBADFD \<equiv> (77::int)"

definition SVR4_MAP_ANONYMOUS :: u32 where [abi_consts]: "SVR4_MAP_ANONYMOUS = 0x100"
definition SVR4_MAP_UNIMPL :: u32 where [abi_consts]: "SVR4_MAP_UNIMPL = 0x20 OR 0x80000000"

definition svr4_mmap ::
  "'k proc_env \<Rightarrow> u32 \<Rightarrow> u32 \<Rightarrow> u32 \<Rightarrow> u32 \<Rightarrow> int \<Rightarrow> u32 \<Rightarrow> 'k mach \<Rightarrow> u32 \<times> 'k mach" where
  "svr4_mmap K addr len prot flags fd off m =
     (let flags = (if flags AND SVR4_MAP_UNIMPL \<noteq> 0 then flags AND NOT SVR4_MAP_UNIMPL else flags) in
      if flags AND SVR4_MAP_ANONYMOUS = 0
      then (let (file, k) = pe_fget K fd (kern m); m = m\<lparr>kern := k\<rparr> in
            if file = 0 then (word_of_int (- EBADFD), m)
            else let flags = (flags AND NOT SVR4_MAP_ANONYMOUS) OR MAP_ANONYMOUS;
                     (mapaddr, m) = do_mmap K file addr len prot flags off m
                 in (mapaddr, m\<lparr>kern := pe_fput K file (kern m)\<rparr>))
      else do_mmap K 0 addr len prot flags off m)"

section \<open>What the calls do\<close>

lemma low_byte_status:
  fixes status :: u32
  assumes "status < 0x100"
  shows "status AND 0xff = status" "drop_bit 8 (status AND 0xff00) = 0"
proof -
  have low: "status AND mask 8 = status" by (rule less_mask_eq) (use assms in simp)
  then show "status AND 0xff = status" by (simp add: mask_eq_exp_minus_1)
  have "\<not> bit status (8 + n)" for n
    by (subst low [symmetric]) (simp add: bit_simps)
  then show "drop_bit 8 (status AND 0xff00) = 0" by (auto intro!: bit_word_eqI simp: bit_simps)
qed

lemma and_not_disjoint:
  fixes x y :: u32
  assumes "x AND y = 0"
  shows "x AND NOT y = x"
proof (rule bit_word_eqI)
  fix n
  have "\<not> (bit x n \<and> bit y n)" using assms bit_and_iff [of x y n] by simp
  then show "bit (x AND NOT y) n = bit x n" if "n < LENGTH(32)" using that by (auto simp: bit_simps)
qed

lemma mapped_put [simp]: "mapped (snd (put_user m b bs)) a n = mapped m a n"
  by (rule mapped_dom [OF put_user_dom])

text \<open>A kernel whose state is the limit of the file size and where a child is found with status \<open>st\<close>.\<close>

definition proc_kernel :: "u32 \<Rightarrow> (u32 \<times> u32) proc_env" where
  "proc_kernel st =
     \<lparr>pe_verify_area = (\<lambda>a n. 0), sys_access = (\<lambda>p mode m. (0, m)), wait4_status = (\<lambda>p f k. (5, Some st, k)),
      sys_setreuid16 = (\<lambda>r e k. (0, k)), sys_setregid16 = (\<lambda>r e k. (0, k)), pe_getname = (\<lambda>a m. Inr ''/x''),
      statfs_namelen = (\<lambda>p k. (0, 255, k)), fstatfs_namelen = (\<lambda>fd k. (0, 255, k)), LINK_MAX = 127, MAX_CANON = 255,
      MAX_INPUT = 255, PATH_MAX = 4096, PIPE_BUF = 4096, rlim = (\<lambda>r k. k), set_rlim = (\<lambda>r v k. v),
      capable_resource = (\<lambda>k. False), sys_getrlimit = (\<lambda>r a m. (0, m)), sys_gettimeofday = (\<lambda>a m. (0, m)),
      sys_setitimer = (\<lambda>w it k. (0, k)), sys_getitimer = (\<lambda>w k. (0, ((0, 0), (7, 0)), k)), pe_fget = (\<lambda>fd k. (1, k)),
      pe_fput = (\<lambda>f k. k), do_mmap = (\<lambda>f a l p fl off m. (a, m))\<rparr>"

text \<open>
  The status a killed child leaves holds the signal in its low seven bits and the core flag above them.
  \<^verbatim>\<open>waitid\<close> looks at the next byte, which is 0 then: whatever the signal was, the program is told the entry of
  signal 0.
\<close>

lemma waitid_forgets_signal:
  assumes "idtype \<in> {0, 1, 7}" "infop \<noteq> 0" "pe_verify_area K infop 28 = 0"
    and "mapped (mem m) infop 28"
    and "\<And>pid kopt. wait4_status K pid kopt (kern m) = (child, Some status, k)" "0 \<le> child"
    and "0 < status" "status < 0x100" "status \<noteq> 0x7f"
    and "17 < length (signal_map (cur_ed m))" "signal_invmap (cur_ed m) = inv0 # invs"
  shows "\<exists>m'. svr4_waitid K junk idtype pid infop options m = Some (0, m') \<and>
    copy_from_user (mem m') (infop + 20) 4 = (bytes32 (word_of_int inv0), 0)"
proof -
  let ?put = "\<lambda>mm off v. snd (put_user mm (infop + off) (bytes32 v))"
  let ?mm = "?put (?put (?put (mem m) 0 (word_of_int (signal_map (cur_ed m) ! 17))) 12 (word_of_int child)) 4
    (if status AND 0x80 \<noteq> 0 then 3 else 2)"
  have code: "waitid_code (signal_invmap (cur_ed m)) status = Some (if status AND 0x80 \<noteq> 0 then 3 else 2, word_of_int inv0)"
    using assms(7-9,11) low_byte_status [OF assms(8)] by (simp add: waitid_code_def)
  have eq: "svr4_waitid K junk idtype pid infop options m =
      Some (0, m\<lparr>kern := k, mem := ?put ?mm 20 (word_of_int inv0)\<rparr>)"
    using assms(1-3,5,6,10) code by (auto simp: svr4_waitid_def Let_def)
  have "mapped ?mm (infop + 20) 4"
    using mapped_inside [OF assms(4), of 20 4] by simp
  then have "copy_from_user (?put ?mm 20 (word_of_int inv0)) (infop + 20) 4 = (bytes32 (word_of_int inv0), 0)"
    using put_user_round_trip [of ?mm "infop + 20" "bytes32 (word_of_int inv0)"] by simp
  with eq show ?thesis by simp
qed

text \<open>
  C28: A file size limit that the call accepts is the one it then reports, and the soft limit it leaves is not
  above the hard one.
\<close>

theorem ulimit_round_trip:
  assumes "\<And>r v k. rlim K r (set_rlim K r v k) = v" and "svr4_ulimit K 2 val m = (0, m')"
  shows "fst (svr4_ulimit K 1 any m') = val \<and>
    fst (rlim K RLIMIT_FSIZE (kern m')) \<le> snd (rlim K RLIMIT_FSIZE (kern m'))"
proof -
  have rng: "0 \<le> val" "val \<le> 4194303"
    using assms(2) by (auto simp: svr4_ulimit_def ULIM_MAX_BLOCKSIZE_def split: if_splits)
  let ?w = "word_of_int (val * 512) :: u32"
  have "uint ?w = val * 512" using rng by (subst uint_word_of_int) simp
  then have get: "uint (drop_bit 9 ?w) = val" by (simp add: drop_bit_eq_div uint_div_distrib)
  have "\<exists>mx. rlim K RLIMIT_FSIZE (kern m') = (?w, mx) \<and> ?w \<le> mx"
    using assms(2) rng by (auto simp: svr4_ulimit_def ULIM_MAX_BLOCKSIZE_def Let_def assms(1)
        split: if_splits prod.splits)
  with get show ?thesis by (auto simp: svr4_ulimit_def)
qed

theorem ulimit_round_trip_witness:
  "fst (svr4_ulimit (proc_kernel 0) 1 0 (blank_mach (0x1000, 0x10000))) = 8 \<and>
   fst (svr4_ulimit (proc_kernel 0) 1 0 (snd (svr4_ulimit (proc_kernel 0) 2 4 (blank_mach (0x1000, 0x10000))))) = 4"
proof -
  have "svr4_ulimit (proc_kernel 0) 2 4 (blank_mach (0x1000, 0x10000)) =
      (0, (blank_mach (0x1000, 0x10000))\<lparr>kern := (0x800, 0x10000)\<rparr>)"
    by (simp add: svr4_ulimit_def proc_kernel_def blank_mach_def ULIM_MAX_BLOCKSIZE_def)
  with ulimit_round_trip [of "proc_kernel 0" 4 "blank_mach (0x1000, 0x10000)" _ 0] show ?thesis
    by (simp add: proc_kernel_def svr4_ulimit_def blank_mach_def)
qed

text \<open>
  \<^verbatim>\<open>mmap\<close> has the test for anonymous memory the wrong way round.  A request to map a file reaches Linux with
  the flag for anonymous memory, and a request for anonymous memory reaches it without that flag.
\<close>

lemma mmap_anonymous_inverted:
  "svr4_mmap K addr len prot flags fd off m =
     (let (fp, k) = pe_fget K fd (kern m); m1 = m\<lparr>kern := k\<rparr> in
      if bit flags 8 then do_mmap K 0 addr len prot (flags AND 0x7fffffdf) off m
      else if fp = 0 then (word_of_int (- EBADFD), m1)
      else let (a, m2) = do_mmap K fp addr len prot ((flags AND 0x7fffffff) OR MAP_ANONYMOUS) off m1
           in (a, m2\<lparr>kern := pe_fput K fp (kern m2)\<rparr>))"
proof -
  let ?f = "if flags AND SVR4_MAP_UNIMPL \<noteq> 0 then flags AND NOT SVR4_MAP_UNIMPL else flags"
  have f: "?f = flags AND NOT SVR4_MAP_UNIMPL"
    using and_not_disjoint [of flags SVR4_MAP_UNIMPL] by simp
  have c: "NOT SVR4_MAP_UNIMPL = 0x7fffffdf" by (simp add: SVR4_MAP_UNIMPL_def)
  have b: "(flags AND 0x7fffffdf) AND SVR4_MAP_ANONYMOUS = 0 \<longleftrightarrow> \<not> bit flags 8"
    using and_pow [of flags 8] by (simp add: SVR4_MAP_ANONYMOUS_def and.assoc)
  have o: "((flags AND 0x7fffffdf) AND NOT SVR4_MAP_ANONYMOUS) OR MAP_ANONYMOUS = (flags AND 0x7fffffff) OR MAP_ANONYMOUS"
    if "\<not> bit flags 8"
    using and_not_disjoint [of "flags AND 0x7fffffdf" SVR4_MAP_ANONYMOUS] that by (simp add: b bit.disj_conj_distrib2)
  show ?thesis unfolding svr4_mmap_def f unfolding c
    by (cases "bit flags 8") (simp_all add: Let_def b o split_def)
qed

text \<open>
  Asking a timer for its state always answers 1, and of what is stored the second timeval covers the
  resolution: the word where the program looks for the resolution holds the seconds of the timer.
\<close>

lemma hrtalarm_resolution_lost:
  assumes "get_syscall_parameter (mem m) (regs m) 2 = 1" "get_syscall_parameter (mem m) (regs m) 1 = hcmd"
    and "pe_verify_area K hcmd 52 = 0" "mapped (mem m) hcmd 52"
    and "get_user32 (mem m) hcmd = 0xd" "hrt_clock (get_user32 (mem m) (hcmd + 4)) = Some which"
    and "sys_getitimer K which (kern m) = (r, (interval, val), k)"
  shows "\<exists>m'. ibcs_hrtalarm K m = (1, m') \<and>
    copy_from_user (mem m') (hcmd + 8) 16 = (timeval_bytes interval @ timeval_bytes val, 0)"
proof -
  let ?bs = "timeval_bytes interval @ timeval_bytes val"
  let ?mm = "snd (put_user (mem m) (hcmd + 16) (bytes32 1000000))"
  have len: "length ?bs = 16" by (simp add: timeval_bytes_def)
  have eq: "ibcs_hrtalarm K m = (1, m\<lparr>kern := k, mem := snd (copy_to_user ?mm (hcmd + 8) ?bs)\<rparr>)"
    using assms by (simp add: ibcs_hrtalarm_def Let_def)
  have "mapped ?mm (hcmd + 8) 16"
    using mapped_inside [OF assms(4), of 8 16] by simp
  then have "copy_from_user (snd (copy_to_user ?mm (hcmd + 8) ?bs)) (hcmd + 8) 16 = (?bs, 0)"
    using copy_round_trip [of ?mm "hcmd + 8" ?bs] unfolding len by simp
  with eq show ?thesis by simp
qed

end
