(* ===== verification/Svr4_System.thy ===== *)
theory Svr4_System
  imports Svr4_Open Abi_Personality
begin

text \<open>
  What System V programs ask about the system: \<^verbatim>\<open>abi/svr4/sysconf.c\<close>, \<^verbatim>\<open>utsname.c\<close>, \<^verbatim>\<open>sysinfo.c\<close>, \<^verbatim>\<open>sysfs.c\<close>,
  \<^verbatim>\<open>statvfs.c\<close> and \<^verbatim>\<open>sysi86.c\<close>.  Linux is the record \<open>sys_env\<close>; the names of the system are the arrays of
  Linux' \<^verbatim>\<open>system_utsname\<close>.  Messages of \<^verbatim>\<open>printk\<close> and of the trace macros are left out.
\<close>

section \<open>Linux\<close>

record new_utsname =
  u_sysname :: "u8 list"
  u_nodename :: "u8 list"
  u_release :: "u8 list"
  u_version :: "u8 list"
  u_machine :: "u8 list"
  u_domainname :: "u8 list"

record kstatvfs =
  kv_bsize :: u32
  kv_blocks :: u64
  kv_bfree :: u64
  kv_bavail :: u64
  kv_files :: u64
  kv_ffree :: u64
  kv_namelen :: u32

record 'k sys_env =
  se_verify_area :: "u32 \<Rightarrow> nat \<Rightarrow> int"
  system_utsname :: "'k \<Rightarrow> new_utsname"
  UTS_VERSION :: "u8 list"
  NGROUPS_MAX :: int
  CHILD_MAX :: int
  OPEN_MAX :: int
  LX_ARG_MAX :: int
  HZ :: int
  num_online_cpus :: "'k \<Rightarrow> int"
  max_mapnr :: u32
  totalram :: "'k \<Rightarrow> u32"
  sys_sysfs :: "int \<Rightarrow> int \<Rightarrow> u32 \<Rightarrow> 'k mach \<Rightarrow> int \<times> 'k mach"
  sys_stime :: "u32 \<Rightarrow> 'k mach \<Rightarrow> int \<times> 'k mach"
  sys_sethostname :: "u32 \<Rightarrow> int \<Rightarrow> 'k mach \<Rightarrow> int \<times> 'k mach"
  se_path_walk :: "u32 \<Rightarrow> 'k mach \<Rightarrow> int \<times> nat \<times> 'k"
  se_path_release :: "nat \<Rightarrow> 'k \<Rightarrow> 'k"
  se_fget :: "int \<Rightarrow> 'k \<Rightarrow> nat \<times> 'k"
  se_fput :: "nat \<Rightarrow> 'k \<Rightarrow> 'k"
  se_vfs_statfs :: "nat \<Rightarrow> 'k \<Rightarrow> int \<times> kstatvfs \<times> 'k"
  sb_dev :: "nat \<Rightarrow> 'k \<Rightarrow> u32"
  fs_name :: "nat \<Rightarrow> 'k \<Rightarrow> u8 list"
  is_rdonly :: "nat \<Rightarrow> 'k \<Rightarrow> bool"
  mnt_nosuid :: "nat \<Rightarrow> 'k \<Rightarrow> bool"

abbreviation (input) "PAGE_SHIFT \<equiv> (12::nat)"
abbreviation (input) "PAGE_SIZE \<equiv> (4096::int)"

section \<open>\<^verbatim>\<open>sysconf.c\<close>\<close>

definition svr4_sysconfig :: "'k sys_env \<Rightarrow> int \<Rightarrow> 'k mach \<Rightarrow> int" where
  "svr4_sysconfig K name m =
     (if name = 2 then NGROUPS_MAX K
      else if name = 3 then CHILD_MAX K
      else if name = 4 then OPEN_MAX K
      else if name = 5 then 199009
      else if name = 6 then PAGE_SIZE
      else if name = 7 then HZ K
      else if name = 8 then 4
      else if name = 9 then 0
      else if name = 11 then 4000
      else if name = 12 \<or> name = 13 then num_online_cpus K (kern m)
      else if name = 14 then sint (push_bit (PAGE_SHIFT - 10) (max_mapnr K))
      else if name = 15 \<or> name = 16 then sint (push_bit (PAGE_SHIFT - 10) (max_mapnr K))
      else if name = 17 then 0
      else if name = 18 \<or> name = 19 \<or> name = 20 then 1
      else if name = 21 then 32
      else if name = 23 then (- EINVAL)
      else if name = 10 then LX_ARG_MAX K
      else (- EINVAL))"

definition ibcs_sysconf :: "'k sys_env \<Rightarrow> int \<Rightarrow> int" where
  "ibcs_sysconf K name =
     (if name = 0 then LX_ARG_MAX K
      else if name = 1 then CHILD_MAX K
      else if name = 2 then HZ K
      else if name = 3 then NGROUPS_MAX K
      else if name = 4 then OPEN_MAX K
      else if name = 5 then 1
      else if name = 6 then 1
      else if name = 11 \<or> name = 34 then PAGE_SIZE
      else if name = 7 then 198808
      else (- EINVAL))"

section \<open>\<^verbatim>\<open>utsname.c\<close>\<close>

text \<open>Linux' \<^verbatim>\<open>strnchr\<close>: the first \<open>c\<close> among \<open>n\<close> bytes, not looking beyond the end of the string.\<close>

fun strnchr :: "u8 list \<Rightarrow> nat \<Rightarrow> u8 \<Rightarrow> nat option" where
  "strnchr (b # bs) (Suc n) c =
     (if b = 0 then None else if b = c then Some 0 else map_option Suc (strnchr bs n c))"
| "strnchr _ _ c = None"

text \<open>Where the terminating NUL of a field goes.\<close>

definition uts_end :: "nat \<Rightarrow> u8 list \<Rightarrow> bool \<Rightarrow> nat" where
  "uts_end to_size src dotchop =
     (let len = min (length src) to_size; off = (if len < to_size then len else len - 1)
      in if dotchop then (case strnchr src len 46 of Some p \<Rightarrow> p | None \<Rightarrow> off) else off)"

definition set_utsfield :: "u32 \<Rightarrow> nat \<Rightarrow> u8 list \<Rightarrow> bool \<Rightarrow> umem \<Rightarrow> int \<times> umem" where
  "set_utsfield dest to_size src dotchop mm =
     (let (left, mm) = copy_to_user mm dest (take (min (length src) to_size) src) in
      if left \<noteq> 0 then (- EFAULT, mm)
      else let (err, mm) = put_user mm (dest + of_nat (uts_end to_size src dotchop)) [0]
           in (if err \<noteq> 0 then - EFAULT else 0, mm))"

text \<open>The fields of a name one after the other; the errors, 0 or \<^verbatim>\<open>-EFAULT\<close>, are joined bitwise.\<close>

fun set_utsfields :: "u32 \<Rightarrow> nat \<Rightarrow> (u8 list \<times> bool) list \<Rightarrow> int \<Rightarrow> umem \<Rightarrow> int \<times> umem" where
  "set_utsfields dest sz [] error mm = (error, mm)"
| "set_utsfields dest sz ((src, dotchop) # fs) error mm =
     (let (e, mm) = set_utsfield dest sz src dotchop mm
      in set_utsfields (dest + of_nat sz) sz fs (error OR e) mm)"

definition v7_utsname :: "'k sys_env \<Rightarrow> u32 \<Rightarrow> 'k mach \<Rightarrow> int \<times> 'k mach" where
  "v7_utsname K addr m =
     (let u = system_utsname K (kern m); error = se_verify_area K addr 45 in
      if error \<noteq> 0 then (error, m)
      else let (error, mm) = set_utsfields addr 9
                 [(u_nodename u, True), (u_nodename u, True), (u_release u, False), (u_version u, False),
                  (u_machine u, False)] error (mem m)
           in (error, m\<lparr>mem := mm\<rparr>))"

definition abi_utsname :: "'k sys_env \<Rightarrow> u32 \<Rightarrow> 'k mach \<Rightarrow> int \<times> 'k mach" where
  "abi_utsname K addr m =
     (let u = system_utsname K (kern m); error = se_verify_area K addr 1285 in
      if error \<noteq> 0 then (error, m)
      else let (error, mm) = set_utsfields addr 257
                 [(u_sysname u, False), (u_nodename u, False), (u_release u, False), (u_version u, False),
                  (u_machine u, False)] error (mem m)
           in (error, m\<lparr>mem := mm\<rparr>))"

section \<open>\<^verbatim>\<open>sysinfo.c\<close>\<close>

definition str_bytes :: "string \<Rightarrow> u8 list" where
  "str_bytes s = map of_char s"

text \<open>A C string: the bytes before the first NUL of an array.\<close>

definition c_string :: "u8 list \<Rightarrow> u8 list" where
  "c_string bs = takeWhile (\<lambda>b. b \<noteq> 0) bs"

definition hex_digit :: "u32 \<Rightarrow> u8" where
  "hex_digit d = (if d < 10 then 48 + ucast d else 87 + ucast d)"

text \<open>\<^verbatim>\<open>sprintf(buffer, "%8.8x", n)\<close>.\<close>

definition hex8 :: "u32 \<Rightarrow> u8 list" where
  "hex8 n = map (\<lambda>i. hex_digit (drop_bit (4 * i) n AND 15)) [7, 6, 5, 4, 3, 2, 1, 0]"

text \<open>The string a request is answered with; \<open>serial\<close> is the static serial number.\<close>

definition sysinfo_string :: "'k sys_env \<Rightarrow> u32 \<Rightarrow> int \<Rightarrow> 'k mach \<Rightarrow> u8 list option" where
  "sysinfo_string K serial cmd m =
     (let u = system_utsname K (kern m) in
      if cmd = 1 \<or> cmd = 108 then Some (c_string (u_sysname u))
      else if cmd = 2 \<or> cmd = 102 then Some (c_string (u_nodename u))
      else if cmd = 4 then Some (str_bytes ''2'')
      else if cmd = 3 then Some (c_string (u_release u))
      else if cmd = 105 \<or> cmd = 5 then Some (c_string (u_machine u))
      else if cmd = 6 \<or> cmd = 100 then Some (str_bytes ''IA32'')
      else if cmd = 101 then Some (str_bytes ''PCI ISA'')
      else if cmd = 8 \<or> cmd = 103 then Some (str_bytes ''Generic AT'')
      else if cmd = 104 then Some (UTS_VERSION K)
      else if cmd = 10 then Some (str_bytes ''/etc/inittab'')
      else if cmd = 7 then Some (hex8 serial)
      else if cmd = 106 then Some (str_bytes ''Linux'')
      else if cmd = 107 then Some (str_bytes ''LBT'')
      else if cmd = 9 then Some (c_string (u_domainname u))
      else if cmd = 109 then Some (str_bytes ''500000'')
      else None)"

text \<open>The result is the answer, the serial number afterwards and the machine; the count is compared unsigned.\<close>

definition svr4_sysinfo :: "'k sys_env \<Rightarrow> u32 \<Rightarrow> int \<Rightarrow> u32 \<Rightarrow> u32 \<Rightarrow> 'k mach \<Rightarrow> int \<times> u32 \<times> 'k mach" where
  "svr4_sysinfo K serial cmd buf count m =
     (let serial = (if cmd = 7 \<and> serial = 0 then 0xdeadbeef else serial) in
      case sysinfo_string K serial cmd m of
        None \<Rightarrow> (- EINVAL, serial, m)
      | Some s \<Rightarrow>
          let slen = (if unat count < length s + 1 then unat count else length s + 1);
              (left, mm) = copy_to_user (mem m) buf (take slen (s @ [0]))
          in (if left \<noteq> 0 then - EFAULT else int slen, serial, m\<lparr>mem := mm\<rparr>))"

section \<open>\<^verbatim>\<open>sysfs.c\<close>\<close>

text \<open>
  The name of a file system with a known magic number, which is not negative by then; the labels of the
  source that are negative as \<^verbatim>\<open>int\<close> never match.
\<close>

definition fs_magic_name :: "u32 \<Rightarrow> int \<Rightarrow> string" where
  "fs_magic_name pers n =
     (if n = 0xef53 \<or> n = 0xef51 then (if is_cur_personality pers PER_SCOSVR3 \<noteq> 0 then ''HTFS'' else ''ext2'')
      else if n = 0x137d then ''ext''
      else if n = 0x9660 then ''iso9660''
      else if n = 0x4d44 then ''msdos''
      else if n = 0x6969 then ''nfs''
      else if n = 0x9fa0 then ''proc''
      else if n = 0xe849 then ''hpfs''
      else if n = 0x137f \<or> n = 0x138f \<or> n = 0x2468 \<or> n = 0x2478 then ''minix''
      else if n = 0x564c then ''ncpfs''
      else if n = 0x517b then ''smbfs''
      else if n = 0x00011954 then ''ufs''
      else if n = 0x012fd16d then ''xiafs''
      else if n = 0x012ff7b3 + 1 then ''xenix''
      else if n = 0x012ff7b3 + 2 \<or> n = 0x012ff7b3 + 3 then ''sysv''
      else if n = 0x012ff7b3 + 4 then ''coherent''
      else '''')"

definition svr4_sysfs :: "'k sys_env \<Rightarrow> int \<Rightarrow> u32 \<Rightarrow> u32 \<Rightarrow> 'k mach \<Rightarrow> int \<times> 'k mach" where
  "svr4_sysfs K cmd arg1 arg2 m =
     (if cmd = 1 then sys_sysfs K cmd (sint arg1) arg2 m
      else if cmd = 3 then sys_sysfs K cmd (sint arg1) arg2 m
      else if cmd = 2
      then (let arg1 = sint (if arg1 AND 0x80000000 \<noteq> 0 then arg1 AND 0xffff else arg1);
                (n, m) = sys_sysfs K 3 0 0 m in
            if 0 \<le> arg1 \<and> arg1 < n then sys_sysfs K cmd (arg1 - 1) arg2 m
            else let (left, mm) = copy_to_user (mem m) arg2 (str_bytes (fs_magic_name (cur_pers m) arg1) @ [0])
                 in (if left \<noteq> 0 then - EFAULT else 0, m\<lparr>mem := mm\<rparr>))
      else (- EINVAL, m))"

section \<open>\<^verbatim>\<open>statvfs.c\<close>\<close>

record struct_svr4_statvfs =
  sv_bsize :: u32
  sv_frsize :: u32
  sv_blocks :: u32
  sv_bfree :: u32
  sv_bavail :: u32
  sv_files :: u32
  sv_free :: u32
  sv_sid :: u32
  sv_basetype :: "u8 list"
  sv_flag :: u32
  sv_namemax :: u32

definition statvfs_bytes :: "struct_svr4_statvfs \<Rightarrow> u8 list" where
  "statvfs_bytes s =
     bytes32 (sv_bsize s) @ bytes32 (sv_frsize s) @ bytes32 (sv_blocks s) @ bytes32 (sv_bfree s) @
     bytes32 (sv_bavail s) @ bytes32 (sv_files s) @ bytes32 (sv_free s) @ bytes32 (sv_sid s) @
     sv_basetype s @ bytes32 (sv_flag s) @ bytes32 (sv_namemax s) @ replicate 96 0"

text \<open>\<^verbatim>\<open>strcpy\<close> into an array of 16 zeros; a longer name runs over the end of it.\<close>

definition basetype :: "u8 list \<Rightarrow> u8 list option" where
  "basetype name = (if length name < 16 then Some (name @ replicate (16 - length name) 0) else None)"

definition report_statvfs :: "'k sys_env \<Rightarrow> nat \<Rightarrow> u32 \<Rightarrow> 'k mach \<Rightarrow> (int \<times> 'k mach) option" where
  "report_statvfs K nd bufp m =
     (let (error, s, k) = se_vfs_statfs K nd (kern m); m = m\<lparr>kern := k\<rparr> in
      if error \<noteq> 0 then Some (error, m)
      else map_option (\<lambda>name.
        let buf = \<lparr>sv_bsize = kv_bsize s, sv_frsize = kv_bsize s, sv_blocks = ucast (kv_blocks s),
                   sv_bfree = ucast (kv_bfree s), sv_bavail = ucast (kv_bavail s), sv_files = ucast (kv_files s),
                   sv_free = ucast (kv_ffree s), sv_sid = sb_dev K nd k, sv_basetype = name,
                   sv_flag = (if is_rdonly K nd k then 1 else 0) OR (if mnt_nosuid K nd k then 2 else 0),
                   sv_namemax = kv_namelen s\<rparr>;
            (left, mm) = copy_to_user (mem m) bufp (statvfs_bytes buf)
        in (if left \<noteq> 0 then - EFAULT else 0, m\<lparr>mem := mm\<rparr>)) (basetype (fs_name K nd k)))"

definition svr4_statvfs :: "'k sys_env \<Rightarrow> u32 \<Rightarrow> u32 \<Rightarrow> 'k mach \<Rightarrow> (int \<times> 'k mach) option" where
  "svr4_statvfs K filename bufp m =
     (let (error, nd, k) = se_path_walk K filename m; m = m\<lparr>kern := k\<rparr> in
      if error \<noteq> 0 then Some (error, m)
      else map_option (\<lambda>(error, m). (error, m\<lparr>kern := se_path_release K nd (kern m)\<rparr>)) (report_statvfs K nd bufp m))"

definition svr4_fstatvfs :: "'k sys_env \<Rightarrow> int \<Rightarrow> u32 \<Rightarrow> 'k mach \<Rightarrow> (int \<times> 'k mach) option" where
  "svr4_fstatvfs K fd bufp m =
     (let (fp, k) = se_fget K fd (kern m); m = m\<lparr>kern := k\<rparr> in
      if fp = 0 then Some (- EBADF, m)
      else map_option (\<lambda>(error, m). (error, m\<lparr>kern := se_fput K fp (kern m)\<rparr>)) (report_statvfs K fp bufp m))"

section \<open>\<^verbatim>\<open>sysi86.c\<close>\<close>

definition svr4_sysi86 :: "'k sys_env \<Rightarrow> int \<Rightarrow> u32 \<Rightarrow> 'k mach \<Rightarrow> int \<times> 'k mach" where
  "svr4_sysi86 K cmd arg1 m =
     (if cmd = 40
      then (let (e, mm) = put_user (mem m) arg1 (bytes32 3) in (e, m\<lparr>mem := mm\<rparr>))
      else if cmd = 54 then sys_stime K arg1 m
      else if cmd = 56 then sys_sethostname K arg1 7 m
      else if cmd = 65 then (sint (push_bit PAGE_SHIFT (totalram K (kern m))), m)
      else if cmd = 75
      then (let (bs, left) = copy_from_user (mem m) arg1 20 in (if left \<noteq> 0 then - EFAULT else - EINVAL, m))
      else (- EINVAL, m))"

section \<open>What the calls tell\<close>

lemma strnchr_Some:
  "strnchr bs n c = Some p \<Longrightarrow> p < n \<and> p < length bs \<and> takeWhile (\<lambda>b. b \<noteq> 0) (take p bs) = take p bs \<and>
     (\<forall>k. takeWhile (\<lambda>b. b \<noteq> 0 \<and> b \<noteq> c) (take k bs) = take (min p k) bs)"
proof (induction bs n c arbitrary: p rule: strnchr.induct)
  case (1 b bs n c)
  then show ?case by (auto split: if_splits simp: take_Cons split: nat.splits)
qed simp_all

lemma strnchr_None:
  "strnchr bs n c = None \<Longrightarrow> k \<le> n \<Longrightarrow>
     takeWhile (\<lambda>b. b \<noteq> 0 \<and> b \<noteq> c) (take k bs) = takeWhile (\<lambda>b. b \<noteq> 0) (take k bs)"
proof (induction bs n c arbitrary: k rule: strnchr.induct)
  case (1 b bs n c)
  then show ?case by (cases k) (auto split: if_splits)
qed simp_all

text \<open>Reading a NUL-terminated string of at most \<open>n\<close> bytes back from user memory.\<close>

definition user_string :: "umem \<Rightarrow> u32 \<Rightarrow> nat \<Rightarrow> u8 list" where
  "user_string mm a n = c_string (fst (copy_from_user mm a n))"

lemma copy_from_user_nth:
  "mapped mm a n \<Longrightarrow> i < n \<Longrightarrow> fst (copy_from_user mm a n) ! i = the (mm (a + of_nat i))"
proof (induction n arbitrary: a i)
  case (Suc n)
  then show ?case
    by (cases i) (auto simp: mapped_Suc split_def Let_def algebra_simps split: option.splits)
qed simp

lemma copy_to_user_nth:
  assumes "mapped mm a (length bs)" "length bs < 2 ^ 32" "i < length bs"
  shows "snd (copy_to_user mm a bs) (a + of_nat i) = Some (bs ! i)"
proof -
  let ?mm = "snd (copy_to_user mm a bs)"
  have m: "mapped ?mm a (length bs)"
    using assms(1) by (simp add: mapped_dom [OF copy_to_user_dom])
  have "the (?mm (a + of_nat i)) = bs ! i"
    using copy_from_user_nth [OF m assms(3)] copy_round_trip [OF assms(1,2)] by simp
  moreover have "?mm (a + of_nat i) \<noteq> None" using m assms(3) by (simp add: mapped_def)
  ultimately show ?thesis by auto
qed

text \<open>Writing one byte of a string: a NUL at position \<open>k\<close> ends it there, if it was not ended before.\<close>

lemma c_string_cut:
  "k < length bs \<Longrightarrow> c_string (bs[k := 0]) = takeWhile (\<lambda>b. b \<noteq> 0) (take k bs)"
  unfolding c_string_def
proof (induction bs arbitrary: k)
  case (Cons b bs)
  then show ?case by (cases k) auto
qed simp

lemma uts_end_le:
  assumes "0 < sz" "0 < length name"
  shows "uts_end sz name dotchop < sz" "uts_end sz name dotchop \<le> length name"
proof -
  let ?n = "min (length name) sz"
  have aux: "p \<le> (if n < sz then n else n - 1)" if "p < n" for p n using that by auto
  have "uts_end sz name dotchop \<le> (if ?n < sz then ?n else ?n - 1)"
  proof (cases "strnchr name ?n 46")
    case (Some p)
    then have "p < ?n" by (rule conjunct1 [OF strnchr_Some])
    then have "p \<le> (if ?n < sz then ?n else ?n - 1)" by (rule aux)
    then show ?thesis unfolding uts_end_def Let_def Some option.case by (cases dotchop) simp_all
  next
    case None
    show ?thesis unfolding uts_end_def Let_def None option.case by (cases dotchop) simp_all
  qed
  also have "\<dots> < sz" using assms(1) by (cases "?n < sz") simp_all
  finally show "uts_end sz name dotchop < sz" .
  have "(if n < sz then n else n - 1) \<le> n" for n by auto
  then have "(if ?n < sz then ?n else ?n - 1) \<le> length name" by (rule order_trans [OF _ min.cobounded1])
  with \<open>uts_end sz name dotchop \<le> _\<close> show "uts_end sz name dotchop \<le> length name" by (rule order_trans)
qed

text \<open>The text before the terminating NUL.\<close>

lemma uts_end_text:
  assumes "0 < sz" "0 < length name"
  shows "takeWhile (\<lambda>b. b \<noteq> 0) (take (uts_end sz name dotchop) name) =
    takeWhile (\<lambda>b. b \<noteq> 0 \<and> (dotchop \<longrightarrow> b \<noteq> 46)) (take (sz - 1) name)"
proof (cases "dotchop \<and> strnchr name (min (length name) sz) 46 \<noteq> None")
  case True
  then obtain p where p: "strnchr name (min (length name) sz) 46 = Some p" by auto
  have "p \<le> sz - 1" using conjunct1 [OF strnchr_Some [OF p]] by linarith
  with True p strnchr_Some [OF p] show ?thesis by (simp add: uts_end_def min_absorb1)
next
  case False
  have "take (uts_end sz name dotchop) name = take (sz - 1) name"
    using False assms by (auto simp: uts_end_def Let_def min_def split: option.splits)
  moreover have "take (sz - 1) name = take (min (length name) (sz - 1)) name" by (simp add: min_def)
  moreover have "dotchop \<Longrightarrow> strnchr name (min (length name) sz) 46 = None" using False by simp
  then have "dotchop \<Longrightarrow> takeWhile (\<lambda>b. b \<noteq> 0 \<and> b \<noteq> 46) (take (min (length name) (sz - 1)) name) =
      takeWhile (\<lambda>b. b \<noteq> 0) (take (min (length name) (sz - 1)) name)"
    by (rule strnchr_None) (simp_all add: min_le_iff_disj)
  ultimately show ?thesis by (cases dotchop) simp_all
qed

text \<open>A field after its update: the copied prefix and what was behind it, with the NUL put in.\<close>

lemma set_utsfield_bytes:
  assumes "mapped mm dest sz" "0 < sz" "sz < 2 ^ 32" "0 < length name"
  defines "len \<equiv> min (length name) sz"
  shows "\<exists>mm'. set_utsfield dest sz name dotchop mm = (0, mm') \<and> dom mm' = dom mm \<and>
    fst (copy_from_user mm' dest sz) =
      (take len name @ drop len (fst (copy_from_user mm dest sz)))[uts_end sz name dotchop := 0] \<and>
    (\<forall>x. sz \<le> unat (x - dest) \<longrightarrow> mm' x = mm x)"
proof -
  let ?off = "uts_end sz name dotchop" and ?bs = "take len name"
  let ?mm = "snd (copy_to_user mm dest ?bs)"
  let ?mm' = "snd (put_user ?mm (dest + of_nat ?off) [0])"
  have len: "len \<le> sz" "length ?bs = len" by (simp_all add: len_def)
  have off: "?off < sz" by (rule uts_end_le(1) [OF assms(2,4)])
  have m1: "mapped mm dest (length ?bs)" using mapped_inside [OF assms(1), of 0 len] len by simp
  have m2: "mapped ?mm (dest + of_nat ?off) (length [0::u8])"
    using mapped_inside [OF assms(1), of ?off 1] off by (simp add: mapped_dom [OF copy_to_user_dom])
  have put: "?mm' = ?mm(dest + of_nat ?off \<mapsto> 0)" "fst (put_user ?mm (dest + of_nat ?off) [0]) = 0"
    using m2 by (auto simp: put_user_def mapped_def)
  have eq: "set_utsfield dest sz name dotchop mm = (0, ?mm')"
    using m1 put(2) copy_to_user_ok_iff [of mm dest ?bs] by (simp add: set_utsfield_def len_def split_def)
  have dom: "dom ?mm' = dom mm" by (simp add: copy_to_user_dom)
  have "fst (copy_from_user ?mm' dest sz) = (?bs @ drop len (fst (copy_from_user mm dest sz)))[?off := 0]"
  proof (rule nth_equalityI)
    show "length (fst (copy_from_user ?mm' dest sz)) = length ((?bs @ drop len (fst (copy_from_user mm dest sz)))[?off := 0])"
      using len by simp
    fix i assume "i < length (fst (copy_from_user ?mm' dest sz))"
    then have i: "i < sz" by simp
    have "fst (copy_from_user ?mm' dest sz) ! i = the (?mm' (dest + of_nat i))"
      by (rule copy_from_user_nth [OF _ i]) (simp add: mapped_dom [OF dom] assms(1))
    also have "\<dots> = (if i = ?off then 0 else the (?mm (dest + of_nat i)))"
      using of_nat_offset [of i ?off dest] i off assms(3) by (auto simp: put(1))
    also have "the (?mm (dest + of_nat i)) = (?bs @ drop len (fst (copy_from_user mm dest sz))) ! i"
    proof (cases "i < len")
      case True
      then show ?thesis using copy_to_user_nth [OF m1, of i] len assms(3) by (simp add: nth_append)
    next
      case False
      have "?mm (dest + of_nat i) = mm (dest + of_nat i)"
      proof (rule copy_to_user_frame)
        fix j assume "j < length ?bs"
        with False have "j \<noteq> i" "j < 2 ^ 32" using len assms(3) by auto
        then show "dest + of_nat i \<noteq> dest + of_nat j" using of_nat_offset [of i j dest] i assms(3) by simp
      qed
      then show ?thesis using False len i copy_from_user_nth [OF assms(1) i] by (simp add: nth_append)
    qed
    finally show "fst (copy_from_user ?mm' dest sz) ! i = (?bs @ drop len (fst (copy_from_user mm dest sz)))[?off := 0] ! i"
      using i len by (simp add: nth_list_update)
  qed
  moreover have "?mm' x = mm x" if "sz \<le> unat (x - dest)" for x
    using put_inside [of ?off "[0]" sz x dest ?mm] copy_inside [of 0 ?bs sz x dest mm] off len that by simp
  ultimately show ?thesis using eq dom by blast
qed

lemma set_utsfield_string:
  assumes "mapped mm dest sz" "0 < sz" "sz < 2 ^ 32" "0 < length name"
  shows "\<exists>mm'. set_utsfield dest sz name dotchop mm = (0, mm') \<and> dom mm' = dom mm \<and>
    user_string mm' dest sz = takeWhile (\<lambda>b. b \<noteq> 0 \<and> (dotchop \<longrightarrow> b \<noteq> 46)) (take (sz - 1) name) \<and>
    (\<forall>x. sz \<le> unat (x - dest) \<longrightarrow> mm' x = mm x)"
proof -
  let ?off = "uts_end sz name dotchop" and ?old = "fst (copy_from_user mm dest sz)"
  obtain mm' where mm': "set_utsfield dest sz name dotchop mm = (0, mm')" "dom mm' = dom mm"
      "fst (copy_from_user mm' dest sz) = (take (min (length name) sz) name @ drop (min (length name) sz) ?old)[?off := 0]"
      "\<forall>x. sz \<le> unat (x - dest) \<longrightarrow> mm' x = mm x"
    using set_utsfield_bytes [OF assms, of dotchop] by blast
  have "?off < sz" "?off \<le> min (length name) sz"
    using uts_end_le [OF assms(2,4), of dotchop] by auto
  then have "user_string mm' dest sz = takeWhile (\<lambda>b. b \<noteq> 0) (take ?off name)"
    unfolding user_string_def mm'(3) by (subst c_string_cut) (auto simp: min_absorb1)
  with mm' uts_end_text [OF assms(2,4)] show ?thesis by auto
qed

lemma user_string_cong:
  assumes "\<And>x. unat (x - a) < n \<Longrightarrow> mm' x = mm x" "n \<le> 2 ^ 32"
  shows "user_string mm' a n = user_string mm a n"
proof -
  have "copy_from_user mm' a n = copy_from_user mm a n"
    by (rule copy_from_user_cong, rule assms(1)) (use assms(2) in \<open>simp add: unat_of_nat take_bit_nat_eq_self\<close>)
  then show ?thesis by (simp add: user_string_def)
qed

text \<open>The text of a field: up to the end of the name, to the first dot if wanted, and what fits.\<close>

definition uts_text :: "nat \<Rightarrow> u8 list \<times> bool \<Rightarrow> u8 list" where
  "uts_text sz f = takeWhile (\<lambda>b. b \<noteq> 0 \<and> (snd f \<longrightarrow> b \<noteq> 46)) (take (sz - 1) (fst f))"

lemma uts_text_fits: "0 < sz \<Longrightarrow> length (uts_text sz f) < sz"
  unfolding uts_text_def by (rule le_less_trans [OF length_takeWhile_le]) simp

lemma field_before:
  fixes x dest :: u32
  assumes "unat (x - dest) < sz" "sz + n \<le> 2 ^ 32"
  shows "n \<le> unat (x - (dest + of_nat sz))"
proof -
  have "sz < 2 ^ 32 \<or> n = 0" using assms(2) by linarith
  moreover have "n \<le> unat (x - (dest + of_nat sz))" if "sz < 2 ^ 32"
  proof -
    have "unat (x - dest) < unat (of_nat sz :: u32)" using assms(1) that by (simp add: unat_of_nat take_bit_nat_eq_self)
    then have "\<not> (of_nat sz :: u32) \<le> x - dest" by (simp add: word_le_nat_alt)
    then have "unat ((x - dest) - of_nat sz) = 2 ^ 32 + unat (x - dest) - unat (of_nat sz :: u32)"
      by (simp add: unat_sub_if' word_le_nat_alt)
    also have "unat (of_nat sz :: u32) = sz" using that by (simp add: unat_of_nat take_bit_nat_eq_self)
    finally show ?thesis using assms(2) by (simp add: diff_diff_eq)
  qed
  ultimately show ?thesis by auto
qed

lemma field_behind:
  fixes x dest :: u32
  assumes "sz + n \<le> unat (x - dest)"
  shows "n \<le> unat (x - (dest + of_nat sz))"
proof -
  have "unat (x - dest) < 2 ^ LENGTH(32)" by (rule unsigned_less)
  then have lt: "sz < 2 ^ 32" using assms by simp
  then have u: "unat (of_nat sz :: u32) = sz" by (simp add: unat_of_nat take_bit_nat_eq_self)
  then have "(of_nat sz :: u32) \<le> x - dest" using assms by (simp add: word_le_nat_alt)
  then have "unat ((x - dest) - of_nat sz) = unat (x - dest) - sz" using u by (simp add: unat_sub)
  then show ?thesis using assms by (simp add: diff_diff_eq)
qed

lemma set_utsfields_text:
  assumes "mapped mm dest (sz * length fs)" "0 < sz" "sz * length fs < 2 ^ 32" "\<forall>f \<in> set fs. fst f \<noteq> []"
  shows "\<exists>mm'. set_utsfields dest sz fs e mm = (e, mm') \<and>
    (\<forall>i < length fs. user_string mm' (dest + of_nat (i * sz)) sz = uts_text sz (fs ! i)) \<and>
    (\<forall>x. sz * length fs \<le> unat (x - dest) \<longrightarrow> mm' x = mm x)"
  using assms
proof (induction fs arbitrary: dest mm)
  case Nil
  then show ?case by simp
next
  case (Cons f fs)
  obtain name chop where f: "f = (name, chop)" by fastforce
  have sz: "mapped mm dest sz" "sz < 2 ^ 32" "0 < length name"
    using mapped_inside [OF Cons.prems(1), of 0 sz] Cons.prems(3,4) f by auto
  obtain mm1 where mm1: "set_utsfield dest sz name chop mm = (0, mm1)" "dom mm1 = dom mm"
      "user_string mm1 dest sz = uts_text sz f" "\<forall>x. sz \<le> unat (x - dest) \<longrightarrow> mm1 x = mm x"
    using set_utsfield_string [OF sz(1) Cons.prems(2) sz(2,3), of chop] f by (auto simp: uts_text_def)
  have "mapped mm1 (dest + of_nat sz) (sz * length fs)"
    using mapped_inside [OF Cons.prems(1), of sz "sz * length fs"] by (simp add: mapped_dom [OF mm1(2)])
  then obtain mm2 where mm2: "set_utsfields (dest + of_nat sz) sz fs e mm1 = (e, mm2)"
      "\<forall>i < length fs. user_string mm2 (dest + of_nat sz + of_nat (i * sz)) sz = uts_text sz (fs ! i)"
      "\<forall>x. sz * length fs \<le> unat (x - (dest + of_nat sz)) \<longrightarrow> mm2 x = mm1 x"
    using Cons.IH [of mm1 "dest + of_nat sz"] Cons.prems(2-4) by auto
  have "user_string mm2 dest sz = user_string mm1 dest sz"
    using mm2(3) field_before [of _ dest sz "sz * length fs"] sz(2) Cons.prems(3) by (intro user_string_cong) simp_all
  then have "user_string mm2 (dest + of_nat (i * sz)) sz = uts_text sz ((f # fs) ! i)" if "i < length (f # fs)" for i
    using that mm1(3) mm2(2) by (cases i) (auto simp: algebra_simps)
  moreover have "mm2 x = mm x" if "sz * length (f # fs) \<le> unat (x - dest)" for x
    using that mm2(3) mm1(4) field_behind [of sz "sz * length fs" x dest] by simp
  ultimately show ?case using mm1(1) mm2(1) by (auto simp: f)
qed

text \<open>A kernel with short names and two file system types, Linux numbers 0 and 1.\<close>

definition sys_kernel :: "unit sys_env" where
  "sys_kernel =
     \<lparr>se_verify_area = (\<lambda>a n. 0),
      system_utsname = (\<lambda>k. \<lparr>u_sysname = str_bytes ''Linux'', u_nodename = str_bytes ''a.example.org'',
        u_release = str_bytes ''2.6.9'', u_version = str_bytes ''#1 SMP 2005'', u_machine = str_bytes ''i686'',
        u_domainname = str_bytes ''none''\<rparr>),
      UTS_VERSION = str_bytes ''#1'', NGROUPS_MAX = 65536, CHILD_MAX = 999, OPEN_MAX = 256, LX_ARG_MAX = 131072, HZ = 100,
      num_online_cpus = (\<lambda>k. 1), max_mapnr = 0x10000, totalram = (\<lambda>k. 0x10000),
      sys_sysfs = (\<lambda>cmd a b m. (if cmd = 3 then 2 else if 0 \<le> a \<and> a < 2 then a else - EINVAL, m)),
      sys_stime = (\<lambda>a m. (0, m)), sys_sethostname = (\<lambda>a n m. (0, m)), se_path_walk = (\<lambda>a m. (0, 1, kern m)),
      se_path_release = (\<lambda>n k. k), se_fget = (\<lambda>fd k. (1, k)), se_fput = (\<lambda>f k. k),
      se_vfs_statfs = (\<lambda>n k. (0, \<lparr>kv_bsize = 4096, kv_blocks = 9, kv_bfree = 5, kv_bavail = 4, kv_files = 3,
        kv_ffree = 2, kv_namelen = 255\<rparr>, k)),
      sb_dev = (\<lambda>n k. 0x301), fs_name = (\<lambda>n k. str_bytes ''ext2''), is_rdonly = (\<lambda>n k. False), mnt_nosuid = (\<lambda>n k. False)\<rparr>"

text \<open>
  C29: The names of the system fit their fields.  When the structure is mapped, each of its five fields ends up
  with a terminated string: the name of Linux up to its end, cut at the first dot for the first two fields of
  the old structure, and shortened to 8 or 256 bytes; nothing behind the structure changes.  The field for the
  name of the system holds the name of the node in the old structure.
\<close>

theorem utsname_fields_fit:
  assumes "se_verify_area K addr 45 = 0" "se_verify_area K addr 1285 = 0" "mapped (mem m) addr 1285"
    and u: "u = system_utsname K (kern m)"
    and "\<forall>n \<in> {u_sysname u, u_nodename u, u_release u, u_version u, u_machine u}. n \<noteq> []"
    and v7: "v7 = [(u_nodename u, True), (u_nodename u, True), (u_release u, False), (u_version u, False), (u_machine u, False)]"
    and v4: "v4 = map (\<lambda>n. (n, False)) [u_sysname u, u_nodename u, u_release u, u_version u, u_machine u]"
  shows "(\<exists>m'. v7_utsname K addr m = (0, m') \<and>
      (\<forall>i < 5. user_string (mem m') (addr + of_nat (i * 9)) 9 = uts_text 9 (v7 ! i)) \<and>
      (\<forall>x. 45 \<le> unat (x - addr) \<longrightarrow> mem m' x = mem m x)) \<and>
    (\<exists>m'. abi_utsname K addr m = (0, m') \<and>
      (\<forall>i < 5. user_string (mem m') (addr + of_nat (i * 257)) 257 = uts_text 257 (v4 ! i)) \<and>
      (\<forall>x. 1285 \<le> unat (x - addr) \<longrightarrow> mem m' x = mem m x))"
proof
  have "mapped (mem m) addr (9 * length v7)" using mapped_inside [OF assms(3), of 0 45] by (simp add: v7)
  then obtain mm where "set_utsfields addr 9 v7 0 (mem m) = (0, mm)"
      "\<forall>i < 5. user_string mm (addr + of_nat (i * 9)) 9 = uts_text 9 (v7 ! i)"
      "\<forall>x. 45 \<le> unat (x - addr) \<longrightarrow> mm x = mem m x"
    using set_utsfields_text [of "mem m" addr 9 v7 0] assms(5) by (auto simp: v7)
  with assms(1) show "\<exists>m'. v7_utsname K addr m = (0, m') \<and>
      (\<forall>i < 5. user_string (mem m') (addr + of_nat (i * 9)) 9 = uts_text 9 (v7 ! i)) \<and>
      (\<forall>x. 45 \<le> unat (x - addr) \<longrightarrow> mem m' x = mem m x)"
    unfolding v7_utsname_def Let_def v7 u by auto
next
  have "mapped (mem m) addr (257 * length v4)" using assms(3) by (simp add: v4)
  then obtain mm where "set_utsfields addr 257 v4 0 (mem m) = (0, mm)"
      "\<forall>i < 5. user_string mm (addr + of_nat (i * 257)) 257 = uts_text 257 (v4 ! i)"
      "\<forall>x. 1285 \<le> unat (x - addr) \<longrightarrow> mm x = mem m x"
    using set_utsfields_text [of "mem m" addr 257 v4 0] assms(5) by (auto simp: v4)
  with assms(2) show "\<exists>m'. abi_utsname K addr m = (0, m') \<and>
      (\<forall>i < 5. user_string (mem m') (addr + of_nat (i * 257)) 257 = uts_text 257 (v4 ! i)) \<and>
      (\<forall>x. 1285 \<le> unat (x - addr) \<longrightarrow> mem m' x = mem m x)"
    unfolding abi_utsname_def Let_def v4 u list.map by auto
qed

theorem utsname_fields_fit_witness:
  "\<exists>m'. v7_utsname sys_kernel 0x8000 (blank_mach ()) = (0, m') \<and>
     user_string (mem m') 0x8000 9 = str_bytes ''a'' \<and> user_string (mem m') 0x801b 9 = str_bytes ''#1 SMP 2''"
proof -
  define u where "u = system_utsname sys_kernel (kern (blank_mach ()))"
  let ?v7 = "[(u_nodename u, True), (u_nodename u, True), (u_release u, False), (u_version u, False), (u_machine u, False)]"
  have "\<exists>m'. v7_utsname sys_kernel 0x8000 (blank_mach ()) = (0, m') \<and>
      (\<forall>i < 5. user_string (mem m') (0x8000 + of_nat (i * 9)) 9 = uts_text 9 (?v7 ! i))"
    using utsname_fields_fit [OF _ _ _ u_def _ refl refl, of "0x8000"]
    by (auto simp: u_def sys_kernel_def str_bytes_def)
  then obtain m' where m': "v7_utsname sys_kernel 0x8000 (blank_mach ()) = (0, m')"
      "\<forall>i < 5. user_string (mem m') (0x8000 + of_nat (i * 9)) 9 = uts_text 9 (?v7 ! i)" by blast
  from m'(2) [THEN spec, of 0] m'(2) [THEN spec, of 3] m'(1) show ?thesis
    by (simp add: uts_text_def u_def sys_kernel_def str_bytes_def)
qed

text \<open>
  The buffer of \<^verbatim>\<open>sysinfo\<close> gets as many bytes as the count allows, of the string and its NUL, and the
  call answers how many.  The count is compared unsigned: a negative one does not limit anything.
\<close>

lemma sysinfo_copies:
  assumes "sysinfo_string K (if cmd = 7 \<and> serial = 0 then 0xdeadbeef else serial) cmd m = Some s"
    and "length s < 2 ^ 31" "mapped (mem m) buf (length s + 1)"
    and n_def: "n = min (unat count) (length s + 1)"
  shows "\<exists>serial' m'. svr4_sysinfo K serial cmd buf count m = (int n, serial', m') \<and>
    copy_from_user (mem m') buf n = (take n (s @ [0]), 0) \<and>
    (\<forall>x. n \<le> unat (x - buf) \<longrightarrow> mem m' x = mem m x) \<and> (count \<ge> 0x80000000 \<longrightarrow> n = length s + 1)"
proof -
  let ?bs = "take n (s @ [0])"
  let ?mm = "snd (copy_to_user (mem m) buf ?bs)"
  have n: "n \<le> length s + 1" "length ?bs = n" "n < 2 ^ 32" using assms(2) by (auto simp: n_def)
  have map: "mapped (mem m) buf (length ?bs)" using mapped_inside [OF assms(3), of 0 n] n by simp
  have slen: "(if unat count < length s + 1 then unat count else length s + 1) = n" by (simp add: n_def)
  have eq: "svr4_sysinfo K serial cmd buf count m =
      (int n, if cmd = 7 \<and> serial = 0 then 0xdeadbeef else serial, m\<lparr>mem := ?mm\<rparr>)"
    using map copy_to_user_ok_iff [of "mem m" buf ?bs]
    unfolding svr4_sysinfo_def Let_def assms(1) option.case slen by (simp add: split_def)
  have "copy_from_user ?mm buf n = (?bs, 0)" using copy_round_trip [OF map] n by simp
  moreover have "?mm x = mem m x" if "n \<le> unat (x - buf)" for x
    using copy_inside [of 0 ?bs n x buf "mem m"] n that by simp
  moreover have "n = length s + 1" if "count \<ge> 0x80000000"
    using that assms(2) by (simp add: n_def word_le_nat_alt)
  ultimately show ?thesis using eq by auto
qed

text \<open>
  The file system numbers are off by one.  What Linux answers for a name, from 0, is passed on as it is; but
  the number in a request for a name is lowered by one, so the name that comes back is that of the file system
  before, and number 0 is an error.
\<close>

lemma sysfs_index_shifted:
  assumes "sys_sysfs K 1 (sint name) arg m = (i, m1)" "0 \<le> i" "i < 2 ^ 31" "sys_sysfs K 3 0 0 m1 = (n, m2)" "i < n"
  shows "svr4_sysfs K 1 name arg m = (i, m1) \<and> svr4_sysfs K 2 (word_of_int i) buf m1 = sys_sysfs K 2 (i - 1) buf m2"
proof -
  have "sint (word_of_int i :: u32) = i" using assms(2,3) by (simp add: sint_sbintrunc' signed_take_bit_int_eq_self)
  moreover have "\<not> bit (word_of_int i :: u32) 31" using assms(2,3) by (simp add: bit_word_of_int_iff) (simp add: bit_iff_odd)
  then have "(word_of_int i :: u32) AND 0x80000000 = 0" using and_pow [of "word_of_int i" 31] by simp
  ultimately show ?thesis using assms by (simp add: svr4_sysfs_def)
qed

text \<open>A file system whose name has 16 bytes or more makes \<^verbatim>\<open>statvfs\<close> write past the end of the name's array.\<close>

lemma fstatvfs_undefined_iff:
  assumes "se_fget K fd (kern m) = (fp, k)" "fp \<noteq> 0" "se_vfs_statfs K fp k = (0, st, k2)"
  shows "svr4_fstatvfs K fd bufp m = None \<longleftrightarrow> 16 \<le> length (fs_name K fp k2)"
  using assms by (simp add: svr4_fstatvfs_def report_statvfs_def basetype_def Let_def)

end
