(* ===== verification/Svr4_Ipc.thy ===== *)
theory Svr4_Ipc
  imports Svr4_Signal
begin

text \<open>
  System V interprocess communication (\<^verbatim>\<open>abi/svr4/ipc.c\<close>, \<^verbatim>\<open>include/abi/svr4/ipc.h\<close>): the structures of
  semaphores, shared memory and message queues in the old (iBCS2) and the long (SVR4) layout, their
  translation to and from those of Linux, and the three multiplexed system calls.  Linux is the record
  \<open>ipc_env\<close>: its calls on a kernel buffer take and give the structure, those on a user pointer act on the
  machine.  Trace messages are left out.
\<close>

section \<open>Linux\<close>

record ipc_perm =
  lp_key :: u32
  lp_uid :: u16
  lp_gid :: u16
  lp_cuid :: u16
  lp_cgid :: u16
  lp_mode :: u16
  lp_seq :: u16

record semid_ds =
  ls_perm :: ipc_perm
  ls_otime :: u32
  ls_ctime :: u32
  ls_base :: u32
  ls_nsems :: u16

record shmid_ds =
  lh_perm :: ipc_perm
  lh_segsz :: u32
  lh_atime :: u32
  lh_dtime :: u32
  lh_ctime :: u32
  lh_cpid :: u16
  lh_lpid :: u16
  lh_nattch :: u16

record msqid_ds =
  lm_perm :: ipc_perm
  lm_first :: u32
  lm_last :: u32
  lm_stime :: u32
  lm_rtime :: u32
  lm_ctime :: u32
  lm_lcbytes :: u32
  lm_lqbytes :: u32
  lm_cbytes :: u16
  lm_qnum :: u16
  lm_qbytes :: u16
  lm_lspid :: u16
  lm_lrpid :: u16

text \<open>
  \<open>ipc_semctl\<close> is \<open>None\<close> when Linux reads or writes outside the structure, as it does for all the values
  of a set with more semaphores than fit.
\<close>

record 'k ipc_env =
  ipc_semctl :: "int \<Rightarrow> int \<Rightarrow> int \<Rightarrow> semid_ds \<Rightarrow> 'k \<Rightarrow> (int \<times> semid_ds \<times> 'k) option"
  ipc_shmctl :: "int \<Rightarrow> int \<Rightarrow> shmid_ds \<Rightarrow> 'k \<Rightarrow> int \<times> shmid_ds \<times> 'k"
  ipc_msgctl :: "int \<Rightarrow> int \<Rightarrow> msqid_ds \<Rightarrow> 'k \<Rightarrow> int \<times> msqid_ds \<times> 'k"
  sys_semctl :: "int \<Rightarrow> int \<Rightarrow> int \<Rightarrow> u32 \<Rightarrow> 'k mach \<Rightarrow> int \<times> 'k mach"
  sys_semget :: "int \<Rightarrow> int \<Rightarrow> int \<Rightarrow> 'k mach \<Rightarrow> int \<times> 'k mach"
  sys_semop :: "int \<Rightarrow> u32 \<Rightarrow> int \<Rightarrow> 'k mach \<Rightarrow> int \<times> 'k mach"
  sys_shmctl :: "int \<Rightarrow> int \<Rightarrow> u32 \<Rightarrow> 'k mach \<Rightarrow> int \<times> 'k mach"
  sys_shmget :: "int \<Rightarrow> int \<Rightarrow> int \<Rightarrow> 'k mach \<Rightarrow> int \<times> 'k mach"
  sys_shmdt :: "u32 \<Rightarrow> 'k mach \<Rightarrow> int \<times> 'k mach"
  do_shmat :: "int \<Rightarrow> u32 \<Rightarrow> int \<Rightarrow> 'k mach \<Rightarrow> int \<times> u32 \<times> 'k mach"
  sys_msgctl :: "int \<Rightarrow> int \<Rightarrow> u32 \<Rightarrow> 'k mach \<Rightarrow> int \<times> 'k mach"
  sys_msgget :: "int \<Rightarrow> int \<Rightarrow> 'k mach \<Rightarrow> int \<times> 'k mach"
  sys_msgrcv :: "int \<Rightarrow> u32 \<Rightarrow> int \<Rightarrow> int \<Rightarrow> int \<Rightarrow> 'k mach \<Rightarrow> int \<times> 'k mach"
  sys_msgsnd :: "int \<Rightarrow> u32 \<Rightarrow> int \<Rightarrow> int \<Rightarrow> 'k mach \<Rightarrow> int \<times> 'k mach"

abbreviation (input) "IPC_RMID \<equiv> (0::int)"
abbreviation (input) "IPC_SET \<equiv> (1::int)"
abbreviation (input) "IPC_STAT \<equiv> (2::int)"
abbreviation (input) "SHM_LOCK \<equiv> (11::int)"
abbreviation (input) "SHM_UNLOCK \<equiv> (12::int)"

section \<open>Permissions\<close>

record ibcs2_ipc_perm =
  ip_uid :: u16
  ip_gid :: u16
  ip_cuid :: u16
  ip_cgid :: u16
  ip_mode :: u16
  ip_seq :: u16
  ip_key :: u32

record abi4_ipc_perm =
  ip4_uid :: u32
  ip4_gid :: u32
  ip4_cuid :: u32
  ip4_cgid :: u32
  ip4_mode :: u32
  ip4_seq :: u32
  ip4_key :: u32

definition ip_to_lp :: "ibcs2_ipc_perm \<Rightarrow> ipc_perm" where
  "ip_to_lp i = \<lparr>lp_key = ip_key i, lp_uid = ip_uid i, lp_gid = ip_gid i, lp_cuid = ip_cuid i, lp_cgid = ip_cgid i,
     lp_mode = ip_mode i, lp_seq = ip_seq i\<rparr>"

definition lp_to_ip :: "ipc_perm \<Rightarrow> ibcs2_ipc_perm" where
  "lp_to_ip l = \<lparr>ip_uid = lp_uid l, ip_gid = lp_gid l, ip_cuid = lp_cuid l, ip_cgid = lp_cgid l, ip_mode = lp_mode l,
     ip_seq = lp_seq l, ip_key = lp_key l\<rparr>"

definition ip_to_lp_l :: "abi4_ipc_perm \<Rightarrow> ipc_perm" where
  "ip_to_lp_l i = \<lparr>lp_key = ip4_key i, lp_uid = ucast (ip4_uid i), lp_gid = ucast (ip4_gid i),
     lp_cuid = ucast (ip4_cuid i), lp_cgid = ucast (ip4_cgid i), lp_mode = ucast (ip4_mode i), lp_seq = ucast (ip4_seq i)\<rparr>"

definition lp_to_ip_l :: "ipc_perm \<Rightarrow> abi4_ipc_perm" where
  "lp_to_ip_l l = \<lparr>ip4_uid = ucast (lp_uid l), ip4_gid = ucast (lp_gid l), ip4_cuid = ucast (lp_cuid l),
     ip4_cgid = ucast (lp_cgid l), ip4_mode = ucast (lp_mode l), ip4_seq = ucast (lp_seq l), ip4_key = lp_key l\<rparr>"

text \<open>The bytes in user memory.  Reserved words of the long layout are not looked at and are written as zeros.\<close>

definition ip_bytes :: "ibcs2_ipc_perm \<Rightarrow> u8 list" where
  "ip_bytes i = bytes16 (ip_uid i) @ bytes16 (ip_gid i) @ bytes16 (ip_cuid i) @ bytes16 (ip_cgid i) @
     bytes16 (ip_mode i) @ bytes16 (ip_seq i) @ bytes32 (ip_key i)"

definition ip_of_bytes :: "u8 list \<Rightarrow> ibcs2_ipc_perm" where
  "ip_of_bytes bs = \<lparr>ip_uid = word16 (field 0 2 bs), ip_gid = word16 (field 2 2 bs), ip_cuid = word16 (field 4 2 bs),
     ip_cgid = word16 (field 6 2 bs), ip_mode = word16 (field 8 2 bs), ip_seq = word16 (field 10 2 bs),
     ip_key = word32 (field 12 4 bs)\<rparr>"

definition ip4_bytes :: "abi4_ipc_perm \<Rightarrow> u8 list" where
  "ip4_bytes i = bytes32 (ip4_uid i) @ bytes32 (ip4_gid i) @ bytes32 (ip4_cuid i) @ bytes32 (ip4_cgid i) @
     bytes32 (ip4_mode i) @ bytes32 (ip4_seq i) @ bytes32 (ip4_key i) @ replicate 16 0"

definition ip4_of_bytes :: "u8 list \<Rightarrow> abi4_ipc_perm" where
  "ip4_of_bytes bs = \<lparr>ip4_uid = word32 (field 0 4 bs), ip4_gid = word32 (field 4 4 bs), ip4_cuid = word32 (field 8 4 bs),
     ip4_cgid = word32 (field 12 4 bs), ip4_mode = word32 (field 16 4 bs), ip4_seq = word32 (field 20 4 bs),
     ip4_key = word32 (field 24 4 bs)\<rparr>"

section \<open>Semaphores\<close>

record ibcs2_semid_ds =
  is_perm :: ibcs2_ipc_perm
  is_base :: u32
  is_nsems :: u16
  is_pad :: "u8 list"
  is_otime :: u32
  is_ctime :: u32

record abi4_semid_ds =
  is4_perm :: abi4_ipc_perm
  is4_base :: u32
  is4_nsems :: u16
  is4_otime :: u32
  is4_ctime :: u32

definition ibcs2_semid_bytes :: "ibcs2_semid_ds \<Rightarrow> u8 list" where
  "ibcs2_semid_bytes s = ip_bytes (is_perm s) @ bytes32 (is_base s) @ bytes16 (is_nsems s) @ is_pad s @
     bytes32 (is_otime s) @ bytes32 (is_ctime s)"

definition ibcs2_semid_of_bytes :: "u8 list \<Rightarrow> ibcs2_semid_ds" where
  "ibcs2_semid_of_bytes bs = \<lparr>is_perm = ip_of_bytes (field 0 16 bs), is_base = word32 (field 16 4 bs),
     is_nsems = word16 (field 20 2 bs), is_pad = field 22 2 bs, is_otime = word32 (field 24 4 bs),
     is_ctime = word32 (field 28 4 bs)\<rparr>"

definition abi4_semid_bytes :: "abi4_semid_ds \<Rightarrow> u8 list" where
  "abi4_semid_bytes s = ip4_bytes (is4_perm s) @ bytes32 (is4_base s) @ bytes16 (is4_nsems s) @ replicate 2 0 @
     bytes32 (is4_otime s) @ replicate 4 0 @ bytes32 (is4_ctime s) @ replicate 20 0"

definition abi4_semid_of_bytes :: "u8 list \<Rightarrow> abi4_semid_ds" where
  "abi4_semid_of_bytes bs = \<lparr>is4_perm = ip4_of_bytes (field 0 44 bs), is4_base = word32 (field 44 4 bs),
     is4_nsems = word16 (field 48 2 bs), is4_otime = word32 (field 52 4 bs), is4_ctime = word32 (field 60 4 bs)\<rparr>"

definition isem_to_lsem :: "ibcs2_semid_ds \<Rightarrow> semid_ds" where
  "isem_to_lsem i = \<lparr>ls_perm = ip_to_lp (is_perm i), ls_otime = is_otime i, ls_ctime = is_ctime i,
     ls_base = is_base i, ls_nsems = is_nsems i\<rparr>"

definition lsem_to_isem :: "semid_ds \<Rightarrow> ibcs2_semid_ds \<Rightarrow> ibcs2_semid_ds" where
  "lsem_to_isem l i = i\<lparr>is_perm := lp_to_ip (ls_perm l), is_base := ls_base l, is_nsems := ls_nsems l,
     is_otime := ls_otime l, is_ctime := ls_ctime l\<rparr>"

definition isem_to_lsem_l :: "abi4_semid_ds \<Rightarrow> semid_ds" where
  "isem_to_lsem_l i = \<lparr>ls_perm = ip_to_lp_l (is4_perm i), ls_otime = is4_otime i, ls_ctime = is4_ctime i,
     ls_base = is4_base i, ls_nsems = is4_nsems i\<rparr>"

definition lsem_to_isem_l :: "semid_ds \<Rightarrow> abi4_semid_ds" where
  "lsem_to_isem_l l = \<lparr>is4_perm = lp_to_ip_l (ls_perm l), is4_base = ls_base l, is4_nsems = ls_nsems l,
     is4_otime = ls_otime l, is4_ctime = ls_ctime l\<rparr>"

definition ibcs2_semctl :: "'k ipc_env \<Rightarrow> int \<Rightarrow> int \<Rightarrow> int \<Rightarrow> u32 \<Rightarrow> 'k mach \<Rightarrow> (int \<times> 'k mach) option" where
  "ibcs2_semctl K first second third fourth m =
     (case rd32 (mem m) fourth of
        None \<Rightarrow> Some (- EFAULT, m)
      | Some isp \<Rightarrow>
          let (bs, left) = copy_from_user (mem m) isp 32; i = ibcs2_semid_of_bytes bs in
          if left \<noteq> 0 then Some (- EFAULT, m)
          else map_option (\<lambda>(err, ls, k).
            if err < 0 then (err, m\<lparr>kern := k\<rparr>)
            else let (left, mm) = copy_to_user (mem m) isp (ibcs2_semid_bytes (lsem_to_isem ls i))
                 in (if left \<noteq> 0 then - EFAULT else 0, m\<lparr>kern := k, mem := mm\<rparr>))
            (ipc_semctl K first second third (isem_to_lsem i) (kern m)))"

definition abi4_semctl :: "'k ipc_env \<Rightarrow> int \<Rightarrow> int \<Rightarrow> int \<Rightarrow> u32 \<Rightarrow> 'k mach \<Rightarrow> (int \<times> 'k mach) option" where
  "abi4_semctl K first second third fourth m =
     (case rd32 (mem m) fourth of
        None \<Rightarrow> Some (- EFAULT, m)
      | Some isp \<Rightarrow>
          let (bs, left) = copy_from_user (mem m) isp 84 in
          if left \<noteq> 0 then Some (- EFAULT, m)
          else map_option (\<lambda>(err, ls, k).
            if err < 0 then (err, m\<lparr>kern := k\<rparr>)
            else let (left, mm) = copy_to_user (mem m) isp (abi4_semid_bytes (lsem_to_isem_l ls))
                 in (if left \<noteq> 0 then - EFAULT else 0, m\<lparr>kern := k, mem := mm\<rparr>))
            (ipc_semctl K first second third (isem_to_lsem_l (abi4_semid_of_bytes bs)) (kern m)))"

text \<open>The commands of Linux for 0 to 12.\<close>

definition svr4sem2linux :: "int list" where
  "svr4sem2linux = [IPC_RMID, IPC_SET, IPC_STAT, 14, 11, 12, 13, 15, 16, 17, IPC_RMID, IPC_SET, IPC_STAT]"

definition svr4_semctl :: "'k ipc_env \<Rightarrow> int \<Rightarrow> int \<Rightarrow> int \<Rightarrow> u32 \<Rightarrow> 'k mach \<Rightarrow> (int \<times> 'k mach) option" where
  "svr4_semctl K arg1 arg2 arg3 arg4 m =
     Option.bind (arr_get svr4sem2linux arg3) (\<lambda>cmd.
       if arg3 = 9 \<or> arg3 = 6 then ibcs2_semctl K arg1 0 cmd arg4 m
       else if arg3 = 0 \<or> arg3 = 10 \<or> arg3 = 8 \<or> arg3 = 5 \<or> arg3 = 4 \<or> arg3 = 3 \<or> arg3 = 7
       then Some (sys_semctl K arg1 arg2 cmd arg4 m)
       else if arg3 = 1 \<or> arg3 = 2 then ibcs2_semctl K arg1 arg2 cmd arg4 m
       else if arg3 = 12 \<or> arg3 = 11 then abi4_semctl K arg1 arg2 cmd arg4 m
       else Some (- EINVAL, m))"

definition svr4_semget :: "'k ipc_env \<Rightarrow> int \<Rightarrow> int \<Rightarrow> int \<Rightarrow> 'k mach \<Rightarrow> int \<times> 'k mach" where
  "svr4_semget K arg1 arg2 arg3 m = sys_semget K arg1 arg2 arg3 m"

definition svr4_semop :: "'k ipc_env \<Rightarrow> int \<Rightarrow> u32 \<Rightarrow> int \<Rightarrow> 'k mach \<Rightarrow> int \<times> 'k mach" where
  "svr4_semop K arg1 arg2 arg3 m = sys_semop K arg1 arg2 arg3 m"

text \<open>The fourth argument is the address of the fifth word of the caller, which holds the union.\<close>

definition svr4_semsys :: "'k ipc_env \<Rightarrow> 'k mach \<Rightarrow> (int \<times> 'k mach) option" where
  "svr4_semsys K m =
     (let arg = get_syscall_parameter (mem m) (regs m); which = arg 0; arg1 = sint (arg 1); arg3 = sint (arg 3);
          arg4 = esp (regs m) + 20 in
      if which = 0 then svr4_semctl K arg1 (sint (arg 2)) arg3 arg4 m
      else if which = 1 then Some (svr4_semget K arg1 (sint (arg 2)) arg3 m)
      else if which = 2 then Some (svr4_semop K arg1 (arg 2) arg3 m)
      else Some (- EINVAL, m))"

section \<open>Shared memory\<close>

record ibcs2_shmid_ds =
  ih_perm :: ibcs2_ipc_perm
  ih_segsz :: u32
  ih_pad1 :: "u8 list"
  ih_lpid :: u16
  ih_cpid :: u16
  ih_nattch :: u16
  ih_pad3 :: "u8 list"
  ih_atime :: u32
  ih_dtime :: u32
  ih_ctime :: u32

record abi4_shmid_ds =
  ih4_perm :: abi4_ipc_perm
  ih4_segsz :: u32
  ih4_lpid :: u32
  ih4_cpid :: u32
  ih4_nattch :: u32
  ih4_atime :: u32
  ih4_dtime :: u32
  ih4_ctime :: u32

definition ibcs2_shmid_bytes :: "ibcs2_shmid_ds \<Rightarrow> u8 list" where
  "ibcs2_shmid_bytes s = ip_bytes (ih_perm s) @ bytes32 (ih_segsz s) @ ih_pad1 s @ bytes16 (ih_lpid s) @
     bytes16 (ih_cpid s) @ bytes16 (ih_nattch s) @ ih_pad3 s @ bytes32 (ih_atime s) @ bytes32 (ih_dtime s) @
     bytes32 (ih_ctime s)"

definition ibcs2_shmid_of_bytes :: "u8 list \<Rightarrow> ibcs2_shmid_ds" where
  "ibcs2_shmid_of_bytes bs = \<lparr>ih_perm = ip_of_bytes (field 0 16 bs), ih_segsz = word32 (field 16 4 bs),
     ih_pad1 = field 20 8 bs, ih_lpid = word16 (field 28 2 bs), ih_cpid = word16 (field 30 2 bs),
     ih_nattch = word16 (field 32 2 bs), ih_pad3 = field 34 2 bs, ih_atime = word32 (field 36 4 bs),
     ih_dtime = word32 (field 40 4 bs), ih_ctime = word32 (field 44 4 bs)\<rparr>"

definition abi4_shmid_bytes :: "abi4_shmid_ds \<Rightarrow> u8 list" where
  "abi4_shmid_bytes s = ip4_bytes (ih4_perm s) @ bytes32 (ih4_segsz s) @ replicate 8 0 @ bytes32 (ih4_lpid s) @
     bytes32 (ih4_cpid s) @ bytes32 (ih4_nattch s) @ replicate 4 0 @ bytes32 (ih4_atime s) @ replicate 4 0 @
     bytes32 (ih4_dtime s) @ replicate 4 0 @ bytes32 (ih4_ctime s) @ replicate 20 0"

definition abi4_shmid_of_bytes :: "u8 list \<Rightarrow> abi4_shmid_ds" where
  "abi4_shmid_of_bytes bs = \<lparr>ih4_perm = ip4_of_bytes (field 0 44 bs), ih4_segsz = word32 (field 44 4 bs),
     ih4_lpid = word32 (field 56 4 bs), ih4_cpid = word32 (field 60 4 bs), ih4_nattch = word32 (field 64 4 bs),
     ih4_atime = word32 (field 72 4 bs), ih4_dtime = word32 (field 80 4 bs), ih4_ctime = word32 (field 88 4 bs)\<rparr>"

definition ishm_to_lshm :: "ibcs2_shmid_ds \<Rightarrow> shmid_ds" where
  "ishm_to_lshm i = \<lparr>lh_perm = ip_to_lp (ih_perm i), lh_segsz = ih_segsz i, lh_atime = ih_atime i,
     lh_dtime = ih_dtime i, lh_ctime = ih_ctime i, lh_cpid = ih_cpid i, lh_lpid = ih_lpid i, lh_nattch = ih_nattch i\<rparr>"

definition lshm_to_ishm :: "shmid_ds \<Rightarrow> ibcs2_shmid_ds \<Rightarrow> ibcs2_shmid_ds" where
  "lshm_to_ishm l i = i\<lparr>ih_perm := lp_to_ip (lh_perm l), ih_segsz := lh_segsz l, ih_lpid := lh_lpid l,
     ih_cpid := lh_cpid l, ih_nattch := lh_nattch l, ih_atime := lh_atime l, ih_dtime := lh_dtime l,
     ih_ctime := lh_ctime l\<rparr>"

definition ishm_to_lshm_l :: "abi4_shmid_ds \<Rightarrow> shmid_ds" where
  "ishm_to_lshm_l i = \<lparr>lh_perm = ip_to_lp_l (ih4_perm i), lh_segsz = ih4_segsz i, lh_atime = ih4_atime i,
     lh_dtime = ih4_dtime i, lh_ctime = ih4_ctime i, lh_cpid = ucast (ih4_cpid i), lh_lpid = ucast (ih4_lpid i),
     lh_nattch = ucast (ih4_nattch i)\<rparr>"

definition lshm_to_ishm_l :: "shmid_ds \<Rightarrow> abi4_shmid_ds" where
  "lshm_to_ishm_l l = \<lparr>ih4_perm = lp_to_ip_l (lh_perm l), ih4_segsz = lh_segsz l, ih4_lpid = ucast (lh_lpid l),
     ih4_cpid = ucast (lh_cpid l), ih4_nattch = ucast (lh_nattch l), ih4_atime = lh_atime l, ih4_dtime = lh_dtime l,
     ih4_ctime = lh_ctime l\<rparr>"

definition svr4_shmdt :: "'k ipc_env \<Rightarrow> 'k mach \<Rightarrow> int \<times> 'k mach" where
  "svr4_shmdt K m = sys_shmdt K (get_syscall_parameter (mem m) (regs m) 1) m"

text \<open>
  The end of the four commands that work on a copy: Linux' answer and the structure to store.  An error
  of Linux ends the command, unless \<open>anyway\<close>.
\<close>

definition store_ds :: "bool \<Rightarrow> u32 \<Rightarrow> int \<Rightarrow> u8 list \<Rightarrow> 'k mach \<Rightarrow> int \<times> 'k mach" where
  "store_ds anyway buf err bs m =
     (if err < 0 \<and> \<not> anyway then (err, m)
      else let (left, mm) = copy_to_user (mem m) buf bs in (if left \<noteq> 0 then - EFAULT else 0, m\<lparr>mem := mm\<rparr>))"

text \<open>\<open>jl\<close> and \<open>ji\<close> are what is on the stack under the two structures that are not cleared.\<close>

definition svr4_shmctl ::
  "'k ipc_env \<Rightarrow> shmid_ds \<Rightarrow> ibcs2_shmid_ds \<Rightarrow> int \<Rightarrow> int \<Rightarrow> u32 \<Rightarrow> 'k mach \<Rightarrow> int \<times> 'k mach" where
  "svr4_shmctl K jl ji arg1 cmd arg3 m =
     (if cmd = 3 then sys_shmctl K arg1 SHM_LOCK arg3 m
      else if cmd = 4 then sys_shmctl K arg1 SHM_UNLOCK arg3 m
      else if cmd = 1
      then (let (bs, left) = copy_from_user (mem m) arg3 48; i = ibcs2_shmid_of_bytes bs in
            if left \<noteq> 0 then (- EFAULT, m)
            else let (err, ls, k) = ipc_shmctl K arg1 IPC_SET (ishm_to_lshm i) (kern m)
                 in store_ds False arg3 err (ibcs2_shmid_bytes (lshm_to_ishm ls i)) (m\<lparr>kern := k\<rparr>))
      else if cmd = 11
      then (let (bs, left) = copy_from_user (mem m) arg3 112 in
            if left \<noteq> 0 then (- EFAULT, m)
            else let (err, ls, k) = ipc_shmctl K arg1 IPC_SET (ishm_to_lshm_l (abi4_shmid_of_bytes bs)) (kern m)
                 in store_ds False arg3 err (abi4_shmid_bytes (lshm_to_ishm_l ls)) (m\<lparr>kern := k\<rparr>))
      else if cmd = 0 \<or> cmd = 10 then sys_shmctl K arg1 IPC_RMID arg3 m
      else if cmd = 2
      then (let (err, ls, k) = ipc_shmctl K arg1 IPC_STAT jl (kern m)
            in store_ds False arg3 err (ibcs2_shmid_bytes (lshm_to_ishm ls ji)) (m\<lparr>kern := k\<rparr>))
      else if cmd = 12
      then (let (err, ls, k) = ipc_shmctl K arg1 IPC_STAT jl (kern m)
            in store_ds False arg3 err (abi4_shmid_bytes (lshm_to_ishm_l ls)) (m\<lparr>kern := k\<rparr>))
      else (- EINVAL, m))"

text \<open>The answer goes to the registers; a result of -255 or less counts as an address.\<close>

definition shm_answer :: "int \<times> 'k mach \<Rightarrow> (int \<times> 'k mach) option" where
  "shm_answer r =
     (let (err, m) = r in
      if err < 0 \<and> err > - 255
      then map_option (\<lambda>m. (0, m)) (answer_error m (- err))
      else Some (0, m\<lparr>regs := set_result (clear_error (regs m)) err\<rparr>))"

definition svr4_shmsys :: "'k ipc_env \<Rightarrow> shmid_ds \<Rightarrow> ibcs2_shmid_ds \<Rightarrow> 'k mach \<Rightarrow> (int \<times> 'k mach) option" where
  "svr4_shmsys K jl ji m =
     (let arg = get_syscall_parameter (mem m) (regs m); cmd = arg 0; arg1 = sint (arg 1); arg2 = arg 2; arg3 = arg 3 in
      shm_answer
        (if cmd = 2 then svr4_shmdt K m
         else if cmd = 0
         then (let (err, raddr, m) = do_shmat K arg1 arg2 (sint arg3) m in (if err \<ge> 0 then sint raddr else err, m))
         else if cmd = 3 then sys_shmget K arg1 (sint arg2) (sint arg3) m
         else if cmd = 1 then svr4_shmctl K jl ji arg1 (sint arg2) arg3 m
         else (- EINVAL, m)))"

section \<open>Message queues\<close>

record ibcs2_msqid_ds =
  im_perm :: ibcs2_ipc_perm
  im_first :: u32
  im_last :: u32
  im_cbytes :: u16
  im_qnum :: u16
  im_qbytes :: u16
  im_lspid :: u16
  im_lrpid :: u16
  im_pad :: "u8 list"
  im_stime :: u32
  im_rtime :: u32
  im_ctime :: u32

record abi4_msqid_ds =
  im4_perm :: abi4_ipc_perm
  im4_first :: u32
  im4_last :: u32
  im4_cbytes :: u32
  im4_qnum :: u32
  im4_qbytes :: u32
  im4_lspid :: u32
  im4_lrpid :: u32
  im4_stime :: u32
  im4_rtime :: u32
  im4_ctime :: u32

definition ibcs2_msqid_bytes :: "ibcs2_msqid_ds \<Rightarrow> u8 list" where
  "ibcs2_msqid_bytes s = ip_bytes (im_perm s) @ bytes32 (im_first s) @ bytes32 (im_last s) @ bytes16 (im_cbytes s) @
     bytes16 (im_qnum s) @ bytes16 (im_qbytes s) @ bytes16 (im_lspid s) @ bytes16 (im_lrpid s) @ im_pad s @
     bytes32 (im_stime s) @ bytes32 (im_rtime s) @ bytes32 (im_ctime s)"

definition ibcs2_msqid_of_bytes :: "u8 list \<Rightarrow> ibcs2_msqid_ds" where
  "ibcs2_msqid_of_bytes bs = \<lparr>im_perm = ip_of_bytes (field 0 16 bs), im_first = word32 (field 16 4 bs),
     im_last = word32 (field 20 4 bs), im_cbytes = word16 (field 24 2 bs), im_qnum = word16 (field 26 2 bs),
     im_qbytes = word16 (field 28 2 bs), im_lspid = word16 (field 30 2 bs), im_lrpid = word16 (field 32 2 bs),
     im_pad = field 34 2 bs, im_stime = word32 (field 36 4 bs), im_rtime = word32 (field 40 4 bs),
     im_ctime = word32 (field 44 4 bs)\<rparr>"

definition abi4_msqid_bytes :: "abi4_msqid_ds \<Rightarrow> u8 list" where
  "abi4_msqid_bytes s = ip4_bytes (im4_perm s) @ bytes32 (im4_first s) @ bytes32 (im4_last s) @
     bytes32 (im4_cbytes s) @ bytes32 (im4_qnum s) @ bytes32 (im4_qbytes s) @ bytes32 (im4_lspid s) @
     bytes32 (im4_lrpid s) @ bytes32 (im4_stime s) @ replicate 4 0 @ bytes32 (im4_rtime s) @ replicate 4 0 @
     bytes32 (im4_ctime s) @ replicate 20 0"

definition abi4_msqid_of_bytes :: "u8 list \<Rightarrow> abi4_msqid_ds" where
  "abi4_msqid_of_bytes bs = \<lparr>im4_perm = ip4_of_bytes (field 0 44 bs), im4_first = word32 (field 44 4 bs),
     im4_last = word32 (field 48 4 bs), im4_cbytes = word32 (field 52 4 bs), im4_qnum = word32 (field 56 4 bs),
     im4_qbytes = word32 (field 60 4 bs), im4_lspid = word32 (field 64 4 bs), im4_lrpid = word32 (field 68 4 bs),
     im4_stime = word32 (field 72 4 bs), im4_rtime = word32 (field 80 4 bs), im4_ctime = word32 (field 88 4 bs)\<rparr>"

text \<open>The two long counters of Linux keep what was on the stack.\<close>

definition imsq_to_lmsq :: "ibcs2_msqid_ds \<Rightarrow> msqid_ds \<Rightarrow> msqid_ds" where
  "imsq_to_lmsq i l = l\<lparr>lm_perm := ip_to_lp (im_perm i), lm_first := im_first i, lm_last := im_last i,
     lm_cbytes := im_cbytes i, lm_qnum := im_qnum i, lm_qbytes := im_qbytes i, lm_lspid := im_lspid i,
     lm_lrpid := im_lrpid i, lm_stime := im_stime i, lm_rtime := im_rtime i, lm_ctime := im_ctime i\<rparr>"

definition lmsq_to_imsq :: "msqid_ds \<Rightarrow> ibcs2_msqid_ds \<Rightarrow> ibcs2_msqid_ds" where
  "lmsq_to_imsq l i = i\<lparr>im_perm := lp_to_ip (lm_perm l), im_first := lm_first l, im_last := lm_last l,
     im_cbytes := lm_cbytes l, im_qnum := lm_qnum l, im_qbytes := lm_qbytes l, im_lspid := lm_lspid l,
     im_lrpid := lm_lrpid l, im_stime := lm_stime l, im_rtime := lm_rtime l, im_ctime := lm_ctime l\<rparr>"

definition imsq_to_lmsq_l :: "abi4_msqid_ds \<Rightarrow> msqid_ds \<Rightarrow> msqid_ds" where
  "imsq_to_lmsq_l i l = l\<lparr>lm_perm := ip_to_lp_l (im4_perm i), lm_first := im4_first i, lm_last := im4_last i,
     lm_cbytes := ucast (im4_cbytes i), lm_qnum := ucast (im4_qnum i), lm_qbytes := ucast (im4_qbytes i),
     lm_lspid := ucast (im4_lspid i), lm_lrpid := ucast (im4_lrpid i), lm_stime := im4_stime i,
     lm_rtime := im4_rtime i, lm_ctime := im4_ctime i\<rparr>"

definition lmsq_to_imsq_l :: "msqid_ds \<Rightarrow> abi4_msqid_ds" where
  "lmsq_to_imsq_l l = \<lparr>im4_perm = lp_to_ip_l (lm_perm l), im4_first = lm_first l, im4_last = lm_last l,
     im4_cbytes = ucast (lm_cbytes l), im4_qnum = ucast (lm_qnum l), im4_qbytes = ucast (lm_qbytes l),
     im4_lspid = ucast (lm_lspid l), im4_lrpid = ucast (lm_lrpid l), im4_stime = lm_stime l, im4_rtime = lm_rtime l,
     im4_ctime = lm_ctime l\<rparr>"

definition svr4_msgctl ::
  "'k ipc_env \<Rightarrow> msqid_ds \<Rightarrow> ibcs2_msqid_ds \<Rightarrow> int \<Rightarrow> int \<Rightarrow> u32 \<Rightarrow> 'k mach \<Rightarrow> int \<times> 'k mach" where
  "svr4_msgctl K jl ji arg1 cmd arg3 m =
     (if cmd = 1
      then (let (bs, left) = copy_from_user (mem m) arg3 48; i = ibcs2_msqid_of_bytes bs in
            if left \<noteq> 0 then (- EFAULT, m)
            else let (err, lm, k) = ipc_msgctl K arg1 IPC_SET (imsq_to_lmsq i jl) (kern m)
                 in store_ds True arg3 err (ibcs2_msqid_bytes (lmsq_to_imsq lm i)) (m\<lparr>kern := k\<rparr>))
      else if cmd = 11
      then (let (bs, left) = copy_from_user (mem m) arg3 112 in
            if left \<noteq> 0 then (- EFAULT, m)
            else let (err, lm, k) = ipc_msgctl K arg1 IPC_SET (imsq_to_lmsq_l (abi4_msqid_of_bytes bs) jl) (kern m)
                 in store_ds True arg3 err (abi4_msqid_bytes (lmsq_to_imsq_l lm)) (m\<lparr>kern := k\<rparr>))
      else if cmd = 0 \<or> cmd = 10 then sys_msgctl K arg1 IPC_RMID arg3 m
      else if cmd = 2
      then (let (err, lm, k) = ipc_msgctl K arg1 IPC_STAT jl (kern m)
            in store_ds False arg3 err (ibcs2_msqid_bytes (lmsq_to_imsq lm ji)) (m\<lparr>kern := k\<rparr>))
      else if cmd = 12
      then (let (err, lm, k) = ipc_msgctl K arg1 IPC_STAT jl (kern m)
            in store_ds False arg3 err (abi4_msqid_bytes (lmsq_to_imsq_l lm)) (m\<lparr>kern := k\<rparr>))
      else (- EINVAL, m))"

definition svr4_msgsys :: "'k ipc_env \<Rightarrow> msqid_ds \<Rightarrow> ibcs2_msqid_ds \<Rightarrow> 'k mach \<Rightarrow> int \<times> 'k mach" where
  "svr4_msgsys K jl ji m =
     (let arg = get_syscall_parameter (mem m) (regs m); cmd = arg 0; arg1 = sint (arg 1); arg2 = arg 2 in
      if cmd = 0 then sys_msgget K arg1 (sint arg2) m
      else if cmd = 1 then svr4_msgctl K jl ji arg1 (sint arg2) (arg 3) m
      else if cmd = 2 then sys_msgrcv K arg1 arg2 (sint (arg 3)) (sint (arg 4)) (sint (arg 5)) m
      else if cmd = 3
      then (let (err, m) = sys_msgsnd K arg1 arg2 (sint (arg 3)) (sint (arg 4)) m in (if err > 0 then 0 else err, m))
      else (- EINVAL, m))"

section \<open>Structures\<close>

lemma ip_bytes_length [simp]: "length (ip_bytes i) = 16" "length (ip4_bytes j) = 44"
  by (simp_all add: ip_bytes_def ip4_bytes_def)

lemma ip_of_bytes_bytes [simp]: "ip_of_bytes (ip_bytes i) = i" "ip4_of_bytes (ip4_bytes j) = j"
  by (simp_all add: ip_of_bytes_def ip_bytes_def ip4_of_bytes_def ip4_bytes_def field_def)

text \<open>The structures have the size of the source, and can be read back.\<close>

lemma ipc_sizes [simp]:
  "length (is_pad s) = 2 \<Longrightarrow> length (ibcs2_semid_bytes s) = 32" "length (abi4_semid_bytes s4) = 84"
  "length (ih_pad1 h) = 8 \<Longrightarrow> length (ih_pad3 h) = 2 \<Longrightarrow> length (ibcs2_shmid_bytes h) = 48"
  "length (abi4_shmid_bytes h4) = 112"
  "length (im_pad q) = 2 \<Longrightarrow> length (ibcs2_msqid_bytes q) = 48" "length (abi4_msqid_bytes q4) = 112"
  by (simp_all add: ibcs2_semid_bytes_def abi4_semid_bytes_def ibcs2_shmid_bytes_def abi4_shmid_bytes_def
      ibcs2_msqid_bytes_def abi4_msqid_bytes_def)

lemma ibcs2_of_bytes:
  "length (is_pad s) = 2 \<Longrightarrow> ibcs2_semid_of_bytes (ibcs2_semid_bytes s) = s"
  "length (ih_pad1 h) = 8 \<Longrightarrow> length (ih_pad3 h) = 2 \<Longrightarrow> ibcs2_shmid_of_bytes (ibcs2_shmid_bytes h) = h"
  "length (im_pad q) = 2 \<Longrightarrow> ibcs2_msqid_of_bytes (ibcs2_msqid_bytes q) = q"
  by (simp_all add: ibcs2_semid_of_bytes_def ibcs2_semid_bytes_def ibcs2_shmid_of_bytes_def ibcs2_shmid_bytes_def
      ibcs2_msqid_of_bytes_def ibcs2_msqid_bytes_def field_def)

lemma abi4_of_bytes:
  "abi4_semid_of_bytes (abi4_semid_bytes s) = s" "abi4_shmid_of_bytes (abi4_shmid_bytes h) = h"
  "abi4_msqid_of_bytes (abi4_msqid_bytes q) = q"
  by (simp_all add: abi4_semid_of_bytes_def abi4_semid_bytes_def abi4_shmid_of_bytes_def abi4_shmid_bytes_def
      abi4_msqid_of_bytes_def abi4_msqid_bytes_def field_def)

text \<open>What is left of a number of the long layout in the fields of Linux.\<close>

definition low16 :: "u32 \<Rightarrow> u32" where
  "low16 v = take_bit 16 v"

lemma ucast_ucast_low16 [simp]: "ucast (ucast v :: u16) = low16 v"
  unfolding low16_def by (rule bit_word_eqI) (auto simp: bit_simps)

lemma ip_round_trip [simp]: "lp_to_ip (ip_to_lp i) = i" by (simp add: lp_to_ip_def ip_to_lp_def)

lemma ip4_round_trip: "lp_to_ip_l (ip_to_lp_l i) =
    i\<lparr>ip4_uid := low16 (ip4_uid i), ip4_gid := low16 (ip4_gid i), ip4_cuid := low16 (ip4_cuid i),
      ip4_cgid := low16 (ip4_cgid i), ip4_mode := low16 (ip4_mode i), ip4_seq := low16 (ip4_seq i)\<rparr>"
  by (simp add: lp_to_ip_l_def ip_to_lp_l_def)


section \<open>Calls\<close>

lemma store_ds_ok:
  assumes "mapped (mem m) buf (length bs)" "length bs < 2 ^ 32" "err \<ge> 0 \<or> anyway"
  shows "\<exists>m'. store_ds anyway buf err bs m = (0, m') \<and> copy_from_user (mem m') buf (length bs) = (bs, 0)"
  using assms copy_to_user_ok_iff [of "mem m" buf bs] copy_round_trip [OF assms(1,2)]
  by (auto simp: store_ds_def split_def)

text \<open>A kernel with one segment, where no call is allowed to set anything and every semaphore set is large.\<close>

definition no_perm :: ipc_perm where
  "no_perm = \<lparr>lp_key = 1, lp_uid = 0, lp_gid = 0, lp_cuid = 0, lp_cgid = 0, lp_mode = 0, lp_seq = 0\<rparr>"

definition blank_ip :: ibcs2_ipc_perm where
  "blank_ip = lp_to_ip no_perm"

definition sample_seg :: shmid_ds where
  "sample_seg = \<lparr>lh_perm = no_perm, lh_segsz = 4096, lh_atime = 0, lh_dtime = 0, lh_ctime = 0, lh_cpid = 7, lh_lpid = 8,
     lh_nattch = 1\<rparr>"

definition stack_shm :: ibcs2_shmid_ds where
  "stack_shm = \<lparr>ih_perm = blank_ip, ih_segsz = 0, ih_pad1 = replicate 8 0xcc, ih_lpid = 0, ih_cpid = 0, ih_nattch = 0,
     ih_pad3 = [0xcc, 0xcc], ih_atime = 0, ih_dtime = 0, ih_ctime = 0\<rparr>"

definition stack_lmsq :: msqid_ds where
  "stack_lmsq = \<lparr>lm_perm = no_perm, lm_first = 0, lm_last = 0, lm_stime = 0, lm_rtime = 0, lm_ctime = 0, lm_lcbytes = 0,
     lm_lqbytes = 0, lm_cbytes = 0, lm_qnum = 0, lm_qbytes = 0, lm_lspid = 0, lm_lrpid = 0\<rparr>"

definition stack_msq :: ibcs2_msqid_ds where
  "stack_msq = \<lparr>im_perm = blank_ip, im_first = 0, im_last = 0, im_cbytes = 0, im_qnum = 0, im_qbytes = 0, im_lspid = 0,
     im_lrpid = 0, im_pad = [0, 0], im_stime = 0, im_rtime = 0, im_ctime = 0\<rparr>"

definition ipc_kernel :: "unit ipc_env" where
  "ipc_kernel =
     \<lparr>ipc_semctl = (\<lambda>sid n cmd l k. if cmd \<in> {13, 17} then None else Some (0, l, k)),
      ipc_shmctl = (\<lambda>sid cmd l k. if cmd = IPC_STAT then (0, sample_seg, k) else (- EPERM, l, k)),
      ipc_msgctl = (\<lambda>q cmd l k. (- EPERM, l, k)), sys_semctl = (\<lambda>sid n c a m. (0, m)), sys_semget = (\<lambda>key n f m. (0, m)),
      sys_semop = (\<lambda>sid a n m. (0, m)), sys_shmctl = (\<lambda>sid c a m. (0, m)), sys_shmget = (\<lambda>key n f m. (0, m)),
      sys_shmdt = (\<lambda>a m. (0, m)), do_shmat = (\<lambda>sid a f m. (0, a, m)), sys_msgctl = (\<lambda>q c a m. (0, m)),
      sys_msgget = (\<lambda>key f m. (0, m)), sys_msgrcv = (\<lambda>q a n t f m. (0, m)), sys_msgsnd = (\<lambda>q a n f m. (0, m))\<rparr>"



text \<open>
  Setting the state of a message queue never fails for the program.  Whatever Linux answers, also that
  the caller may not do this or that there is no such queue, the result is 0; for shared memory the same
  error is passed on.
\<close>

lemma msgctl_set_hides_errors:
  assumes "mapped (mem m) buf 112"
  shows "fst (svr4_msgctl K jl ji q 1 buf m) = 0 \<and> fst (svr4_msgctl K jl ji q 11 buf m) = 0 \<and>
    fst (svr4_shmctl K' jl' ji' q 1 buf m) =
      min 0 (fst (ipc_shmctl K' q IPC_SET (ishm_to_lshm (ibcs2_shmid_of_bytes (fst (copy_from_user (mem m) buf 48)))) (kern m)))"
proof -
  have m48: "mapped (mem m) buf 48" using mapped_inside [OF assms, of 0 48] by simp
  have st: "fst (store_ds anyway buf err bs (m\<lparr>kern := k\<rparr>)) = (if err < 0 \<and> \<not> anyway then err else 0)"
    if "length bs = 48 \<or> length bs = 112" for anyway err bs k
    using that m48 assms copy_to_user_ok_iff [of "mem m" buf bs] by (auto simp: store_ds_def split_def)
  have len: "length (fst (copy_from_user (mem m) buf 48)) = 48" by simp
  have p1: "length (im_pad (lmsq_to_imsq lm (ibcs2_msqid_of_bytes bs))) = 2"
    if "length bs = 48" for lm bs using that by (simp add: lmsq_to_imsq_def ibcs2_msqid_of_bytes_def field_def)
  have p2: "length (ih_pad1 (lshm_to_ishm ls (ibcs2_shmid_of_bytes bs))) = 8"
    "length (ih_pad3 (lshm_to_ishm ls (ibcs2_shmid_of_bytes bs))) = 2"
    if "length bs = 48" for ls bs using that by (simp_all add: lshm_to_ishm_def ibcs2_shmid_of_bytes_def field_def)
  have c: "snd (copy_from_user (mem m) buf 48) = 0" "snd (copy_from_user (mem m) buf 112) = 0"
    using m48 assms by (simp_all add: copy_from_user_ok_iff)
  show ?thesis
    using c by (simp add: svr4_msgctl_def svr4_shmctl_def Let_def split_def st p1 [OF len] p2 [OF len] min_def)
qed

text \<open>
  C32: When \<^verbatim>\<open>semctl\<close> leaves defined behaviour: exactly for a command outside 0 to 12, which is looked up in
  the table before it is checked, and for reading or setting all the values of a set when Linux, which is
  given a structure of the kernel stack instead of the array of the program, needs more room than that.
\<close>

theorem semctl_undefined_iff:
  assumes "\<And>sid n cmd l k. ipc_semctl K sid n cmd l k = None \<longleftrightarrow> cmd \<in> {13, 17} \<and> big sid k"
  shows "svr4_semctl K sem n cmd arg m = None \<longleftrightarrow> cmd < 0 \<or> 12 < cmd \<or>
    cmd \<in> {6, 9} \<and> big sem (kern m) \<and> (\<exists>p. rd32 (mem m) arg = Some p \<and> mapped (mem m) p 32)"
proof (cases "cmd < 0 \<or> 12 < cmd")
  case True
  then show ?thesis by (auto simp: svr4_semctl_def svr4sem2linux_def arr_get_def)
next
  case False
  have old: "ibcs2_semctl K sem x c arg m = None \<longleftrightarrow> c \<in> {13, 17} \<and> big sem (kern m) \<and>
      (\<exists>p. rd32 (mem m) arg = Some p \<and> mapped (mem m) p 32)" for x c
    using assms by (auto simp: ibcs2_semctl_def split_def Let_def simp flip: copy_from_user_ok_iff split: option.split)
  have new: "abi4_semctl K sem x c arg m = None \<Longrightarrow> c \<in> {13, 17}" for x c
    using assms by (auto simp: abi4_semctl_def split_def Let_def split: option.splits if_splits)
  have "cmd \<in> set [0..12]" using False by simp
  then have "list_ex (\<lambda>c. cmd = c) [0..12]" by (simp only: list_ex_iff) blast
  then show ?thesis
    using new [of n 2] new [of n 1]
    by (auto simp: upto.simps svr4_semctl_def svr4sem2linux_def arr_get_def old simp del: not_None_eq)
qed

theorem semctl_undefined_iff_witness:
  "svr4_semctl ipc_kernel 3 0 13 0x8000 (blank_mach ()) = None \<and>
   svr4_semctl ipc_kernel 3 0 6 0x8000 (blank_mach ()) = None \<and>
   svr4_semctl ipc_kernel 3 0 2 0x8000 (blank_mach ()) \<noteq> None"
proof -
  have K: "ipc_semctl ipc_kernel sid n cmd l k = None \<longleftrightarrow> cmd \<in> {13, 17} \<and> (\<lambda>sid k. True) sid k" for sid n cmd l k
    by (simp add: ipc_kernel_def)
  have "\<exists>p. rd32 (mem (blank_mach ())) 0x8000 = Some p" by (rule rd32_ok) simp
  then show ?thesis
    using semctl_undefined_iff [OF K, of 3 0 13 "0x8000" "blank_mach ()"] semctl_undefined_iff [OF K, of 3 0 6 "0x8000" "blank_mach ()"]
      semctl_undefined_iff [OF K, of 3 0 2 "0x8000" "blank_mach ()"] by simp
qed

end
