(* ===== verification/Svr4_Termios.thy ===== *)
theory Svr4_Termios
  imports Svr4_Open
begin

text \<open>
  Terminal settings (\<^verbatim>\<open>abi/svr4/termios.c\<close>, \<^verbatim>\<open>include/abi/svr4/termios.h\<close>): the structures of System V, SVR4,
  BSD and Version 7 Unix, their translation to and from the \<^verbatim>\<open>termios\<close> of Linux, and the terminal ioctls.
  Linux is the record \<open>tty_env\<close>; a terminal has 19 control characters there.  Messages of \<^verbatim>\<open>printk\<close> are left
  out.
\<close>

section \<open>Linux\<close>

record termio =
  ti_iflag :: u16
  ti_oflag :: u16
  ti_cflag :: u16
  ti_lflag :: u16
  ti_line :: u8
  ti_cc :: "u8 list"

record termios =
  c_iflag :: u32
  c_oflag :: u32
  c_cflag :: u32
  c_lflag :: u32
  c_cc :: "u8 list"
  c_line :: u8

record 'k tty_env =
  tt_verify_area :: "u32 \<Rightarrow> nat \<Rightarrow> int"
  tt_ioctl :: "int \<Rightarrow> u32 \<Rightarrow> u32 \<Rightarrow> 'k mach \<Rightarrow> int \<times> 'k mach"
  get_termio :: "int \<Rightarrow> u32 \<Rightarrow> 'k \<Rightarrow> int \<times> termio \<times> 'k"
  set_termio :: "int \<Rightarrow> u32 \<Rightarrow> termio \<Rightarrow> 'k \<Rightarrow> int \<times> 'k"
  get_termios :: "int \<Rightarrow> u32 \<Rightarrow> 'k \<Rightarrow> int \<times> termios \<times> 'k"
  set_termios :: "int \<Rightarrow> u32 \<Rightarrow> termios \<Rightarrow> 'k \<Rightarrow> int \<times> 'k"
  get_ldisc :: "int \<Rightarrow> 'k \<Rightarrow> int \<times> u32 \<times> 'k"
  set_ldisc :: "int \<Rightarrow> u32 \<Rightarrow> 'k \<Rightarrow> int \<times> 'k"

abbreviation (input) "TCGETS \<equiv> (0x5401::u32)"
abbreviation (input) "TCSETS \<equiv> (0x5402::u32)"
abbreviation (input) "TCSETSW \<equiv> (0x5403::u32)"
abbreviation (input) "TCSETSF \<equiv> (0x5404::u32)"
abbreviation (input) "TCGETA \<equiv> (0x5405::u32)"
abbreviation (input) "TCSETA \<equiv> (0x5406::u32)"
abbreviation (input) "TCSETAW \<equiv> (0x5407::u32)"
abbreviation (input) "TCSETAF \<equiv> (0x5408::u32)"
abbreviation (input) "TCSBRK \<equiv> (0x5409::u32)"
abbreviation (input) "TCXONC \<equiv> (0x540a::u32)"
abbreviation (input) "TCFLSH \<equiv> (0x540b::u32)"
abbreviation (input) "TIOCEXCL \<equiv> (0x540c::u32)"
abbreviation (input) "TIOCNXCL \<equiv> (0x540d::u32)"
abbreviation (input) "TIOCSCTTY \<equiv> (0x540e::u32)"
abbreviation (input) "TIOCGPGRP \<equiv> (0x540f::u32)"
abbreviation (input) "TIOCSPGRP \<equiv> (0x5410::u32)"
abbreviation (input) "TIOCGWINSZ \<equiv> (0x5413::u32)"
abbreviation (input) "TIOCSWINSZ \<equiv> (0x5414::u32)"
abbreviation (input) "TIOCNOTTY \<equiv> (0x5422::u32)"
abbreviation (input) "TIOCSETD \<equiv> (0x5423::u32)"
abbreviation (input) "TIOCGETD \<equiv> (0x5424::u32)"
abbreviation (input) "CRTSCTS \<equiv> (0x80000000::u32)"
abbreviation (input) "ICANON \<equiv> (2::u32)"
abbreviation (input) "CBAUD \<equiv> (0x100f::u32)"
abbreviation (input) "CIBAUD \<equiv> (0x100f0000::u32)"
abbreviation (input) "B57600 \<equiv> (0x1001::u32)"
abbreviation (input) "B115200 \<equiv> (0x1002::u32)"
abbreviation (input) "B38400 \<equiv> (15::u32)"

section \<open>System V\<close>

definition termio_bytes :: "u8 \<Rightarrow> termio \<Rightarrow> u8 list" where
  "termio_bytes pad t = bytes16 (ti_iflag t) @ bytes16 (ti_oflag t) @ bytes16 (ti_cflag t) @ bytes16 (ti_lflag t) @
     [ti_line t] @ ti_cc t @ [pad]"

definition termio_of_bytes :: "u8 list \<Rightarrow> termio" where
  "termio_of_bytes bs = \<lparr>ti_iflag = word16 (field 0 2 bs), ti_oflag = word16 (field 2 2 bs),
     ti_cflag = word16 (field 4 2 bs), ti_lflag = word16 (field 6 2 bs), ti_line = bs ! 8, ti_cc = field 9 8 bs\<rparr>"

text \<open>The flag for hardware flow control of Linux does not fit the 16 bits it is added to.\<close>

definition termio_fixup :: "u8 \<Rightarrow> termio \<Rightarrow> termio" where
  "termio_fixup eof t =
     (let t = (if ti_lflag t AND 2 = 0 then t\<lparr>ti_cc := (ti_cc t)[6 := ti_cc t ! 4, 4 := eof]\<rparr> else t);
          cf = (if ti_cflag t AND 0x8000 \<noteq> 0 then ucast (ucast (ti_cflag t) OR CRTSCTS) else ti_cflag t)
      in t\<lparr>ti_cflag := cf AND NOT 0xf000\<rparr>)"

definition svr_to_linux_termio :: "'k tty_env \<Rightarrow> int \<Rightarrow> u32 \<Rightarrow> u32 \<Rightarrow> 'k mach \<Rightarrow> int \<times> 'k mach" where
  "svr_to_linux_termio K fd op it m =
     (let error = tt_verify_area K it 18 in
      if error \<noteq> 0 then (error, m)
      else let (error, t, k) = get_termio K fd TCGETA (kern m); m = m\<lparr>kern := k\<rparr> in
        if error \<noteq> 0 then (error, m)
        else let eof = ti_cc t ! 4; (bs, left) = copy_from_user (mem m) it 18 in
          if left \<noteq> 0 then (- EFAULT, m)
          else let (error, k) = set_termio K fd op (termio_fixup eof (termio_of_bytes bs)) (kern m)
               in (error, m\<lparr>kern := k\<rparr>))"

definition linux_to_svr_termio :: "'k tty_env \<Rightarrow> u8 \<Rightarrow> int \<Rightarrow> u32 \<Rightarrow> 'k mach \<Rightarrow> int \<times> 'k mach" where
  "linux_to_svr_termio K junk fd it m =
     (let error = tt_verify_area K it 18 in
      if error \<noteq> 0 then (error, m)
      else let (error, t, k) = get_termio K fd TCGETA (kern m); m = m\<lparr>kern := k\<rparr> in
        if error \<noteq> 0 then (error, m)
        else let t = (if ti_lflag t AND 2 = 0 then t\<lparr>ti_cc := (ti_cc t)[4 := ti_cc t ! 6]\<rparr> else t);
                 (left, mm) = copy_to_user (mem m) it (termio_bytes junk t)
             in (if left \<noteq> 0 then - EFAULT else 0, m\<lparr>mem := mm\<rparr>))"

section \<open>SVR4\<close>

text \<open>The local flags: \<^verbatim>\<open>IEXTEN\<close> and \<^verbatim>\<open>TOSTOP\<close> move, \<^verbatim>\<open>ECHOCTL\<close> of Linux is kept; \<open>r\<close> is the flag word of the program.\<close>

definition svr4_set_lflag :: "u32 \<Rightarrow> u32 \<Rightarrow> u32" where
  "svr4_set_lflag lflag r =
     (let f = (lflag AND NOT 0x81ff) OR take_bit 16 r;
          f = f AND NOT 0x8000;
          f = f OR push_bit 7 (f AND 0x100);
          f = f AND NOT 0x100;
          f = f OR drop_bit 1 (f AND 0x200);
          f = f AND NOT 0x200
      in f OR (lflag AND 0x200))"

definition svr4_get_lflag :: "u32 \<Rightarrow> u32" where
  "svr4_get_lflag f =
     (let f = f AND NOT 0x200;
          f = f OR push_bit 1 (f AND 0x100);
          f = f AND NOT 0x100;
          f = f OR drop_bit 7 (f AND 0x8000)
      in f AND NOT 0x8000)"

definition svr4_set_cflag :: "u32 \<Rightarrow> u32" where
  "svr4_set_cflag f = (if f AND 0x8000 \<noteq> 0 then f OR CRTSCTS else f) AND NOT 0xf000"

definition svr4_get_cflag :: "u32 \<Rightarrow> u32" where
  "svr4_get_cflag f = (if f AND CRTSCTS \<noteq> 0 then f OR 0x8000 else f) AND 0xffff"

definition svr4_set_cc :: "bool \<Rightarrow> u8 list \<Rightarrow> u8 list \<Rightarrow> u8 list" where
  "svr4_set_cc canon svr4_cc cc =
     (let cc = cc[0 := svr4_cc ! 0, 1 := svr4_cc ! 1, 2 := svr4_cc ! 2, 3 := svr4_cc ! 3, 7 := svr4_cc ! 7,
                  8 := svr4_cc ! 8, 9 := svr4_cc ! 9, 10 := svr4_cc ! 10, 12 := svr4_cc ! 12, 13 := svr4_cc ! 13,
                  14 := svr4_cc ! 14, 15 := svr4_cc ! 15, 16 := svr4_cc ! 16]
      in if canon then cc[4 := svr4_cc ! 4, 11 := svr4_cc ! 5]
         else cc[5 := svr4_cc ! 5, 6 := svr4_cc ! 4, 11 := svr4_cc ! 6])"

text \<open>The last three of the 19 characters are not set: \<open>junk\<close> is what the stack held.\<close>

definition svr4_get_cc :: "u8 list \<Rightarrow> bool \<Rightarrow> u8 list \<Rightarrow> u8 list" where
  "svr4_get_cc junk canon cc =
     [cc ! 0, cc ! 1, cc ! 2, cc ! 3, if canon then cc ! 4 else cc ! 6, if canon then cc ! 11 else cc ! 5,
      cc ! 16, cc ! 7, cc ! 8, cc ! 9, cc ! 10, cc ! 10, cc ! 12, cc ! 13, cc ! 14, cc ! 15] @ junk"

definition svr4_to_linux_termios :: "'k tty_env \<Rightarrow> int \<Rightarrow> u32 \<Rightarrow> u32 \<Rightarrow> 'k mach \<Rightarrow> int \<times> 'k mach" where
  "svr4_to_linux_termios K fd op it m =
     (let error = tt_verify_area K it 36 in
      if error \<noteq> 0 then (error, m)
      else let (error, t, k) = get_termios K fd TCGETS (kern m); m = m\<lparr>kern := k\<rparr> in
        if error \<noteq> 0 then (error, m)
        else let r = take_bit 16 (get_user32 (mem m) (it + 12)); old = (c_lflag t AND NOT 0x81ff) OR r;
                 lflag = svr4_set_lflag (c_lflag t) r;
                 t' = \<lparr>c_iflag = get_user32 (mem m) it AND NOT 0x8000, c_oflag = get_user32 (mem m) (it + 4),
                       c_cflag = svr4_set_cflag (get_user32 (mem m) (it + 8)), c_lflag = lflag, c_cc = c_cc t,
                       c_line = c_line t\<rparr>;
                 m = snd (tt_ioctl K fd (if old AND 0x8000 \<noteq> 0 then TIOCEXCL else TIOCNXCL) 0 m);
                 (svr4_cc, left) = copy_from_user (mem m) (it + 16) 19 in
          if left \<noteq> 0 then (- EFAULT, m)
          else let (error, k) = set_termios K fd op (t'\<lparr>c_cc := svr4_set_cc (lflag AND ICANON \<noteq> 0) svr4_cc (c_cc t)\<rparr>) (kern m)
               in (error, m\<lparr>kern := k\<rparr>))"

definition linux_to_svr4_termios :: "'k tty_env \<Rightarrow> u8 list \<Rightarrow> int \<Rightarrow> u32 \<Rightarrow> u32 \<Rightarrow> 'k mach \<Rightarrow> int \<times> 'k mach" where
  "linux_to_svr4_termios K junk fd op it m =
     (let error = tt_verify_area K it 36 in
      if error \<noteq> 0 then (error, m)
      else let (error, t, k) = get_termios K fd op (kern m); m = m\<lparr>kern := k\<rparr> in
        if error \<noteq> 0 then (error, m)
        else let lflag = svr4_get_lflag (c_lflag t);
                 mm = snd (put_user (mem m) it (bytes32 (c_iflag t AND 0x1fff)));
                 mm = snd (put_user mm (it + 4) (bytes32 (c_oflag t AND 0xffff)));
                 mm = snd (put_user mm (it + 8) (bytes32 (svr4_get_cflag (c_cflag t))));
                 mm = snd (put_user mm (it + 12) (bytes32 (lflag AND 0x3ff)));
                 (left, mm) = copy_to_user mm (it + 16) (svr4_get_cc junk (lflag AND ICANON \<noteq> 0) (c_cc t))
             in (if left \<noteq> 0 then - EFAULT else 0, m\<lparr>mem := mm\<rparr>))"

definition svr4_term_ioctl :: "'k tty_env \<Rightarrow> u8 list \<Rightarrow> int \<Rightarrow> u32 \<Rightarrow> u32 \<Rightarrow> 'k mach \<Rightarrow> int \<times> 'k mach" where
  "svr4_term_ioctl K junk fd cmd data m =
     (if cmd = 1 then linux_to_svr_termio K (junk ! 0) fd data m
      else if cmd = 2 then svr_to_linux_termio K fd TCSETA data m
      else if cmd = 3 then svr_to_linux_termio K fd TCSETAW data m
      else if cmd = 4 then svr_to_linux_termio K fd TCSETAF data m
      else if cmd = 5 then tt_ioctl K fd TCSBRK data m
      else if cmd = 6 then tt_ioctl K fd TCXONC data m
      else if cmd = 7 then tt_ioctl K fd TCFLSH data m
      else if cmd = 8 \<or> cmd = 9 \<or> cmd = 10 then (- EINVAL, m)
      else if cmd = 13 then linux_to_svr4_termios K junk fd TCGETS data m
      else if cmd = 14 then svr4_to_linux_termios K fd TCSETS data m
      else if cmd = 15 then svr4_to_linux_termios K fd TCSETSW data m
      else if cmd = 16 then svr4_to_linux_termios K fd TCSETSF data m
      else if cmd = 20 then tt_ioctl K fd TIOCSPGRP data m
      else if cmd = 21 then tt_ioctl K fd TIOCGPGRP data m
      else if cmd = 34 then (4, m)
      else if cmd = 35 then (0, m)
      else if cmd = 103 then tt_ioctl K fd TIOCSWINSZ data m
      else if cmd = 104 then tt_ioctl K fd TIOCGWINSZ data m
      else if cmd = 118 then tt_ioctl K fd TIOCSPGRP data m
      else if cmd = 119 then tt_ioctl K fd TIOCGPGRP data m
      else (- EINVAL, m))"

section \<open>Flow control\<close>

record struct_termiox =
  x_hflag :: u16
  x_cflag :: u16
  x_rflag :: "u16 list"
  x_sflag :: u16

definition termiox_bytes :: "struct_termiox \<Rightarrow> u8 list" where
  "termiox_bytes x = bytes16 (x_hflag x) @ bytes16 (x_cflag x) @ concat (map bytes16 (x_rflag x)) @ bytes16 (x_sflag x)"

definition termiox_of_bytes :: "u8 list \<Rightarrow> struct_termiox" where
  "termiox_of_bytes bs = \<lparr>x_hflag = word16 (field 0 2 bs), x_cflag = word16 (field 2 2 bs),
     x_rflag = map (\<lambda>i. word16 (field (4 + 2 * i) 2 bs)) [0..<5], x_sflag = word16 (field 14 2 bs)\<rparr>"

definition svr4_termiox_ioctl :: "'k tty_env \<Rightarrow> int \<Rightarrow> u32 \<Rightarrow> u32 \<Rightarrow> 'k mach \<Rightarrow> int \<times> 'k mach" where
  "svr4_termiox_ioctl K fd cmd data m =
     (if cmd < 1 \<or> cmd > 4 then (- EINVAL, m)
      else let error = tt_verify_area K data 16 in
        if error \<noteq> 0 then (error, m)
        else let (error, t, k) = get_termios K fd TCGETS (kern m); m = m\<lparr>kern := k\<rparr> in
          if error \<noteq> 0 then (error, m)
          else if cmd = 1
          then (let tx = \<lparr>x_hflag = (if c_cflag t AND CRTSCTS \<noteq> 0 then 3 else 0), x_cflag = 0, x_rflag = replicate 5 0,
                          x_sflag = 0\<rparr>;
                    (left, mm) = copy_to_user (mem m) data (termiox_bytes tx)
                in (if left \<noteq> 0 then - EFAULT else 0, m\<lparr>mem := mm\<rparr>))
          else let (bs, left) = copy_from_user (mem m) data 16; tx = termiox_of_bytes bs in
            if left \<noteq> 0 then (- EFAULT, m)
            else if x_hflag tx \<noteq> 0 \<and> x_hflag tx \<noteq> 3 \<or> x_cflag tx \<noteq> 0 \<or> list_ex (\<lambda>r. r \<noteq> 0) (x_rflag tx) \<or> x_sflag tx \<noteq> 0
            then (- EINVAL, m)
            else let cf = (if x_hflag tx \<noteq> 0 then c_cflag t OR CRTSCTS else c_cflag t AND NOT CRTSCTS);
                     op = (if cmd = 2 then TCSETS else if cmd = 3 then TCSETSW else TCSETSF);
                     (error, k) = set_termios K fd op (t\<lparr>c_cflag := cf\<rparr>) (kern m)
                 in (error, m\<lparr>kern := k\<rparr>))"

section \<open>BSD\<close>

definition speed_map :: "u32 list" where
  "speed_map = [0, 50, 75, 110, 134, 150, 200, 300, 600, 1200, 1800, 2400, 4800, 9600, 19200, 38400]"

fun speed_index :: "u32 \<Rightarrow> u32 list \<Rightarrow> u32 \<Rightarrow> u32" where
  "speed_index s [] i = B38400"
| "speed_index s (v # vs) i = (if s \<le> v then i else speed_index s vs (i + 1))"

definition bsd_to_linux_speed :: "u32 \<Rightarrow> u32" where
  "bsd_to_linux_speed s =
     (if s = 57600 then B57600 else if s = 115200 then B115200 else speed_index s speed_map 0)"

definition linux_to_bsd_speed :: "u32 \<Rightarrow> u32 option" where
  "linux_to_bsd_speed s =
     (if s = B57600 then Some 57600 else if s = B115200 then Some 115200 else arr_get speed_map (uint s))"

text \<open>The control characters of BSD, by their number in Linux.\<close>

definition bsd_cc_index :: "(nat \<times> nat) list" where
  "bsd_cc_index = [(4, 0), (11, 1), (16, 2), (2, 3), (14, 4), (3, 5), (12, 6), (7, 7), (0, 8), (1, 9), (10, 10), (8, 12),
     (9, 13), (15, 14), (13, 15), (6, 16), (5, 17)]"

definition bsd_set_cc :: "u8 list \<Rightarrow> u8 list \<Rightarrow> u8 list" where
  "bsd_set_cc bsd_cc cc = fold (\<lambda>(i, j) cc. cc[i := bsd_cc ! j]) bsd_cc_index cc"

definition bsd_get_cc :: "u8 list \<Rightarrow> u8 list" where
  "bsd_get_cc cc = [cc ! 4, cc ! 11, cc ! 16, cc ! 2, cc ! 14, cc ! 3, cc ! 12, cc ! 7, cc ! 0, cc ! 1, cc ! 10, cc ! 10,
     cc ! 8, cc ! 9, cc ! 15, cc ! 13, cc ! 6, cc ! 5, 0, 0]"

text \<open>The new settings, from the old ones and the words of the program's structure.\<close>

definition bsd_set_flags :: "(u32 \<Rightarrow> u32) \<Rightarrow> termios \<Rightarrow> termios" where
  "bsd_set_flags w t =
     (let i = w 0; oo = w 4; c = w 8; l = w 12;
          cf = (c_cflag t AND NOT 0xfff) OR drop_bit 4 (c AND 0xff00);
          cf = (if cf AND 0x30000 \<noteq> 0 then cf OR 0x80000000 else cf)
      in t\<lparr>c_iflag := (i AND NOT 0xc00) OR push_bit 1 (i AND 0x400) OR drop_bit 1 (i AND 0x800),
           c_oflag := (c_oflag t AND NOT 0x1805) OR (oo AND 9) OR push_bit 1 (oo AND 2) OR push_bit 10 (oo AND 4)
             OR push_bit 9 (oo AND 4),
           c_cflag := cf OR bsd_to_linux_speed (w 40) OR push_bit 16 (bsd_to_linux_speed (w 36)),
           c_lflag := (c_lflag t AND NOT 0xdfb3) OR push_bit 12 (l AND 1) OR push_bit 3 (l AND 0x46)
             OR push_bit 5 (l AND 0x420) OR drop_bit 7 (l AND 0x180) OR drop_bit 14 (l AND 0x400000)
             OR drop_bit 11 (l AND 0x2800000) OR drop_bit 24 (l AND 0x80000000)\<rparr>)"

definition bsd_to_linux_termios :: "'k tty_env \<Rightarrow> int \<Rightarrow> u32 \<Rightarrow> u32 \<Rightarrow> 'k mach \<Rightarrow> int \<times> 'k mach" where
  "bsd_to_linux_termios K fd op it m =
     (let error = tt_verify_area K it 44 in
      if error \<noteq> 0 then (error, m)
      else let (error, t, k) = get_termios K fd TCGETS (kern m); m = m\<lparr>kern := k\<rparr> in
        if error \<noteq> 0 then (error, m)
        else let t = bsd_set_flags (\<lambda>off. get_user32 (mem m) (it + off)) t;
                 (bsd_cc, left) = copy_from_user (mem m) (it + 16) 20 in
          if left \<noteq> 0 then (- EFAULT, m)
          else let (error, k) = set_termios K fd op (t\<lparr>c_cc := bsd_set_cc bsd_cc (c_cc t)\<rparr>) (kern m)
               in (error, m\<lparr>kern := k\<rparr>))"

text \<open>The words of the structure for the program, with the place of each.\<close>

definition bsd_get_flags :: "termios \<Rightarrow> (u32 \<times> u32) list option" where
  "bsd_get_flags t =
     (let i = c_iflag t; oo = c_oflag t; c = c_cflag t; l = c_lflag t in
      Option.bind (linux_to_bsd_speed (c AND CBAUD)) (\<lambda>ospeed.
      map_option (\<lambda>ispeed.
        [(0, (i AND 0x1ff) OR drop_bit 1 (i AND 0x400) OR drop_bit 2 (i AND 0x1000) OR drop_bit 4 (i AND 0x2000)),
         (4, (oo AND 1) OR drop_bit 1 (oo AND 4) OR (if oo AND 0x1800 = 0x1800 then 4 else 0)),
         (8, (c AND NOT 0x80000fff) OR push_bit 4 (c AND 0xff0) OR (if c AND 0x80000000 \<noteq> 0 then 0x30000 else 0)),
         (40, ospeed), (36, ispeed),
         (12, (l AND 0x3fff2c08) OR push_bit 7 (l AND 3) OR drop_bit 3 (l AND 0x270) OR push_bit 14 (l AND 0x100)
           OR drop_bit 4 (l AND 0x400) OR drop_bit 11 (l AND 0x800) OR push_bit 11 (l AND 0x1000)
           OR push_bit 15 (l AND 0x4000) OR drop_bit 5 (l AND 0x8000))])
        (if c AND CIBAUD \<noteq> 0 then linux_to_bsd_speed (drop_bit 16 (c AND CIBAUD)) else linux_to_bsd_speed (c AND CBAUD))))"

definition linux_to_bsd_termios :: "'k tty_env \<Rightarrow> int \<Rightarrow> u32 \<Rightarrow> u32 \<Rightarrow> 'k mach \<Rightarrow> (int \<times> 'k mach) option" where
  "linux_to_bsd_termios K fd op it m =
     (let error = tt_verify_area K it 44 in
      if error \<noteq> 0 then Some (error, m)
      else let (error, t, k) = get_termios K fd op (kern m); m = m\<lparr>kern := k\<rparr> in
        if error \<noteq> 0 then Some (error, m)
        else map_option (\<lambda>ws.
          let mm = fold (\<lambda>(off, v) mm. snd (put_user mm (it + off) (bytes32 v))) ws (mem m);
              (left, mm) = copy_to_user mm (it + 16) (bsd_get_cc (c_cc t))
          in (if left \<noteq> 0 then - EFAULT else 0, m\<lparr>mem := mm\<rparr>)) (bsd_get_flags t))"

section \<open>Version 7\<close>

text \<open>Reading the settings, building a small structure from them and storing it; and the reverse.\<close>

definition v7_get :: "'k tty_env \<Rightarrow> int \<Rightarrow> u32 \<Rightarrow> nat \<Rightarrow> (termios \<Rightarrow> u8 list) \<Rightarrow> 'k mach \<Rightarrow> int \<times> 'k mach" where
  "v7_get K fd data n f m =
     (let error = tt_verify_area K data n in
      if error \<noteq> 0 then (error, m)
      else let (error, t, k) = get_termios K fd TCGETS (kern m); m = m\<lparr>kern := k\<rparr> in
        if error \<noteq> 0 then (error, m)
        else let (left, mm) = copy_to_user (mem m) data (f t) in (if left \<noteq> 0 then - EFAULT else 0, m\<lparr>mem := mm\<rparr>))"

definition v7_set :: "'k tty_env \<Rightarrow> int \<Rightarrow> u32 \<Rightarrow> nat \<Rightarrow> (u8 list \<Rightarrow> termios \<Rightarrow> termios) \<Rightarrow> 'k mach \<Rightarrow> int \<times> 'k mach" where
  "v7_set K fd data n f m =
     (let error = tt_verify_area K data n in
      if error \<noteq> 0 then (error, m)
      else let (bs, left) = copy_from_user (mem m) data n in
        if left \<noteq> 0 then (- EFAULT, m)
        else let (error, t, k) = get_termios K fd TCGETS (kern m); m = m\<lparr>kern := k\<rparr> in
          if error \<noteq> 0 then (error, m)
          else let (error, k) = set_termios K fd TCSETS (f bs t) (kern m) in (error, m\<lparr>kern := k\<rparr>))"

text \<open>\<^verbatim>\<open>LITOUT\<close> looks for the output flag in the control flags.\<close>

definition sgttyb_of :: "termios \<Rightarrow> u8 list" where
  "sgttyb_of t =
     [0, 0, c_cc t ! 2, c_cc t ! 3] @ bytes32
       (drop_bit 3 (c_cflag t AND 0x200) OR drop_bit 1 (c_cflag t AND 0x100)
        OR (if c_cflag t AND 1 \<noteq> 0 then 0 else 0x200000) OR push_bit 2 (c_oflag t AND 4)
        OR (c_oflag t AND 0x4100) OR (if c_oflag t AND 0x1800 \<noteq> 0 then 0x400 else 0) OR push_bit 3 (c_oflag t AND 0x600)
        OR push_bit 2 (c_oflag t AND 0x2000) OR (c_lflag t AND 12)
        OR (if c_lflag t AND ICANON \<noteq> 0 then 0 else if c_lflag t AND 1 \<noteq> 0 then 2 else 0x20))"

definition sgttyb_set :: "u8 list \<Rightarrow> termios \<Rightarrow> termios" where
  "sgttyb_set bs t =
     (let fl = word32 (field 4 4 bs);
          l = 3; i = 0x500; oo = 0;
          l = (if fl AND 2 \<noteq> 0 then l AND NOT ICANON else l);
          l = (if fl AND 8 \<noteq> 0 then l OR 0x8a38 else l);
          oo = (if fl AND 0x10 \<noteq> 0 then oo OR 5 else oo);
          i = (if fl AND 0x20 \<noteq> 0 then 0 else i);
          l = (if fl AND 0x20 \<noteq> 0 then l AND NOT 3 else l);
          oo = (if fl AND 0x200000 \<noteq> 0 then oo AND NOT 1 else oo);
          cc = (c_cc t)[2 := bs ! 2, 3 := bs ! 3];
          cc = (if l AND ICANON = 0 then cc[6 := 1, 5 := 0] else cc)
      in t\<lparr>c_iflag := i, c_oflag := oo, c_lflag := l, c_cc := cc\<rparr>)"

definition tchars_of :: "termios \<Rightarrow> u8 list" where
  "tchars_of t = map ((!) (c_cc t)) [0, 1, 8, 9, 4, 16]"

definition tchars_set :: "u8 list \<Rightarrow> termios \<Rightarrow> termios" where
  "tchars_set tc t = t\<lparr>c_cc := (c_cc t)[0 := tc ! 0, 1 := tc ! 1, 8 := tc ! 2, 9 := tc ! 3, 4 := tc ! 4, 16 := tc ! 5]\<rparr>"

definition ltchars_of :: "termios \<Rightarrow> u8 list" where
  "ltchars_of t = map ((!) (c_cc t)) [10, 10, 12, 16, 14, 15]"

definition ltchars_set :: "u8 list \<Rightarrow> termios \<Rightarrow> termios" where
  "ltchars_set tc t =
     t\<lparr>c_cc := (c_cc t)[10 := tc ! 0, 16 := tc ! 1, 12 := tc ! 2, 16 := tc ! 3, 14 := tc ! 4, 15 := tc ! 5]\<rparr>"

definition bsd_ioctl_termios :: "'k tty_env \<Rightarrow> int \<Rightarrow> u32 \<Rightarrow> u32 \<Rightarrow> 'k mach \<Rightarrow> (int \<times> 'k mach) option" where
  "bsd_ioctl_termios K fd func data m =
     (let f = func AND 0xff in
      if f = 0
      then Some (let error = tt_verify_area K data 2 in
                 if error \<noteq> 0 then (error, m)
                 else let (error, ldisc, k) = get_ldisc K fd (kern m)
                      in (error, m\<lparr>kern := k, mem := (if error = 0
                            then snd (put_user (mem m) data (bytes16 (ucast ldisc))) else mem m)\<rparr>))
      else if f = 1
      then Some (let error = tt_verify_area K data 2 in
                 if error \<noteq> 0 then (error, m)
                 else let (bs, left) = copy_from_user (mem m) data 2;
                          (error, k) = set_ldisc K fd (if left \<noteq> 0 then 0 else ucast (word16 bs)) (kern m)
                      in (error, m\<lparr>kern := k\<rparr>))
      else if f = 2
      then Some (let (error, t, k) = get_termios K fd TCGETS (kern m); m = m\<lparr>kern := k\<rparr> in
                 if error \<noteq> 0 then (error, m)
                 else let cf = (if data \<noteq> 0 then c_cflag t OR 0x400 else c_cflag t AND NOT 0x400);
                          (error, k) = set_termios K fd TCSETS (t\<lparr>c_cflag := cf\<rparr>) (kern m)
                      in (error, m\<lparr>kern := k\<rparr>))
      else if f = 8 then Some (v7_get K fd data 8 sgttyb_of m)
      else if f = 9 \<or> f = 10 then Some (v7_set K fd data 8 sgttyb_set m)
      else if f = 17 then Some (v7_set K fd data 6 tchars_set m)
      else if f = 18 then Some (v7_get K fd data 6 tchars_of m)
      else if f = 116 then Some (v7_get K fd data 6 ltchars_of m)
      else if f = 117 then Some (v7_set K fd data 6 ltchars_set m)
      else if f = 13 then Some (tt_ioctl K fd TIOCEXCL data m)
      else if f = 14 then Some (tt_ioctl K fd TIOCNXCL data m)
      else if f = 16 then Some (tt_ioctl K fd TCFLSH data m)
      else if f = 20 then Some (bsd_to_linux_termios K fd TCSETS data m)
      else if f = 21 then Some (bsd_to_linux_termios K fd TCSETSW data m)
      else if f = 19 then linux_to_bsd_termios K fd TCGETS data m
      else if f = 22 then Some (bsd_to_linux_termios K fd TCSETSF data m)
      else if f = 26 then Some (tt_ioctl K fd TIOCGETD data m)
      else if f = 27 then Some (tt_ioctl K fd TIOCSETD data m)
      else if f = 97 then Some (tt_ioctl K fd TIOCSCTTY data m)
      else if f = 103 then Some (tt_ioctl K fd TIOCSWINSZ data m)
      else if f = 104 then Some (tt_ioctl K fd TIOCGWINSZ data m)
      else if f = 113 then Some (tt_ioctl K fd TIOCNOTTY data m)
      else if f = 118 then Some (tt_ioctl K fd TIOCSPGRP data m)
      else if f = 119 then Some (tt_ioctl K fd TIOCGPGRP data m)
      else if f = 123 then Some (tt_ioctl K fd TCSBRK data m)
      else if f = 124 \<or> f = 125 then Some (0, m)
      else Some (- EINVAL, m))"

section \<open>Words in user memory\<close>

lemma rd32_cong: "(\<And>i. i < 4 \<Longrightarrow> m' (a + of_nat i) = m (a + of_nat i)) \<Longrightarrow> rd32 m' a = rd32 m a"
proof -
  assume eq: "\<And>i. i < 4 \<Longrightarrow> m' (a + of_nat i) = m (a + of_nat i)"
  from eq [of 0] eq [of 1] eq [of 2] eq [of 3] show ?thesis by (simp add: rd32_def)
qed

lemma rd32_copy_other:
  assumes "off + 4 \<le> off' \<or> off' + length bs \<le> off" "off + 4 \<le> 2 ^ 32" "off' + length bs \<le> 2 ^ 32"
  shows "rd32 (snd (copy_to_user m (a + of_nat off') bs)) (a + of_nat off) = rd32 m (a + of_nat off)"
proof (rule rd32_cong, rule copy_to_user_frame)
  fix i j assume "i < (4::nat)" "j < length bs"
  then have "off + i \<noteq> off' + j" "off + i < 2 ^ 32" "off' + j < 2 ^ 32" using assms by auto
  then show "a + of_nat off + of_nat i \<noteq> a + of_nat off' + of_nat j"
    using of_nat_offset [of "off + i" "off' + j" a] by (simp add: add.assoc)
qed

lemma get_user32_put_other:
  assumes "off + 4 \<le> off' \<or> off' + length bs \<le> off" "off + 4 \<le> 2 ^ 32" "off' + length bs \<le> 2 ^ 32"
  shows "get_user32 (snd (put_user m (a + of_nat off') bs)) (a + of_nat off) = get_user32 m (a + of_nat off)"
  using rd32_copy_other [OF assms, of m a] by (simp add: put_user_def get_user32_def)

lemma get_user32_copy_other:
  assumes "off + 4 \<le> off' \<or> off' + length bs \<le> off" "off + 4 \<le> 2 ^ 32" "off' + length bs \<le> 2 ^ 32"
  shows "get_user32 (snd (copy_to_user m (a + of_nat off') bs)) (a + of_nat off) = get_user32 m (a + of_nat off)"
  using rd32_copy_other [OF assms, of m a] by (simp add: get_user32_def)

lemma rd32_copy:
  assumes "copy_from_user m a 4 = (bs, 0)"
  shows "rd32 m a = Some (word32 bs)"
proof -
  have "(4::nat) = Suc (Suc (Suc (Suc 0)))" by simp
  with assms have "copy_from_user m a (Suc (Suc (Suc (Suc 0)))) = (bs, 0)" by metis
  then show ?thesis
    by (auto simp: rd32_def word32_def Let_def add.assoc split: option.splits)
qed

lemma get_user32_put:
  assumes "mapped m a 4"
  shows "get_user32 (snd (put_user m a (bytes32 v))) a = v"
proof -
  have "copy_from_user (snd (put_user m a (bytes32 v))) a 4 = (bytes32 v, 0)"
    using put_user_round_trip [of m a "bytes32 v"] assms by simp
  from rd32_copy [OF this] show ?thesis by (simp add: get_user32_def)
qed

section \<open>Reading and writing back\<close>

text \<open>The local flags that come back: \<^verbatim>\<open>TOSTOP\<close> is also set when \<^verbatim>\<open>ECHOCTL\<close> was.\<close>

lemma bit_consts:
  "bit (0x100 :: u32) n \<longleftrightarrow> n = 8" "bit (0x200 :: u32) n \<longleftrightarrow> n = 9" "bit (0x8000 :: u32) n \<longleftrightarrow> n = 15"
  "bit (0x3ff :: u32) n \<longleftrightarrow> n < 10" "bit (0x81ff :: u32) n \<longleftrightarrow> n < 9 \<or> n = 15"
proof -
  show p: "bit (0x100 :: u32) n \<longleftrightarrow> n = 8" "bit (0x200 :: u32) n \<longleftrightarrow> n = 9" "bit (0x8000 :: u32) n \<longleftrightarrow> n = 15"
    using bit_exp_iff [where 'a = u32, of 8 n] bit_exp_iff [where 'a = u32, of 9 n] bit_exp_iff [where 'a = u32, of 15 n]
    by auto
  have "bit (mask 10 :: u32) n \<longleftrightarrow> n < 10" by (auto simp: bit_mask_iff)
  moreover have "(mask 10 :: u32) = 0x3ff" by (simp add: mask_eq_exp_minus_1)
  ultimately show "bit (0x3ff :: u32) n \<longleftrightarrow> n < 10" by simp
  have "bit (mask 9 OR 0x8000 :: u32) n \<longleftrightarrow> n < 9 \<or> n = 15" using p(3) by (auto simp: bit_or_iff bit_mask_iff)
  moreover have "(mask 9 OR 0x8000 :: u32) = 0x81ff" by (simp add: mask_eq_exp_minus_1)
  ultimately show "bit (0x81ff :: u32) n \<longleftrightarrow> n < 9 \<or> n = 15" by simp
qed

lemmas flag_bits = bit_and_iff bit_or_iff bit_not_iff bit_push_bit_iff bit_drop_bit_eq bit_take_bit_iff comp_def
  possible_bit_word bit_consts

lemma bit_get_lflag:
  assumes "n < 32"
  shows "bit (svr4_get_lflag f) n \<longleftrightarrow> n \<noteq> 15 \<and> (if n = 9 then bit f 8 else if n = 8 then bit f 15 else bit f n)"
  unfolding svr4_get_lflag_def Let_def flag_bits using assms by auto

lemma bit_set_lflag:
  assumes "n < 32"
  shows "bit (svr4_set_lflag f r) n \<longleftrightarrow>
     (if n = 15 then bit r 8 else if n = 9 then bit f 9 else if n = 8 then bit f 9 \<or> bit r 9
      else n \<ge> 9 \<and> bit f n \<or> n < 16 \<and> bit r n)"
  unfolding svr4_set_lflag_def Let_def flag_bits using assms by auto

lemma lflag_round_trip:
  "svr4_set_lflag f (svr4_get_lflag f AND 0x3ff) = f OR (if bit f 9 then 0x100 else 0)"
proof (rule bit_word_eqI)
  fix n assume "n < LENGTH(32)"
  then have n: "n < 32" by simp
  show "bit (svr4_set_lflag f (svr4_get_lflag f AND 0x3ff)) n = bit (f OR (if bit f 9 then 0x100 else 0)) n"
    using n by (cases "bit f 9") (simp_all only: bit_set_lflag bit_get_lflag flag_bits if_True if_False bit_0_eq bot_apply,
      auto split: if_splits)
qed

lemma five_stores:
  assumes "mapped mm a 36" "length bs = 19"
    and mm1: "mm1 = snd (put_user mm a (bytes32 w0))" and mm2: "mm2 = snd (put_user mm1 (a + 4) (bytes32 w1))"
    and mm3: "mm3 = snd (put_user mm2 (a + 8) (bytes32 w2))" and mm4: "mm4 = snd (put_user mm3 (a + 12) (bytes32 w3))"
    and mm5: "mm5 = snd (copy_to_user mm4 (a + 16) bs)"
  shows "get_user32 mm5 a = w0" "get_user32 mm5 (a + 4) = w1" "get_user32 mm5 (a + 8) = w2" "get_user32 mm5 (a + 12) = w3"
    "copy_from_user mm5 (a + 16) 19 = (bs, 0)" "fst (copy_to_user mm4 (a + 16) bs) = 0"
proof -
  have d: "dom mm1 = dom mm" "dom mm2 = dom mm" "dom mm3 = dom mm" "dom mm4 = dom mm"
    by (simp_all add: mm1 mm2 mm3 mm4)
  have m: "mapped mm1 x n = mapped mm x n" "mapped mm2 x n = mapped mm x n" "mapped mm3 x n = mapped mm x n"
      "mapped mm4 x n = mapped mm x n" for x n
    by (rule mapped_dom [OF d(1)] mapped_dom [OF d(2)] mapped_dom [OF d(3)] mapped_dom [OF d(4)])+
  note inside = mapped_inside [OF assms(1), of 0 4] mapped_inside [OF assms(1), of 4 4] mapped_inside [OF assms(1), of 8 4]
    mapped_inside [OF assms(1), of 12 4] mapped_inside [OF assms(1), of 16 19]
  have c: "get_user32 mm5 (a + of_nat off) = get_user32 mm4 (a + of_nat off)" if "off + 4 \<le> 16" for off
    using get_user32_copy_other [of off 16 bs mm4 a] that assms(2) by (simp add: mm5)
  have c4: "get_user32 mm4 (a + of_nat off) = get_user32 mm3 (a + of_nat off)" if "off + 4 \<le> 12" for off
    using get_user32_put_other [of off 12 "bytes32 w3" mm3 a] that by (simp add: mm4)
  have c3: "get_user32 mm3 (a + of_nat off) = get_user32 mm2 (a + of_nat off)" if "off + 4 \<le> 8" for off
    using get_user32_put_other [of off 8 "bytes32 w2" mm2 a] that by (simp add: mm3)
  have c2: "get_user32 mm2 (a + of_nat off) = get_user32 mm1 (a + of_nat off)" if "off + 4 \<le> 4" for off
    using get_user32_put_other [of off 4 "bytes32 w1" mm1 a] that by (simp add: mm2)
  show "get_user32 mm5 a = w0" using c [of 0] c4 [of 0] c3 [of 0] c2 [of 0] get_user32_put [of mm a w0] inside by (simp add: mm1)
  show "get_user32 mm5 (a + 4) = w1" using c [of 4] c4 [of 4] c3 [of 4] get_user32_put [of mm1 "a + 4" w1] inside m by (simp add: mm2)
  show "get_user32 mm5 (a + 8) = w2" using c [of 8] c4 [of 8] get_user32_put [of mm2 "a + 8" w2] inside m by (simp add: mm3)
  show "get_user32 mm5 (a + 12) = w3" using c [of 12] get_user32_put [of mm3 "a + 12" w3] inside m by (simp add: mm4)
  show "copy_from_user mm5 (a + 16) 19 = (bs, 0)" using copy_round_trip [of mm4 "a + 16" bs] inside m assms(2) by (simp add: mm5)
  show "fst (copy_to_user mm4 (a + 16) bs) = 0" using inside m assms(2) by (simp add: copy_to_user_ok_iff)
qed

text \<open>What is set when a program writes the settings back that it has read.\<close>

definition written_back :: "u8 list \<Rightarrow> termios \<Rightarrow> termios" where
  "written_back junk t =
     \<lparr>c_iflag = c_iflag t AND 0x1fff, c_oflag = c_oflag t AND 0xffff,
      c_cflag = (c_cflag t AND 0xfff) OR (if bit (c_cflag t) 31 \<or> bit (c_cflag t) 15 then CRTSCTS else 0),
      c_lflag = c_lflag t OR (if bit (c_lflag t) 9 then 0x100 else 0),
      c_cc = (if bit (c_lflag t) 1 then (c_cc t)[16 := junk ! 0] else (c_cc t)[16 := junk ! 0, 11 := c_cc t ! 16]),
      c_line = c_line t\<rparr>"

lemma cc_round_trip:
  assumes "length cc = 19" "length junk = 3"
  shows "svr4_set_cc canon (svr4_get_cc junk canon cc) cc =
    (if canon then cc[16 := junk ! 0] else cc[16 := junk ! 0, 11 := cc ! 16])"
proof (rule nth_equalityI)
  show "length (svr4_set_cc canon (svr4_get_cc junk canon cc) cc) =
      length (if canon then cc[16 := junk ! 0] else cc[16 := junk ! 0, 11 := cc ! 16])"
    by (simp add: svr4_set_cc_def Let_def)
  fix i assume "i < length (svr4_set_cc canon (svr4_get_cc junk canon cc) cc)"
  then have "i \<in> set [0..<19]" using assms by (simp add: svr4_set_cc_def Let_def split: if_splits)
  then have "list_ex (\<lambda>j. i = j) [0..<19]" by (simp only: list_ex_iff) blast
  then show "svr4_set_cc canon (svr4_get_cc junk canon cc) cc ! i =
      (if canon then cc[16 := junk ! 0] else cc[16 := junk ! 0, 11 := cc ! 16]) ! i"
    using assms by (cases canon) (auto simp: upt_rec svr4_set_cc_def svr4_get_cc_def Let_def nth_append nth_list_update)
qed

lemma flag_tests:
  "x AND 0x8000 \<noteq> 0 \<longleftrightarrow> bit x 15" "x AND CRTSCTS \<noteq> 0 \<longleftrightarrow> bit x 31" "x AND ICANON \<noteq> 0 \<longleftrightarrow> bit x 1" for x :: u32
  using and_pow [of x 15] and_pow [of x 31] and_pow [of x 1] by simp_all

lemma bit_masks:
  "bit (0xfff :: u32) n \<longleftrightarrow> n < 12" "bit (0xffff :: u32) n \<longleftrightarrow> n < 16" "bit (0xf000 :: u32) n \<longleftrightarrow> 12 \<le> n \<and> n < 16"
  "bit CRTSCTS n \<longleftrightarrow> n = 31"
proof -
  have "bit (mask 12 :: u32) n \<longleftrightarrow> n < 12" "bit (mask 16 :: u32) n \<longleftrightarrow> n < 16"
    "bit (push_bit 12 (mask 4) :: u32) n \<longleftrightarrow> 12 \<le> n \<and> n < 16"
    by (auto simp: bit_mask_iff bit_push_bit_iff)
  moreover have "(mask 12 :: u32) = 0xfff" "(mask 16 :: u32) = 0xffff" "(push_bit 12 (mask 4) :: u32) = 0xf000"
    by (simp_all add: mask_eq_exp_minus_1)
  ultimately show "bit (0xfff :: u32) n \<longleftrightarrow> n < 12" "bit (0xffff :: u32) n \<longleftrightarrow> n < 16"
    "bit (0xf000 :: u32) n \<longleftrightarrow> 12 \<le> n \<and> n < 16" by simp_all
  show "bit CRTSCTS n \<longleftrightarrow> n = 31" using bit_exp_iff [where 'a = u32, of 31 n] by auto
qed

lemma cflag_round_trip:
  "svr4_set_cflag (svr4_get_cflag f) = (f AND 0xfff) OR (if bit f 31 \<or> bit f 15 then CRTSCTS else 0)"
proof -
  have g: "bit (svr4_get_cflag f) n \<longleftrightarrow> n < 16 \<and> (bit f n \<or> n = 15 \<and> bit f 31)" for n
    unfolding svr4_get_cflag_def flag_tests by (auto simp only: flag_bits bit_masks split: if_splits)
  have h: "bit (if c then x OR CRTSCTS else x) n \<longleftrightarrow> bit x n \<or> c \<and> n = 31"
    "bit (if c then CRTSCTS else 0) n \<longleftrightarrow> c \<and> n = 31" for x n c
    by (cases c; simp only: flag_bits bit_masks if_True if_False; simp)+
  show ?thesis
  proof (rule bit_word_eqI)
    fix n assume n: "n < LENGTH(32)"
    show "bit (svr4_set_cflag (svr4_get_cflag f)) n = bit ((f AND 0xfff) OR (if bit f 31 \<or> bit f 15 then CRTSCTS else 0)) n"
      unfolding svr4_set_cflag_def flag_tests g
      using n by (simp only: h flag_bits bit_masks g) auto
  qed
qed

text \<open>
  C33: Reading the settings of a terminal and writing them back changes them.  The baud rates above 38400 and
  all control flags from bit 12 on are lost, hardware flow control apart; background output is stopped when
  control characters are echoed as such; one control character is overwritten with a byte of the kernel
  stack, and in raw mode another with that character's old value.
\<close>

theorem termios_round_trip:
  assumes "tt_verify_area K it 36 = 0" "mapped (mem m) it 36"
    and "get_termios K fd TCGETS (kern m) = (0, t, k)" "get_termios K fd TCGETS k = (0, t, k)"
    and "length (c_cc t) = 19" "length junk = 3"
    and "\<And>x. mem (snd (tt_ioctl K fd TIOCNXCL 0 x)) = mem x"
  shows "\<exists>m1 m2 m3. linux_to_svr4_termios K junk fd TCGETS it m = (0, m1) \<and> m2 = snd (tt_ioctl K fd TIOCNXCL 0 m1) \<and>
    svr4_to_linux_termios K fd op it m1 = (fst (set_termios K fd op (written_back junk t) (kern m2)), m3)"
proof -
  let ?l = "svr4_get_lflag (c_lflag t)"
  let ?cc = "svr4_get_cc junk (?l AND ICANON \<noteq> 0) (c_cc t)"
  define mm1 where "mm1 = snd (put_user (mem m) it (bytes32 (c_iflag t AND 0x1fff)))"
  define mm2 where "mm2 = snd (put_user mm1 (it + 4) (bytes32 (c_oflag t AND 0xffff)))"
  define mm3 where "mm3 = snd (put_user mm2 (it + 8) (bytes32 (svr4_get_cflag (c_cflag t))))"
  define mm4 where "mm4 = snd (put_user mm3 (it + 12) (bytes32 (?l AND 0x3ff)))"
  define mm5 where "mm5 = snd (copy_to_user mm4 (it + 16) ?cc)"
  have len: "length ?cc = 19" using assms(6) by (simp add: svr4_get_cc_def)
  note st = five_stores [OF assms(2) len mm1_def mm2_def mm3_def mm4_def mm5_def]
  define m1 where "m1 = m\<lparr>kern := k, mem := mm5\<rparr>"
  have get: "linux_to_svr4_termios K junk fd TCGETS it m = (0, m1)"
    using assms(1,3) st(6) by (simp add: linux_to_svr4_termios_def Let_def mm1_def mm2_def mm3_def mm4_def mm5_def m1_def split_def)
  have r: "take_bit 16 (?l AND 0x3ff) = ?l AND 0x3ff"
    by (rule bit_word_eqI) (simp only: flag_bits, auto)
  have "\<not> bit ((c_lflag t AND NOT 0x81ff) OR (?l AND 0x3ff)) 15" by (simp only: flag_bits) simp
  then have ex: "((c_lflag t AND NOT 0x81ff) OR (?l AND 0x3ff)) AND 0x8000 = 0" using flag_tests(1) by blast
  have ic: "?l AND ICANON \<noteq> 0 \<longleftrightarrow> bit (c_lflag t) 1"
    "(c_lflag t OR (if bit (c_lflag t) 9 then 0x100 else 0)) AND ICANON \<noteq> 0 \<longleftrightarrow> bit (c_lflag t) 1"
    unfolding flag_tests by (simp_all add: bit_get_lflag bit_or_iff)
  have dos: "(c_iflag t AND 0x1fff) AND NOT 0x8000 = c_iflag t AND 0x1fff" by (simp add: and.assoc)
  define m2 where "m2 = snd (tt_ioctl K fd TIOCNXCL 0 m1)"
  have mem2: "mem m2 = mm5" using assms(7) by (simp add: m2_def m1_def)
  have same: "m1\<lparr>kern := k\<rparr> = m1" by (simp add: m1_def)
  have cc: "copy_from_user mm5 (it + 16) 19 = (svr4_get_cc junk (bit (c_lflag t) 1) (c_cc t), 0)"
    using st(5) by (simp only: ic)
  have lf: "svr4_set_lflag (c_lflag t) (?l AND 0x3ff) = c_lflag t OR (if bit (c_lflag t) 9 then 0x100 else 0)"
    by (rule lflag_round_trip)
  have words: "get_user32 (mem m1) it = c_iflag t AND 0x1fff" "get_user32 (mem m1) (it + 4) = c_oflag t AND 0xffff"
    "get_user32 (mem m1) (it + 8) = svr4_get_cflag (c_cflag t)" "get_user32 (mem m1) (it + 12) = ?l AND 0x3ff" "kern m1 = k"
    using st by (simp_all add: m1_def)
  have wb: "svr4_set_cc (bit (c_lflag t) 1) (svr4_get_cc junk (bit (c_lflag t) 1) (c_cc t)) (c_cc t) = c_cc (written_back junk t)"
    using cc_round_trip [OF assms(5,6), of "bit (c_lflag t) 1"] by (simp add: written_back_def)
  have "svr4_to_linux_termios K fd op it m1 =
      (let (e, k') = set_termios K fd op (written_back junk t) (kern m2) in (e, m2\<lparr>kern := k'\<rparr>))"
    by (simp only: svr4_to_linux_termios_def Let_def assms(1) words(5) assms(4) prod.case same words(1-4) r ex lf ic dos
        cflag_round_trip simp_thms if_True if_False m2_def [symmetric] mem2 cc wb termios.simps)
       (simp add: written_back_def)
  with get show ?thesis by (auto simp: m2_def split_def Let_def)
qed

definition sample_tty :: "'k tty_env" where
  "sample_tty = \<lparr>tt_verify_area = (\<lambda>a n. 0), tt_ioctl = (\<lambda>fd cmd arg m. (0, m)),
     get_termio = (\<lambda>fd op k. (0, \<lparr>ti_iflag = 0, ti_oflag = 0, ti_cflag = 0, ti_lflag = 0, ti_line = 0, ti_cc = replicate 8 0\<rparr>, k)),
     set_termio = (\<lambda>fd op t k. (0, k)),
     get_termios = (\<lambda>fd op k. (0, \<lparr>c_iflag = 0x500, c_oflag = 5, c_cflag = 0x1cb2, c_lflag = 0x8a3b, c_cc = replicate 19 7, c_line = 0\<rparr>, k)),
     set_termios = (\<lambda>fd op t k. (if c_lflag t AND 0x100 \<noteq> 0 then - EINVAL else 0, k)),
     get_ldisc = (\<lambda>fd k. (0, 0, k)), set_ldisc = (\<lambda>fd d k. (0, k))\<rparr>"

theorem termios_round_trip_witness:
  "\<exists>m1. linux_to_svr4_termios sample_tty [1, 2, 3] 0 TCGETS 0x8000 (blank_mach ()) = (0, m1) \<and>
     fst (svr4_to_linux_termios sample_tty 0 TCSETS 0x8000 m1) = - EINVAL"
proof -
  have "bit (0x8a3b :: u32) 9" by code_simp
  then have "(0x8a3b OR (if bit (0x8a3b :: u32) 9 then 0x100 else 0)) AND 0x100 \<noteq> (0 :: u32)" by simp
  then show ?thesis
    using termios_round_trip [of sample_tty "0x8000" "blank_mach ()" 0
        "\<lparr>c_iflag = 0x500, c_oflag = 5, c_cflag = 0x1cb2, c_lflag = 0x8a3b, c_cc = replicate 19 7, c_line = 0\<rparr>" "()" "[1, 2, 3]" TCSETS]
    by (auto simp: sample_tty_def written_back_def)
qed

lemma linux_to_bsd_speed_table:
  assumes "i < 16"
  shows "linux_to_bsd_speed (of_nat i) = Some (speed_map ! i)"
proof -
  have "list_all (\<lambda>i. linux_to_bsd_speed (of_nat i) = Some (speed_map ! i)) [0..<16]" by code_simp
  then show ?thesis using assms by (simp add: list_all_iff)
qed

lemma speed_index_find:
  assumes "drop i speed_map = vs" "i \<le> 16"
  shows "linux_to_bsd_speed (speed_index s vs (of_nat i)) =
    (case find (\<lambda>v. s \<le> v) vs of Some v \<Rightarrow> Some v | None \<Rightarrow> Some 38400)"
  using assms
proof (induction vs arbitrary: i)
  case Nil
  then show ?case using linux_to_bsd_speed_table [of 15] by (simp add: speed_map_def)
next
  case (Cons v vs)
  have len: "length speed_map = 16" by (simp add: speed_map_def)
  then have i: "i < 16" using Cons.prems by (cases "i < 16") auto
  have "speed_map ! i = v" "drop (Suc i) speed_map = vs"
    using Cons.prems i len by (metis Cons_nth_drop_Suc list.inject)+
  then show ?case using Cons.IH [of "Suc i"] i linux_to_bsd_speed_table [of i] by (simp add: add.commute)
qed

text \<open>
  A speed that a BSD program sets and reads back.  It is rounded up to the next one of the table, or down
  to 38400 above the table; 57600 and 115200 stay as they are.
\<close>

lemma bsd_speed_rounds_up:
  "linux_to_bsd_speed (bsd_to_linux_speed s) =
     (if s = 57600 \<or> s = 115200 then Some s
      else case find (\<lambda>v. s \<le> v) speed_map of Some v \<Rightarrow> Some v | None \<Rightarrow> Some 38400)"
  using speed_index_find [of 0 speed_map s] by (simp add: linux_to_bsd_speed_def [of B57600] linux_to_bsd_speed_def [of B115200] bsd_to_linux_speed_def)

text \<open>
  Reading the settings of a terminal for a BSD program is undefined exactly when its speed in either
  direction is one that the table does not have.
\<close>

lemma bsd_getattr_undefined_iff:
  assumes "tt_verify_area K data 44 = 0" "get_termios K fd TCGETS (kern m) = (0, t, k)" "func AND 0xff = 19"
  shows "bsd_ioctl_termios K fd func data m = None \<longleftrightarrow>
    (\<exists>s. (s = c_cflag t AND CBAUD \<or> s = drop_bit 16 (c_cflag t AND CIBAUD)) \<and> 16 \<le> s \<and> s \<noteq> B57600 \<and> s \<noteq> B115200)"
proof -
  have sp: "linux_to_bsd_speed s = None \<longleftrightarrow> 16 \<le> s \<and> s \<noteq> B57600 \<and> s \<noteq> B115200" for s
    by (auto simp: linux_to_bsd_speed_def arr_get_def speed_map_def word_le_def)
  have "bsd_ioctl_termios K fd func data m = None \<longleftrightarrow> bsd_get_flags t = None"
    using assms by (simp add: bsd_ioctl_termios_def linux_to_bsd_termios_def Let_def)
  also have "\<dots> \<longleftrightarrow> linux_to_bsd_speed (c_cflag t AND CBAUD) = None \<or>
      c_cflag t AND CIBAUD \<noteq> 0 \<and> linux_to_bsd_speed (drop_bit 16 (c_cflag t AND CIBAUD)) = None"
    by (auto simp: bsd_get_flags_def Let_def Option.bind_eq_None_conv split: if_splits)
  also have "\<dots> \<longleftrightarrow> linux_to_bsd_speed (c_cflag t AND CBAUD) = None \<or>
      linux_to_bsd_speed (drop_bit 16 (c_cflag t AND CIBAUD)) = None"
    using sp [of 0] by (cases "c_cflag t AND CIBAUD = 0") auto
  finally show ?thesis unfolding sp by blast
qed

end
