(* ===== verification/Svr4_Ioctl.thy ===== *)
theory Svr4_Ioctl
  imports Svr4_Termios
begin

text \<open>
  The ioctl dispatcher of SVR4 (\<^verbatim>\<open>abi/svr4/ioctl.c\<close>) and the ioctls of files, tapes, the console and
  STREAMS (\<^verbatim>\<open>filio.c\<close>, \<^verbatim>\<open>tapeio.c\<close>, \<^verbatim>\<open>consio.c\<close>, \<^verbatim>\<open>sockio.c\<close>), with the message calls (\<^verbatim>\<open>stream.c\<close>,
  \<^verbatim>\<open>timod.c\<close>).  Linux, the transport provider of \<^verbatim>\<open>xti.c\<close> and the socket device of \<^verbatim>\<open>socksys.c\<close> are the
  record \<open>ioctl_env\<close>, with the configuration switches as fields.  An ioctl that carries another one calls
  the dispatcher as its last action, so the dispatcher is a loop, which need not end.  Messages of
  \<^verbatim>\<open>printk\<close> and trace lines are left out.
\<close>

section \<open>Linux and the transport provider\<close>

text \<open>A queued message: its priority, its length and the kernel memory from its first word on.\<close>

record primsg =
  pr_pri :: u8
  pr_length :: int
  pr_bytes :: "u8 list"

record 'k ioctl_env =
  io_tty :: "'k tty_env"
  io_open :: "'k open_env"
  cfg_xti :: bool
  cfg_spx :: bool
  io_major :: "nat \<Rightarrow> 'k \<Rightarrow> u32"
  io_minor :: "nat \<Rightarrow> 'k \<Rightarrow> u32"
  io_priv :: "nat \<Rightarrow> 'k \<Rightarrow> nat"
  io_pfirst :: "nat \<Rightarrow> 'k \<Rightarrow> primsg option"
  io_offset :: "nat \<Rightarrow> 'k \<Rightarrow> nat"
  io_pid :: "'k \<Rightarrow> u32"
  max_fds :: "'k \<Rightarrow> int"
  set_cloexec :: "int \<Rightarrow> bool \<Rightarrow> 'k \<Rightarrow> 'k"
  io_nread :: "int \<Rightarrow> 'k \<Rightarrow> int \<times> int \<times> 'k"
  io_tape :: "int \<Rightarrow> u16 \<Rightarrow> int \<Rightarrow> 'k \<Rightarrow> int \<times> 'k"
  io_dup2 :: "int \<Rightarrow> int \<Rightarrow> 'k \<Rightarrow> int \<times> 'k"
  abi_ioctl_socksys :: "int \<Rightarrow> u32 \<Rightarrow> u32 \<Rightarrow> 'k mach \<Rightarrow> int \<times> 'k mach"
  socksys_fdinit :: "int \<Rightarrow> 'k \<Rightarrow> int \<times> 'k"
  timod_update_socket :: "int \<Rightarrow> nat \<Rightarrow> 'k mach \<Rightarrow> 'k mach"
  timod_ioctl :: "int \<Rightarrow> u32 \<Rightarrow> u32 \<Rightarrow> int \<Rightarrow> u32 \<Rightarrow> 'k mach \<Rightarrow> int \<times> 'k mach"
  svr4_sockmod_ioctl :: "int \<Rightarrow> u32 \<Rightarrow> u32 \<Rightarrow> 'k mach \<Rightarrow> int \<times> 'k mach"
  do_getmsg :: "int \<Rightarrow> u32 \<Rightarrow> int \<Rightarrow> u32 \<Rightarrow> u32 \<Rightarrow> int \<Rightarrow> u32 \<Rightarrow> u32 \<Rightarrow> 'k mach \<Rightarrow> int \<times> u32 \<times> 'k mach"
  do_putmsg :: "int \<Rightarrow> u32 \<Rightarrow> int \<Rightarrow> u32 \<Rightarrow> int \<Rightarrow> u32 \<Rightarrow> 'k mach \<Rightarrow> int \<times> 'k mach"

abbreviation (input) "FIOSETOWN \<equiv> (0x8901::u32)"
abbreviation (input) "FIOGETOWN \<equiv> (0x8903::u32)"
abbreviation (input) "FIONREAD \<equiv> (0x541b::u32)"
abbreviation (input) "TIOCINQ \<equiv> (0x541b::u32)"
abbreviation (input) "FIONBIO \<equiv> (0x5421::u32)"
abbreviation (input) "FIOASYNC \<equiv> (0x5452::u32)"
abbreviation (input) "SOCKSYS_MAJOR \<equiv> (30::u32)"

abbreviation (input) sys_ioctl where "sys_ioctl K \<equiv> tt_ioctl (io_tty K)"
abbreviation (input) io_fget where "io_fget K \<equiv> fget (io_open K)"
abbreviation (input) io_fput where "io_fput K fp m \<equiv> m\<lparr>kern := fput (io_open K) fp (kern m)\<rparr>"
abbreviation (input) IS_SOCKSYS where "IS_SOCKSYS K fp k \<equiv> io_major K fp k = SOCKSYS_MAJOR"

section \<open>Files, tapes and the console\<close>

definition BSD__IOC :: "u32 \<Rightarrow> u32 \<Rightarrow> u32 \<Rightarrow> u32 \<Rightarrow> u32" where
  "BSD__IOC inout grp num len = inout OR push_bit 16 (len AND 0x1fff) OR push_bit 8 grp OR num"

abbreviation (input) BSD__IO where "BSD__IO g n \<equiv> BSD__IOC 0x20000000 g n 0"
abbreviation (input) BSD__IOR where "BSD__IOR g n t \<equiv> BSD__IOC 0x40000000 g n t"
abbreviation (input) BSD__IOW where "BSD__IOW g n t \<equiv> BSD__IOC 0x80000000 g n t"
abbreviation (input) BSD__IOV where "BSD__IOV g n \<equiv> BSD__IOC 0 g n 0"

text \<open>The bit of a descriptor outside the table of the process is memory of something else.\<close>

definition fd_bit :: "'k ioctl_env \<Rightarrow> int \<Rightarrow> bool \<Rightarrow> 'k mach \<Rightarrow> (int \<times> 'k mach) option" where
  "fd_bit K fd b m =
     (if 0 \<le> fd \<and> fd < max_fds K (kern m) then Some (0, m\<lparr>kern := set_cloexec K fd b (kern m)\<rparr>) else None)"

definition svr4_fil_ioctl :: "'k ioctl_env \<Rightarrow> int \<Rightarrow> u32 \<Rightarrow> u32 \<Rightarrow> 'k mach \<Rightarrow> (int \<times> 'k mach) option" where
  "svr4_fil_ioctl K fd cmd data m =
     (if cmd = BSD__IOV 0x66 1 \<or> cmd = BSD__IO 0x66 1 then fd_bit K fd True m
      else if cmd = BSD__IOV 0x66 2 \<or> cmd = BSD__IO 0x66 2 then fd_bit K fd False m
      else if cmd = BSD__IOV 0x66 3 \<or> cmd = BSD__IO 0x66 3
      then (let (error, nbytes, k) = io_nread K fd (kern m)
            in Some (if error \<le> 0 then error else nbytes, m\<lparr>kern := k\<rparr>))
      else if cmd = BSD__IOW 0x66 123 4 then Some (sys_ioctl K fd FIOGETOWN data m)
      else if cmd = BSD__IOW 0x66 124 4 then Some (sys_ioctl K fd FIOSETOWN data m)
      else if cmd = BSD__IOW 0x66 125 4 then Some (sys_ioctl K fd FIOASYNC data m)
      else if cmd = BSD__IOW 0x66 126 4 then Some (sys_ioctl K fd FIONBIO data m)
      else if cmd = BSD__IOR 0x66 127 4 then Some (sys_ioctl K fd FIONREAD data m)
      else Some (- EINVAL, m))"

text \<open>The tape operation of Linux and its count for a command.\<close>

definition tape_op :: "u32 \<Rightarrow> int \<Rightarrow> (u16 \<times> int) option" where
  "tape_op c data =
     (if c = 1 then Some (9, 1) else if c = 2 then Some (6, 1) else if c = 3 then Some (13, 1)
      else if c = 4 then Some (5, 1) else if c = 5 then Some (0, 1) else if c = 7 then Some (1, 1)
      else if c = 8 then Some (2, 1) else if c = 9 then Some (30, 1) else if c = 10 then Some (7, 1)
      else if c = 15 then Some (28, data) else if c = 16 then Some (28, 1) else if c = 17 then Some (29, 1)
      else if c = 20 then Some (12, data) else if c = 21 then Some (10, data) else if c = 22 then Some (11, data)
      else if c = 24 then Some (21, data) else None)"

definition svr4_tape_ioctl :: "'k ioctl_env \<Rightarrow> int \<Rightarrow> u32 \<Rightarrow> u32 \<Rightarrow> 'k mach \<Rightarrow> int \<times> 'k mach" where
  "svr4_tape_ioctl K fd cmd data m =
     (case tape_op (cmd AND 0xff) (sint data) of None \<Rightarrow> (- EINVAL, m)
      | Some (mt_op, mt_count) \<Rightarrow> let (error, k) = io_tape K fd mt_op mt_count (kern m) in (error, m\<lparr>kern := k\<rparr>))"

definition svr4_console_ioctl :: "int \<Rightarrow> u32 \<Rightarrow> u32 \<Rightarrow> int" where
  "svr4_console_ioctl fd cmd data =
     (if cmd = 0x6301 \<or> cmd = 0x6302 then - EINVAL else if cmd = 0x4304 then 2 else - EINVAL)"

definition svr4_video_ioctl :: "int \<Rightarrow> u32 \<Rightarrow> u32 \<Rightarrow> int" where
  "svr4_video_ioctl fd cmd data = - EINVAL"

section \<open>Messages\<close>

record strbuf =
  sb_maxlen :: int
  sb_len :: int
  sb_buf :: u32

definition strbuf_of_bytes :: "u8 list \<Rightarrow> strbuf" where
  "strbuf_of_bytes bs = \<lparr>sb_maxlen = sint (word32 (field 0 4 bs)), sb_len = sint (word32 (field 4 4 bs)),
     sb_buf = word32 (field 8 4 bs)\<rparr>"

text \<open>A buffer description for \<^verbatim>\<open>getmsg\<close>, with its length set to \<open>-1\<close> for the program; without one only \<open>maxlen\<close> is set.\<close>

definition getmsg_buf :: "u32 \<Rightarrow> strbuf \<Rightarrow> umem \<Rightarrow> int \<times> strbuf \<times> umem" where
  "getmsg_buf p junk mm =
     (if p = 0 then (0, junk\<lparr>sb_maxlen := - 1\<rparr>, mm)
      else let (bs, left) = copy_from_user mm p 12 in
        if left \<noteq> 0 then (- EFAULT, junk, mm)
        else let (error, mm) = put_user mm (p + 4) (bytes32 0xffffffff) in (error, strbuf_of_bytes bs, mm))"

definition timod_getmsg :: "'k ioctl_env \<Rightarrow> strbuf \<Rightarrow> strbuf \<Rightarrow> int \<Rightarrow> nat \<Rightarrow> bool \<Rightarrow> 'k mach \<Rightarrow> int \<times> 'k mach" where
  "timod_getmsg K junk1 junk2 fd ip pmsg m =
     (let arg = get_syscall_parameter (mem m) (regs m); ctlp = arg 1; datp = arg 2; flagsp = (if pmsg then arg 4 else arg 3);
          (error, ctl, mm) = getmsg_buf ctlp junk1 (mem m); m = m\<lparr>mem := mm\<rparr> in
      if error \<noteq> 0 then (error, m)
      else let (error, dat, mm) = getmsg_buf datp junk2 (mem m); m = m\<lparr>mem := mm\<rparr> in
        if error \<noteq> 0 then (error, m)
        else case rd32 (mem m) flagsp of None \<Rightarrow> (- EFAULT, m)
        | Some flags \<Rightarrow>
          if cfg_spx K \<and> IS_SOCKSYS K ip (kern m) \<and> io_minor K ip (kern m) = 1
          then (let (error, mm) = put_user (mem m) (sb_buf ctl) [word_of_int fd]; m = m\<lparr>mem := mm\<rparr> in
                if error \<noteq> 0 then (error, m)
                else let (error, mm) = put_user (mem m) (ctlp + 4) (bytes32 4) in (error, m\<lparr>mem := mm\<rparr>))
          else if cfg_xti K \<and> (flags = 0 \<or> flags = 1 \<or> flags = 2 \<or> flags = 4)
          then (let (fp, k) = io_fget K fd (kern m);
                    (error, flags, m) = do_getmsg K fd (sb_buf ctl) (sb_maxlen ctl) (ctlp + 4) (sb_buf dat) (sb_maxlen dat)
                       (datp + 4) flags (m\<lparr>kern := k\<rparr>);
                    m = io_fput K fp m in
                if error \<ge> 0 then let (error, mm) = put_user (mem m) flagsp (bytes32 flags) in (error, m\<lparr>mem := mm\<rparr>)
                else (error, m))
          else (- EINVAL, m))"

definition timod_putmsg :: "'k ioctl_env \<Rightarrow> int \<Rightarrow> nat \<Rightarrow> bool \<Rightarrow> 'k mach \<Rightarrow> int \<times> 'k mach" where
  "timod_putmsg K fd ip pmsg m =
     (let arg = get_syscall_parameter (mem m) (regs m); ctlp = arg 1; datp = arg 2; flags = (if pmsg then arg 4 else arg 3);
          (cbs, cleft) = copy_from_user (mem m) ctlp 12; (dbs, dleft) = copy_from_user (mem m) datp 12;
          none = \<lparr>sb_maxlen = 0, sb_len = 0, sb_buf = 0\<rparr>;
          ctl = (if ctlp = 0 then none else strbuf_of_bytes cbs); dat = (if datp = 0 then none else strbuf_of_bytes dbs) in
      if ctlp \<noteq> 0 \<and> cleft \<noteq> 0 then (- EFAULT, m)
      else if ctlp \<noteq> 0 \<and> sb_len ctl < 0 \<and> flags \<noteq> 0 then (- EINVAL, m)
      else if datp \<noteq> 0 \<and> dleft \<noteq> 0 then (- EFAULT, m)
      else if cfg_spx K \<and> IS_SOCKSYS K ip (kern m) \<and> io_minor K ip (kern m) = 1
      then (if sb_len ctl \<noteq> 4 then (- EIO, m)
            else case mem m (sb_buf ctl) of None \<Rightarrow> (- EFAULT, m)
            | Some b \<Rightarrow> let (error, k) = io_dup2 K (sint b) fd (kern m) in (if error < 0 then error else 0, m\<lparr>kern := k\<rparr>))
      else if cfg_xti K then do_putmsg K fd (sb_buf ctl) (sb_len ctl) (sb_buf dat) (sb_len dat) flags m
      else (- EINVAL, m))"

definition stream_fdinsert :: "'k ioctl_env \<Rightarrow> int \<Rightarrow> u32 \<Rightarrow> 'k mach \<Rightarrow> int \<times> 'k mach" where
  "stream_fdinsert K fd arg m =
     (let (bs, left) = copy_from_user (mem m) arg 36; ctl = strbuf_of_bytes (field 0 12 bs); dat = strbuf_of_bytes (field 12 12 bs) in
      if left \<noteq> 0 then (- EFAULT, m)
      else if cfg_xti K
      then do_putmsg K fd (sb_buf ctl) (sb_len ctl) (sb_buf dat) (sb_len dat) (word32 (field 28 4 bs)) m
      else (- EINVAL, m))"

text \<open>The file of the call, and what is done with it when it is of the right kind.\<close>

definition with_file ::
  "'k ioctl_env \<Rightarrow> (nat \<Rightarrow> 'k \<Rightarrow> bool) \<Rightarrow> (int \<Rightarrow> nat \<Rightarrow> 'k mach \<Rightarrow> int \<times> 'k mach) \<Rightarrow> 'k mach \<Rightarrow> int \<times> 'k mach" where
  "with_file K ok f m =
     (let fd = sint (get_syscall_parameter (mem m) (regs m) 0); (fp, k) = io_fget K fd (kern m); m = m\<lparr>kern := k\<rparr> in
      if fp = 0 then (- EBADF, m)
      else let (error, m) = (if ok fp k then f fd fp m else (- EBADF, m)) in (error, io_fput K fp m))"

abbreviation (input) IS_SPX where "IS_SPX K fp k \<equiv> io_major K fp k = 30 \<and> io_minor K fp k = 1"

text \<open>Without a transport provider the two message functions are the constant 0.\<close>

definition getmsg_any :: "'k ioctl_env \<Rightarrow> strbuf \<Rightarrow> strbuf \<Rightarrow> bool \<Rightarrow> 'k mach \<Rightarrow> int \<times> 'k mach" where
  "getmsg_any K junk1 junk2 pmsg m =
     with_file K (is_sock (io_open K))
       (\<lambda>fd fp m. if cfg_xti K \<or> cfg_spx K then timod_getmsg K junk1 junk2 fd fp pmsg m else (0, m)) m"

definition putmsg_any :: "'k ioctl_env \<Rightarrow> bool \<Rightarrow> 'k mach \<Rightarrow> int \<times> 'k mach" where
  "putmsg_any K pmsg m =
     with_file K (\<lambda>fp k. is_sock (io_open K) fp k \<or> IS_SPX K fp k)
       (\<lambda>fd fp m. if cfg_xti K \<or> cfg_spx K then timod_putmsg K fd fp pmsg m else (0, m)) m"

definition svr4_getmsg :: "'k ioctl_env \<Rightarrow> strbuf \<Rightarrow> strbuf \<Rightarrow> 'k mach \<Rightarrow> int \<times> 'k mach" where
  "svr4_getmsg K junk1 junk2 m = getmsg_any K junk1 junk2 False m"

definition svr4_putmsg :: "'k ioctl_env \<Rightarrow> 'k mach \<Rightarrow> int \<times> 'k mach" where
  "svr4_putmsg K m = putmsg_any K False m"

definition svr4_getpmsg :: "'k ioctl_env \<Rightarrow> strbuf \<Rightarrow> strbuf \<Rightarrow> 'k mach \<Rightarrow> int \<times> 'k mach" where
  "svr4_getpmsg K junk1 junk2 m = getmsg_any K junk1 junk2 True m"

definition svr4_putpmsg :: "'k ioctl_env \<Rightarrow> 'k mach \<Rightarrow> int \<times> 'k mach" where
  "svr4_putpmsg K m = putmsg_any K True m"

section \<open>STREAMS\<close>

definition i_nread :: "'k ioctl_env \<Rightarrow> int \<Rightarrow> nat \<Rightarrow> u32 \<Rightarrow> 'k mach \<Rightarrow> int \<times> 'k mach" where
  "i_nread K fd fp data m =
     (let error = tt_verify_area (io_tty K) data 4; k = kern m; sock = is_sock (io_open K) fp k; ti = io_priv K fp k in
      if error \<noteq> 0 then (error, io_fput K fp m)
      else let m = (if sock \<and> IS_SOCKSYS K fp k then timod_update_socket K fd fp m else m) in
        case (if sock \<and> ti \<noteq> 0 then io_pfirst K ti (kern m) else None) of
          Some msg \<Rightarrow> (1, io_fput K fp (m\<lparr>mem := snd (put_user (mem m) data (bytes32 (word_of_int (pr_length msg))))\<rparr>))
        | None \<Rightarrow>
            (let (error, m) = sys_ioctl K fd TIOCINQ data (io_fput K fp m) in
             if error = - EINVAL then (0, m)
             else if error \<noteq> 0 then (error, m)
             else (if get_user32 (mem m) data \<noteq> 0 then 1 else 0, m)))"

text \<open>The bytes of the message from the place reached on; past the message is kernel memory of something else.\<close>

definition peek_bytes :: "primsg \<Rightarrow> nat \<Rightarrow> nat \<Rightarrow> u8 list option" where
  "peek_bytes msg offset l =
     (if offset + l \<le> length (pr_bytes msg) then Some (take l (drop offset (pr_bytes msg))) else None)"

definition peek_store :: "'k ioctl_env \<Rightarrow> primsg \<Rightarrow> u8 list \<Rightarrow> u32 \<Rightarrow> u8 list \<Rightarrow> umem \<Rightarrow> int \<times> umem" where
  "peek_store K msg buf uap out mm =
     (let ctl = strbuf_of_bytes (field 0 12 buf); dat = strbuf_of_bytes (field 12 12 buf);
          (left, mm) = copy_to_user mm (sb_buf ctl) out in
      if left \<noteq> 0 then (- EFAULT, mm)
      else let (e1, mm) = put_user mm (uap + 4) (bytes32 (of_nat (length out))) in
        if e1 \<noteq> 0 then (- EFAULT, mm)
        else let (e2, mm) = (if sb_maxlen dat \<ge> 0 then put_user mm (uap + 16) (bytes32 0) else (0, mm)) in
          if e2 \<noteq> 0 then (- EFAULT, mm)
          else let (e3, mm) = put_user mm (uap + 24) (bytes32 (ucast (pr_pri msg))) in
            if e3 \<noteq> 0 then (- EFAULT, mm) else (1, mm))"

definition i_peek :: "'k ioctl_env \<Rightarrow> int \<Rightarrow> nat \<Rightarrow> u32 \<Rightarrow> 'k mach \<Rightarrow> (int \<times> 'k mach) option" where
  "i_peek K fd fp data m =
     (let ti = io_priv K fp (kern m); (buf, left) = copy_from_user (mem m) data 28; k = kern m in
      if \<not> cfg_xti K then Some (0, io_fput K fp m)
      else if left \<noteq> 0 then Some (- EFAULT, io_fput K fp m)
      else if \<not> is_sock (io_open K) fp k then Some (0, io_fput K fp m)
      else let m = (if IS_SOCKSYS K fp k then timod_update_socket K fd fp m else m) in
        case (if ti \<noteq> 0 then io_pfirst K ti (kern m) else None) of None \<Rightarrow> Some (0, io_fput K fp m)
        | Some tp \<Rightarrow>
          (let flags = word32 (field 24 4 buf); maxlen = sb_maxlen (strbuf_of_bytes (field 0 12 buf));
               l = (if maxlen \<le> pr_length tp then maxlen else pr_length tp) in
           if flags \<noteq> 0 \<and> flags \<noteq> ucast (pr_pri tp) then Some (- EFAULT, io_fput K fp m)
           else if l < 0 then Some (- EFAULT, io_fput K fp m)
           else map_option (\<lambda>out. let (error, mm) = peek_store K tp buf data out (mem m)
                                  in (error, io_fput K fp (m\<lparr>mem := mm\<rparr>)))
                  (peek_bytes tp (io_offset K ti (kern m)) (nat l))))"

text \<open>
  What one pass through the dispatcher leads to: the call returns, or the dispatcher is called again with
  the number and the argument that the program has put into memory.
\<close>

datatype 'k ioctl_outcome = Returned int "'k mach" | Again u32 u32 "'k mach"

definition returned :: "int \<times> 'k mach \<Rightarrow> 'k ioctl_outcome" where
  "returned r = Returned (fst r) (snd r)"

definition i_str :: "'k ioctl_env \<Rightarrow> int \<Rightarrow> u32 \<Rightarrow> 'k mach \<Rightarrow> 'k ioctl_outcome" where
  "i_str K fd data m =
     (let (bs, left) = copy_from_user (mem m) data 16; cmd = word32 (field 0 4 bs); arg = word32 (field 12 4 bs) in
      if left \<noteq> 0 then Returned (- EFAULT) m
      else if cfg_xti K \<and> sint cmd div 256 = 0x54
      then returned (timod_ioctl K fd (cmd AND 0xff) arg (sint (word32 (field 8 4 bs))) (data + 8) m)
      else Again cmd arg m)"

definition stream_rest :: "'k ioctl_env \<Rightarrow> int \<Rightarrow> u32 \<Rightarrow> u32 \<Rightarrow> 'k mach \<Rightarrow> 'k ioctl_outcome" where
  "stream_rest K fd cmd data m =
     (if cmd = 8 then i_str K fd data m
      else if cmd = 2
      then Returned (case oe_getname (io_open K) data m of Inl e \<Rightarrow> e | Inr tmp \<Rightarrow> 0) m
      else if cmd = 3 \<or> cmd = 5 then Returned 0 m
      else if cmd = 11
      then Returned (case oe_getname (io_open K) data m of Inl e \<Rightarrow> e
             | Inr tmp \<Rightarrow> if cfg_xti K \<and> tmp = ''timod'' then 1 else 0) m
      else if cmd = 9 then returned (sys_ioctl K fd FIOSETOWN (io_pid K (kern m)) m)
      else if cmd = 10 then returned (sys_ioctl K fd FIOGETOWN data m)
      else if cmd = 16 then (if cfg_xti K then returned (stream_fdinsert K fd data m) else Returned (- EINVAL) m)
      else if cmd \<in> {4, 6, 7, 12, 13, 17, 18, 19, 32} then Returned 0 m
      else if cmd = 34 then Returned (if data \<noteq> 0 then - EINVAL else 1) m
      else Returned (- EINVAL) m)"

definition svr4_stream_ioctl :: "'k ioctl_env \<Rightarrow> int \<Rightarrow> u32 \<Rightarrow> u32 \<Rightarrow> 'k mach \<Rightarrow> 'k ioctl_outcome option" where
  "svr4_stream_ioctl K fd cmd data m =
     (let (fp, k) = io_fget K fd (kern m); m = m\<lparr>kern := k\<rparr> in
      if fp = 0 then Some (Returned (- EBADF) m)
      else let special = (\<not> is_sock (io_open K) fp k \<and> IS_SOCKSYS K fp k);
               (error, k) = (if special then socksys_fdinit K fd (kern m) else (0, kern m)); m = m\<lparr>kern := k\<rparr> in
        if special \<and> error < 0 then Some (Returned error m)
        else let (fp, k) = (if special then io_fget K fd (fput (io_open K) fp (kern m)) else (fp, kern m)); m = m\<lparr>kern := k\<rparr> in
          if fp = 0 then Some (Returned (- EBADF) m)
          else if cmd = 1 then Some (returned (i_nread K fd fp data m))
          else if cmd = 15 then map_option returned (i_peek K fd fp data m)
          else Some (stream_rest K fd cmd data (io_fput K fp m)))"

section \<open>The dispatcher\<close>

text \<open>The cases of the first switch, on the number without its low byte, then those of the second, on the class byte.\<close>

definition svr4_ioctl_bsd :: "'k ioctl_env \<Rightarrow> int \<Rightarrow> u32 \<Rightarrow> u32 \<Rightarrow> 'k mach \<Rightarrow> 'k ioctl_outcome option" where
  "svr4_ioctl_bsd K fd num arg m =
     (let c = drop_bit 8 num AND 0xff in
      if c = 0x66 then map_option returned (svr4_fil_ioctl K fd num arg m)
      else if c = 0x74 then map_option returned (bsd_ioctl_termios (io_tty K) fd num arg m)
      else if c \<in> {0x73, 0x72, 0x69, 0x53, 0x52, 0x49} then Some (returned (abi_ioctl_socksys K fd num arg m))
      else Some (Returned (- EINVAL) m))"

definition svr4_ioctl_step :: "'k ioctl_env \<Rightarrow> u8 list \<Rightarrow> int \<Rightarrow> u32 \<Rightarrow> u32 \<Rightarrow> 'k mach \<Rightarrow> 'k ioctl_outcome option" where
  "svr4_ioctl_step K junk fd num arg m =
     (let c = drop_bit 8 num in
      if c = 0 then Some (returned (abi_ioctl_socksys K fd num arg m))
      else if c = 0x41 then Some (Returned (- EINVAL) m)
      else if c = 0x74 then Some (returned (svr4_tape_ioctl K fd num arg m))
      else if c = 0x66 then map_option returned (svr4_fil_ioctl K fd num arg m)
      else if c = 0x54 then Some (returned (svr4_term_ioctl (io_tty K) junk fd (num AND 0xff) arg m))
      else if c = 0x43 \<or> c = 0x63 then Some (Returned (svr4_console_ioctl fd num arg) m)
      else if c = 0x694300 then Some (Returned (svr4_video_ioctl fd (num AND 0xff) arg) m)
      else if c = 0x58 then Some (returned (svr4_termiox_ioctl (io_tty K) fd (num AND 0xff) arg m))
      else if c = 0x6a then Some (Returned (- EINVAL) m)
      else if c = 0x53 then svr4_stream_ioctl K fd (num AND 0x7f) arg m
      else if c = 0x49
      then Some (if cfg_xti K then returned (svr4_sockmod_ioctl K fd (num AND 0xff) arg m) else Returned (- EINVAL) m)
      else if c = 0xc5 \<or> c = 0x44 then Some (Returned (- EINVAL) m)
      else svr4_ioctl_bsd K fd num arg m)"

text \<open>\<^verbatim>\<open>__svr4_ioctl\<close>: no value when it never returns, \<open>Some None\<close> when it leaves defined behaviour.\<close>

partial_function (option) svr4_ioctl_loop ::
  "'k ioctl_env \<Rightarrow> u8 list \<Rightarrow> int \<Rightarrow> u32 \<Rightarrow> u32 \<Rightarrow> 'k mach \<Rightarrow> (int \<times> 'k mach) option option" where
  "svr4_ioctl_loop K junk fd num arg m =
     (case svr4_ioctl_step K junk fd num arg m of
        None \<Rightarrow> Some None
      | Some (Returned e m') \<Rightarrow> Some (Some (e, m'))
      | Some (Again num' arg' m') \<Rightarrow> svr4_ioctl_loop K junk fd num' arg' m')"

definition svr4_ioctl :: "'k ioctl_env \<Rightarrow> u8 list \<Rightarrow> 'k mach \<Rightarrow> (int \<times> 'k mach) option option" where
  "svr4_ioctl K junk m =
     (let arg = get_syscall_parameter (mem m) (regs m) in svr4_ioctl_loop K junk (sint (arg 0)) (arg 1) (arg 2) m)"

section \<open>Requests that carry requests\<close>

lemma i_str_Again:
  "i_str K fd data m = Again num arg m' \<longleftrightarrow>
     snd (copy_from_user (mem m) data 16) = 0 \<and> m' = m \<and> num = word32 (field 0 4 (fst (copy_from_user (mem m) data 16))) \<and>
     arg = word32 (field 12 4 (fst (copy_from_user (mem m) data 16))) \<and> \<not> (cfg_xti K \<and> sint num div 256 = 0x54)"
  by (auto simp: i_str_def Let_def split_def returned_def)

text \<open>Only a request of STREAMS with number 8 leads back to the dispatcher.\<close>

abbreviation I_STR :: "u32 \<Rightarrow> bool" where
  "I_STR num \<equiv> drop_bit 8 num = 0x53 \<and> num AND 0x7f = 8"

lemma returned_not_Again [simp]: "returned r \<noteq> Again a b c"
  by (simp add: returned_def)

lemma stream_rest_Again: "stream_rest K fd cmd data m = Again a b m' \<Longrightarrow> cmd = 8 \<and> i_str K fd data m = Again a b m'"
  by (auto simp: stream_rest_def split: if_splits)

lemma stream_ioctl_Again: "svr4_stream_ioctl K fd cmd data m = Some (Again a b m') \<Longrightarrow> cmd = 8"
  by (auto simp: svr4_stream_ioctl_def Let_def split_def split: if_splits dest: stream_rest_Again)

lemma step_Again: "svr4_ioctl_step K junk fd num arg m = Some (Again a b m') \<Longrightarrow> I_STR num"
  by (auto simp: svr4_ioctl_step_def svr4_ioctl_bsd_def Let_def split: if_splits dest: stream_ioctl_Again)

text \<open>The requests that follow one another, while each carries the next.\<close>

fun nth_request :: "'k ioctl_env \<Rightarrow> u8 list \<Rightarrow> int \<Rightarrow> nat \<Rightarrow> u32 \<Rightarrow> u32 \<Rightarrow> 'k mach \<Rightarrow> (u32 \<times> u32 \<times> 'k mach) option" where
  "nth_request K junk fd 0 num arg m = Some (num, arg, m)"
| "nth_request K junk fd (Suc n) num arg m =
     (case svr4_ioctl_step K junk fd num arg m of
        Some (Again num' arg' m') \<Rightarrow> nth_request K junk fd n num' arg' m' | _ \<Rightarrow> None)"

lemma loop_finite: "nth_request K junk fd n num arg m = None \<Longrightarrow> svr4_ioctl_loop K junk fd num arg m \<noteq> None"
proof (induction n arbitrary: num arg m)
  case (Suc n)
  then show ?case
    by (subst svr4_ioctl_loop.simps) (auto split: option.splits ioctl_outcome.splits)
qed simp

lemma loop_infinite:
  assumes "svr4_ioctl_loop K junk fd num arg m = Some r"
  shows "\<exists>n. nth_request K junk fd n num arg m = None"
  using assms
proof (rule svr4_ioctl_loop.raw_induct [where P = "\<lambda>K junk fd num arg m r. \<exists>n. nth_request K junk fd n num arg m = None", rotated])
  fix loop K junk fd num arg m r
  assume IH: "\<And>K junk fd num arg m r. loop K junk fd num arg m = Some r \<Longrightarrow> \<exists>n. nth_request K junk fd n num arg m = None"
    and eq: "(case svr4_ioctl_step K junk fd num arg m of None \<Rightarrow> Some None | Some (Returned e m') \<Rightarrow> Some (Some (e, m'))
      | Some (Again num' arg' m') \<Rightarrow> loop K junk fd num' arg' m') = Some r"
  show "\<exists>n. nth_request K junk fd n num arg m = None"
  proof (cases "svr4_ioctl_step K junk fd num arg m")
    case None
    then have "nth_request K junk fd (Suc 0) num arg m = None" by simp
    then show ?thesis by blast
  next
    case (Some out)
    show ?thesis
    proof (cases out)
      case (Returned e m')
      with Some have "nth_request K junk fd (Suc 0) num arg m = None" by simp
      then show ?thesis by blast
    next
      case (Again num' arg' m')
      with eq Some have "loop K junk fd num' arg' m' = Some r" by simp
      with IH obtain n where "nth_request K junk fd n num' arg' m' = None" by blast
      with Some Again have "nth_request K junk fd (Suc n) num arg m = None" by simp
      then show ?thesis by blast
    qed
  qed
qed

section \<open>Properties\<close>


text \<open>
  C35: A request that carries itself never returns: the dispatcher and the STREAMS ioctl call each other until
  the kernel stack is exhausted.  Any program with an open file can make it.
\<close>

theorem ioctl_carrying_itself:
  assumes "\<And>k. fst (io_fget K fd k) \<noteq> 0" "\<And>fp k. is_sock (io_open K) fp k \<or> \<not> IS_SOCKSYS K fp k"
    and "I_STR num" "copy_from_user (mem m) p 16 = (bs, 0)" "word32 (field 0 4 bs) = num" "word32 (field 12 4 bs) = p"
  shows "svr4_ioctl_loop K junk fd num p m = None"
proof -
  have u: "uint num div 256 = 0x53"
    using arg_cong [OF conjunct1 [OF assms(3)], of uint] by (simp add: drop_bit_eq_div uint_div)
  then have "sint num = uint num" unfolding sint_uint by (intro signed_take_bit_int_eq_self) (simp_all, presburger?)
  with u have not_T: "sint num div 256 \<noteq> 0x54" by simp
  have step: "mem x = mem m \<Longrightarrow> \<exists>x'. svr4_ioctl_step K junk fd num p x = Some (Again num p x') \<and> mem x' = mem m" for x
    using assms(2-) not_T assms(1) [of "kern x", THEN not_sym, THEN not_sym]
    by (auto simp: svr4_ioctl_step_def svr4_stream_ioctl_def stream_rest_def i_str_def Let_def split_def)
  have "mem x = mem m \<Longrightarrow> nth_request K junk fd n num p x \<noteq> None" for n x
  proof (induction n arbitrary: x)
    case (Suc n)
    from step [OF Suc.prems] obtain x' where "svr4_ioctl_step K junk fd num p x = Some (Again num p x')" "mem x' = mem m" by blast
    with Suc.IH show ?case by simp
  qed simp
  then show ?thesis using loop_infinite [of K junk fd num p m]
    by (cases "svr4_ioctl_loop K junk fd num p m") (auto simp del: not_None_eq)
qed

definition sample_open :: "int open_env" where
  "sample_open = \<lparr>oe_access_ok = (\<lambda>a n. True), user_path_walk = (\<lambda>a m. (0, 0, kern m)), path_release = (\<lambda>f k. k),
     vfs_statfs = (\<lambda>f k. (0, \<lparr>kf_type = 0, kf_bsize = 0, kf_blocks = 0, kf_bfree = 0, kf_files = 0, kf_ffree = 0\<rparr>, k)),
     fget = (\<lambda>fd k. (1, k + 1)), fput = (\<lambda>f k. k - 1), file_sb = (\<lambda>f k. 0), is_sock = (\<lambda>f k. False), f_pos = (\<lambda>f k. 0),
     sys_open = (\<lambda>a f md m. (- ENOENT, m)), sys_close = (\<lambda>fd m. m), unix_socket = (\<lambda>m. (- EINVAL, m)),
     unix_connect = (\<lambda>fd p m. (0, m)), oe_getname = (\<lambda>a m. Inr ''timod''), readdir_entries = (\<lambda>f k. []),
     readdir_done = (\<lambda>f n k. (0, k))\<rparr>"

definition sample_ioctl :: "int ioctl_env" where
  "sample_ioctl = \<lparr>io_tty = sample_tty, io_open = sample_open, cfg_xti = True, cfg_spx = False,
     io_major = (\<lambda>f k. 5), io_minor = (\<lambda>f k. 0), io_priv = (\<lambda>f k. 0), io_pfirst = (\<lambda>t k. None), io_offset = (\<lambda>t k. 0),
     io_pid = (\<lambda>k. 1), max_fds = (\<lambda>k. 32), set_cloexec = (\<lambda>fd b k. k), io_nread = (\<lambda>fd k. (0, 7, k)),
     io_tape = (\<lambda>fd op n k. (0, k)), io_dup2 = (\<lambda>a b k. (b, k)), abi_ioctl_socksys = (\<lambda>fd num arg m. (0, m)),
     socksys_fdinit = (\<lambda>fd k. (- EINVAL, k)), timod_update_socket = (\<lambda>fd fp m. m),
     timod_ioctl = (\<lambda>fd cmd arg len lenp m. (0, m)), svr4_sockmod_ioctl = (\<lambda>fd cmd arg m. (0, m)),
     do_getmsg = (\<lambda>fd cb cm cl db dm dl fl m. (0, fl, m)), do_putmsg = (\<lambda>fd cb cl db dl fl m. (0, m))\<rparr>"


definition carrying_itself :: "int mach" where
  "carrying_itself = (blank_mach 0)\<lparr>mem := snd (copy_to_user (mem (blank_mach (0 :: int))) 0x8000
     (bytes32 0x5308 @ bytes32 0 @ bytes32 0 @ bytes32 0x8000))\<rparr>"

theorem ioctl_carrying_itself_witness:
  "svr4_ioctl_loop sample_ioctl [] 0 0x5308 0x8000 carrying_itself = None"
proof (rule ioctl_carrying_itself)
  show "copy_from_user (mem carrying_itself) 0x8000 16 = (bytes32 0x5308 @ bytes32 0 @ bytes32 0 @ bytes32 0x8000, 0)"
    using copy_round_trip [of "mem (blank_mach (0 :: int))" "0x8000" "bytes32 0x5308 @ bytes32 0 @ bytes32 0 @ bytes32 0x8000"]
    by (simp add: carrying_itself_def)
qed (simp_all add: sample_ioctl_def sample_open_def field_def bytes32_def word32_def)

section \<open>File references\<close>

text \<open>What the services of Linux and of the transport provider do to the number of file references in use.\<close>

definition ref_laws :: "('k \<Rightarrow> int) \<Rightarrow> 'k ioctl_env \<Rightarrow> bool" where
  "ref_laws refs K \<longleftrightarrow>
     (\<forall>fd k. refs (snd (io_fget K fd k)) = refs k + (if fst (io_fget K fd k) = 0 then 0 else 1)) \<and>
     (\<forall>fp k. refs (fput (io_open K) fp k) = refs k - 1) \<and>
     (\<forall>fd k. refs (snd (socksys_fdinit K fd k)) = refs k) \<and>
     (\<forall>fd fp m. refs (kern (timod_update_socket K fd fp m)) = refs (kern m)) \<and>
     (\<forall>fd num arg m. refs (kern (snd (sys_ioctl K fd num arg m))) = refs (kern m)) \<and>
     (\<forall>fd cmd arg l p m. refs (kern (snd (timod_ioctl K fd cmd arg l p m))) = refs (kern m)) \<and>
     (\<forall>fd cb cl db dl fl m. refs (kern (snd (do_putmsg K fd cb cl db dl fl m))) = refs (kern m)) \<and>
     (\<forall>fd cb cm cl db dm dl fl m. refs (kern (snd (snd (do_getmsg K fd cb cm cl db dm dl fl m)))) = refs (kern m)) \<and>
     (\<forall>a b k. refs (snd (io_dup2 K a b k)) = refs k)"

fun outcome_mach :: "'k ioctl_outcome \<Rightarrow> 'k mach" where
  "outcome_mach (Returned e m) = m"
| "outcome_mach (Again a b m) = m"

lemma outcome_returned [simp]: "outcome_mach (returned r) = snd r"
  by (simp add: returned_def)

lemma ref_lawsD:
  assumes "ref_laws refs K"
  shows "refs (snd (io_fget K fd k)) = refs k + (if fst (io_fget K fd k) = 0 then 0 else 1)"
    and "refs (fput (io_open K) fp k) = refs k - 1" and "refs (snd (socksys_fdinit K fd k)) = refs k"
    and "refs (kern (timod_update_socket K fd fp m)) = refs (kern m)"
    and "refs (kern (snd (sys_ioctl K fd num arg m))) = refs (kern m)"
    and "refs (kern (snd (timod_ioctl K fd cmd arg l p m))) = refs (kern m)"
    and "refs (kern (snd (do_putmsg K fd cb cl db dl fl m))) = refs (kern m)"
    and "refs (kern (snd (snd (do_getmsg K fd cb cm clp db dm dlp fls m)))) = refs (kern m)"
    and "refs (snd (io_dup2 K fd1 fd2 k)) = refs k"
  using assms by (simp_all add: ref_laws_def)

lemma i_nread_refs:
  assumes "ref_laws refs K"
  shows "refs (kern (snd (i_nread K fd fp data m))) = refs (kern m) - 1"
  using ref_lawsD [OF assms] by (auto simp: i_nread_def Let_def split_def split: option.split)

lemma i_peek_refs:
  assumes "ref_laws refs K" "i_peek K fd fp data m = Some r"
  shows "refs (kern (snd r)) = refs (kern m) - 1"
  using assms(2) ref_lawsD [OF assms(1)] by (auto simp: i_peek_def Let_def split_def split: option.splits if_splits)

lemma stream_rest_refs:
  assumes "ref_laws refs K"
  shows "refs (kern (outcome_mach (stream_rest K fd cmd data m))) = refs (kern m)"
  using ref_lawsD [OF assms] by (auto simp: stream_rest_def i_str_def stream_fdinsert_def Let_def split_def)

text \<open>
  C36: Every STREAMS ioctl gives back the file references that it takes, with one exception: when a descriptor
  of the socket device cannot be made a socket, the reference to its file is lost.
\<close>

theorem stream_ioctl_references:
  assumes "ref_laws refs K" "svr4_stream_ioctl K fd cmd data m = Some out" "io_fget K fd (kern m) = (fp, k)"
  shows "refs (kern (outcome_mach out)) = refs (kern m) +
    (if fp \<noteq> 0 \<and> \<not> is_sock (io_open K) fp k \<and> IS_SOCKSYS K fp k \<and> fst (socksys_fdinit K fd k) < 0 then 1 else 0)"
proof -
  note laws = ref_lawsD [OF assms(1)]
  have g: "refs k = refs (kern m) + (if fp = 0 then 0 else 1)" using laws(1) [of fd "kern m"] assms(3) by simp
  have body: "refs (kern (outcome_mach out)) = refs (kern x) - 1"
    if "(if cmd = 1 then Some (returned (i_nread K fd f data x))
         else if cmd = 15 then map_option returned (i_peek K fd f data x)
         else Some (stream_rest K fd cmd data (io_fput K f x))) = Some out" for f x
    using that i_nread_refs [OF assms(1)] i_peek_refs [OF assms(1)] stream_rest_refs [OF assms(1)] laws(2)
    by (auto split: if_splits)
  show ?thesis
  proof (cases "fp \<noteq> 0 \<and> \<not> is_sock (io_open K) fp k \<and> IS_SOCKSYS K fp k")
    case True
    then show ?thesis
      using assms(2,3) g laws(1) [of fd "fput (io_open K) fp (snd (socksys_fdinit K fd k))"] laws(2) [of fp] laws(3) body
      by (auto simp: svr4_stream_ioctl_def Let_def split_def split: if_splits)
  next
    case False
    then show ?thesis
      using assms(2,3) g body by (auto simp: svr4_stream_ioctl_def Let_def split: if_splits)
  qed
qed

theorem stream_ioctl_references_witness:
  "kern (outcome_mach (the (svr4_stream_ioctl (sample_ioctl\<lparr>io_major := (\<lambda>f k. 30)\<rparr>) 3 2 0x8000 (blank_mach 0)))) = 1 \<and>
   kern (outcome_mach (the (svr4_stream_ioctl sample_ioctl 3 2 0x8000 (blank_mach 0)))) = 0"
proof -
  have L: "ref_laws (\<lambda>k. k) sample_ioctl" "ref_laws (\<lambda>k. k) (sample_ioctl\<lparr>io_major := (\<lambda>f k. 30)\<rparr>)"
    by (simp_all add: ref_laws_def sample_ioctl_def sample_open_def sample_tty_def)
  have d: "\<exists>out. svr4_stream_ioctl sample_ioctl 3 2 0x8000 (blank_mach 0) = Some out"
    "\<exists>out. svr4_stream_ioctl (sample_ioctl\<lparr>io_major := (\<lambda>f k. 30)\<rparr>) 3 2 0x8000 (blank_mach 0) = Some out"
    by (simp_all add: svr4_stream_ioctl_def Let_def sample_ioctl_def sample_open_def)
  then show ?thesis
    using stream_ioctl_references [OF L(1), of 3 2 "0x8000" "blank_mach 0" _ 1 1]
      stream_ioctl_references [OF L(2), of 3 2 "0x8000" "blank_mach 0" _ 1 1]
    by (auto simp: sample_ioctl_def sample_open_def blank_mach_def)
qed

text \<open>The flag that closes a descriptor on \<^verbatim>\<open>exec\<close> is set without a check of the descriptor.\<close>

lemma fil_ioctl_undefined_iff:
  "svr4_fil_ioctl K fd cmd data m = None \<longleftrightarrow>
     cmd \<in> {0x6601, 0x20006601, 0x6602, 0x20006602} \<and> (fd < 0 \<or> max_fds K (kern m) \<le> fd)"
  by (auto simp: svr4_fil_ioctl_def BSD__IOC_def fd_bit_def Let_def split_def)

end
