(* ===== verification/Cxenix_Calls.thy ===== *)
theory Cxenix_Calls
  imports Svr4_Process Svr4_System Svr4_Fcntl "HOL-Library.Signed_Division"
begin

text \<open>
  The calls behind the second-level table of Xenix: signals (\<^verbatim>\<open>abi/cxenix/signal.c\<close>), the name of the system
  (\<^verbatim>\<open>utsname.c\<close>), limits of files (\<^verbatim>\<open>pathconf.c\<close>), locks, time, sleeping and access checks (\<^verbatim>\<open>misc.c\<close>), and the
  calls that only answer (\<^verbatim>\<open>stubs.c\<close>).  Linux is the record \<open>xnx_env\<close>, with the records of the calls of System V.  Trace lines are left out.
\<close>

record 'k xnx_env =
  xn_proc :: "'k proc_env"
  xn_fcntl :: "'k fcntl_env"
  xn_verify_area :: "u32 \<Rightarrow> nat \<Rightarrow> int"
  xn_fionread :: "int \<Rightarrow> 'k \<Rightarrow> int \<times> u32 \<times> 'k"
  xn_time :: "'k \<Rightarrow> int \<times> (int \<times> int) \<times> (int \<times> int) \<times> 'k"
  schedule_timeout :: "int \<Rightarrow> 'k \<Rightarrow> 'k"
  signal_pending :: "'k \<Rightarrow> bool"
  cur_ids :: "'k \<Rightarrow> u32 \<times> u32"
  cur_eids :: "'k \<Rightarrow> u32 \<times> u32"
  set_ids :: "u32 \<times> u32 \<Rightarrow> 'k \<Rightarrow> 'k"

section \<open>Signals\<close>

record struct_sco_sigaction =
  sco_handler :: u32
  sco_mask :: u32
  sco_flags :: u32

definition sco_sigaction_bytes :: "struct_sco_sigaction \<Rightarrow> u8 list" where
  "sco_sigaction_bytes a = bytes32 (sco_handler a) @ bytes32 (sco_mask a) @ bytes32 (sco_flags a)"

definition sco_sigaction_of_bytes :: "u8 list \<Rightarrow> struct_sco_sigaction" where
  "sco_sigaction_of_bytes bs = \<lparr>sco_handler = word32 (field 0 4 bs), sco_mask = word32 (field 4 4 bs),
     sco_flags = word32 (field 8 4 bs)\<rparr>"

abbreviation (input) "SCO_SA_NOCLDSTOP \<equiv> (1::u32)"

definition xnx_sigaction :: "'k sig_env \<Rightarrow> int \<Rightarrow> u32 \<Rightarrow> u32 \<Rightarrow> 'k mach \<Rightarrow> (int \<times> 'k mach) option" where
  "xnx_sigaction K sco_signum action oldaction m =
     (if sco_signum \<ge> int NSIGNALS then Some (- EINVAL, m)
      else case arr_get (signal_map (cur_ed m)) sco_signum of
        None \<Rightarrow> None
      | Some signo \<Rightarrow>
          let error = (if oldaction \<noteq> 0 then sg_verify_area K oldaction 12 else 0) in
          if error \<noteq> 0 then Some (error, m)
          else let (bs, left) = (if action \<noteq> 0 then copy_from_user (mem m) action 12 else ([], 0)) in
            if left \<noteq> 0 then Some (- EFAULT, m)
            else let new_sa = sco_sigaction_of_bytes bs in
              case (if action \<noteq> 0 then map_sigvec_to_kernel (sco_mask new_sa) (signal_map (cur_ed m)) else Some 0) of
                None \<Rightarrow> None
              | Some kmask \<Rightarrow>
                  let nsa = (if action \<noteq> 0
                        then Some \<lparr>sa_handler = sco_handler new_sa, sa_mask = kmask,
                                   sa_flags = (if sco_flags new_sa AND SCO_SA_NOCLDSTOP \<noteq> 0 then SA_NOCLDSTOP else 0),
                                   sa_restorer = 0\<rparr>
                        else None);
                      (error, osa, k) = rt_sigaction K signo nsa (kern m); m = m\<lparr>kern := k\<rparr>
                  in if error \<noteq> 0 \<or> oldaction = 0 then Some (error, m)
                     else case map_sigvec_from_kernel (sa_mask osa) (signal_invmap (cur_ed m)) of
                       None \<Rightarrow> None
                     | Some vec \<Rightarrow>
                         let (left, mm) = copy_to_user (mem m) oldaction (sco_sigaction_bytes
                               \<lparr>sco_handler = sa_handler osa, sco_mask = vec,
                                sco_flags = (if sa_flags osa AND SA_NOCLDSTOP \<noteq> 0 then SCO_SA_NOCLDSTOP else 0)\<rparr>)
                         in Some (if left \<noteq> 0 then - EFAULT else 0, m\<lparr>mem := mm\<rparr>))"

definition xnx_sigpending :: "'k sig_env \<Rightarrow> ('k \<Rightarrow> sigset) \<Rightarrow> u32 \<Rightarrow> 'k mach \<Rightarrow> (int \<times> 'k mach) option" where
  "xnx_sigpending K blocked setp m =
     map_option (\<lambda>pend. let (left, mm) = copy_to_user (mem m) setp (bytes32 pend)
                        in (if left \<noteq> 0 then - EFAULT else 0, m\<lparr>mem := mm\<rparr>))
       (map_sigvec_from_kernel (blocked (kern m) AND pending K (kern m)) (signal_invmap (cur_ed m)))"

section \<open>The name of the system\<close>

text \<open>
  The stores into the structure of 98 bytes, with the place of each: a string into a field of the given
  size, or a value.  The macro for values takes the size of the pointer, so each value is four bytes:
  \<open>junk\<close> is what lies behind the 16 bits of the local variable.
\<close>

datatype uts_op = Field nat nat "u8 list" bool | Value nat "u8 list"

definition set_utsvalue :: "u32 \<Rightarrow> u8 list \<Rightarrow> umem \<Rightarrow> int \<times> umem" where
  "set_utsvalue dest val mm = (let (left, mm) = copy_to_user mm dest val in (if left \<noteq> 0 then - EFAULT else 0, mm))"

fun uts_stores :: "u32 \<Rightarrow> uts_op list \<Rightarrow> int \<Rightarrow> umem \<Rightarrow> int \<times> umem" where
  "uts_stores utp [] error mm = (error, mm)"
| "uts_stores utp (Field off sz src dotchop # ops) error mm =
     (let (e, mm) = set_utsfield (utp + of_nat off) sz src dotchop mm in uts_stores utp ops (error OR e) mm)"
| "uts_stores utp (Value off val # ops) error mm =
     (let (e, mm) = set_utsvalue (utp + of_nat off) val mm in uts_stores utp ops (error OR e) mm)"

definition xnx_uts_ops :: "bool \<Rightarrow> bool \<Rightarrow> u8 list \<Rightarrow> new_utsname \<Rightarrow> uts_op list" where
  "xnx_uts_ops fake eisa junk u =
     (if fake
      then [Field 0 9 (str_bytes ''SCO_SV'' @ [0]) False, Field 9 9 (u_nodename u) True,
            Field 18 16 (str_bytes ''3.2v5.0.0'' @ [0, 0]) False]
      else [Field 0 9 (u_nodename u) True, Field 9 9 (u_nodename u) True, Field 18 16 (u_release u) False]) @
     [Field 34 20 (u_version u) False, Field 54 9 (u_machine u) False,
      Field 63 9 (str_bytes (if eisa then ''EISA'' else ''ISA'') @ [0]) False,
      Field 72 10 (str_bytes ''public'' @ [0, 0, 0, 0]) False,
      Value 82 (bytes16 0xffff @ junk), Value 84 (bytes16 0xffff @ junk), Field 86 9 (str_bytes ''unlim'' @ [0]) False,
      Value 96 (bytes32 1)]"

definition xnx_utsname :: "'k sys_env \<Rightarrow> bool \<Rightarrow> bool \<Rightarrow> u8 list \<Rightarrow> u32 \<Rightarrow> 'k mach \<Rightarrow> int \<times> 'k mach" where
  "xnx_utsname K abi_fake_utsname EISA_bus junk utp m =
     (if is_cur_personality (cur_pers m) PER_SCOSVR3 = 0 then (- ENOSYS, m)
      else let error = se_verify_area K utp 98 in
        if error \<noteq> 0 then (error, m)
        else let (error, mm) = uts_stores utp
                   (xnx_uts_ops abi_fake_utsname EISA_bus junk (system_utsname K (kern m))) error (mem m)
             in (error, m\<lparr>mem := mm\<rparr>))"

section \<open>Limits of files\<close>

definition xnx_pathconf_const :: "'k proc_env \<Rightarrow> int \<Rightarrow> int option" where
  "xnx_pathconf_const P name =
     (if name = 0 then Some (LINK_MAX P) else if name = 1 then Some (MAX_CANON P) else if name = 2 then Some (MAX_INPUT P)
      else if name = 4 then Some (PATH_MAX P) else if name = 5 then Some (PIPE_BUF P) else if name = 6 then Some 0
      else if name = 7 then Some 1 else if name = 8 then Some 1 else None)"

definition xnx_name_max :: "'k proc_env \<Rightarrow> u32 \<Rightarrow> 'k mach \<Rightarrow> int \<times> 'k mach" where
  "xnx_name_max P path m =
     (case pe_getname P path m of Inl e \<Rightarrow> (e, m)
      | Inr p \<Rightarrow> let (error, namelen, k) = statfs_namelen P p (kern m) in (if error \<noteq> 0 then error else namelen, m\<lparr>kern := k\<rparr>))"

definition xnx_pathconf :: "'k proc_env \<Rightarrow> u32 \<Rightarrow> int \<Rightarrow> 'k mach \<Rightarrow> int \<times> 'k mach" where
  "xnx_pathconf P path name m =
     (case xnx_pathconf_const P name of Some v \<Rightarrow> (v, m)
      | None \<Rightarrow> if name = 3 then xnx_name_max P path m else (- EINVAL, m))"

definition xnx_fpathconf :: "'k proc_env \<Rightarrow> int \<Rightarrow> int \<Rightarrow> 'k mach \<Rightarrow> int \<times> 'k mach" where
  "xnx_fpathconf P fildes name m =
     (case xnx_pathconf_const P name of Some v \<Rightarrow> (v, m)
      | None \<Rightarrow> if name = 3
                then (let (error, namelen, k) = fstatfs_namelen P fildes (kern m)
                      in (if error = 0 then namelen else error, m\<lparr>kern := k\<rparr>))
                else (- EINVAL, m))"

section \<open>Locks, time and access\<close>

abbreviation (input) "F_RDLCK \<equiv> (0::u16)"
abbreviation (input) "F_WRLCK \<equiv> (1::u16)"
abbreviation (input) "F_UNLCK \<equiv> (2::u16)"

definition xf_to_linux :: "u16 \<Rightarrow> u16 option" where
  "xf_to_linux t = (if t = 0 then Some F_UNLCK else if t = 1 then Some F_WRLCK else if t = 3 then Some F_RDLCK else None)"

definition xf_from_linux :: "u16 \<Rightarrow> u16" where
  "xf_from_linux t = (if t = F_UNLCK then 0 else if t = F_WRLCK then 1 else if t = F_RDLCK then 3 else t)"

text \<open>Modes 5 to 7: the lock of the program is changed in place, handed to Linux and changed back.\<close>

definition xnx_lock_record :: "'k xnx_env \<Rightarrow> int \<Rightarrow> int \<Rightarrow> u32 \<Rightarrow> 'k mach \<Rightarrow> int \<times> 'k mach" where
  "xnx_lock_record K fd md ifl m =
     (if \<not> access_ok (xn_fcntl K) ifl 16 then (- EFAULT, m)
      else case xf_to_linux (get_user16 (mem m) ifl) of None \<Rightarrow> (- EINVAL, m)
      | Some t \<Rightarrow>
          (let m = m\<lparr>mem := snd (put_user (mem m) ifl (bytes16 t))\<rparr>;
               (error, m) = sys_fcntl (xn_fcntl K) fd (word_of_int md) ifl m;
               mm = snd (put_user (mem m) ifl (bytes16 (xf_from_linux (get_user16 (mem m) ifl))));
               mm = snd (put_user mm (ifl + 14) (bytes16 (get_user16 mm (ifl + 12))));
               mm = snd (put_user mm (ifl + 12) (bytes16 0))
           in (error, m\<lparr>mem := mm\<rparr>)))"

definition xnx_locking :: "'k xnx_env \<Rightarrow> int \<Rightarrow> int \<Rightarrow> u32 \<Rightarrow> 'k mach \<Rightarrow> int \<times> 'k mach" where
  "xnx_locking K fd md sz m =
     (if (md < 0 \<or> md > 7) \<and> md \<noteq> 20 then (- EINVAL, m)
      else if md > 4 \<and> md < 8 then xnx_lock_record K fd md sz m
      else let fl = \<lparr>lf_type = (if md = 0 then F_UNLCK else if md \<le> 2 \<or> md = 20 then F_WRLCK else F_RDLCK),
                     lf_whence = 1, lf_start = 0, lf_len = sz, lf_pid = 0\<rparr>;
               (error, fl, k) = sys_fcntl_lock (xn_fcntl K) fd (if md mod 2 = 0 then 6 else 7) fl (kern m)
           in (error, m\<lparr>kern := k\<rparr>))"

definition xnx_rdchk :: "'k xnx_env \<Rightarrow> int \<Rightarrow> 'k mach \<Rightarrow> int \<times> 'k mach" where
  "xnx_rdchk K fd m =
     (let (error, nbytes, k) = xn_fionread K fd (kern m)
      in (if error < 0 then error else if nbytes \<noteq> 0 then 1 else 0, m\<lparr>kern := k\<rparr>))"

definition xnx_ftime :: "'k xnx_env \<Rightarrow> u32 \<Rightarrow> 'k mach \<Rightarrow> int \<times> 'k mach" where
  "xnx_ftime K tp m =
     (let error = xn_verify_area K tp 12 in
      if error \<noteq> 0 then (error, m)
      else let (error, (sec, usec), (west, dst), k) = xn_time K (kern m); m = m\<lparr>kern := k\<rparr> in
        if error \<noteq> 0 then (error, m)
        else let mm = snd (put_user (mem m) tp (bytes32 (word_of_int sec)));
                 mm = snd (put_user mm (tp + 4) (bytes16 (word_of_int (usec div 1000))));
                 mm = snd (put_user mm (tp + 6) (bytes16 (word_of_int west)));
                 mm = snd (put_user mm (tp + 8) (bytes16 (word_of_int dst)))
             in (0, m\<lparr>mem := mm\<rparr>))"

text \<open>Milliseconds as ticks of the clock, of which \<open>hz\<close> make a second; division rounds towards zero.\<close>

definition nap_ticks :: "int \<Rightarrow> int \<Rightarrow> int" where
  "nap_ticks hz period =
     (let period_s = period sdiv 1000; period_ms_hz = (period - period_s * 1000) * hz;
          period_j = period_s * hz + period_ms_hz sdiv 1000
      in if period > period_j * (1000 sdiv hz) then period_j + 1 else period_j)"

definition nap_elapsed :: "int \<times> int \<Rightarrow> int \<times> int \<Rightarrow> int" where
  "nap_elapsed tv1 tv2 = sint (word_of_int ((fst tv2 - fst tv1) * 1000 + (snd tv2 - snd tv1 + 500) sdiv 1000) :: u32)"

definition xnx_nap :: "'k xnx_env \<Rightarrow> int \<Rightarrow> int \<Rightarrow> 'k mach \<Rightarrow> int \<times> 'k mach" where
  "xnx_nap K hz period m =
     (if period = 0 then (0, m)
      else let (e1, tv1, tz1, k) = xn_time K (kern m);
               k = schedule_timeout K (nap_ticks hz period) k;
               (e2, tv2, tz2, k) = xn_time K k; m = m\<lparr>kern := k\<rparr>
           in if signal_pending K k then (- EINTR, m) else (nap_elapsed tv1 tv2, m))"

definition xnx_eaccess :: "'k xnx_env \<Rightarrow> u32 \<Rightarrow> u32 \<Rightarrow> 'k mach \<Rightarrow> int \<times> 'k mach" where
  "xnx_eaccess K path md m =
     (let old = cur_ids K (kern m); m = m\<lparr>kern := set_ids K (cur_eids K (kern m)) (kern m)\<rparr>;
          (err, m) = sys_access (xn_proc K) path md m
      in (err, m\<lparr>kern := set_ids K old (kern m)\<rparr>))"

section \<open>Calls that only answer\<close>

definition xnx_stubs :: "(string \<times> int) list" where
  "xnx_stubs =
     [(''xnx_creatsem'', - EPERM), (''xnx_opensem'', - EPERM), (''xnx_sigsem'', - EPERM), (''xnx_waitsem'', - EPERM),
      (''xnx_nbwaitsem'', - EPERM), (''xnx_sdget'', - EPERM), (''xnx_sdfree'', - EPERM), (''xnx_sdenter'', - EPERM),
      (''xnx_sdleave'', - EPERM), (''xnx_sdgetv'', - EPERM), (''xnx_sdwaitv'', - EPERM), (''xnx_proctl'', 0),
      (''xnx_execseg'', - EPERM), (''xnx_unexecseg'', - EPERM), (''xnx_paccess'', 0)]"

section \<open>Facts\<close>

fun uts_inside :: "nat \<Rightarrow> uts_op \<Rightarrow> bool" where
  "uts_inside n (Field off sz src dotchop) \<longleftrightarrow> off + sz \<le> n \<and> 0 < sz \<and> 0 < length src"
| "uts_inside n (Value off val) \<longleftrightarrow> off + length val \<le> n"

lemma offset_outside:
  assumes "n \<le> unat (x - utp)" "off + l \<le> n" "n < 2 ^ 32"
  shows "l \<le> unat (x - (utp + of_nat off :: u32))"
proof -
  have "x - (utp + of_nat off) = x - utp - of_nat off" by simp
  moreover have "unat (x - utp - of_nat off) = unat (x - utp) - off"
    using assms by (subst unat_sub) (auto simp: word_le_nat_alt unat_of_nat take_bit_nat_eq_self)
  ultimately have "unat (x - (utp + of_nat off)) = unat (x - utp) - off" by (simp only:)
  then show ?thesis using assms(1,2) by linarith
qed

lemma set_utsvalue_ok:
  assumes "mapped mm dest (length val)" "length val < 2 ^ 32"
  shows "set_utsvalue dest val mm = (0, snd (copy_to_user mm dest val))"
  using copy_to_user_ok_iff [of mm dest val] assms by (simp add: set_utsvalue_def split_def)

lemma uts_stores_ok:
  assumes "mapped mm utp n" "n < 2 ^ 32" "list_all (uts_inside n) ops"
  shows "\<exists>mm'. uts_stores utp ops 0 mm = (0, mm') \<and> dom mm' = dom mm \<and> (\<forall>x. n \<le> unat (x - utp) \<longrightarrow> mm' x = mm x)"
  using assms(1,3)
proof (induction ops arbitrary: mm)
  case (Cons op ops)
  have "\<exists>m1. uts_stores utp (op # ops) 0 mm = uts_stores utp ops 0 m1 \<and> dom m1 = dom mm \<and> (\<forall>x. n \<le> unat (x - utp) \<longrightarrow> m1 x = mm x)"
  proof (cases op)
    case (Field off sz src dotchop)
    with Cons.prems have f: "off + sz \<le> n" "0 < sz" "0 < length src" by simp_all
    have "mapped mm (utp + of_nat off) sz" using mapped_inside [OF Cons.prems(1) f(1)] .
    from set_utsfield_bytes [OF this f(2) _ f(3), of dotchop] f(1) assms(2)
    obtain m1 where "set_utsfield (utp + of_nat off) sz src dotchop mm = (0, m1)" "dom m1 = dom mm"
      "\<forall>x. sz \<le> unat (x - (utp + of_nat off)) \<longrightarrow> m1 x = mm x" by auto
    then show ?thesis using Field offset_outside [OF _ f(1) assms(2)] by auto
  next
    case (Value off val)
    with Cons.prems have f: "off + length val \<le> n" by simp
    have mp: "mapped mm (utp + of_nat off) (length val)" using mapped_inside [OF Cons.prems(1) f] .
    have "set_utsvalue (utp + of_nat off) val mm = (0, snd (copy_to_user mm (utp + of_nat off) val))"
      using set_utsvalue_ok [OF mp] f assms(2) by simp
    moreover have "snd (copy_to_user mm (utp + of_nat off) val) x = mm x" if "n \<le> unat (x - utp)" for x
      using copy_inside [OF f that] .
    ultimately show ?thesis
      using Value copy_to_user_dom by (intro exI [of _ "snd (copy_to_user mm (utp + of_nat off) val)"]) auto
  qed
  then obtain m1 where m1: "uts_stores utp (op # ops) 0 mm = uts_stores utp ops 0 m1" "dom m1 = dom mm"
    "\<forall>x. n \<le> unat (x - utp) \<longrightarrow> m1 x = mm x" by blast
  with Cons.IH [of m1] Cons.prems mapped_dom [OF m1(2)] show ?case by auto
qed simp

lemma uts_stores_append:
  "uts_stores utp (xs @ ys) error mm = (let (e, mm) = uts_stores utp xs error mm in uts_stores utp ys e mm)"
  by (induction utp xs error mm rule: uts_stores.induct) (simp_all add: Let_def split_def)

section \<open>Properties\<close>

text \<open>
  C37: The name of the system for a Xenix program is stored two bytes past the end of the structure, which
  has 98 bytes: when the memory behind it is there, its next two bytes are overwritten with 0, and nothing
  beyond them is changed.
\<close>

theorem utsname_overruns:
  assumes "cur_pers m = PER_SCOSVR3" "se_verify_area K utp 98 = 0" "mapped (mem m) utp 100" "length junk = 2"
    and "system_utsname K (kern m) = u" "u_nodename u \<noteq> []" "u_release u \<noteq> []" "u_version u \<noteq> []" "u_machine u \<noteq> []"
  shows "\<exists>mm'. xnx_utsname K fake eisa junk utp m = (0, m\<lparr>mem := mm'\<rparr>) \<and> mm' (utp + 98) = Some 0 \<and> mm' (utp + 99) = Some 0 \<and>
    (\<forall>x. 100 \<le> unat (x - utp) \<longrightarrow> mm' x = mem m x)"
proof -
  obtain ops where ops: "xnx_uts_ops fake eisa junk u = ops @ [Value 96 (bytes32 1)]" "list_all (uts_inside 100) ops"
    using assms(4,6-9) by (auto simp: xnx_uts_ops_def)
  obtain m1 where m1: "uts_stores utp ops 0 (mem m) = (0, m1)" "dom m1 = dom (mem m)"
    "\<forall>x. 100 \<le> unat (x - utp) \<longrightarrow> m1 x = mem m x"
    using uts_stores_ok [OF assms(3) _ ops(2)] by auto
  have "mapped m1 utp 100" using assms(3) by (simp add: mapped_dom [OF m1(2)])
  from mapped_inside [OF this, of 96 4] have mp: "mapped m1 (utp + 96) (length (bytes32 1))" by simp
  let ?mm = "snd (copy_to_user m1 (utp + 96) (bytes32 1))"
  have "xnx_utsname K fake eisa junk utp m = (0, m\<lparr>mem := ?mm\<rparr>)"
    using assms(1,2,5) m1(1) set_utsvalue_ok [OF mp]
    by (simp add: xnx_utsname_def is_cur_personality_def c_bool_def ops(1) uts_stores_append)
  moreover have "?mm (utp + 96 + of_nat 2) = Some 0" "?mm (utp + 96 + of_nat 3) = Some 0"
    using copy_to_user_nth [OF mp _, of 2] copy_to_user_nth [OF mp _, of 3] by (simp_all add: bytes32_def)
  moreover have "?mm x = mem m x" if "100 \<le> unat (x - utp)" for x
    using copy_inside [of 96 "bytes32 1" 100 x utp m1] that m1(3) by simp
  ultimately show ?thesis by (simp add: add.assoc) blast
qed

theorem utsname_overruns_witness:
  "\<exists>m'. xnx_utsname sys_kernel True False [7, 7] 0x8000 ((blank_mach ())\<lparr>cur_pers := PER_SCOSVR3\<rparr>) = (0, m') \<and>
     mem m' 0x8062 = Some 0 \<and> mem m' 0x8063 = Some 0"
  using utsname_overruns [of "(blank_mach ())\<lparr>cur_pers := PER_SCOSVR3\<rparr>" sys_kernel "0x8000" "[7, 7]" _ True False]
  by (auto simp: sys_kernel_def str_bytes_def)

lemma sdiv_nonneg: "0 \<le> a \<Longrightarrow> 0 < b \<Longrightarrow> a sdiv b = a div b" for a b :: int
  by (simp add: signed_divide_int_def sgn_if)

text \<open>
  C38: A sleep of a positive number of milliseconds is rounded up to whole ticks of the clock, for a clock
  whose tick is a whole number of milliseconds: the ticks are the fewest that are not shorter.
\<close>

theorem nap_rounds_up:
  assumes "0 < period" "0 < hz" "hz * q = 1000"
  shows "(nap_ticks hz period - 1) * q < period \<and> period \<le> nap_ticks hz period * q"
proof -
  define s r where "s = period div 1000" and "r = period mod 1000"
  have p: "period = s * 1000 + r" "0 \<le> r" "0 \<le> s" using assms(1) by (simp_all add: s_def r_def pos_imp_zdiv_nonneg_iff)
  have q: "0 < q" using assms(2,3) by (smt (verit) zero_less_mult_iff)
  have "r * hz div 1000 = r div q" using assms(2,3) by (metis div_mult_mult1_if mult.commute less_irrefl)
  moreover have "1000 sdiv hz = q" using sdiv_nonneg [of 1000 hz] assms(2,3) by (metis nonzero_mult_div_cancel_left less_irrefl zero_le_numeral)
  moreover have "period sdiv 1000 = s" using sdiv_nonneg [of period 1000] assms(1) by (simp add: s_def)
  moreover have "(r * hz) sdiv 1000 = r * hz div 1000" using sdiv_nonneg [of "r * hz" 1000] p assms(2) by simp
  ultimately have j: "nap_ticks hz period = (if period > (s * hz + r div q) * q then s * hz + r div q + 1 else s * hz + r div q)"
    using p(1) by (simp add: nap_ticks_def)
  define x where "x = s * hz + r div q"
  have "s * hz * q = s * 1000" using assms(3) by simp
  moreover have "r div q * q = r - r mod q" by (simp add: minus_mod_eq_div_mult)
  ultimately have x: "x * q = period - r mod q" unfolding x_def distrib_right p(1) by linarith
  have "0 \<le> r mod q" "r mod q < q" using q by simp_all
  then show ?thesis using x by (auto simp: j x_def [symmetric] left_diff_distrib distrib_right)
qed

theorem nap_rounds_up_witness: "(nap_ticks 100 25 - 1) * 10 < 25 \<and> 25 \<le> nap_ticks 100 25 * 10"
  by (rule nap_rounds_up) simp_all

text \<open>
  \<^verbatim>\<open>sigaction\<close> of Xenix leaves defined behaviour exactly for a negative signal number, which only the
  upper bound of the table is compared with.
\<close>

lemma xnx_sigaction_undefined_iff:
  assumes "sigtab_ok (signal_map (cur_ed m))" "sigtab_ok (signal_invmap (cur_ed m))"
  shows "xnx_sigaction K sig action oldaction m = None \<longleftrightarrow> sig < 0"
proof (cases "sig < 0 \<or> int NSIGNALS \<le> sig")
  case True
  then show ?thesis by (auto simp: xnx_sigaction_def NSIGNALS_def arr_get_def)
next
  case False
  with sigtab_ok_length [OF assms(1)] have "arr_get (signal_map (cur_ed m)) sig \<noteq> None"
    by (simp add: NSIGNALS_def arr_get_def)
  then obtain sg where "arr_get (signal_map (cur_ed m)) sig = Some sg" by blast
  moreover obtain F where "\<And>v. map_sigvec_to_kernel v (signal_map (cur_ed m)) = Some (F v)"
    using sigvec_total(1) [OF assms(1)] by metis
  moreover obtain G where "\<And>k. map_sigvec_from_kernel k (signal_invmap (cur_ed m)) = Some (G k)"
    using sigvec_total(2) [OF assms(2)] by metis
  ultimately show ?thesis using False by (simp add: xnx_sigaction_def Let_def split: prod.split)
qed

text \<open>The ids of the process are as before after a check of access, if Linux leaves them alone.\<close>

lemma eaccess_restores_ids:
  assumes "\<And>i k. cur_ids K (set_ids K i k) = i" "\<And>i k. cur_eids K (set_ids K i k) = cur_eids K k"
    and "\<And>p md x. cur_eids K (kern (snd (sys_access (xn_proc K) p md x))) = cur_eids K (kern x)"
  shows "cur_ids K (kern (snd (xnx_eaccess K path md m))) = cur_ids K (kern m) \<and>
    cur_eids K (kern (snd (xnx_eaccess K path md m))) = cur_eids K (kern m)"
  using assms by (simp add: xnx_eaccess_def Let_def split_def)

text \<open>The kinds of lock survive the way to Linux and back.\<close>

lemma xf_round_trip: "xf_to_linux t = Some u \<Longrightarrow> xf_from_linux u = t"
  by (auto simp: xf_to_linux_def xf_from_linux_def split: if_splits)

end
