(* ===== verification/Sco_Calls.thy ===== *)
theory Sco_Calls
  imports Svr4_Ioctl Svr4_Process Svr4_System Svr4_Fcntl
begin

text \<open>
  The calls of OpenServer that differ from System V (\<^verbatim>\<open>abi/sco\<close>): seeking, the descriptor query, machine
  features, mappings, file system statistics, the security call (\<^verbatim>\<open>misc.c\<close>, \<^verbatim>\<open>mmap.c\<close>, \<^verbatim>\<open>statvfs.c\<close>,
  \<^verbatim>\<open>secureware.c\<close>), debugging (\<^verbatim>\<open>ptrace.c\<close>, with its copy in \<^verbatim>\<open>abi/wyse\<close>), and its ioctls (\<^verbatim>\<open>ioctl.c\<close>,
  \<^verbatim>\<open>termios.c\<close>, \<^verbatim>\<open>tapeio.c\<close>, \<^verbatim>\<open>vtkbd.c\<close>).  Messages of \<^verbatim>\<open>printk\<close> and trace lines are left out.
\<close>

record 'k sco_env =
  sc_lseek :: "int \<Rightarrow> u32 \<Rightarrow> int \<Rightarrow> 'k \<Rightarrow> int \<times> 'k"
  sc_is_device :: "nat \<Rightarrow> 'k \<Rightarrow> bool"
  first_free_fd :: "'k \<Rightarrow> int"
  sc_uid :: "'k \<Rightarrow> u32"
  sys_ptrace :: "int \<Rightarrow> int \<Rightarrow> u32 \<Rightarrow> u32 \<Rightarrow> 'k mach \<Rightarrow> int \<times> 'k mach"
  ptrace_peek :: "int \<Rightarrow> int \<Rightarrow> u32 \<Rightarrow> 'k mach \<Rightarrow> int \<times> u32 \<times> 'k mach"

section \<open>Files, features and mappings\<close>

definition sco_lseek :: "'k sco_env \<Rightarrow> 'k open_env \<Rightarrow> int \<Rightarrow> u32 \<Rightarrow> int \<Rightarrow> 'k mach \<Rightarrow> int \<times> 'k mach" where
  "sco_lseek K V fd offset whence m =
     (let (error, k) = sc_lseek K fd offset whence (kern m) in
      if error \<noteq> - ESPIPE then (error, m\<lparr>kern := k\<rparr>)
      else let (fp, k) = fget V fd k in
        if fp = 0 then (error, m\<lparr>kern := k\<rparr>)
        else (if sc_is_device K fp k then 0 else error, m\<lparr>kern := fput V fp k\<rparr>))"

definition sco_fcntl :: "'k sco_env \<Rightarrow> 'k fcntl_env \<Rightarrow> int \<Rightarrow> u32 \<Rightarrow> u32 \<Rightarrow> 'k mach \<Rightarrow> (int \<times> 'k mach) option" where
  "sco_fcntl K F fd cmd arg m =
     (if fd = - 1 \<and> cmd = 8 then Some (first_free_fd K (kern m), m) else svr4_fcntl F fd cmd arg m)"

text \<open>The features are a string of 13 bytes with its terminator; what is read behind it is not defined.\<close>

definition OSR5_FEATURES :: "u8 list" where
  "OSR5_FEATURES = [1, 1, 1, 1, 1, 1, 1, 1, 2, 1, 1, 1, 0]"

definition sco_sysi86 :: "'k sys_env \<Rightarrow> int \<Rightarrow> u32 \<Rightarrow> int \<Rightarrow> 'k mach \<Rightarrow> (int \<times> 'k mach) option" where
  "sco_sysi86 S cmd arg1 arg2 m =
     (if cmd = 114
      then (let arg2 = max arg2 12 in
            if arg2 > 13 then None
            else let (left, mm) = copy_to_user (mem m) arg1 (take (nat arg2) OSR5_FEATURES)
                 in Some (if left \<noteq> 0 then - EFAULT else arg2, m\<lparr>mem := mm\<rparr>))
      else Some (svr4_sysi86 S cmd arg1 m))"

abbreviation (input) "SCO_MAP_UNIMPL \<equiv> (0xf000::u32)"
abbreviation (input) "MAP_FIXED \<equiv> (0x10::u32)"

definition sco_mmap :: "'k proc_env \<Rightarrow> u32 \<Rightarrow> u32 \<Rightarrow> u32 \<Rightarrow> u32 \<Rightarrow> int \<Rightarrow> u32 \<Rightarrow> 'k mach \<Rightarrow> u32 \<times> 'k mach" where
  "sco_mmap P addr len prot flags fd off m =
     (let flags = (if flags AND SCO_MAP_UNIMPL \<noteq> 0 then flags AND NOT SCO_MAP_UNIMPL else flags);
          (file, k) = pe_fget P fd (kern m); m = m\<lparr>kern := k\<rparr> in
      if file = 0 then (word_of_int (- EBADF), m)
      else let flags = flags AND NOT 0x1800;
               (mapaddr, m) = do_mmap P file addr len prot (flags OR MAP_FIXED) off m;
               m = m\<lparr>kern := pe_fput P file (kern m)\<rparr>
           in (if mapaddr = addr then 0 else mapaddr, m))"

section \<open>File system statistics\<close>

definition sco_statvfs_bytes :: "kstatvfs \<Rightarrow> u32 \<Rightarrow> u8 list \<Rightarrow> u32 \<Rightarrow> u8 list" where
  "sco_statvfs_bytes s sid name flag =
     bytes32 (kv_bsize s) @ bytes32 (kv_bsize s) @ bytes32 (ucast (kv_blocks s)) @ bytes32 (ucast (kv_bfree s)) @
     bytes32 (ucast (kv_bavail s)) @ bytes32 (ucast (kv_files s)) @ bytes32 (ucast (kv_ffree s)) @
     bytes32 (ucast (kv_ffree s)) @ bytes32 sid @ name @ bytes32 flag @ bytes32 (kv_namelen s) @ replicate 96 0"

definition sco_basetype :: "u8 list \<Rightarrow> u8 list option" where
  "sco_basetype name = basetype (if take 4 name = str_bytes ''ext2'' then str_bytes ''HTFS'' else name)"

definition report_sco_statvfs :: "'k sys_env \<Rightarrow> nat \<Rightarrow> u32 \<Rightarrow> 'k mach \<Rightarrow> (int \<times> 'k mach) option" where
  "report_sco_statvfs S nd bufp m =
     (let (error, s, k) = se_vfs_statfs S nd (kern m); m = m\<lparr>kern := k\<rparr> in
      if error \<noteq> 0 then Some (error, m)
      else map_option (\<lambda>name.
        let flag = (if is_rdonly S nd k then 1 else 0) OR (if mnt_nosuid S nd k then 2 else 0);
            (left, mm) = copy_to_user (mem m) bufp (sco_statvfs_bytes s (sb_dev S nd k) name flag)
        in (if left \<noteq> 0 then - EFAULT else 0, m\<lparr>mem := mm\<rparr>)) (sco_basetype (fs_name S nd k)))"

definition sco_statvfs :: "'k sys_env \<Rightarrow> u32 \<Rightarrow> u32 \<Rightarrow> 'k mach \<Rightarrow> (int \<times> 'k mach) option" where
  "sco_statvfs S filename bufp m =
     (let (error, nd, k) = se_path_walk S filename m; m = m\<lparr>kern := k\<rparr> in
      if error \<noteq> 0 then Some (error, m)
      else map_option (\<lambda>(error, m). (error, m\<lparr>kern := se_path_release S nd (kern m)\<rparr>)) (report_sco_statvfs S nd bufp m))"

definition sco_fstatvfs :: "'k sys_env \<Rightarrow> int \<Rightarrow> u32 \<Rightarrow> 'k mach \<Rightarrow> (int \<times> 'k mach) option" where
  "sco_fstatvfs S fd bufp m =
     (let (fp, k) = se_fget S fd (kern m); m = m\<lparr>kern := k\<rparr> in
      if fp = 0 then Some (- EBADF, m)
      else map_option (\<lambda>(error, m). (error, m\<lparr>kern := se_fput S fp (kern m)\<rparr>)) (report_sco_statvfs S fp bufp m))"

section \<open>Security and debugging\<close>

definition sw_security :: "'k sco_env \<Rightarrow> int \<Rightarrow> 'k mach \<Rightarrow> int" where
  "sw_security K cmd m = (if cmd = 1 then sint (sc_uid K (kern m)) else if cmd = 2 then - EPERM else - EINVAL)"

text \<open>Places of the saved registers in the area of a traced process of Linux, in the order of the program's area.\<close>

definition sco_to_linux_reg :: "u32 list" where
  "sco_to_linux_reg = [40, 36, 32, 28, 16, 12, 20, 60, 0, 8, 4, 24, 200, 204, 48, 52, 56, 60, 64]"

definition wysev386_to_linux_reg :: "u32 list" where
  "wysev386_to_linux_reg = [32, 28, 16, 12, 20, 60, 0, 8, 4, 24, 200, 204, 48, 52, 56, 60, 64, 36, 40]"

abbreviation (input) "NREGS \<equiv> (19::u32)"

definition abi_ptrace ::
  "u32 list \<Rightarrow> u32 \<Rightarrow> 'k sco_env \<Rightarrow> int \<Rightarrow> int \<Rightarrow> u32 \<Rightarrow> u32 \<Rightarrow> 'k mach \<Rightarrow> (int \<times> 'k mach) option" where
  "abi_ptrace tab u_ar0 K req pid addr data m =
     (let req = (if req = 16 then 10 else if req = 17 then 11 else req); user = (req = 3 \<or> req = 6); r = drop_bit 2 (addr AND 0xff) in
      if user \<and> addr = u_ar0 then Some (0x4000, m)
      else if user \<and> addr AND 0xff00 = 0x4000 \<and> r > NREGS then Some (- EIO, m)
      else Option.bind (if user \<and> addr AND 0xff00 = 0x4000 then arr_get tab (uint r) else Some addr) (\<lambda>addr'.
        if user \<and> addr AND 0xff00 = 0x4000 \<and> addr' = 0xffffffff then Some (- EIO, m)
        else if req = 7 \<and> data > 0 \<and> unat data > NSIGNALS then Some (- EIO, m)
        else Option.bind (if req = 7 \<and> data > 0 then map_option word_of_int (arr_get (signal_map (cur_ed m)) (uint data)) else Some data)
          (\<lambda>data. if req = 1 \<or> req = 2 \<or> req = 3
                  then (let (error, res, m) = ptrace_peek K req pid addr' m in Some (if error \<noteq> 0 then error else sint res, m))
                  else Some (sys_ptrace K req pid addr' data m))))"

definition sco_ptrace :: "'k sco_env \<Rightarrow> int \<Rightarrow> int \<Rightarrow> u32 \<Rightarrow> u32 \<Rightarrow> 'k mach \<Rightarrow> (int \<times> 'k mach) option" where
  "sco_ptrace = abi_ptrace sco_to_linux_reg 0x1200"

definition wyse_ptrace :: "'k sco_env \<Rightarrow> int \<Rightarrow> int \<Rightarrow> u32 \<Rightarrow> u32 \<Rightarrow> 'k mach \<Rightarrow> (int \<times> 'k mach) option" where
  "wyse_ptrace = abi_ptrace wysev386_to_linux_reg 0x1292"

section \<open>Terminals\<close>

definition sco_set_cc :: "bool \<Rightarrow> u8 list \<Rightarrow> u8 list \<Rightarrow> u8 list" where
  "sco_set_cc canon sco_cc cc =
     (let cc = cc[0 := sco_cc ! 0, 1 := sco_cc ! 1, 2 := sco_cc ! 2, 3 := sco_cc ! 3, 7 := sco_cc ! 7, 8 := sco_cc ! 11,
                  9 := sco_cc ! 12, 10 := sco_cc ! 10, 16 := sco_cc ! 6]
      in if canon then cc[4 := sco_cc ! 4, 11 := sco_cc ! 5]
         else cc[4 := sco_cc ! 8, 5 := sco_cc ! 5, 6 := sco_cc ! 4, 11 := sco_cc ! 9])"

definition sco_get_cc :: "bool \<Rightarrow> u8 list \<Rightarrow> u8 list" where
  "sco_get_cc canon cc =
     [cc ! 0, cc ! 1, cc ! 2, cc ! 3, if canon then cc ! 4 else cc ! 6, if canon then cc ! 11 else cc ! 5, cc ! 16, cc ! 7,
      cc ! 4, cc ! 11, cc ! 10, cc ! 8, cc ! 9]"

definition sco_to_linux_termios :: "'k tty_env \<Rightarrow> int \<Rightarrow> u32 \<Rightarrow> u32 \<Rightarrow> 'k mach \<Rightarrow> int \<times> 'k mach" where
  "sco_to_linux_termios K fd op it m =
     (let error = tt_verify_area K it 24 in
      if error \<noteq> 0 then (error, m)
      else let (error, t, k) = get_termios K fd TCGETS (kern m); m = m\<lparr>kern := k\<rparr> in
        if error \<noteq> 0 then (error, m)
        else let r = ucast (get_user16 (mem m) (it + 6)); old = (c_lflag t AND NOT 0x81ff) OR r;
                 lflag = svr4_set_lflag (c_lflag t) r;
                 t' = \<lparr>c_iflag = ucast (get_user16 (mem m) it) AND NOT 0x8000, c_oflag = ucast (get_user16 (mem m) (it + 2)),
                       c_cflag = svr4_set_cflag (ucast (get_user16 (mem m) (it + 4))), c_lflag = lflag, c_cc = c_cc t,
                       c_line = c_line t\<rparr>;
                 m = snd (tt_ioctl K fd (if old AND 0x8000 \<noteq> 0 then TIOCEXCL else TIOCNXCL) 0 m);
                 line = (case mem m (it + 8) of Some b \<Rightarrow> b | None \<Rightarrow> 0);
                 (sco_cc, left) = copy_from_user (mem m) (it + 9) 13 in
          if left \<noteq> 0 then (- EFAULT, m)
          else let (error, k) = set_termios K fd op
                     (t'\<lparr>c_cc := sco_set_cc (lflag AND ICANON \<noteq> 0) sco_cc (c_cc t), c_line := line\<rparr>) (kern m)
               in (error, m\<lparr>kern := k\<rparr>))"

definition linux_to_sco_termios :: "'k tty_env \<Rightarrow> int \<Rightarrow> u32 \<Rightarrow> u32 \<Rightarrow> 'k mach \<Rightarrow> int \<times> 'k mach" where
  "linux_to_sco_termios K fd op it m =
     (let error = tt_verify_area K it 24 in
      if error \<noteq> 0 then (error, m)
      else let (error, t, k) = get_termios K fd op (kern m); m = m\<lparr>kern := k\<rparr> in
        if error \<noteq> 0 then (error, m)
        else let lflag = svr4_get_lflag (c_lflag t);
                 mm = snd (put_user (mem m) it (bytes16 (ucast (c_iflag t AND 0x1fff))));
                 mm = snd (put_user mm (it + 2) (bytes16 (ucast (c_oflag t AND 0xffff))));
                 mm = snd (put_user mm (it + 4) (bytes16 (ucast (svr4_get_cflag (c_cflag t)))));
                 mm = snd (put_user mm (it + 6) (bytes16 (ucast (lflag AND 0x3ff))));
                 mm = snd (put_user mm (it + 8) [c_line t]);
                 (left, mm) = copy_to_user mm (it + 9) (sco_get_cc (lflag AND ICANON \<noteq> 0) (c_cc t))
             in (if left \<noteq> 0 then - EFAULT else error, m\<lparr>mem := mm\<rparr>))"

definition sco_term_ioctl :: "'k tty_env \<Rightarrow> int \<Rightarrow> u32 \<Rightarrow> u32 \<Rightarrow> 'k mach \<Rightarrow> int \<times> 'k mach" where
  "sco_term_ioctl K fd func arg m =
     (if func = 1 then linux_to_sco_termios K fd TCGETS arg m
      else if func = 2 then sco_to_linux_termios K fd TCSETS arg m
      else if func = 3 then sco_to_linux_termios K fd TCSETSW arg m
      else if func = 4 then sco_to_linux_termios K fd TCSETSF arg m
      else (- EINVAL, m))"

section \<open>Ioctls\<close>

definition sco_tape_op :: "u32 \<Rightarrow> int \<Rightarrow> (u16 \<times> int) option" where
  "sco_tape_op c data =
     (if c = 1 then Some (0, 1) else if c = 2 then Some (9, 1) else if c = 3 then Some (6, 1)
      else if c = 4 \<or> c = 23 then Some (13, 1) else if c = 6 then Some (1, 1) else if c = 7 then Some (5, 1)
      else if c = 8 then Some (30, 1) else if c = 9 then Some (7, 1) else if c = 19 then Some (25, 1)
      else if c = 20 then Some (27, 1) else if c = 21 then Some (12, 1) else if c = 24 then Some (20, data)
      else if c = 25 then Some (28, 1) else if c = 26 then Some (29, 1) else None)"

definition sco_tape_ioctl :: "'k ioctl_env \<Rightarrow> int \<Rightarrow> u32 \<Rightarrow> u32 \<Rightarrow> 'k mach \<Rightarrow> int \<times> 'k mach" where
  "sco_tape_ioctl K fd cmd data m =
     (case sco_tape_op (cmd AND 0xff) (sint data) of None \<Rightarrow> (- EINVAL, m)
      | Some (mt_op, mt_count) \<Rightarrow> let (error, k) = io_tape K fd mt_op mt_count (kern m) in (error, m\<lparr>kern := k\<rparr>))"

definition trantab :: "(u32 \<times> u32) list" where
  "trantab = [(2, 0x4b3c), (3, 0x4b3d), (6, 0x4b44), (7, 0x4b45), (8, 0x4b30), (9, 0x4b3b), (10, 0x4b3a), (11, 0x4b34),
     (12, 0x4b35), (60, 0x4b36), (61, 0x4b37), (63, 0x4b2f), (64, 0x4b33), (65, 0x4b31), (66, 0x4b32)]"

definition sco_vtkbd_ioctl :: "'k ioctl_env \<Rightarrow> int \<Rightarrow> u32 \<Rightarrow> u32 \<Rightarrow> 'k mach \<Rightarrow> int \<times> 'k mach" where
  "sco_vtkbd_ioctl K fd cmd data m =
     (let gen = drop_bit 8 cmd AND 0xff; spec = cmd AND 0xff;
          newf = (if gen = 0x56 then map_of [(1, 0x5600), (2, 0x5602), (3, 0x5601), (4, 0x5605), (5, 0x5606)] spec
                  else if gen = 0x4b then map_of trantab spec else None)
      in case newf of Some f \<Rightarrow> sys_ioctl K fd f data m | None \<Rightarrow> (- EINVAL, m))"

definition sco_ioctl_step :: "'k ioctl_env \<Rightarrow> u8 list \<Rightarrow> int \<Rightarrow> u32 \<Rightarrow> u32 \<Rightarrow> 'k mach \<Rightarrow> 'k ioctl_outcome option" where
  "sco_ioctl_step K junk fd num arg m =
     (let c = drop_bit 8 num; b = c AND 0xff in
      if c = 0 then Some (returned (abi_ioctl_socksys K fd num arg m))
      else if c = 0x41 then Some (Returned (- EINVAL) m)
      else if c = 0x6d then Some (returned (sco_tape_ioctl K fd num arg m))
      else if c = 0x74 then map_option returned (bsd_ioctl_termios (io_tty K) fd num arg m)
      else if c = 0x66 then map_option returned (svr4_fil_ioctl K fd num arg m)
      else if c = 0x54 then Some (returned (svr4_term_ioctl (io_tty K) junk fd (num AND 0xff) arg m))
      else if c = 0x695800 \<or> c = 0x78 then Some (returned (sco_term_ioctl (io_tty K) fd (num AND 0xff) arg m))
      else if c = 0x43 \<or> c = 0x63 then Some (Returned (svr4_console_ioctl fd num arg) m)
      else if c = 0x694300 then Some (Returned (svr4_video_ioctl fd (num AND 0xff) arg) m)
      else if c = 0x6a then Some (Returned (- EINVAL) m)
      else if c = 0x53 then svr4_stream_ioctl K fd (num AND 0x7f) arg m
      else if c = 0x49
      then Some (if cfg_xti K then returned (svr4_sockmod_ioctl K fd (num AND 0xff) arg m) else Returned (- EINVAL) m)
      else if c = 0x76 \<or> c = 0x4b then Some (returned (sco_vtkbd_ioctl K fd num arg m))
      else if c = 0x44 then Some (Returned (- EINVAL) m)
      else if b = 0x66 then map_option returned (svr4_fil_ioctl K fd num arg m)
      else if b = 0x74 then map_option returned (bsd_ioctl_termios (io_tty K) fd num arg m)
      else if b \<in> {0x53, 0x52, 0x49} then Some (returned (abi_ioctl_socksys K fd num arg m))
      else Some (Returned (- EINVAL) m))"

text \<open>A carried request goes to the dispatcher of System V.\<close>

definition sco_do_ioctl ::
  "'k ioctl_env \<Rightarrow> u8 list \<Rightarrow> int \<Rightarrow> u32 \<Rightarrow> u32 \<Rightarrow> 'k mach \<Rightarrow> (int \<times> 'k mach) option option" where
  "sco_do_ioctl K junk fd num arg m =
     (case sco_ioctl_step K junk fd num arg m of
        None \<Rightarrow> Some None
      | Some (Returned e m') \<Rightarrow> Some (Some (e, m'))
      | Some (Again num' arg' m') \<Rightarrow> svr4_ioctl_loop K junk fd num' arg' m')"

definition sco_ioctl :: "'k ioctl_env \<Rightarrow> u8 list \<Rightarrow> 'k mach \<Rightarrow> (int \<times> 'k mach) option option" where
  "sco_ioctl K junk m =
     (let arg = get_syscall_parameter (mem m) (regs m) in sco_do_ioctl K junk (sint (arg 0)) (arg 1) (arg 2) m)"

section \<open>Properties\<close>

text \<open>
  The control characters of a terminal survive a program of OpenServer that reads them and writes them
  back, in both modes.
\<close>

lemma sco_cc_round_trip:
  assumes "length cc = 19"
  shows "sco_set_cc canon (sco_get_cc canon cc) cc = cc"
proof (rule nth_equalityI)
  show "length (sco_set_cc canon (sco_get_cc canon cc) cc) = length cc" by (simp add: sco_set_cc_def Let_def)
  fix i assume "i < length (sco_set_cc canon (sco_get_cc canon cc) cc)"
  then have "i \<in> set [0..<19]" using assms by (simp add: sco_set_cc_def Let_def split: if_splits)
  then have "list_ex (\<lambda>j. i = j) [0..<19]" by (simp only: list_ex_iff) blast
  then show "sco_set_cc canon (sco_get_cc canon cc) cc ! i = cc ! i"
    using assms by (cases canon) (auto simp: upt_rec sco_set_cc_def sco_get_cc_def Let_def nth_list_update)
qed

text \<open>
  C39: Debugging leaves defined behaviour exactly when the program asks for the register behind the last one:
  the place of the register is compared with the length of the table, but the length is let through.
\<close>

theorem ptrace_undefined_iff:
  assumes "sigtab_ok (signal_map (cur_ed m))" "addr \<noteq> 0x1200" "addr \<noteq> 0x1292"
  shows "(sco_ptrace K req pid addr data m = None \<longleftrightarrow>
      (req = 3 \<or> req = 6) \<and> addr AND 0xff00 = 0x4000 \<and> drop_bit 2 (addr AND 0xff) = 19) \<and>
    (wyse_ptrace K req pid addr data m = None \<longleftrightarrow>
      (req = 3 \<or> req = 6) \<and> addr AND 0xff00 = 0x4000 \<and> drop_bit 2 (addr AND 0xff) = 19)"
proof -
  have sig: "\<exists>v. arr_get (signal_map (cur_ed m)) (uint data) = Some v" if "\<not> NSIGNALS < unat data"
    using that sigtab_ok_length [OF assms(1)] by (simp add: arr_get_def NSIGNALS_def uint_nat del: of_nat_unat)
  have gen: "abi_ptrace tab u K req pid addr data m = None \<longleftrightarrow>
      (req = 3 \<or> req = 6) \<and> addr AND 0xff00 = 0x4000 \<and> drop_bit 2 (addr AND 0xff) = 19"
    if tab: "length tab = 19" and u: "addr \<noteq> u" for tab u
  proof -
    define r where "r = drop_bit 2 (addr AND 0xff)"
    have reg: "arr_get tab (uint r) = None \<longleftrightarrow> r = 19" if "\<not> 19 < r"
      using that tab by (auto simp: arr_get_def word_less_def word_uint_eq_iff)
    have "abi_ptrace tab u K req pid addr data m = None \<longleftrightarrow>
        (req = 3 \<or> req = 6) \<and> addr AND 0xff00 = 0x4000 \<and> r = 19"
    proof (cases "(req = 3 \<or> req = 6) \<and> addr AND 0xff00 = 0x4000")
      case True
      show ?thesis
      proof (cases "19 < r \<or> r = 19")
        case big: True
        then show ?thesis
          unfolding abi_ptrace_def Let_def r_def [symmetric] using True u reg by (cases "19 < r") auto
      next
        case False
        then obtain a where "arr_get tab (uint r) = Some a" using reg by (cases "arr_get tab (uint r)") auto
        with True False u show ?thesis
          unfolding abi_ptrace_def Let_def r_def [symmetric] by (auto simp: split_def)
      qed
    next
      case False
      then show ?thesis using u sig by (auto simp: abi_ptrace_def Let_def split_def)
    qed
    then show ?thesis by (simp add: r_def)
  qed
  show ?thesis using gen assms(2,3) by (simp add: sco_ptrace_def wyse_ptrace_def sco_to_linux_reg_def wysev386_to_linux_reg_def)
qed

definition sample_sco :: "unit sco_env" where
  "sample_sco = \<lparr>sc_lseek = (\<lambda>fd off w k. (0, k)), sc_is_device = (\<lambda>f k. False), first_free_fd = (\<lambda>k. 3), sc_uid = (\<lambda>k. 0),
     sys_ptrace = (\<lambda>req pid a d m. (0, m)), ptrace_peek = (\<lambda>req pid a m. (0, 7, m))\<rparr>"

definition sample_table :: "int list" where
  "sample_table = 0 # replicate 32 1"

theorem ptrace_undefined_iff_witness:
  "sco_ptrace sample_sco 3 1 0x404c 0 ((blank_mach ())\<lparr>cur_ed := (cur_ed (blank_mach ()))\<lparr>signal_map := sample_table\<rparr>\<rparr>) = None \<and>
   wyse_ptrace sample_sco 3 1 0x4048 0 ((blank_mach ())\<lparr>cur_ed := (cur_ed (blank_mach ()))\<lparr>signal_map := sample_table\<rparr>\<rparr>) \<noteq> None"
proof -
  have "sigtab_ok sample_table" by (simp add: sigtab_ok_def sample_table_def list_all_iff)
  then show ?thesis
    using ptrace_undefined_iff [of "(blank_mach ())\<lparr>cur_ed := (cur_ed (blank_mach ()))\<lparr>signal_map := sample_table\<rparr>\<rparr>" "0x404c" sample_sco 3 1 0]
      ptrace_undefined_iff [of "(blank_mach ())\<lparr>cur_ed := (cur_ed (blank_mach ()))\<lparr>signal_map := sample_table\<rparr>\<rparr>" "0x4048" sample_sco 3 1 0]
    by simp
qed

text \<open>
  The request for the features of the machine stores at least 12 bytes however few the program asks for,
  and hands out kernel memory when it asks for more than 13.
\<close>

lemma sysi86_features:
  assumes "mapped (mem m) arg1 13"
  shows "(sco_sysi86 S 114 arg1 n m = None \<longleftrightarrow> 13 < n) \<and>
    (n \<le> 12 \<longrightarrow> sco_sysi86 S 114 arg1 n m = Some (12, m\<lparr>mem := snd (copy_to_user (mem m) arg1 (take 12 OSR5_FEATURES))\<rparr>))"
proof -
  have "mapped (mem m) arg1 12" using mapped_inside [OF assms, of 0 12] by simp
  moreover have "length (take 12 OSR5_FEATURES) = 12" by (simp add: OSR5_FEATURES_def)
  ultimately have "fst (copy_to_user (mem m) arg1 (take 12 OSR5_FEATURES)) = 0"
    using copy_to_user_ok_iff [of "mem m" arg1 "take 12 OSR5_FEATURES"] by simp
  then show ?thesis by (auto simp: sco_sysi86_def Let_def split_def max_def)
qed

text \<open>The class of the virtual terminals is \<^verbatim>\<open>'v'\<close> in the dispatcher and \<^verbatim>\<open>'V'\<close> in the function it calls.\<close>

lemma vt_ioctls_refused:
  assumes "drop_bit 8 num = 0x76 \<or> drop_bit 8 num = 0x56"
  shows "sco_ioctl_step K junk fd num arg m = Some (Returned (- EINVAL) m)"
  using assms by (auto simp: sco_ioctl_step_def sco_vtkbd_ioctl_def Let_def returned_def)

text \<open>As in System V, only requests of STREAMS carry another request.\<close>

lemma sco_step_Again: "sco_ioctl_step K junk fd num arg m = Some (Again a b m') \<Longrightarrow> I_STR num"
  by (auto simp: sco_ioctl_step_def Let_def split: if_splits dest: stream_ioctl_Again)

end
