(* ===== verification/Uw7_Calls.thy ===== *)
theory Uw7_Calls
  imports Sco_Calls Cxenix_Calls
begin

text \<open>
  The calls of UnixWare 7 that differ from System V (\<^verbatim>\<open>abi/uw7\<close>): access checks (\<^verbatim>\<open>access.c\<close>), signal stacks
  and contexts (\<^verbatim>\<open>context.c\<close>), large files and limits (\<^verbatim>\<open>lfs.c\<close>), mappings (\<^verbatim>\<open>mmap.c\<close>), ids and small calls
  (\<^verbatim>\<open>misc.c\<close>, \<^verbatim>\<open>mac.c\<close>) and terminals (\<^verbatim>\<open>ioctl.c\<close>).  Linux is the record \<open>uw7_env\<close>, with the records of the
  other calls.  Debug output is left out.
\<close>

record stack_t =
  ss_sp :: u32
  ss_flags :: u32
  ss_size :: u32

record 'k uw7_env =
  uw_verify_area :: "u32 \<Rightarrow> nat \<Rightarrow> int"
  do_revalidate :: "nat \<Rightarrow> 'k \<Rightarrow> int \<times> 'k"
  is_reg :: "nat \<Rightarrow> 'k \<Rightarrow> bool"
  sys_sigaltstack :: "stack_t option \<Rightarrow> bool \<Rightarrow> stack_t \<Rightarrow> 'k mach \<Rightarrow> int \<times> stack_t \<times> 'k mach"
  sys_exit :: "'k mach \<Rightarrow> 'k mach"
  sys_nanosleep :: "int \<Rightarrow> 'k \<Rightarrow> int \<times> 'k"
  sys_truncate64 :: "u32 \<Rightarrow> u64 \<Rightarrow> 'k mach \<Rightarrow> int \<times> 'k mach"
  sys_ftruncate64 :: "int \<Rightarrow> u64 \<Rightarrow> 'k mach \<Rightarrow> int \<times> 'k mach"
  sys_llseek :: "int \<Rightarrow> u32 \<Rightarrow> u32 \<Rightarrow> int \<Rightarrow> 'k \<Rightarrow> int \<times> u64 \<times> 'k"
  sys_pread64 :: "int \<Rightarrow> u32 \<Rightarrow> int \<Rightarrow> u64 \<Rightarrow> 'k mach \<Rightarrow> int \<times> 'k mach"
  sys_pwrite64 :: "int \<Rightarrow> u32 \<Rightarrow> int \<Rightarrow> u64 \<Rightarrow> 'k mach \<Rightarrow> int \<times> 'k mach"
  do_mmap_pgoff :: "nat \<Rightarrow> u32 \<Rightarrow> u32 \<Rightarrow> u32 \<Rightarrow> u32 \<Rightarrow> u32 \<Rightarrow> 'k mach \<Rightarrow> int \<times> 'k mach"

abbreviation (input) "EACCES \<equiv> (13::int)"

section \<open>Access\<close>

definition uw7_access :: "'k uw7_env \<Rightarrow> 'k xnx_env \<Rightarrow> 'k open_env \<Rightarrow> u32 \<Rightarrow> u32 \<Rightarrow> 'k mach \<Rightarrow> int \<times> 'k mach" where
  "uw7_access K X V filename md m =
     (if md AND NOT 0x1f \<noteq> 0 then (- EINVAL, m)
      else let (refused, m) =
             (if md AND 0x10 = 0 then (0, m)
              else let (error, nd, k) = user_path_walk V filename m in
                if error \<noteq> 0 then (0, m\<lparr>kern := k\<rparr>)
                else let (error, k) = do_revalidate K nd k in
                  (if error \<noteq> 0 then - EIO else if \<not> is_reg K nd k then - EACCES else 0, m\<lparr>kern := path_release V nd k\<rparr>));
             md = (if md AND 0x10 = 0 then md else (md AND NOT 0x10) OR 1) in
        if refused \<noteq> 0 then (refused, m)
        else if md AND 8 \<noteq> 0 then xnx_eaccess X filename (md AND NOT 8) m
        else sys_access (xn_proc X) filename md m)"

section \<open>Stacks and contexts\<close>

definition uw7_sigaltstack :: "'k uw7_env \<Rightarrow> u32 \<Rightarrow> u32 \<Rightarrow> 'k mach \<Rightarrow> int \<times> 'k mach" where
  "uw7_sigaltstack K uw7_ss uw7_oss m =
     (let stack = (\<lambda>p. \<lparr>ss_sp = get_user32 (mem m) p, ss_flags = get_user32 (mem m) (p + 8), ss_size = get_user32 (mem m) (p + 4)\<rparr>);
          error = (if uw7_ss \<noteq> 0 then uw_verify_area K uw7_ss 12 else 0) in
      if error \<noteq> 0 then (error, m)
      else let error = (if uw7_oss \<noteq> 0 then uw_verify_area K uw7_oss 12 else 0) in
        if error \<noteq> 0 then (error, m)
        else let (error, oss, m) = sys_sigaltstack K (if uw7_ss \<noteq> 0 then Some (stack uw7_ss) else None) (uw7_oss \<noteq> 0)
                    (stack uw7_oss) m in
          if uw7_oss = 0 then (error, m)
          else let mm = snd (put_user (mem m) uw7_oss (bytes32 (ss_sp oss)));
                   mm = snd (put_user mm (uw7_oss + 4) (bytes32 (ss_size oss)));
                   mm = snd (put_user mm (uw7_oss + 8) (bytes32 (ss_flags oss)))
               in (error, m\<lparr>mem := mm\<rparr>))"

text \<open>\<open>Inl\<close>: the process has ended.\<close>

definition uw7_context :: "'k uw7_env \<Rightarrow> 'k mach \<Rightarrow> 'k mach + int \<times> 'k mach" where
  "uw7_context K m =
     (let arg = get_syscall_parameter (mem m) (regs m); fcn = arg 0; uc = arg 1 in
      if fcn = 0
      then (let (left, mm) = copy_to_user (mem m) uc (replicate 72 0) in Inr (if left \<noteq> 0 then - EFAULT else 0, m\<lparr>mem := mm\<rparr>))
      else if fcn = 2 then Inr (0, m)
      else if fcn = 1 then (if uc = 0 then Inl (sys_exit K m) else Inr (0, m))
      else Inr (- EINVAL, m))"

section \<open>Large files\<close>

definition off64 :: "u32 \<Rightarrow> u32 \<Rightarrow> u64" where
  "off64 lo hi = ucast lo OR push_bit 32 (ucast hi)"

definition uw7_truncate64 :: "'k uw7_env \<Rightarrow> u32 \<Rightarrow> u32 \<Rightarrow> u32 \<Rightarrow> 'k mach \<Rightarrow> int \<times> 'k mach" where
  "uw7_truncate64 K filename len len_hi m = sys_truncate64 K filename (off64 len len_hi) m"

definition uw7_ftruncate64 :: "'k uw7_env \<Rightarrow> int \<Rightarrow> u32 \<Rightarrow> u32 \<Rightarrow> 'k mach \<Rightarrow> int \<times> 'k mach" where
  "uw7_ftruncate64 K fd len len_hi m = sys_ftruncate64 K fd (off64 len len_hi) m"

definition uw7_pread64 :: "'k uw7_env \<Rightarrow> int \<Rightarrow> u32 \<Rightarrow> int \<Rightarrow> u32 \<Rightarrow> u32 \<Rightarrow> 'k mach \<Rightarrow> int \<times> 'k mach" where
  "uw7_pread64 K fd bufp count pos pos_hi m = sys_pread64 K fd bufp count (off64 pos pos_hi) m"

definition uw7_pwrite64 :: "'k uw7_env \<Rightarrow> int \<Rightarrow> u32 \<Rightarrow> int \<Rightarrow> u32 \<Rightarrow> u32 \<Rightarrow> 'k mach \<Rightarrow> int \<times> 'k mach" where
  "uw7_pwrite64 K fd bufp count pos pos_hi m = sys_pwrite64 K fd bufp count (off64 pos pos_hi) m"

definition uw7_pread :: "'k uw7_env \<Rightarrow> int \<Rightarrow> u32 \<Rightarrow> int \<Rightarrow> u32 \<Rightarrow> 'k mach \<Rightarrow> int \<times> 'k mach" where
  "uw7_pread K fd buf count off m = sys_pread64 K fd buf count (scast off) m"

definition uw7_pwrite :: "'k uw7_env \<Rightarrow> int \<Rightarrow> u32 \<Rightarrow> int \<Rightarrow> u32 \<Rightarrow> 'k mach \<Rightarrow> int \<times> 'k mach" where
  "uw7_pwrite K fd buf count off m = sys_pwrite64 K fd buf count (scast off) m"

text \<open>The result of Linux goes to a local variable of the kernel, as an address of the program; it is returned as a \<^verbatim>\<open>long\<close>.\<close>

definition uw7_lseek64 :: "'k uw7_env \<Rightarrow> int \<Rightarrow> u32 \<Rightarrow> u32 \<Rightarrow> int \<Rightarrow> 'k mach \<Rightarrow> int \<times> 'k mach" where
  "uw7_lseek64 K fd off off_hi orig m =
     (let off_hi = (if off_hi = 0xffffffff then 0 else off_hi); (err, result, k) = sys_llseek K fd off_hi off orig (kern m)
      in (if err \<noteq> 0 then err else sint (ucast result :: u32), m\<lparr>kern := k\<rparr>))"

abbreviation (input) "UW7_CREAT64_FLAGS \<equiv> (0x8000 OR 0x40 OR 1 OR 0x200 :: u32)"

definition uw7_creat64 :: "'k open_env \<Rightarrow> u32 \<Rightarrow> u32 \<Rightarrow> 'k mach \<Rightarrow> int \<times> 'k mach" where
  "uw7_creat64 V filename md m = sys_open V filename UW7_CREAT64_FLAGS md m"

definition cp_uw7_statvfs64 :: "u32 \<Rightarrow> u8 list \<Rightarrow> kstatvfs \<Rightarrow> u32 \<Rightarrow> umem \<Rightarrow> (int \<times> umem) option" where
  "cp_uw7_statvfs64 dev name s dstp mm =
     map_option (\<lambda>base. let (left, mm) = copy_to_user mm dstp
         (bytes32 (kv_bsize s) @ bytes32 (kv_bsize s) @ bytes64 (kv_blocks s) @ bytes64 (kv_bfree s) @ bytes64 (kv_bavail s) @
          bytes64 (kv_files s) @ bytes64 (kv_ffree s) @ bytes64 (kv_ffree s) @ bytes32 dev @ base @ bytes32 0 @
          bytes32 (kv_namelen s) @ replicate 96 0)
       in (if left \<noteq> 0 then - EFAULT else 0, mm)) (basetype name)"

definition uw7_statvfs_of :: "'k sys_env \<Rightarrow> nat \<Rightarrow> u32 \<Rightarrow> 'k mach \<Rightarrow> (int \<times> 'k mach) option" where
  "uw7_statvfs_of S f stvfsp m =
     (let (error, s, k) = se_vfs_statfs S f (kern m); m = m\<lparr>kern := k\<rparr> in
      if error \<noteq> 0 then Some (error, m)
      else map_option (\<lambda>(e, mm). (if e \<noteq> 0 then - EFAULT else 0, m\<lparr>mem := mm\<rparr>))
             (cp_uw7_statvfs64 (sb_dev S f k) (fs_name S f k) s stvfsp (mem m)))"

definition uw7_statvfs64 :: "'k sys_env \<Rightarrow> u32 \<Rightarrow> u32 \<Rightarrow> 'k mach \<Rightarrow> (int \<times> 'k mach) option" where
  "uw7_statvfs64 S filename stvfsp m =
     (let (error, nd, k) = se_path_walk S filename m; m = m\<lparr>kern := k\<rparr> in
      if error \<noteq> 0 then Some (error, m)
      else map_option (\<lambda>(error, m). (error, m\<lparr>kern := se_path_release S nd (kern m)\<rparr>)) (uw7_statvfs_of S nd stvfsp m))"

definition uw7_fstatvfs64 :: "'k sys_env \<Rightarrow> int \<Rightarrow> u32 \<Rightarrow> 'k mach \<Rightarrow> (int \<times> 'k mach) option" where
  "uw7_fstatvfs64 S fd stvfsp m =
     (let (fp, k) = se_fget S fd (kern m); m = m\<lparr>kern := k\<rparr> in
      if fp = 0 then Some (- EBADF, m)
      else map_option (\<lambda>(error, m). (error, m\<lparr>kern := se_fput S fp (kern m)\<rparr>)) (uw7_statvfs_of S fp stvfsp m))"

section \<open>Limits\<close>

definition uw7_to_linux_rlimit :: "int list" where
  "uw7_to_linux_rlimit = [0, 2, 3, 4, 7, 9]"

definition uw7_rlim64_to_user :: "'k proc_env \<Rightarrow> int \<Rightarrow> u32 \<Rightarrow> 'k mach \<Rightarrow> int \<times> 'k mach" where
  "uw7_rlim64_to_user P res rlimp m =
     (let lx = rlim P res (kern m); (left, mm) = copy_to_user (mem m) rlimp (bytes64 (ucast (fst lx)) @ bytes64 (ucast (snd lx)))
      in (if left \<noteq> 0 then - EFAULT else 0, m\<lparr>mem := mm\<rparr>))"

text \<open>The number of the limit is compared with the length of the table as an unsigned number.\<close>

definition uw7_getrlimit64 :: "'k proc_env \<Rightarrow> int \<Rightarrow> u32 \<Rightarrow> 'k mach \<Rightarrow> (int \<times> 'k mach) option" where
  "uw7_getrlimit64 P res rlimp m =
     (if res < 0 \<or> res > int (length uw7_to_linux_rlimit) then Some (- EINVAL, m)
      else map_option (\<lambda>r. uw7_rlim64_to_user P r rlimp m) (arr_get uw7_to_linux_rlimit res))"

abbreviation (input) "RLIM_INFINITY \<equiv> (0xffffffff::u64)"
abbreviation (input) "NR_OPEN \<equiv> (0x100000::u64)"

definition uw7_check_rlimit64 :: "bool \<Rightarrow> int \<Rightarrow> u64 \<Rightarrow> u64 \<Rightarrow> u32 \<Rightarrow> int" where
  "uw7_check_rlimit64 capable res cur mx lxmax =
     (if cur > RLIM_INFINITY \<or> mx > RLIM_INFINITY then - EPERM
      else if (cur > ucast lxmax \<or> mx > ucast lxmax) \<and> \<not> capable then - EPERM
      else if res = RLIMIT_NOFILE \<and> (cur > NR_OPEN \<or> mx > NR_OPEN) then - EPERM else 0)"

definition uw7_setrlimit64 :: "'k proc_env \<Rightarrow> int \<Rightarrow> u32 \<Rightarrow> 'k mach \<Rightarrow> int \<times> 'k mach" where
  "uw7_setrlimit64 P res rlimp m =
     (if res < 0 \<or> res > int (length uw7_to_linux_rlimit) then (- EINVAL, m)
      else let (bs, left) = copy_from_user (mem m) rlimp 16;
               cur = off64 (word32 (field 0 4 bs)) (word32 (field 4 4 bs)); mx = off64 (word32 (field 8 4 bs)) (word32 (field 12 4 bs)) in
        if left \<noteq> 0 then (- EFAULT, m)
        else if uw7_check_rlimit64 (capable_resource P (kern m)) res cur mx (snd (rlim P res (kern m))) \<noteq> 0 then (- EPERM, m)
        else (0, m\<lparr>kern := set_rlim P res (ucast cur, ucast mx) (kern m)\<rparr>))"

section \<open>Mappings and small calls\<close>

abbreviation (input) "UW7_MAP_ANONYMOUS \<equiv> (0x100::u32)"

definition uw7_mmap64 ::
  "'k uw7_env \<Rightarrow> 'k proc_env \<Rightarrow> u32 \<Rightarrow> u32 \<Rightarrow> u32 \<Rightarrow> u32 \<Rightarrow> int \<Rightarrow> u32 \<Rightarrow> u32 \<Rightarrow> 'k mach \<Rightarrow> int \<times> 'k mach" where
  "uw7_mmap64 K P addr len prot flags fd off off_hi m =
     (let o64 = off64 off off_hi; pgoff = ucast (signed_drop_bit 12 o64) in
      if sint (o64 + ucast ((len + 0xfff) AND 0xfffff000)) < sint o64 then (- EINVAL, m)
      else if o64 AND 0xfff = 0 then (- EINVAL, m)
      else let flags = (if flags AND UW7_MAP_ANONYMOUS \<noteq> 0 then (flags OR MAP_ANONYMOUS) AND NOT UW7_MAP_ANONYMOUS else flags);
               flags = flags AND NOT 0x1800 in
        if flags AND MAP_ANONYMOUS = 0
        then (let (fp, k) = pe_fget P fd (kern m); m = m\<lparr>kern := k\<rparr> in
              if fp = 0 then (- EBADF, m)
              else let (error, m) = do_mmap_pgoff K fp addr len prot flags pgoff m
                   in (error, m\<lparr>kern := pe_fput P fp (kern m)\<rparr>))
        else do_mmap_pgoff K 0 addr len prot flags pgoff m)"

definition uw7_mldmode :: "int \<Rightarrow> int" where
  "uw7_mldmode mldmode = (if mldmode = 1 \<or> mldmode = 0 then 0 else if mldmode = 2 then 1 else - EINVAL)"

definition uw7_sleep :: "'k uw7_env \<Rightarrow> int \<Rightarrow> 'k mach \<Rightarrow> int \<times> 'k mach" where
  "uw7_sleep K seconds m = (let (error, k) = sys_nanosleep K seconds (kern m) in (error, m\<lparr>kern := k\<rparr>))"

abbreviation (input) "UW7_MAXUID \<equiv> (60002::int)"

definition uw7_seteuid :: "'k proc_env \<Rightarrow> int \<Rightarrow> 'k mach \<Rightarrow> int \<times> 'k mach" where
  "uw7_seteuid P uid m =
     (if uid < 0 \<or> uid > UW7_MAXUID then (- EINVAL, m)
      else let (e, k) = sys_setreuid16 P 0xffffffff (word_of_int uid) (kern m) in (e, m\<lparr>kern := k\<rparr>))"

definition uw7_setegid :: "'k proc_env \<Rightarrow> int \<Rightarrow> 'k mach \<Rightarrow> int \<times> 'k mach" where
  "uw7_setegid P gid m =
     (if gid < 0 \<or> gid > UW7_MAXUID then (- EINVAL, m)
      else let (e, k) = sys_setreuid16 P 0xffffffff (word_of_int gid) (kern m) in (e, m\<lparr>kern := k\<rparr>))"

definition uw7_stty :: "int \<Rightarrow> int \<Rightarrow> int" where
  "uw7_stty fd cmd = - EIO"

definition uw7_gtty :: "int \<Rightarrow> int \<Rightarrow> int" where
  "uw7_gtty fd cmd = - EIO"

section \<open>Terminals\<close>

record uw7_termios =
  u_iflag :: u32
  u_oflag :: u32
  u_cflag :: u32
  u_lflag :: u32
  u_cc :: "u8 list"

definition uw7_termios_bytes :: "uw7_termios \<Rightarrow> u8 list" where
  "uw7_termios_bytes t = bytes32 (u_iflag t) @ bytes32 (u_oflag t) @ bytes32 (u_cflag t) @ bytes32 (u_lflag t) @ u_cc t @ [0]"

definition uw7_termios_of_bytes :: "u8 list \<Rightarrow> uw7_termios" where
  "uw7_termios_of_bytes bs = \<lparr>u_iflag = word32 (field 0 4 bs), u_oflag = word32 (field 4 4 bs), u_cflag = word32 (field 8 4 bs),
     u_lflag = word32 (field 12 4 bs), u_cc = field 16 19 bs\<rparr>"

definition uw7_set_cc :: "bool \<Rightarrow> u8 list \<Rightarrow> u8 list \<Rightarrow> u8 list" where
  "uw7_set_cc canon c cc =
     (let cc = cc[0 := c ! 0, 1 := c ! 1, 2 := c ! 2, 3 := c ! 3, 16 := c ! 6, 7 := c ! 7, 8 := c ! 8, 9 := c ! 9, 10 := c ! 10,
                  12 := c ! 12, 13 := c ! 13, 14 := c ! 14, 15 := c ! 15]
      in if canon then cc[4 := c ! 4, 11 := c ! 5] else cc[6 := c ! 4, 5 := c ! 5, 11 := c ! 6])"

definition uw7_get_cc :: "bool \<Rightarrow> u8 list \<Rightarrow> u8 list" where
  "uw7_get_cc canon c =
     [c ! 0, c ! 1, c ! 2, c ! 3, if canon then c ! 4 else c ! 6, if canon then c ! 11 else c ! 5, c ! 16, c ! 7, c ! 8, c ! 9,
      c ! 10, c ! 10, c ! 12, c ! 13, c ! 14, c ! 15, 0, 0, 0]"

definition uw7_set_lflag :: "u32 \<Rightarrow> u32" where
  "uw7_set_lflag f =
     (let l = f AND NOT 0x1000 in if f AND 0x2000 \<noteq> 0 then l OR 0x1000 else l AND NOT 0x1000)"

definition uw7_get_lflag :: "u32 \<Rightarrow> u32" where
  "uw7_get_lflag f =
     (let l = 0x3ff AND (f AND NOT 0x1000) in if f AND 0x1000 \<noteq> 0 then l OR 0x2000 else l AND NOT 0x2000)"

definition uw7_set :: "uw7_termios \<Rightarrow> termios \<Rightarrow> termios" where
  "uw7_set tmp t =
     (let l = uw7_set_lflag (u_lflag tmp)
      in t\<lparr>c_iflag := u_iflag tmp AND NOT 0x8000, c_oflag := u_oflag tmp, c_cflag := u_cflag tmp, c_lflag := l,
           c_cc := uw7_set_cc (l AND ICANON \<noteq> 0) (u_cc tmp) (c_cc t)\<rparr>)"

definition uw7_get :: "termios \<Rightarrow> uw7_termios" where
  "uw7_get t =
     \<lparr>u_iflag = 0x1fff AND (c_iflag t AND NOT 0x8000), u_oflag = 0xffff AND c_oflag t, u_cflag = 0xffff AND c_cflag t,
      u_lflag = uw7_get_lflag (c_lflag t), u_cc = uw7_get_cc (c_lflag t AND ICANON \<noteq> 0) (c_cc t)\<rparr>"

definition tioc_tcsets :: "'k tty_env \<Rightarrow> int \<Rightarrow> u32 \<Rightarrow> u32 \<Rightarrow> 'k mach \<Rightarrow> int \<times> 'k mach" where
  "tioc_tcsets K fd lnx_cmd tios m =
     (let error = tt_verify_area K tios 36 in
      if error \<noteq> 0 then (error, m)
      else let (error, t, k) = get_termios K fd TCGETS (kern m); m = m\<lparr>kern := k\<rparr> in
        if error \<noteq> 0 then (error, m)
        else let (bs, left) = copy_from_user (mem m) tios 36 in
          if left \<noteq> 0 then (- EFAULT, m)
          else let (error, k) = set_termios K fd lnx_cmd (uw7_set (uw7_termios_of_bytes bs) t) (kern m) in (error, m\<lparr>kern := k\<rparr>))"

definition tioc_tcgets :: "'k tty_env \<Rightarrow> int \<Rightarrow> u32 \<Rightarrow> 'k mach \<Rightarrow> int \<times> 'k mach" where
  "tioc_tcgets K fd tios m =
     (let (error, t, k) = get_termios K fd TCGETS (kern m); m = m\<lparr>kern := k\<rparr> in
      if error \<noteq> 0 then (error, m)
      else let (left, mm) = copy_to_user (mem m) tios (uw7_termios_bytes (uw7_get t))
           in (if left \<noteq> 0 then - EFAULT else 0, m\<lparr>mem := mm\<rparr>))"

definition ioctl_T :: "'k tty_env \<Rightarrow> int \<Rightarrow> u32 \<Rightarrow> u32 \<Rightarrow> 'k mach \<Rightarrow> int \<times> 'k mach" where
  "ioctl_T K fd cmd arg m =
     (if cmd = 0x5405 then tt_ioctl K fd TCSBRK arg m
      else if cmd = 0x5406 then tt_ioctl K fd TCXONC arg m
      else if cmd = 0x5407 then tt_ioctl K fd TCFLSH arg m
      else if cmd = 0x5467 then tt_ioctl K fd TIOCSWINSZ arg m
      else if cmd = 0x5468 then tt_ioctl K fd TIOCGWINSZ arg m
      else if cmd = 0x540d then tioc_tcgets K fd arg m
      else if cmd = 0x540e then tioc_tcsets K fd TCSETS arg m
      else if cmd = 0x540f then tioc_tcsets K fd TCSETSW arg m
      else if cmd = 0x5410 then tioc_tcsets K fd TCSETSF arg m
      else (- EINVAL, m))"

definition uw7_ioctl :: "'k ioctl_env \<Rightarrow> u8 list \<Rightarrow> 'k mach \<Rightarrow> (int \<times> 'k mach) option option" where
  "uw7_ioctl K junk m =
     (let arg = get_syscall_parameter (mem m) (regs m); fd = sint (arg 0); cmd = arg 1 in
      if drop_bit 8 cmd = 0x54 then Some (Some (ioctl_T (io_tty K) fd cmd (arg 2) m))
      else svr4_ioctl_loop K junk fd cmd (arg 2) m)"

section \<open>Properties\<close>

text \<open>
  Mapping a file at a page boundary is refused, whatever else the program asks for: the test for the
  offset inside a page is inverted.
\<close>

lemma mmap64_refuses_pages:
  assumes "off AND 0xfff = 0"
  shows "uw7_mmap64 K P addr len prot flags fd off off_hi m = (- EINVAL, m)"
proof -
  have low: "\<not> bit off n" if "n < 12" for n
  proof -
    have "\<not> bit (off AND mask 12) n" using assms by (simp add: mask_eq_exp_minus_1)
    then show ?thesis using that by (simp add: bit_and_iff bit_mask_iff)
  qed
  have "off64 off off_hi AND mask 12 = 0"
    by (rule bit_word_eqI) (auto simp: off64_def bit_and_iff bit_or_iff bit_mask_iff bit_push_bit_iff bit_ucast_iff low)
  then have "off64 off off_hi AND 0xfff = 0" by (simp add: mask_eq_exp_minus_1)
  then show ?thesis by (simp add: uw7_mmap64_def Let_def)
qed

text \<open>
  Reading a limit of a process.  The table lacks the entry for the size of files: for every limit but the
  first the one after it is read, and for the last one memory behind the table.
\<close>

lemma getrlimit64_shifted:
  "(uw7_getrlimit64 P res rlimp m = None \<longleftrightarrow> res = 6) \<and>
   (1 \<le> res \<and> res \<le> 5 \<longrightarrow>
      uw7_getrlimit64 P res rlimp m = Some (uw7_rlim64_to_user P ([0, 1, 2, 3, 4, 7, 9] ! nat (res + 1)) rlimp m))"
proof (cases "0 \<le> res \<and> res \<le> 6")
  case True
  then have "res \<in> set [0..6]" by simp
  then have "list_ex (\<lambda>r. res = r) [0..6]" by (simp only: list_ex_iff) blast
  then show ?thesis by (auto simp: upto.simps uw7_getrlimit64_def uw7_to_linux_rlimit_def arr_get_def)
next
  case False
  then show ?thesis by (auto simp: uw7_getrlimit64_def uw7_to_linux_rlimit_def)
qed

text \<open>The test of the number of descriptors compares the number of the program with that of Linux, which none of them is.\<close>

lemma setrlimit64_never_checks_nofile:
  assumes "res \<le> 6" "cur \<le> RLIM_INFINITY" "mx \<le> RLIM_INFINITY"
  shows "uw7_check_rlimit64 True res cur mx lxmax = 0"
  using assms by (simp add: uw7_check_rlimit64_def not_less [symmetric])

text \<open>Setting the effective group sets the user instead.\<close>

lemma setegid_sets_user: "uw7_setegid = uw7_seteuid"
  by (intro ext) (simp add: uw7_setegid_def uw7_seteuid_def)

section \<open>Terminal settings read and written back\<close>

definition uw7_written_back :: "termios \<Rightarrow> termios" where
  "uw7_written_back t =
     t\<lparr>c_iflag := c_iflag t AND 0x1fff, c_oflag := c_oflag t AND 0xffff, c_cflag := c_cflag t AND 0xffff,
       c_lflag := (c_lflag t AND 0x3ff) OR (if bit (c_lflag t) 12 then 0x3000 else 0),
       c_cc := (if bit (c_lflag t) 1 then c_cc t else (c_cc t)[11 := c_cc t ! 16])\<rparr>"

lemma uw7_termios_bytes_of:
  "length (u_cc t) = 19 \<Longrightarrow> uw7_termios_of_bytes (uw7_termios_bytes t) = t"
  by (cases t) (simp add: uw7_termios_of_bytes_def uw7_termios_bytes_def field_def)

lemma uw7_masks:
  "bit (0x1fff :: u32) n \<longleftrightarrow> n < 13" "bit (0x1000 :: u32) n \<longleftrightarrow> n = 12" "bit (0x2000 :: u32) n \<longleftrightarrow> n = 13"
  "bit (0x3000 :: u32) n \<longleftrightarrow> n = 12 \<or> n = 13"
proof -
  have "bit (mask 13 :: u32) n \<longleftrightarrow> n < 13" by (auto simp: bit_mask_iff)
  moreover have "(mask 13 :: u32) = 0x1fff" by (simp add: mask_eq_exp_minus_1)
  ultimately show "bit (0x1fff :: u32) n \<longleftrightarrow> n < 13" by simp
  show p: "bit (0x1000 :: u32) n \<longleftrightarrow> n = 12" "bit (0x2000 :: u32) n \<longleftrightarrow> n = 13"
    using bit_exp_iff [where 'a = u32, of 12 n] bit_exp_iff [where 'a = u32, of 13 n] by auto
  have "bit (0x1000 OR 0x2000 :: u32) n \<longleftrightarrow> n = 12 \<or> n = 13" using p by (simp only: bit_or_iff)
  moreover have "(0x1000 OR 0x2000 :: u32) = 0x3000" by simp
  ultimately show "bit (0x3000 :: u32) n \<longleftrightarrow> n = 12 \<or> n = 13" by simp
qed

lemma uw7_tests: "x AND 0x1000 \<noteq> 0 \<longleftrightarrow> bit x 12" "x AND 0x2000 \<noteq> 0 \<longleftrightarrow> bit x 13" for x :: u32
  using and_pow [of x 12] and_pow [of x 13] by simp_all

lemma if_bit: "bit (if c then x else y) n = (if c then bit x n else bit y n)"
  by simp

lemma uw7_cc_round_trip:
  assumes "length cc = 19"
  shows "uw7_set_cc canon (uw7_get_cc canon cc) cc = (if canon then cc else cc[11 := cc ! 16])"
proof (rule nth_equalityI)
  show "length (uw7_set_cc canon (uw7_get_cc canon cc) cc) = length (if canon then cc else cc[11 := cc ! 16])"
    by (simp add: uw7_set_cc_def Let_def)
  fix i assume "i < length (uw7_set_cc canon (uw7_get_cc canon cc) cc)"
  then have "i \<in> set [0..<19]" using assms by (simp add: uw7_set_cc_def Let_def split: if_splits)
  then have "list_ex (\<lambda>j. i = j) [0..<19]" by (simp only: list_ex_iff) blast
  then show "uw7_set_cc canon (uw7_get_cc canon cc) cc ! i = (if canon then cc else cc[11 := cc ! 16]) ! i"
    using assms by (cases canon) (auto simp: upt_rec uw7_set_cc_def uw7_get_cc_def Let_def nth_list_update)
qed

lemma uw7_lflag_round_trip:
  "uw7_set_lflag (uw7_get_lflag f) = (f AND 0x3ff) OR (if bit f 12 then 0x3000 else 0)"
proof -
  have g: "bit (uw7_get_lflag f) n \<longleftrightarrow> n < 10 \<and> bit f n \<or> n = 13 \<and> bit f 12" for n
    unfolding uw7_get_lflag_def Let_def uw7_tests by (auto simp only: if_bit flag_bits uw7_masks split: if_splits) auto
  have "bit (uw7_set_lflag (uw7_get_lflag f)) n \<longleftrightarrow> n < 10 \<and> bit f n \<or> (n = 12 \<or> n = 13) \<and> bit f 12" if "n < 32" for n
    unfolding uw7_set_lflag_def Let_def uw7_tests
    using that by (auto simp only: if_bit flag_bits uw7_masks g split: if_splits) auto
  then show ?thesis by (intro bit_word_eqI) (simp only: if_bit flag_bits uw7_masks, auto)
qed

lemma uw7_set_get:
  assumes "length (c_cc t) = 19"
  shows "uw7_set (uw7_get t) t = uw7_written_back t"
proof -
  have "(0x1fff AND (c_iflag t AND NOT 0x8000)) AND NOT 0x8000 = c_iflag t AND 0x1fff"
    by (rule bit_word_eqI) (auto simp only: flag_bits uw7_masks)
  moreover have "((c_lflag t AND 0x3ff) OR (if bit (c_lflag t) 12 then 0x3000 else 0)) AND ICANON \<noteq> 0 \<longleftrightarrow> bit (c_lflag t) 1"
    unfolding flag_tests by (simp only: if_bit flag_bits uw7_masks) auto
  moreover have "c_lflag t AND ICANON \<noteq> 0 \<longleftrightarrow> bit (c_lflag t) 1" by (rule flag_tests)
  ultimately show ?thesis
    by (simp only: uw7_set_def uw7_get_def Let_def uw7_termios.simps uw7_lflag_round_trip uw7_cc_round_trip [OF assms]
        uw7_written_back_def and.commute)
qed

text \<open>
  C40: What is set when a program of UnixWare 7 reads the settings of a terminal and writes them back: the flags
  above bit 12 of the input, above bit 15 of output and control and above bit 9 of the local flags are lost, with
  them the speed of input and hardware flow control; output that is discarded gets a second flag; in raw mode
  one control character is overwritten with another.
\<close>

theorem uw7_termios_round_trip:
  assumes "tt_verify_area K tios 36 = 0" "mapped (mem m) tios 36" "length (c_cc t) = 19"
    and "get_termios K fd TCGETS (kern m) = (0, t, k)" "get_termios K fd TCGETS k = (0, t, k)"
  shows "\<exists>m1. tioc_tcgets K fd tios m = (0, m1) \<and>
    tioc_tcsets K fd op tios m1 =
      (fst (set_termios K fd op (uw7_written_back t) k), m1\<lparr>kern := snd (set_termios K fd op (uw7_written_back t) k)\<rparr>)"
proof -
  let ?bs = "uw7_termios_bytes (uw7_get t)"
  have len: "length ?bs = 36" "length (u_cc (uw7_get t)) = 19" by (simp_all add: uw7_termios_bytes_def uw7_get_def uw7_get_cc_def)
  have "fst (copy_to_user (mem m) tios ?bs) = 0" using copy_to_user_ok_iff [of "mem m" tios ?bs] assms(2) len by simp
  moreover have "copy_from_user (snd (copy_to_user (mem m) tios ?bs)) tios 36 = (?bs, 0)"
    using copy_round_trip [of "mem m" tios ?bs] assms(2) len by simp
  ultimately show ?thesis
    using assms(1,4,5) uw7_termios_bytes_of [OF len(2)] uw7_set_get [OF assms(3)]
    by (simp add: tioc_tcgets_def tioc_tcsets_def Let_def split_def)
qed

theorem uw7_termios_round_trip_witness:
  "\<exists>m1. tioc_tcgets sample_tty 0 0x8000 (blank_mach ()) = (0, m1) \<and> fst (tioc_tcsets sample_tty 0 TCSETS 0x8000 m1) = 0"
  using uw7_termios_round_trip [of sample_tty "0x8000" "blank_mach ()"
      "\<lparr>c_iflag = 0x500, c_oflag = 5, c_cflag = 0x1cb2, c_lflag = 0x8a3b, c_cc = replicate 19 7, c_line = 0\<rparr>" 0 "()" TCSETS]
  by (auto simp: sample_tty_def uw7_written_back_def)

end
