(* ===== verification/Spec2Isabelle.thy ===== *)
theory Spec2Isabelle
  imports Abi_Entry Abi_Switch Abi_Protos Abi_Samples Svr4_Stat Svr4_Fcntl Svr4_Open Svr4_Misc
    Svr4_Signal Svr4_Process Svr4_System Svr4_Ipc Svr4_Termios Svr4_Ioctl Cxenix_Calls Sco_Calls Uw7_Calls
begin

text \<open>
  Verification of the Linux ABI emulation modules.
\<close>

section \<open>System call entry\<close>

text \<open>
  C1: A personality handler does exactly what its table says.  Apart from the trace log, running any
  of the six handlers is the table specification: a number inside the table calls the function of its
  entry on the words the caller pushed and puts the translated result into the registers, a number
  outside answers an error; tracing, the argument array and its stale contents change nothing.
\<close>

theorem handler_refines_table:
  assumes "name \<in> set lcall7_handlers" "length stk = 8" "env_ok env" "cfg_trace env \<longrightarrow> log_blind env"
  shows "map_option untraced (run_handler xti env stk name segment m) =
    map_option untraced (table_spec env (handler_table xti name) (eax (regs m) AND 0xff) 1 m)"
  unfolding run_handler_table [OF assms(1)] by (rule handler.call_refines [OF assms(2-4)])

theorem handler_refines_table_witness:
  "''sco_lcall7'' \<in> set lcall7_handlers \<and> length sample_stk = 8 \<and> env_ok sample_env \<and> log_blind sample_env \<and>
   map_option untraced (run_handler True sample_env sample_stk ''sco_lcall7'' 7 (sample_mach (sco_exec_domain 1) 20)) =
     Some (untraced (sample_mach (sco_exec_domain 1) 42))"
proof -
  have h: "''sco_lcall7'' \<in> set lcall7_handlers" by (simp add: lcall7_handlers_def)
  have "table_spec sample_env (handler_table True ''sco_lcall7'') (20 AND 0xff) 1 (sample_mach (sco_exec_domain 1) 20) =
      Some (sample_mach (sco_exec_domain 1) 42)"
    by (simp add: table_spec_def handler_table_def sco_syscall_table_defs syscall_spec_def Spl_def Fast_def
        sample_env_def reply_def answer_def sample_mach_def set_result_def clear_error_def)
  with handler_refines_table [OF h sample(1,2), of True 7 "sample_mach (sco_exec_domain 1) 20"] h
  show ?thesis by (simp add: sample)
qed

text \<open>
  C2: No handler runs into undefined behaviour.  For every number in \<open>eax\<close>, every state of the
  argument array and with tracing on or off, a handler returns a state, when the functions in the
  table return; in particular no argument is written past \<^verbatim>\<open>args[8]\<close>, no trace line overruns its
  buffer and no translation reads outside its table.
\<close>

theorem handler_total:
  assumes "name \<in> set lcall7_handlers" "length stk = 8" "env_ok env" "env_total env"
    "cur_ed m \<in> set (abi_domains p)"
  shows "\<exists>m'. run_handler xti env stk name segment m = Some m'"
  unfolding run_handler_table [OF assms(1)]
  using handler.call_total [OF assms(2-4) domain_errs_ok [OF assms(5)]] by blast

theorem handler_total_witness:
  "\<exists>m'. run_handler True sample_env sample_stk ''uw7_lcall7'' 7 (sample_mach (uw7_exec_domain 1) 132) = Some m'"
  by (rule handler_total [where p = 1]) (simp_all add: sample lcall7_handlers_def abi_domains_def)

text \<open>
  C3: When a system call returns.  An entry into a handler returns with a kernel stack for \<open>d\<close> nested
  handlers exactly when one of the first \<open>d\<close> system call numbers that the indirect call reads, each
  one byte further up the stack, is not the indirect call itself.
\<close>

theorem lcall7_entry_returns_iff:
  assumes "length stk = 8" "env_ok base" "env_total base" "cur_ed m \<in> set (abi_domains p)"
  shows "(\<exists>m'. lcall7_entry xti base stk d (ed_handler (cur_ed m)) segment m = Some m') \<longleftrightarrow> direct_within d m"
  using entry_returns_iff [OF assms(1-3) domain_errs_ok [OF assms(4)]] domain_handler [OF assms(4)] by blast

theorem lcall7_entry_returns_iff_witness:
  "(\<exists>m'. lcall7_entry True sample_env sample_stk 1 ''ibcs_lcall7'' 7 (sample_mach (ibcs_exec_domain 1) 5) = Some m') \<and>
   \<not> (\<exists>m'. lcall7_entry True sample_env sample_stk 3 ''ibcs_lcall7'' 7 (sample_mach (ibcs_exec_domain 1) 0) = Some m')"
proof -
  have d: "ibcs_exec_domain 1 \<in> set (abi_domains 1)" by (simp add: abi_domains_def)
  have h: "ed_handler (ibcs_exec_domain 1) = ''ibcs_lcall7''" by (simp add: ibcs_exec_domain_def)
  have "direct_within 1 (sample_mach (ibcs_exec_domain 1) 5)"
    "\<not> direct_within 3 (sample_mach (ibcs_exec_domain 1) 0)"
    by (simp_all add: numeral_3_eq_3 nested_def sample_get_user32)
  with lcall7_entry_returns_iff [OF sample(1,2,4), of "sample_mach (ibcs_exec_domain 1) 5" 1 True 1 7]
    lcall7_entry_returns_iff [OF sample(1,2,4), of "sample_mach (ibcs_exec_domain 1) 0" 1 True 3 7] d h
  show ?thesis by simp
qed




text \<open>
  C6: A number outside the table.  Every handler answers it with error 1, the caller's \<^verbatim>\<open>EPERM\<close>, although
  all of the domains have a number for the \<^verbatim>\<open>EINVAL\<close> the source means: the error is negated before it is
  translated.
\<close>

theorem bad_number_answers_eperm:
  assumes "cur_ed m \<in> set (abi_domains p)"
    "length (handler_table xti (ed_handler (cur_ed m))) \<le> unat (eax (regs m) AND 0xff)"
  shows "run_handler xti env stk (ed_handler (cur_ed m)) segment m = Some (m\<lparr>regs := set_error (regs m) 1\<rparr>) \<and>
    iABI_errors m EINVAL = Some 22"
  using assms domain_err_values [OF assms(1)]
  by (simp add: run_handler_table [OF domain_handler [OF assms(1)]] table_lcall7_def iABI_errors_def)

theorem bad_number_answers_eperm_witness:
  "eax (regs (the (run_handler True sample_env sample_stk ''sco_lcall7'' 7 (sample_mach (sco_exec_domain 1) 255)))) = 1"
  using bad_number_answers_eperm [of "sample_mach (sco_exec_domain 1) 255" 1 True sample_env sample_stk 7]
  by (simp add: abi_domains_def sco_exec_domain_def handler_table_def sco_syscall_table_defs regs_simps)

text \<open>
  C7: Unimplemented calls fail with \<^verbatim>\<open>ENOSYS\<close>.  An entry without a function sets the carry flag and puts
  the domain's own number for \<^verbatim>\<open>ENOSYS\<close> into \<open>eax\<close>; memory, the domain and the other registers stay
  as they were.
\<close>

theorem unimplemented_answers_enosys:
  assumes "cur_ed m \<in> set (abi_domains p)" "length stk = 8" "env_ok env" "cfg_trace env \<longrightarrow> log_blind env"
    "unat (eax (regs m) AND 0xff) < length (handler_table xti (ed_handler (cur_ed m)))"
    "se_syscall (handler_table xti (ed_handler (cur_ed m)) ! unat (eax (regs m) AND 0xff)) = None"
  shows "map_option untraced (run_handler xti env stk (ed_handler (cur_ed m)) segment m) =
    Some (untraced (m\<lparr>regs := set_error (regs m) (abi_ENOSYS (cur_ed m))\<rparr>))"
  unfolding run_handler_table [OF domain_handler [OF assms(1)]] handler.call_refines [OF assms(2-4)]
  using assms(5,6) domain_err_values(2) [OF assms(1)]
  by (simp add: table_spec_def syscall_spec_def reply_def answer_def iABI_errors_def)

theorem unimplemented_answers_enosys_witness:
  "map_option untraced (run_handler True sample_env sample_stk ''wyse_lcall7'' 7 (sample_mach (wyse_exec_domain 1) 21)) =
     Some (untraced ((sample_mach (wyse_exec_domain 1) 21)\<lparr>regs := set_error (regs (sample_mach (wyse_exec_domain 1) 21)) 228\<rparr>))"
  using unimplemented_answers_enosys [of "sample_mach (wyse_exec_domain 1) 21" 1 sample_stk sample_env True 7]
  by (simp add: sample abi_domains_def wyse_exec_domain_def handler_table_def wyse_syscall_table_defs
      abi_ENOSYS_def)

text \<open>
  C8: The answer of a call.  The carry flag tells an error: it is set exactly when the function returned
  a value between \<open>-514\<close> and \<open>-1\<close>; then \<open>eax\<close> is the domain's number for that error, and otherwise the
  value itself.  No other flag and no other register changes.
\<close>

theorem answer_carry:
  assumes "set_return env ap error m = Some m'"
  shows "(carry (regs m') \<longleftrightarrow> - 515 < error \<and> error < 0) \<and>
    (if carry (regs m') then \<exists>e. iABI_errors m (- error) = Some e \<and> eax (regs m') = word_of_int e
     else eax (regs m') = word_of_int error) \<and>
    edx (regs m') = edx (regs m) \<and> esp (regs m') = esp (regs m) \<and>
    (\<forall>n > 0. bit (eflags (regs m')) n = bit (eflags (regs m)) n) \<and> mem m' = mem m \<and> cur_ed m' = cur_ed m"
  using assms unfolding set_return_def
  by (auto simp: Let_def regs_simps split: if_splits)

theorem answer_carry_witness:
  "set_return sample_env (Sysent None 0 ''open'' '''') (- 512) (sample_mach (isc_exec_domain 1) 5) \<noteq> None \<and>
   eax (regs (the (set_return sample_env (Sysent None 0 ''open'' '''') (- 512) (sample_mach (isc_exec_domain 1) 5)))) = 4"
proof -
  let ?m = "sample_mach (isc_exec_domain 1) 5" and ?ap = "Sysent None 0 ''open'' ''''"
  have e: "iABI_errors ?m 512 = Some 4"
    using domain_err_values(3) [of "isc_exec_domain 1" 1] by (simp add: iABI_errors_def abi_domains_def)
  then obtain m' where m': "set_return sample_env ?ap (- 512) ?m = Some m'" by (simp add: set_return_def)
  with answer_carry [OF m'] e show ?thesis by (auto split: if_splits)
qed


definition crossed_rlimits :: "sysent list \<Rightarrow> bool" where
  "crossed_rlimits table \<longleftrightarrow>
     table ! 128 = Sysent (Some ''svr4_getrlimit'') 2 ''setrlimit'' ''dx'' \<and>
     table ! 129 = Sysent (Some ''svr4_setrlimit'') 2 ''getrlimit'' ''dx''"

text \<open>
  The resource limit calls are crossed.  In the five tables that have them, entry 128, which is
  named \<^verbatim>\<open>setrlimit\<close>, calls the function that reads limits, and entry 129 the one that sets them.
\<close>

lemma rlimit_entries_crossed:
  "crossed_rlimits sco_syscall_table \<and>
   crossed_rlimits (ibcs_syscall_table xti) \<and>
   crossed_rlimits (isc_syscall_table xti) \<and>
   crossed_rlimits (uw7_syscall_table xti) \<and>
   crossed_rlimits (solaris_syscall_table xti)"
proof (intro conjI)
  show "crossed_rlimits sco_syscall_table" by (simp add: crossed_rlimits_def sco_syscall_table_defs)
  show "crossed_rlimits (ibcs_syscall_table xti)" by (simp add: crossed_rlimits_def ibcs_syscall_table_defs)
  show "crossed_rlimits (isc_syscall_table xti)" by (simp add: crossed_rlimits_def isc_syscall_table_defs)
  show "crossed_rlimits (uw7_syscall_table xti)" by (simp add: crossed_rlimits_def uw7_syscall_table_defs)
  show "crossed_rlimits (solaris_syscall_table xti)" by (simp add: crossed_rlimits_def solaris_syscall_table_defs)
qed

section \<open>Domains and modules\<close>

lemma domain_covers:
  "covers (default_exec_domain late) n \<longleftrightarrow> unat n = 0" "covers (ibcs_exec_domain p) n \<longleftrightarrow> unat n = 1 \<or> unat n = 2"
  "covers (sco_exec_domain p) n \<longleftrightarrow> unat n = 3" "covers (wyse_exec_domain p) n \<longleftrightarrow> unat n = 4"
  "covers (isc_exec_domain p) n \<longleftrightarrow> unat n = 5" "covers (xenix_exec_domain p) n \<longleftrightarrow> unat n = 7"
  "covers (solaris_exec_domain p) n \<longleftrightarrow> unat n = 13" "covers (uw7_exec_domain p) n \<longleftrightarrow> unat n = 14"
  unfolding covers_def word_le_nat_alt domain_defs default_exec_domain_def by simp_all arith+

text \<open>
  C10: The personalities do not compete.  No personality id belongs to two of the modules' domains or
  to the default domain and a module's, so the order of registration does not decide under which
  domain a program runs.
\<close>

theorem domains_disjoint:
  "length (filter (\<lambda>ed. covers ed n) (default_exec_domain late # abi_domains p)) \<le> 1"
  by (simp add: abi_domains_def domain_covers)



section \<open>Signals and errors\<close>

definition sig_lost :: "int list \<Rightarrow> int list \<Rightarrow> nat list" where
  "sig_lost there back = filter (\<lambda>s. there ! s = -1 \<or> back ! nat (there ! s) \<noteq> int s) [1..<32]"

lemma upt_31:
  "[1..<32] = [1, 2, 3, 4, 5, 6, 7, 8, 9, 10, 11, 12, 13, 14, 15, 16, 17, 18, 19, 20, 21, 22, 23, 24,
     25, 26, 27, 28, 29, 30, 31 :: nat]"
  by code_simp

lemma sig_lost_values:
  "sig_lost linux_to_sco_signals sco_to_linux_signals = [16]"
  "sig_lost sco_to_linux_signals linux_to_sco_signals = [7]"
  "sig_lost linux_to_xenix_signals xenix_to_linux_signals = [7, 16, 18, 19, 20, 21, 22, 23, 24, 25, 26, 27, 28, 31]"
  "sig_lost xenix_to_linux_signals linux_to_xenix_signals = [7, 10, 12, 21, 22, 23, 24, 25, 26, 27, 28, 29, 30, 31]"
  "sig_lost linux_to_ibcs_signals ibcs_to_linux_signals = [7, 16, 31]"
  "sig_lost ibcs_to_linux_signals linux_to_ibcs_signals = [7, 10, 12]"
  "sig_lost linux_to_isc_signals isc_to_linux_signals = [7, 16, 23, 31]"
  "sig_lost isc_to_linux_signals linux_to_isc_signals = [7, 10, 12, 21]"
  "sig_lost linux_to_wyse_signals wyse_to_linux_signals = [7, 16, 31]"
  "sig_lost wyse_to_linux_signals linux_to_wyse_signals = [7, 10, 12]"
  "sig_lost linux_to_uw7_signals uw7_to_linux_signals = [7, 16, 31]"
  "sig_lost uw7_to_linux_signals linux_to_uw7_signals = [7, 10, 12]"
  "sig_lost linux_to_solaris_signals solaris_to_linux_signals = [7, 16, 31]"
  "sig_lost solaris_to_linux_signals linux_to_solaris_signals = [7, 10, 12]"
  unfolding sig_lost_def upt_31 by (simp_all add: abi_consts)


text \<open>The stop signals that a parent does not see under the number its system has for them.\<close>

definition wait_wrong :: "int list \<Rightarrow> int list \<Rightarrow> nat list" where
  "wait_wrong sigmap invmap =
     filter (\<lambda>s. wait_status sigmap (0x7f OR push_bit 8 (of_nat s)) \<noteq>
       Some (0x7f OR push_bit 8 (word_of_int (invmap ! s)), True)) [1..<32]"

lemma wait_wrong_values:
  "wait_wrong sco_to_linux_signals linux_to_sco_signals = [7, 10, 12] @ [16..<32]"
  "wait_wrong xenix_to_linux_signals linux_to_xenix_signals = [7, 10, 12] @ [16..<31]"
  "wait_wrong ibcs_to_linux_signals linux_to_ibcs_signals = [7, 10, 12] @ [16..<32]"
  "wait_wrong isc_to_linux_signals linux_to_isc_signals = [7, 10, 12] @ [16..<32]"
  "wait_wrong wyse_to_linux_signals linux_to_wyse_signals = [7, 10, 12] @ [16..<32]"
  "wait_wrong uw7_to_linux_signals linux_to_uw7_signals = [7, 10, 12] @ [16..<32]"
  "wait_wrong solaris_to_linux_signals linux_to_solaris_signals = [7, 10, 12] @ [16..<32]"
  unfolding wait_wrong_def upt_31 by (simp_all add: abi_consts wait_status_def upt_rec mask_eq_exp_minus_1)

text \<open>
  \<^verbatim>\<open>wait\<close> translates signals the wrong way.  When a child is stopped by a Linux signal, the parent
  finds in the status the entry of the table that leads from its own numbers to Linux.  So in every
  domain the signals 7, 10, 12 and all from 16 on (signal 31 of Xenix apart) are reported under another
  number than the domain has for them.
\<close>

lemma wait_misreports_stops:
  "map (\<lambda>ed. wait_wrong (signal_map ed) (signal_invmap ed)) (abi_domains p) =
    [[7, 10, 12] @ [16..<32], [7, 10, 12] @ [16..<31], [7, 10, 12] @ [16..<32], [7, 10, 12] @ [16..<32],
     [7, 10, 12] @ [16..<32], [7, 10, 12] @ [16..<32], [7, 10, 12] @ [16..<32]]"
  by (simp only: abi_domains_def domain_defs wait_wrong_values list.map exec_domain.simps)

text \<open>
  C13: Every Linux error has a number in every domain.  The codes 1 to 122 and the three restart codes
  translate to a number between 1 and 255, so a failing call is never answered with error 0; any other
  value becomes 1.
\<close>

theorem errors_translate:
  assumes "ed \<in> set (abi_domains p)" "e \<noteq> 0"
  shows "\<exists>v. map_value (err_map ed) e 1 = Some v \<and> 1 \<le> v \<and> v \<le> 255 \<and>
    (e < 0 \<or> 122 < e \<and> e < 512 \<or> 514 < e \<longrightarrow> v = 1)"
proof -
  from domain_err_vecs [OF assms(1)] obtain errs tab lnx where
    ed: "err_map ed = Some errs" and ok: "err_vecs errs tab lnx" by blast
  have b: "w \<noteq> 0 \<Longrightarrow> 1 \<le> uint w \<and> uint w \<le> 255" for w :: u8
    using uint_bounded [of w] uint_0_iff [of w] uint_ge_0 [of w] by (auto simp: order_le_less)
  consider "1 \<le> e" "e \<le> 122" | "512 \<le> e" "e \<le> 514" | "e < 0 \<or> 122 < e \<and> e < 512 \<or> 514 < e"
    using assms(2) by linarith
  then show ?thesis
  proof cases
    case 1
    with err_vecs_value(1) [OF ok, of e 1] err_vecs_nonzero(1) [OF ok, of "nat e"] b show ?thesis
      by (simp add: ed)
  next
    case 2
    with err_vecs_value(2) [OF ok, of e 1] err_vecs_nonzero(2) [OF ok, of "nat (e - 512)"] b show ?thesis
      by (simp add: ed)
  next
    case 3
    with err_vecs_value(3) [OF ok, of e 1] show ?thesis by (simp add: ed)
  qed
qed

theorem errors_translate_witness:
  "\<exists>v. map_value (err_map (wyse_exec_domain 1)) 38 1 = Some v \<and> 1 \<le> v \<and> v \<le> 255"
  using errors_translate [of "wyse_exec_domain 1" 1 38] by (auto simp: abi_domains_def)

text \<open>
  C14: Signal masks translate bit by bit.  In every domain, a 32-bit mask of the program becomes the
  kernel set with exactly the images of its signals, and a kernel set becomes exactly the images of its
  first 32 signals; signals without a counterpart are dropped and no translation leaves its table.
\<close>

theorem signal_masks_translate:
  assumes "ed \<in> set (abi_domains p)"
  shows "(\<exists>s. map_sigvec_to_kernel vec (signal_map ed) = Some s \<and>
      (\<forall>b. bit s b \<longleftrightarrow> (\<exists>i. 1 \<le> i \<and> i \<le> 32 \<and> bit vec (i - 1) \<and> signal_map ed ! i = int b + 1))) \<and>
    (\<exists>v. map_sigvec_from_kernel ksig (signal_invmap ed) = Some v \<and>
      (\<forall>b. bit v b \<longleftrightarrow> (\<exists>i. 1 \<le> i \<and> i \<le> 32 \<and> bit ksig (i - 1) \<and> signal_invmap ed ! i = int b + 1)))"
  using sig_maps.to_kernel_bits [of "signal_map ed" "signal_invmap ed" vec]
    sig_maps.from_kernel_bits [of "signal_map ed" "signal_invmap ed" ksig] domain_sigs [OF assms]
  by (simp add: sig_maps_def)

theorem signal_masks_translate_witness:
  "\<exists>s. map_sigvec_to_kernel 1 (signal_map (uw7_exec_domain 1)) = Some s \<and> bit s 0"
proof -
  have d: "uw7_exec_domain 1 \<in> set (abi_domains 1)" by (simp add: abi_domains_def)
  have "\<exists>i. 1 \<le> i \<and> i \<le> 32 \<and> bit (1 :: u32) (i - 1) \<and> signal_map (uw7_exec_domain 1) ! i = int 0 + 1"
    by (rule exI [of _ 1]) (simp add: uw7_exec_domain_def uw7_to_linux_signals_def)
  with signal_masks_translate [OF d, of 1] show ?thesis by blast
qed

section \<open>Signals of a program\<close>

lemma domain_sig_0: "ed \<in> set (abi_domains p) \<Longrightarrow> signal_map ed ! 0 = 0"
  by (auto simp: abi_domains_def domain_defs sco_to_linux_signals_def xenix_to_linux_signals_def
      ibcs_to_linux_signals_def isc_to_linux_signals_def wyse_to_linux_signals_def uw7_to_linux_signals_def
      solaris_to_linux_signals_def)

lemma domain_errors_ok:
  assumes "ed \<in> set (abi_domains p)"
  shows "errors_ok ed"
proof -
  from domain_errs [OF assms] obtain t where "err_map ed = Some t" "segs_ok t" by blast
  then show ?thesis using map_value_loop_total by (auto simp: errors_ok_def map_value_def)
qed

text \<open>
  C26: When the signal calls leave defined behaviour.  In every domain, the old signal call does so exactly
  when signal 0 is passed to its functions set, hold, release or pause, which then clear, set or shift by
  bit -1; changing the mask does so exactly when the way to change it is not 0 to 3, which is then read from
  behind a table; the new call that installs a handler never does; and that of Xenix does so exactly for
  negative signals.
\<close>

theorem signal_calls_defined:
  assumes "cur_ed m \<in> set (abi_domains p)" "\<And>v x. cur_ed (snd (sys_sigsuspend K v x)) = cur_ed x"
  shows "(abi_sigfunc K m = None \<longleftrightarrow>
      SIGNAL_NUMBER m AND 0xff = 0 \<and> HIDDEN_PARAM m \<in> {0x100, 0x200, 0x400, 0x1000}) \<and>
    (abi_sigprocmask K how abinset abioset m = None \<longleftrightarrow> how < 0 \<or> 3 < how) \<and>
    abi_sigaction K junk resv n action oldaction m \<noteq> None \<and>
    (xnx_sigaction K sig action oldaction m = None \<longleftrightarrow> sig < 0)"
  using sigfunc_undefined_iff [OF domain_sigs(1) domain_sig_0 domain_errors_ok, OF assms(1) assms(1) assms(1) assms(2)]
    sigprocmask_undefined_iff [OF domain_sigs, OF assms(1) assms(1)]
    sigaction_defined [OF domain_sigs, OF assms(1) assms(1)]
    xnx_sigaction_undefined_iff [OF domain_sigs, OF assms(1) assms(1)] by simp

definition sample_sig_env :: "unit sig_env" where
  "sample_sig_env =
     \<lparr>rt_sigaction = (\<lambda>n a k. (0, \<lparr>sa_handler = 0, sa_mask = 0, sa_flags = 0, sa_restorer = 0\<rparr>, k)),
      rt_sigprocmask = (\<lambda>h s k. (0, 0, k)), sys_sigsuspend = (\<lambda>v m. (- EINTR, m)), pending = (\<lambda>k. 0),
      set_pending = (\<lambda>s k. k), recalc_sigpending = (\<lambda>k. k), sg_verify_area = (\<lambda>a n. 0)\<rparr>"

theorem signal_calls_defined_witness:
  "xnx_sigaction sample_sig_env (- 1) 0 0 (sample_mach (sco_exec_domain 1) 0) = None \<and>
   abi_sigprocmask sample_sig_env 4 0 0 (sample_mach (sco_exec_domain 1) 0) = None \<and>
   abi_sigfunc sample_sig_env (sample_mach (sco_exec_domain 1) 0) \<noteq> None"
  using signal_calls_defined [of "sample_mach (sco_exec_domain 1) 0" 1 sample_sig_env 4 0 0 undefined undefined undefined 0 0 "- 1"]
  by (simp add: sample_sig_env_def sample_mach_def abi_domains_def HIDDEN_PARAM_def SIGNAL_NUMBER_def
      get_syscall_parameter_def get_user32_def rd32_def)

end
